(* ===== verification/Mooncake_Prelude.thy ===== *)
theory Mooncake_Prelude
  imports Main "HOL-Library.Word" "HOL-Library.Multiset"
begin

text \<open>
  Shared vocabulary of the development: machine types, C return codes, address ranges on
  64-bit words, and the generic lemmas the component theories rely on.

  Pointers, \<open>uintptr_t\<close>, \<open>size_t\<close> and \<open>uint64_t\<close> are 64-bit words whose addition wraps,
  as on the LP64 targets the code is built for; a null pointer is the word 0.  C \<open>int\<close>
  values that are only compared (device ids, return codes, file descriptors) are \<open>int\<close>.
\<close>

section \<open>Machine types and return codes\<close>

type_synonym u64 = "64 word"
type_synonym u32 = "32 word"
type_synonym u16 = "16 word"
type_synonym u8 = "8 word"
type_synonym ptr = "64 word"

text \<open>The error numbers of \<open><errno.h>\<close> that the code returns negated.\<close>

definition ENOMEM :: int where "ENOMEM = 12"
definition EFAULT :: int where "EFAULT = 14"
definition EEXIST :: int where "EEXIST = 17"
definition ENODEV :: int where "ENODEV = 19"
definition EINVAL :: int where "EINVAL = 22"
definition ENOTSUP :: int where "ENOTSUP = 95"

lemmas errno_defs = ENOMEM_def EFAULT_def EEXIST_def ENODEV_def EINVAL_def ENOTSUP_def

named_theorems range_simps \<open>word range tests read as facts about natural numbers\<close>

lemma u64_bound: "unat (w :: u64) < 2 ^ 64"
  using unsigned_less [of w] by simp

lemma unat_eq_iff_word [simp]: "unat (a :: u64) = unat b \<longleftrightarrow> a = b"
  by (simp add: word_unat_eq_iff)

section \<open>Address ranges\<close>

text \<open>\<open>no_wrap a l\<close>: the range of \<open>l\<close> bytes at \<open>a\<close> ends below \<open>2 ^ 64\<close>.\<close>

definition no_wrap :: "u64 \<Rightarrow> u64 \<Rightarrow> bool" where
  "no_wrap a l \<longleftrightarrow> unat a + unat l < 2 ^ 64"

text \<open>The bytes of a range, as natural numbers.\<close>

definition span :: "u64 \<Rightarrow> u64 \<Rightarrow> nat set" where
  "span a l = {unat a ..< unat a + unat l}"

lemma unat_add_no_wrap [simp]: "no_wrap a l \<Longrightarrow> unat (a + l) = unat a + unat l"
  by (simp add: no_wrap_def unat_word_ariths)

lemma unat_add_wrapped: "\<not> no_wrap a l \<Longrightarrow> unat (a + l) = unat a + unat l - 2 ^ 64"
proof -
  assume "\<not> no_wrap a l"
  then have ge: "2 ^ 64 \<le> unat a + unat l" by (simp add: no_wrap_def)
  have "unat a < 2 ^ 64" "unat l < 2 ^ 64"
    using unsigned_less [of a] unsigned_less [of l] by simp_all
  with ge have "unat a + unat l - 2 ^ 64 < 2 ^ 64" by linarith
  with ge have "(unat a + unat l) mod 2 ^ 64 = unat a + unat l - 2 ^ 64"
    by (metis le_mod_geq mod_less)
  then show ?thesis by (simp add: unat_word_ariths)
qed

text \<open>The overflow test \<open>end >= start\<close> of the code decides \<open>no_wrap\<close> exactly.\<close>

lemma add_ge_iff_no_wrap [range_simps]: "a \<le> a + l \<longleftrightarrow> no_wrap a l"
proof (cases "no_wrap a l")
  case True
  then show ?thesis by (simp add: word_le_nat_alt)
next
  case False
  have "unat l < 2 ^ 64" using unsigned_less [of l] by simp
  with False have "unat (a + l) < unat a"
    by (simp add: unat_add_wrapped) (auto simp: no_wrap_def)
  with False show ?thesis by (simp add: word_le_nat_alt)
qed

lemma add_gt_iff_no_wrap [range_simps]: "a < a + l \<longleftrightarrow> no_wrap a l \<and> 0 < unat l"
proof -
  have "a < a + l \<longleftrightarrow> a \<le> a + l \<and> a \<noteq> a + l" by (rule order.strict_iff_order)
  also have "\<dots> \<longleftrightarrow> no_wrap a l \<and> l \<noteq> 0" by (simp add: add_ge_iff_no_wrap)
  also have "\<dots> \<longleftrightarrow> no_wrap a l \<and> 0 < unat l" by (simp add: unat_gt_0)
  finally show ?thesis .
qed

text \<open>The containment and the overlap test the code writes out for every kind of range.\<close>

definition range_contains :: "u64 \<Rightarrow> u64 \<Rightarrow> u64 \<Rightarrow> u64 \<Rightarrow> bool" where
  "range_contains entry_start entry_len start len =
     (let entry_end = entry_start + entry_len; finish = start + len
      in start \<ge> entry_start \<and> finish \<ge> start \<and> finish \<le> entry_end)"

definition range_overlaps :: "u64 \<Rightarrow> u64 \<Rightarrow> u64 \<Rightarrow> u64 \<Rightarrow> bool" where
  "range_overlaps entry_start entry_len start len =
     (let entry_end = entry_start + entry_len; finish = start + len
      in finish > start \<and> entry_end > entry_start \<and> start < entry_end \<and> entry_start < finish)"

lemma range_contains_nat:
  assumes "no_wrap a l"
  shows "range_contains a l s n \<longleftrightarrow>
    no_wrap s n \<and> unat a \<le> unat s \<and> unat s + unat n \<le> unat a + unat l"
  using assms
  by (auto simp: range_contains_def Let_def add_ge_iff_no_wrap word_le_nat_alt [of a s]
      word_le_nat_alt [of "s + n"])

lemma range_overlaps_nat:
  assumes "no_wrap a l"
  shows "range_overlaps a l s n \<longleftrightarrow>
    no_wrap s n \<and> 0 < unat n \<and> 0 < unat l \<and>
    unat s < unat a + unat l \<and> unat a < unat s + unat n"
  using assms
  by (auto simp: range_overlaps_def Let_def add_gt_iff_no_wrap word_less_nat_alt [of s "a + l"]
      word_less_nat_alt [of a "s + n"])

lemma range_contains_span:
  "no_wrap a l \<Longrightarrow> 0 < unat n \<Longrightarrow>
    range_contains a l s n \<longleftrightarrow> no_wrap s n \<and> span s n \<subseteq> span a l"
  by (auto simp: range_contains_nat span_def)

lemma range_overlaps_span:
  "no_wrap a l \<Longrightarrow>
    range_overlaps a l s n \<longleftrightarrow> no_wrap s n \<and> span s n \<inter> span a l \<noteq> {}"
  by (auto simp: range_overlaps_nat span_def)

text \<open>A wrapped range contains nothing and overlaps nothing, whatever it is compared with.\<close>

lemma range_contains_wrapped:
  "\<not> no_wrap a l \<Longrightarrow> \<not> range_contains a l s n"
proof
  assume w: "\<not> no_wrap a l" and c: "range_contains a l s n"
  from c have "a \<le> s" "s \<le> s + n" "s + n \<le> a + l"
    by (simp_all add: range_contains_def Let_def)
  then have "a \<le> a + l" by simp
  with w show False by (simp add: add_ge_iff_no_wrap)
qed

lemma range_overlaps_wrapped:
  "\<not> no_wrap a l \<Longrightarrow> \<not> range_overlaps a l s n"
  by (auto simp: range_overlaps_def Let_def add_gt_iff_no_wrap)

section \<open>Text\<close>

definition starts_with :: "string \<Rightarrow> string \<Rightarrow> bool" where
  "starts_with p s \<longleftrightarrow> take (length p) s = p"

definition contains_str :: "string \<Rightarrow> string \<Rightarrow> bool" where
  "contains_str needle s = list_ex (\<lambda>i. starts_with needle (drop i s)) [0..<length s + 1]"

end
