(* ===== verification/Ordered_Tree.thy ===== *)
theory Ordered_Tree
  imports Mooncake_Prelude
begin

text \<open>
  Ordered intrusive trees and interval lookup.

  \<open>spdk/lib/dma/gpu_dmabuf.c\<close> keeps its caches in red-black trees of the BSD
  \<open>tree.h\<close> macros, ordered by a comparison function.  What the code uses of a tree is the
  sequence its in-order walk visits, so a tree is that list.  The operations below are the
  documented contract of \<open>RB_INSERT\<close>, \<open>RB_REMOVE\<close>, \<open>RB_NFIND\<close>, \<open>RB_PREV\<close> and \<open>RB_MAX\<close>
  on it, for any comparison function.

  The locale \<open>rb_order\<close> states what a comparison function must satisfy; \<open>interval_tree\<close>
  adds that the elements are half-open intervals ordered by their lower end inside a group.
  Its two probe lemmas are the reason why looking at the least element not below a key and
  at the one before it decides containment and overlap.
\<close>

section \<open>The tree operations\<close>

fun rb_insert :: "('a \<Rightarrow> 'a \<Rightarrow> int) \<Rightarrow> 'a \<Rightarrow> 'a list \<Rightarrow> 'a option \<times> 'a list" where
  "rb_insert cmp x [] = (None, [x])"
| "rb_insert cmp x (y # ys) =
     (if cmp x y < 0 then (None, x # y # ys)
      else if cmp x y = 0 then (Some y, y # ys)
      else apsnd ((#) y) (rb_insert cmp x ys))"

fun rb_remove :: "('a \<Rightarrow> 'a \<Rightarrow> int) \<Rightarrow> 'a \<Rightarrow> 'a list \<Rightarrow> 'a list" where
  "rb_remove cmp x [] = []"
| "rb_remove cmp x (y # ys) = (if cmp x y = 0 then ys else y # rb_remove cmp x ys)"

fun rb_nfind :: "('a \<Rightarrow> 'a \<Rightarrow> int) \<Rightarrow> 'a \<Rightarrow> 'a list \<Rightarrow> 'a option" where
  "rb_nfind cmp k [] = None"
| "rb_nfind cmp k (y # ys) = (if cmp k y \<le> 0 then Some y else rb_nfind cmp k ys)"

fun rb_prev :: "('a \<Rightarrow> 'a \<Rightarrow> int) \<Rightarrow> 'a \<Rightarrow> 'a list \<Rightarrow> 'a option" where
  "rb_prev cmp e [] = None"
| "rb_prev cmp e (y # ys) =
     (if cmp y e < 0 then (case rb_prev cmp e ys of None \<Rightarrow> Some y | Some z \<Rightarrow> Some z)
      else None)"

definition rb_max :: "'a list \<Rightarrow> 'a option" where
  "rb_max t = (if t = [] then None else Some (last t))"

text \<open>
  The lookup pattern of the code: the least element not below the key, then the element
  before it (the greatest one when there is no such element).
\<close>

definition rb_probe :: "('a \<Rightarrow> 'a \<Rightarrow> int) \<Rightarrow> ('a \<Rightarrow> bool) \<Rightarrow> 'a \<Rightarrow> 'a list \<Rightarrow> 'a option" where
  "rb_probe cmp P k t =
     (let entry = rb_nfind cmp k t;
          prev = (case entry of Some e \<Rightarrow> rb_prev cmp e t | None \<Rightarrow> rb_max t)
      in case entry of
           Some e \<Rightarrow> if P e then Some e
                     else (case prev of Some p \<Rightarrow> if P p then Some p else None | None \<Rightarrow> None)
         | None \<Rightarrow> (case prev of Some p \<Rightarrow> if P p then Some p else None | None \<Rightarrow> None))"

lemma rb_probe_sound: "rb_probe cmp P k t = Some e \<Longrightarrow> P e"
  by (auto simp: rb_probe_def Let_def split: option.splits if_splits)

lemma rb_nfind_in: "rb_nfind cmp k t = Some e \<Longrightarrow> e \<in> set t"
  by (induction t) (auto split: if_splits)

lemma rb_prev_in: "rb_prev cmp k t = Some e \<Longrightarrow> e \<in> set t"
  by (induction t) (auto split: if_splits option.splits)

lemma rb_max_in: "rb_max t = Some e \<Longrightarrow> e \<in> set t"
  by (auto simp: rb_max_def split: if_splits)

lemma rb_probe_in: "rb_probe cmp P k t = Some e \<Longrightarrow> e \<in> set t"
  by (auto simp: rb_probe_def Let_def split: option.splits if_splits
      dest: rb_nfind_in rb_prev_in rb_max_in)

section \<open>Comparison functions\<close>

text \<open>
  What \<open>tree.h\<close> asks of a comparison function: its sign is a strict order whose
  incomparable elements are those that compare equal.
\<close>

locale rb_order =
  fixes cmp :: "'a \<Rightarrow> 'a \<Rightarrow> int"
  assumes cmp_refl: "cmp x x = 0"
    and cmp_flip: "cmp x y < 0 \<longleftrightarrow> 0 < cmp y x"
    and cmp_trans: "cmp x y < 0 \<Longrightarrow> cmp y z \<le> 0 \<Longrightarrow> cmp x z < 0"
    and cmp_trans_eq: "cmp x y = 0 \<Longrightarrow> cmp y z < 0 \<Longrightarrow> cmp x z < 0"
begin

lemma cmp_eq_sym: "cmp x y = 0 \<longleftrightarrow> cmp y x = 0"
  using cmp_flip [of x y] cmp_flip [of y x] by linarith

lemma cmp_le_flip: "cmp x y \<le> 0 \<longleftrightarrow> 0 \<le> cmp y x"
  using cmp_flip [of x y] cmp_flip [of y x] by linarith

text \<open>A tree in order.\<close>

abbreviation ordered :: "'a list \<Rightarrow> bool" where
  "ordered t \<equiv> sorted_wrt (\<lambda>x y. cmp x y < 0) t"

lemma rb_insert_set:
  "set (snd (rb_insert cmp x t)) =
    (if fst (rb_insert cmp x t) = None then insert x (set t) else set t)"
  by (induction t) (auto split: if_splits)

lemma rb_insert_collision:
  "fst (rb_insert cmp x t) = Some y \<Longrightarrow>
    y \<in> set t \<and> cmp x y = 0 \<and> snd (rb_insert cmp x t) = t"
  by (induction t) (auto split: if_splits)

lemma rb_insert_fresh:
  "(\<forall>y \<in> set t. cmp x y \<noteq> 0) \<Longrightarrow> fst (rb_insert cmp x t) = None"
  by (induction t) auto

lemma rb_insert_mset:
  "fst (rb_insert cmp x t) = None \<Longrightarrow> mset (snd (rb_insert cmp x t)) = add_mset x (mset t)"
  by (induction t) (auto split: if_splits)

lemma rb_insert_ordered: "ordered t \<Longrightarrow> ordered (snd (rb_insert cmp x t))"
proof (induction t)
  case Nil
  then show ?case by simp
next
  case (Cons y ys)
  show ?case
  proof (cases "cmp x y \<le> 0")
    case True
    have "\<forall>z \<in> set ys. cmp x y < 0 \<longrightarrow> cmp x z < 0"
      using Cons.prems cmp_trans [of x y] by (simp add: less_imp_le)
    with True Cons.prems show ?thesis by auto
  next
    case False
    then have "cmp y x < 0" by (simp add: cmp_flip)
    with Cons.prems have "\<forall>z \<in> set (snd (rb_insert cmp x ys)). cmp y z < 0"
      by (simp add: rb_insert_set)
    with False Cons show ?thesis by simp
  qed
qed

lemma ordered_filter: "ordered t \<Longrightarrow> ordered (filter P t)"
  by (rule sorted_wrt_filter)

lemma ordered_unique:
  "ordered t \<Longrightarrow> x \<in> set t \<Longrightarrow> y \<in> set t \<Longrightarrow> cmp x y = 0 \<Longrightarrow> x = y"
proof (induction t)
  case Nil
  then show ?case by simp
next
  case (Cons z zs)
  have "cmp z w \<noteq> 0 \<and> cmp w z \<noteq> 0" if "w \<in> set zs" for w
  proof -
    from that Cons.prems(1) have "cmp z w < 0" by simp
    then show ?thesis using cmp_flip [of z w] by linarith
  qed
  then show ?case using Cons.prems Cons.IH by fastforce
qed

lemma ordered_distinct: "ordered t \<Longrightarrow> distinct t"
  by (induction t) (auto simp: cmp_refl)

text \<open>Removing every element that satisfies \<open>P\<close>, one by one, is filtering.\<close>

lemma rb_remove_head: "rb_remove cmp x (x # ys) = ys"
  by (simp add: cmp_refl)

text \<open>The elements below a key and the others split an ordered tree.\<close>

lemma rb_nfind_split:
  "ordered t \<Longrightarrow> \<exists>ls rs. t = ls @ rs \<and> (\<forall>x \<in> set ls. cmp x k < 0) \<and>
     (\<forall>x \<in> set rs. cmp k x \<le> 0) \<and> rb_nfind cmp k t = (case rs of [] \<Rightarrow> None | r # _ \<Rightarrow> Some r)"
proof (induction t)
  case Nil
  then show ?case by simp
next
  case (Cons y ys)
  show ?case
  proof (cases "cmp k y \<le> 0")
    case True
    have "\<forall>x \<in> set (y # ys). cmp k x \<le> 0"
    proof
      fix x assume "x \<in> set (y # ys)"
      then consider "x = y" | "x \<in> set ys" by auto
      then show "cmp k x \<le> 0"
      proof cases
        case 1
        with True show ?thesis by simp
      next
        case 2
        with Cons.prems have "cmp y x < 0" by simp
        with True show ?thesis
          using cmp_trans [of k y x] cmp_trans_eq [of k y x] by (cases "cmp k y = 0") auto
      qed
    qed
    with True show ?thesis by (intro exI [of _ "[]"] exI [of _ "y # ys"]) simp
  next
    case False
    then have "cmp y k < 0" by (simp add: cmp_flip)
    moreover from Cons obtain ls rs where "ys = ls @ rs" "\<forall>x \<in> set ls. cmp x k < 0"
      "\<forall>x \<in> set rs. cmp k x \<le> 0"
      "rb_nfind cmp k ys = (case rs of [] \<Rightarrow> None | r # _ \<Rightarrow> Some r)" by auto
    ultimately show ?thesis
      using False by (intro exI [of _ "y # ls"] exI [of _ rs]) auto
  qed
qed

lemma rb_prev_split:
  "(\<forall>x \<in> set ls. cmp x e < 0) \<Longrightarrow> \<not> cmp e e < 0 \<Longrightarrow>
     rb_prev cmp e (ls @ e # rs) = (if ls = [] then None else Some (last ls))"
  by (induction ls) (auto split: option.splits)

text \<open>What a probe looks at.\<close>

lemma rb_probe_split:
  assumes "ordered t"
  obtains ls rs where "t = ls @ rs" "\<forall>x \<in> set ls. cmp x k < 0" "\<forall>x \<in> set rs. cmp k x \<le> 0"
    "rb_probe cmp P k t =
       (if rs \<noteq> [] \<and> P (hd rs) then Some (hd rs)
        else if ls \<noteq> [] \<and> P (last ls) then Some (last ls) else None)"
proof -
  obtain ls rs where s: "t = ls @ rs" "\<forall>x \<in> set ls. cmp x k < 0" "\<forall>x \<in> set rs. cmp k x \<le> 0"
    and f: "rb_nfind cmp k t = (case rs of [] \<Rightarrow> None | r # _ \<Rightarrow> Some r)"
    using rb_nfind_split [OF assms] by blast
  have "rb_probe cmp P k t =
       (if rs \<noteq> [] \<and> P (hd rs) then Some (hd rs)
        else if ls \<noteq> [] \<and> P (last ls) then Some (last ls) else None)"
  proof (cases rs)
    case Nil
    with s f show ?thesis by (simp add: rb_probe_def rb_max_def)
  next
    case (Cons r rs')
    with s assms have "\<forall>x \<in> set ls. cmp x r < 0" by (simp add: sorted_wrt_append)
    then have "rb_prev cmp r t = (if ls = [] then None else Some (last ls))"
      using rb_prev_split [of ls r rs'] s(1) Cons by (simp add: cmp_refl)
    with s f Cons show ?thesis by (simp add: rb_probe_def)
  qed
  with s show ?thesis by (rule that)
qed

end

section \<open>Interval lookup\<close>

text \<open>
  Elements as half-open intervals \<open>[lo x, hi x)\<close> in groups: the order compares groups first
  and lower ends inside a group, so a group is a contiguous run of the tree.
\<close>

locale interval_tree = rb_order cmp for cmp :: "'a \<Rightarrow> 'a \<Rightarrow> int" +
  fixes lo hi :: "'a \<Rightarrow> nat" and grp :: "'a \<Rightarrow> 'k"
  assumes cmp_lo: "grp x = grp y \<Longrightarrow> cmp x y < 0 \<longleftrightarrow> lo x < lo y"
    and cmp_eq: "cmp x y = 0 \<longleftrightarrow> grp x = grp y \<and> lo x = lo y"
    and grp_convex: "cmp x y < 0 \<Longrightarrow> cmp y z < 0 \<Longrightarrow> grp x = grp z \<Longrightarrow> grp y = grp z"
begin

text \<open>Distinct elements of a group do not overlap, and no interval is empty.\<close>

definition separated :: "'a set \<Rightarrow> bool" where
  "separated A \<longleftrightarrow> (\<forall>x \<in> A. lo x < hi x) \<and>
     (\<forall>x \<in> A. \<forall>y \<in> A. grp x = grp y \<longrightarrow> x \<noteq> y \<longrightarrow> hi x \<le> lo y \<or> hi y \<le> lo x)"

lemma separated_subset: "separated A \<Longrightarrow> B \<subseteq> A \<Longrightarrow> separated B"
  unfolding separated_def by blast

lemma separated_insert:
  "separated A \<Longrightarrow> lo x < hi x \<Longrightarrow>
    (\<And>y. y \<in> A \<Longrightarrow> grp y = grp x \<Longrightarrow> hi x \<le> lo y \<or> hi y \<le> lo x) \<Longrightarrow> separated (insert x A)"
  unfolding separated_def by (simp, metis)

lemma separated_stab_unique:
  assumes "separated A" "x \<in> A" "y \<in> A" "grp x = grp y"
    and "lo x \<le> n" "n < hi x" "lo y \<le> n" "n < hi y"
  shows "x = y"
proof (rule ccontr)
  assume "x \<noteq> y"
  with assms(1-4) have "hi x \<le> lo y \<or> hi y \<le> lo x" unfolding separated_def by blast
  with assms(5-8) show False by linarith
qed

text \<open>An element that contains the key's lower end is the least one not below the key, or the one before.\<close>

lemma stab_position:
  assumes "ordered (ls @ rs)" "separated (set (ls @ rs))"
    and ls: "\<forall>x \<in> set ls. cmp x k < 0" and rs: "\<forall>x \<in> set rs. cmp k x \<le> 0"
    and e: "e \<in> set (ls @ rs)" "grp e = grp k" "lo e \<le> lo k" "lo k < hi e"
  shows "if lo e = lo k then rs \<noteq> [] \<and> e = hd rs else ls \<noteq> [] \<and> e = last ls"
proof (cases "lo e = lo k")
  case True
  with e have eq: "cmp k e = 0" by (simp add: cmp_eq)
  then have "e \<notin> set ls" using ls cmp_flip [of e k] by auto
  with e have "e \<in> set rs" by simp
  then obtain r rs' where r: "rs = r # rs'" by (cases rs) auto
  have "e = r"
  proof (rule ccontr)
    assume "e \<noteq> r"
    with r \<open>e \<in> set rs\<close> assms(1) have "cmp r e < 0" by (auto simp: sorted_wrt_append)
    moreover from eq have "cmp e k = 0" by (simp add: cmp_eq)
    ultimately have "cmp r k < 0" using cmp_trans [of r e k] by simp
    with rs r show False using cmp_flip [of r k] by auto
  qed
  with True r show ?thesis by simp
next
  case False
  with e have lt: "cmp e k < 0" by (simp add: cmp_lo)
  then have "e \<notin> set rs" using rs cmp_flip [of e k] by auto
  with e have el: "e \<in> set ls" by simp
  then have "ls \<noteq> []" by auto
  have "e = last ls"
  proof (rule ccontr)
    assume ne: "e \<noteq> last ls"
    obtain bs l where bs: "ls = bs @ [l]" using \<open>ls \<noteq> []\<close> by (cases ls rule: rev_cases) auto
    with ne el have "e \<in> set bs" by auto
    with assms(1) bs have lt2: "cmp e (last ls) < 0" by (auto simp: sorted_wrt_append)
    have lk: "cmp (last ls) k < 0" using ls \<open>ls \<noteq> []\<close> by simp
    with lt2 e have g: "grp (last ls) = grp k" using grp_convex by blast
    with lt2 lk e have "lo e < lo (last ls)" "lo (last ls) < lo k" by (simp_all add: cmp_lo)
    moreover have "hi e \<le> lo (last ls) \<or> hi (last ls) \<le> lo e" "lo (last ls) < hi (last ls)"
      using assms(2) e(1,2) g ne \<open>ls \<noteq> []\<close> by (auto simp: separated_def)
    ultimately show False using e(4) by linarith
  qed
  with False \<open>ls \<noteq> []\<close> show ?thesis by simp
qed

text \<open>A probe for containment finds the containing element, whenever there is one.\<close>

lemma probe_stab:
  assumes o: "ordered t" and s: "separated (set t)"
    and P: "\<And>x. x \<in> set t \<Longrightarrow> P x \<Longrightarrow> grp x = grp k \<and> lo x \<le> lo k \<and> lo k < hi x"
  shows "rb_probe cmp P k t = Some e \<longleftrightarrow> e \<in> set t \<and> P e"
proof
  assume "rb_probe cmp P k t = Some e"
  then show "e \<in> set t \<and> P e" by (blast dest: rb_probe_in rb_probe_sound)
next
  assume e: "e \<in> set t \<and> P e"
  have uniq: "x = e" if "x \<in> set t" "P x" for x
    using separated_stab_unique [OF s, of x e "lo k"] that e P [of x] P [of e] by simp
  obtain ls rs where t: "t = ls @ rs" and ls: "\<forall>x \<in> set ls. cmp x k < 0"
    and rs: "\<forall>x \<in> set rs. cmp k x \<le> 0"
    and pr: "rb_probe cmp P k t = (if rs \<noteq> [] \<and> P (hd rs) then Some (hd rs)
        else if ls \<noteq> [] \<and> P (last ls) then Some (last ls) else None)"
    using rb_probe_split [OF o] by blast
  have "if lo e = lo k then rs \<noteq> [] \<and> e = hd rs else ls \<noteq> [] \<and> e = last ls"
    using stab_position [OF _ _ ls rs, of e] o s e P [of e] unfolding t by simp
  with e t uniq show "rb_probe cmp P k t = Some e"
    unfolding pr by (auto split: if_splits)
qed

text \<open>A probe for overlap finds nothing exactly when nothing overlaps.\<close>

lemma probe_overlap:
  assumes o: "ordered t" and s: "separated (set t)" and "0 < n"
    and P: "\<And>x. x \<in> set t \<Longrightarrow> P x \<longleftrightarrow> grp x = grp k \<and> lo k < hi x \<and> lo x < lo k + n"
  shows "rb_probe cmp P k t = None \<longleftrightarrow> (\<forall>x \<in> set t. \<not> P x)"
proof
  assume none: "rb_probe cmp P k t = None"
  obtain ls rs where t: "t = ls @ rs" and ls: "\<forall>x \<in> set ls. cmp x k < 0"
    and rs: "\<forall>x \<in> set rs. cmp k x \<le> 0"
    and pr: "rb_probe cmp P k t = (if rs \<noteq> [] \<and> P (hd rs) then Some (hd rs)
        else if ls \<noteq> [] \<and> P (last ls) then Some (last ls) else None)"
    using rb_probe_split [OF o] by blast
  show "\<forall>x \<in> set t. \<not> P x"
  proof (intro ballI notI)
    fix x assume x: "x \<in> set t" "P x"
    with P have g: "grp x = grp k" "lo k < hi x" "lo x < lo k + n" by auto
    show False
    proof (cases "lo x \<le> lo k")
      case True
      then have "if lo x = lo k then rs \<noteq> [] \<and> x = hd rs else ls \<noteq> [] \<and> x = last ls"
        using stab_position [OF _ _ ls rs, of x] o s x g unfolding t by simp
      with none x show False unfolding pr by (auto split: if_splits)
    next
      case False
      then have kx: "cmp k x < 0" using g by (simp add: cmp_lo)
      then have "x \<notin> set ls" using ls cmp_flip [of x k] by force
      with x t obtain r rs' where r: "rs = r # rs'" "x \<in> set rs" by (cases rs) auto
      have "grp r = grp k \<and> lo k \<le> lo r \<and> lo r \<le> lo x"
      proof (cases "x = r")
        case True
        with g False show ?thesis by simp
      next
        case ne: False
        with r o t have rx: "cmp r x < 0" by (auto simp: sorted_wrt_append)
        have gr: "grp r = grp k"
        proof (cases "cmp k r = 0")
          case True
          then show ?thesis by (simp add: cmp_eq)
        next
          case False
          with rs r have "cmp k r < 0" by force
          with rx g show ?thesis using grp_convex [of k r x] by simp
        qed
        with g rx have "lo r < lo x" by (simp add: cmp_lo)
        moreover have "lo k \<le> lo r"
          using gr rs r cmp_lo [of r k] cmp_flip [of r k] by (auto simp: not_le)
        ultimately show ?thesis using gr by simp
      qed
      moreover have "lo r < hi r" using s t r by (simp add: separated_def)
      ultimately have "P r" using P [of r] t r g by auto
      with none r show False unfolding pr by simp
    qed
  qed
next
  assume "\<forall>x \<in> set t. \<not> P x"
  then show "rb_probe cmp P k t = None"
    using rb_probe_in [of cmp P k t] rb_probe_sound [of cmp P k t]
    by (cases "rb_probe cmp P k t") auto
qed

end

end
