(* ===== verification/Gpu_Dmabuf.thy ===== *)
theory Gpu_Dmabuf
  imports Ordered_Tree
begin

text \<open>
  The GPU dma-buf memory domain of \<open>spdk/lib/dma/gpu_dmabuf.c\<close>.

  A domain caches, per RDMA protection domain, the memory regions (MRs) it registered for
  GPU address ranges the application declared.  \<open>register\<close> declares a range and registers
  it, \<open>translate\<close> is the callback the NVMe-oF RDMA transport uses to turn a GPU address into
  an \<open>lkey\<close>/\<open>rkey\<close> pair, \<open>invalidate\<close> forgets a range, \<open>create\<close> and \<open>destroy\<close> manage the
  domain.  The driver (CUDA or MACA), the verbs library and the SPDK core are not part of the
  repository: they are the functions of the record \<open>gpu_env\<close>.  Each of them also receives
  the list of external calls made so far, so that any answer, even one that changes from call
  to call, is a possible behaviour.  The same list, newest call first, is the trace on which
  resource properties are stated.
\<close>

section \<open>External calls\<close>

datatype gpu_backend = MACA | CUDA

datatype gpu_result = GPU_SUCCESS | mcErrorInvalidValue | mcErrorNotSupported | GPU_ERROR int

text \<open>A verbs memory region: the handle and the two keys.\<close>

record ibv_mr =
  ibv_handle :: ptr
  lkey :: u32
  rkey :: u32

text \<open>The arguments of \<open>ibv_reg_dmabuf_mr(pd, offset, length, iova, fd, access)\<close>.\<close>

record reg_args =
  ra_pd :: ptr
  ra_offset :: u64
  ra_length :: u64
  ra_iova :: u64
  ra_fd :: int
  ra_access :: u32

datatype gpu_call =
    Call_calloc bool
  | Call_free
  | Call_cuInit gpu_result
  | Call_cuDeviceGet int gpu_result int
  | Call_cuDevicePrimaryCtxRetain int gpu_result
  | Call_cuDevicePrimaryCtxRelease int
  | Call_mcSetDevice int gpu_result
  | Call_cuCtxGetCurrent gpu_result ptr
  | Call_cuCtxSetCurrent ptr gpu_result
  | Call_cuPointerGetAttribute ptr gpu_result
  | Call_MemGetAddressRange ptr gpu_result
  | Call_MemGetHandleForAddressRange ptr u64 gpu_result int
  | Call_close int
  | Call_ibv_reg_dmabuf_mr reg_args "ibv_mr option"
  | Call_ibv_dereg_mr ibv_mr
  | Call_spdk_memory_domain_create int ptr
  | Call_spdk_memory_domain_set_translation ptr
  | Call_spdk_memory_domain_destroy ptr

type_synonym calls = "gpu_call list"

datatype dma_device_type = SPDK_DMA_DEVICE_TYPE_RDMA | SPDK_DMA_DEVICE_TYPE_OTHER

text \<open>\<open>struct spdk_memory_domain_rdma_ctx\<close>: the user context of an RDMA memory domain.\<close>

record rdma_ctx =
  rc_size :: u64
  rc_ibv_pd :: ptr

record gpu_env =
  backend :: gpu_backend
  calloc_ok :: "calls \<Rightarrow> bool"
  cuInit :: "calls \<Rightarrow> gpu_result"
  cuDeviceGet :: "calls \<Rightarrow> int \<Rightarrow> gpu_result \<times> int"
  cuDevicePrimaryCtxRetain :: "calls \<Rightarrow> int \<Rightarrow> gpu_result \<times> ptr"
  mcSetDevice :: "calls \<Rightarrow> int \<Rightarrow> gpu_result"
  cuCtxGetCurrent :: "calls \<Rightarrow> gpu_result \<times> ptr"
  cuCtxSetCurrent :: "calls \<Rightarrow> ptr \<Rightarrow> gpu_result"
  cuPointerGetAttribute :: "calls \<Rightarrow> ptr \<Rightarrow> gpu_result \<times> int"
  cuMemGetAddressRange :: "calls \<Rightarrow> ptr \<Rightarrow> gpu_result \<times> ptr \<times> u64"
  mcMemGetAddressRange :: "calls \<Rightarrow> ptr \<Rightarrow> gpu_result \<times> ptr \<times> u64"
  cuMemGetHandleForAddressRange :: "calls \<Rightarrow> ptr \<Rightarrow> u64 \<Rightarrow> gpu_result \<times> int"
  mcMemGetHandleForAddressRange :: "calls \<Rightarrow> ptr \<Rightarrow> u64 \<Rightarrow> gpu_result \<times> int"
  ibv_reg_dmabuf_mr :: "calls \<Rightarrow> reg_args \<Rightarrow> ibv_mr option \<times> int"
  spdk_memory_domain_create :: "calls \<Rightarrow> string \<Rightarrow> int \<times> ptr"
  spdk_memory_domain_get_dma_device_type :: "ptr \<Rightarrow> dma_device_type"
  spdk_memory_domain_get_context :: "ptr \<Rightarrow> rdma_ctx option option"
  rdma_ctx_pd_end :: u64
  ibv_relaxed_ordering :: "u32 option"

definition calloc :: "gpu_env \<Rightarrow> calls \<Rightarrow> bool \<times> calls" where
  "calloc E h = (calloc_ok E h, Call_calloc (calloc_ok E h) # h)"

definition free :: "calls \<Rightarrow> calls" where
  "free h = Call_free # h"

section \<open>The driver wrappers\<close>

definition gpu_init :: "gpu_env \<Rightarrow> calls \<Rightarrow> gpu_result \<times> calls" where
  "gpu_init E h =
     (case backend E of
        MACA \<Rightarrow> (GPU_SUCCESS, h)
      | CUDA \<Rightarrow> (cuInit E h, Call_cuInit (cuInit E h) # h))"

definition gpu_device_get :: "gpu_env \<Rightarrow> calls \<Rightarrow> int \<Rightarrow> gpu_result \<times> int \<times> calls" where
  "gpu_device_get E h device_id =
     (case backend E of
        MACA \<Rightarrow> (GPU_SUCCESS, device_id, h)
      | CUDA \<Rightarrow> (let (r, d) = cuDeviceGet E h device_id
                 in (r, d, Call_cuDeviceGet device_id r d # h)))"

definition gpu_device_primary_ctx_retain ::
    "gpu_env \<Rightarrow> calls \<Rightarrow> int \<Rightarrow> gpu_result \<times> ptr \<times> calls" where
  "gpu_device_primary_ctx_retain E h device =
     (case backend E of
        MACA \<Rightarrow> (let rc = mcSetDevice E h device
                 in (rc, 0, Call_mcSetDevice device rc # h))
      | CUDA \<Rightarrow> (let (r, ctx) = cuDevicePrimaryCtxRetain E h device
                 in (r, ctx, Call_cuDevicePrimaryCtxRetain device r # h)))"

definition gpu_device_primary_ctx_release :: "gpu_env \<Rightarrow> calls \<Rightarrow> int \<Rightarrow> calls" where
  "gpu_device_primary_ctx_release E h device_id =
     (case backend E of
        MACA \<Rightarrow> h
      | CUDA \<Rightarrow> Call_cuDevicePrimaryCtxRelease device_id # h)"

definition gpu_ctx_get_current :: "gpu_env \<Rightarrow> calls \<Rightarrow> gpu_result \<times> ptr \<times> calls" where
  "gpu_ctx_get_current E h =
     (case backend E of
        MACA \<Rightarrow> (GPU_SUCCESS, 0, h)
      | CUDA \<Rightarrow> (let (r, ctx) = cuCtxGetCurrent E h in (r, ctx, Call_cuCtxGetCurrent r ctx # h)))"

definition gpu_ctx_set_current :: "gpu_env \<Rightarrow> calls \<Rightarrow> ptr \<Rightarrow> gpu_result \<times> calls" where
  "gpu_ctx_set_current E h ctx =
     (case backend E of
        MACA \<Rightarrow> (GPU_SUCCESS, h)
      | CUDA \<Rightarrow> (let r = cuCtxSetCurrent E h ctx in (r, Call_cuCtxSetCurrent ctx r # h)))"

definition gpu_pointer_get_attribute ::
    "gpu_env \<Rightarrow> calls \<Rightarrow> ptr \<Rightarrow> gpu_result \<times> int \<times> calls" where
  "gpu_pointer_get_attribute E h p =
     (case backend E of
        MACA \<Rightarrow> (mcErrorNotSupported, 0, h)
      | CUDA \<Rightarrow> (let (r, d) = cuPointerGetAttribute E h p
                 in (r, d, Call_cuPointerGetAttribute p r # h)))"

definition gpu_mem_get_address_range ::
    "gpu_env \<Rightarrow> calls \<Rightarrow> ptr \<Rightarrow> gpu_result \<times> ptr \<times> u64 \<times> calls" where
  "gpu_mem_get_address_range E h p =
     (let (r, base, sz) = (case backend E of
            MACA \<Rightarrow> mcMemGetAddressRange E h p
          | CUDA \<Rightarrow> cuMemGetAddressRange E h p)
      in (r, base, sz, Call_MemGetAddressRange p r # h))"

definition gpu_mem_get_handle_for_address_range ::
    "gpu_env \<Rightarrow> calls \<Rightarrow> ptr \<Rightarrow> u64 \<Rightarrow> gpu_result \<times> int \<times> calls" where
  "gpu_mem_get_handle_for_address_range E h base sz =
     (let (r, fd) = (case backend E of
            MACA \<Rightarrow> mcMemGetHandleForAddressRange E h base sz
          | CUDA \<Rightarrow> cuMemGetHandleForAddressRange E h base sz)
      in (r, fd, Call_MemGetHandleForAddressRange base sz r fd # h))"

section \<open>State\<close>

record gpu_dmabuf_mr =
  mr_addr :: ptr
  mr_len :: u64
  mr_device_id :: int
  mr_pd :: ptr
  mr_mr :: "ibv_mr option"

record gpu_dmabuf_region =
  rg_addr :: ptr
  rg_len :: u64
  rg_device_id :: int

record gpu_dmabuf_cuda_ctx =
  cc_device_id :: int
  cc_cuda_ctx :: ptr

record gpu_dmabuf_domain =
  gd_domain :: ptr
  mr_cache :: "gpu_dmabuf_mr list"
  regions :: "gpu_dmabuf_region list"
  cuda_ctxs :: "gpu_dmabuf_cuda_ctx list"
  gd_cuda_device_id :: int
  gd_cuda_ctx :: ptr
  owns_cuda_ctx :: bool
  gd_rdma_access_flags :: u32

text \<open>The global list of domains and the calls made so far.\<close>

record gpu_state =
  g_domains :: "gpu_dmabuf_domain list"
  g_calls :: calls

definition gpu_dmabuf_mr_compare :: "gpu_dmabuf_mr \<Rightarrow> gpu_dmabuf_mr \<Rightarrow> int" where
  "gpu_dmabuf_mr_compare a b =
     (if mr_device_id a \<noteq> mr_device_id b then (if mr_device_id a < mr_device_id b then - 1 else 1)
      else if mr_pd a \<noteq> mr_pd b then (if mr_pd a < mr_pd b then - 1 else 1)
      else if mr_addr a \<noteq> mr_addr b then (if mr_addr a < mr_addr b then - 1 else 1)
      else 0)"

definition gpu_dmabuf_region_compare :: "gpu_dmabuf_region \<Rightarrow> gpu_dmabuf_region \<Rightarrow> int" where
  "gpu_dmabuf_region_compare a b =
     (if rg_addr a \<noteq> rg_addr b then (if rg_addr a < rg_addr b then - 1 else 1) else 0)"

section \<open>Options\<close>

text \<open>\<open>struct spdk_gpu_dmabuf_memory_domain_opts\<close>; the caller's \<open>o_size\<close> says how much of it exists.\<close>

record gpu_dmabuf_opts =
  o_size :: u64
  o_id :: "string option"
  o_cuda_device_id :: int
  o_cuda_context :: ptr
  o_rdma_access_flags :: u32

text \<open>
  \<open>offsetof(field) + sizeof(field)\<close> of each member under the LP64 ABI: an 8-byte size, an
  8-byte pointer, a 4-byte int padded to 8, an 8-byte pointer and a 4-byte word, padded to 40.
\<close>

definition opts_end_id :: u64 where "opts_end_id = 16"
definition opts_end_cuda_device_id :: u64 where "opts_end_cuda_device_id = 20"
definition opts_end_cuda_context :: u64 where "opts_end_cuda_context = 32"
definition opts_end_rdma_access_flags :: u64 where "opts_end_rdma_access_flags = 36"
definition opts_sizeof :: u64 where "opts_sizeof = 40"

definition GPU_DMABUF_OPTS_HAS :: "gpu_dmabuf_opts \<Rightarrow> u64 \<Rightarrow> bool" where
  "GPU_DMABUF_OPTS_HAS opts field_end \<longleftrightarrow> o_size opts \<ge> field_end"

definition gpu_dmabuf_default_access_flags :: "gpu_env \<Rightarrow> u32" where
  "gpu_dmabuf_default_access_flags E =
     (let flags = or (or 1 4) 2
      in case ibv_relaxed_ordering E of None \<Rightarrow> flags | Some f \<Rightarrow> or flags f)"

definition spdk_gpu_dmabuf_memory_domain_get_opts :: "gpu_env \<Rightarrow> gpu_dmabuf_opts" where
  "spdk_gpu_dmabuf_memory_domain_get_opts E =
     \<lparr>o_size = opts_sizeof, o_id = None, o_cuda_device_id = -1, o_cuda_context = 0,
      o_rdma_access_flags = gpu_dmabuf_default_access_flags E\<rparr>"

section \<open>Lookups\<close>

definition gpu_dmabuf_domain_find :: "gpu_state \<Rightarrow> ptr \<Rightarrow> gpu_dmabuf_domain option" where
  "gpu_dmabuf_domain_find s domain = find (\<lambda>gd. gd_domain gd = domain) (g_domains s)"

definition gpu_dmabuf_range_contains :: "gpu_dmabuf_mr \<Rightarrow> ptr \<Rightarrow> u64 \<Rightarrow> bool" where
  "gpu_dmabuf_range_contains entry addr len = range_contains (mr_addr entry) (mr_len entry) addr len"

definition gpu_dmabuf_range_overlaps :: "gpu_dmabuf_mr \<Rightarrow> ptr \<Rightarrow> u64 \<Rightarrow> bool" where
  "gpu_dmabuf_range_overlaps entry addr len = range_overlaps (mr_addr entry) (mr_len entry) addr len"

definition gpu_dmabuf_region_contains :: "gpu_dmabuf_region \<Rightarrow> ptr \<Rightarrow> u64 \<Rightarrow> bool" where
  "gpu_dmabuf_region_contains region addr len = range_contains (rg_addr region) (rg_len region) addr len"

definition gpu_dmabuf_region_overlaps :: "gpu_dmabuf_region \<Rightarrow> ptr \<Rightarrow> u64 \<Rightarrow> bool" where
  "gpu_dmabuf_region_overlaps region addr len = range_overlaps (rg_addr region) (rg_len region) addr len"

definition gpu_dmabuf_get_rdma_pd :: "gpu_env \<Rightarrow> ptr \<Rightarrow> int + ptr" where
  "gpu_dmabuf_get_rdma_pd E dst_domain =
     (if spdk_memory_domain_get_dma_device_type E dst_domain \<noteq> SPDK_DMA_DEVICE_TYPE_RDMA
      then Inl (- ENOTSUP)
      else case spdk_memory_domain_get_context E dst_domain of
        None \<Rightarrow> Inl (- EINVAL)
      | Some None \<Rightarrow> Inl (- EINVAL)
      | Some (Some ctx) \<Rightarrow>
          if rc_size ctx < rdma_ctx_pd_end E then Inl (- EINVAL)
          else if rc_ibv_pd ctx = 0 then Inl (- EINVAL)
          else Inr (rc_ibv_pd ctx))"

definition gpu_dmabuf_get_ptr_device_id ::
    "gpu_env \<Rightarrow> gpu_dmabuf_domain \<Rightarrow> calls \<Rightarrow> ptr \<Rightarrow> (int + int) \<times> calls" where
  "gpu_dmabuf_get_ptr_device_id E gd h addr =
     (if gd_cuda_device_id gd \<ge> 0 then (Inr (gd_cuda_device_id gd), h)
      else let (gpu_rc, detected, h) = gpu_pointer_get_attribute E h addr
           in if gpu_rc \<noteq> GPU_SUCCESS then (Inl (- EFAULT), h) else (Inr detected, h))"

definition gpu_dmabuf_get_cuda_ctx ::
    "gpu_env \<Rightarrow> gpu_dmabuf_domain \<Rightarrow> calls \<Rightarrow> int \<Rightarrow> (int + ptr) \<times> gpu_dmabuf_domain \<times> calls" where
  "gpu_dmabuf_get_cuda_ctx E gd h device_id =
     (if gd_cuda_ctx gd \<noteq> 0 then (Inr (gd_cuda_ctx gd), gd, h)
      else if device_id < 0 then (Inl (- EINVAL), gd, h)
      else case find (\<lambda>c. cc_device_id c = device_id) (cuda_ctxs gd) of
        Some c \<Rightarrow> (Inr (cc_cuda_ctx c), gd, h)
      | None \<Rightarrow>
          (let (ok, h) = calloc E h in
           if \<not> ok then (Inl (- ENOMEM), gd, h)
           else let (gpu_rc, cuda_device, h) = gpu_device_get E h device_id in
           if gpu_rc \<noteq> GPU_SUCCESS then (Inl (- ENODEV), gd, free h)
           else let (gpu_rc, ctx, h) = gpu_device_primary_ctx_retain E h cuda_device in
           if gpu_rc \<noteq> GPU_SUCCESS then (Inl (- ENODEV), gd, free h)
           else (Inr ctx,
                 gd\<lparr>cuda_ctxs := cuda_ctxs gd @ [\<lparr>cc_device_id = device_id, cc_cuda_ctx = ctx\<rparr>]\<rparr>,
                 h)))"

definition gpu_dmabuf_set_cuda_ctx :: "gpu_env \<Rightarrow> calls \<Rightarrow> ptr \<Rightarrow> (int + ptr \<times> bool) \<times> calls" where
  "gpu_dmabuf_set_cuda_ctx E h cuda_ctx =
     (if cuda_ctx = 0 then (Inr (0, False), h)
      else let (gpu_rc, prev_ctx, h) = gpu_ctx_get_current E h in
      if gpu_rc \<noteq> GPU_SUCCESS then (Inl (- EFAULT), h)
      else if prev_ctx = cuda_ctx then (Inr (prev_ctx, False), h)
      else let (gpu_rc, h) = gpu_ctx_set_current E h cuda_ctx in
      if gpu_rc \<noteq> GPU_SUCCESS then (Inl (- EFAULT), h)
      else (Inr (prev_ctx, True), h))"

definition gpu_dmabuf_restore_cuda_ctx :: "gpu_env \<Rightarrow> calls \<Rightarrow> ptr \<Rightarrow> bool \<Rightarrow> calls" where
  "gpu_dmabuf_restore_cuda_ctx E h prev_ctx changed =
     (if \<not> changed then h else snd (gpu_ctx_set_current E h prev_ctx))"

definition gpu_dmabuf_find_mr ::
    "gpu_dmabuf_domain \<Rightarrow> int \<Rightarrow> ptr \<Rightarrow> ptr \<Rightarrow> u64 \<Rightarrow> gpu_dmabuf_mr option" where
  "gpu_dmabuf_find_mr gd device_id pd addr len =
     (let key = \<lparr>mr_addr = addr, mr_len = 0, mr_device_id = device_id, mr_pd = pd, mr_mr = None\<rparr>;
          hit = (\<lambda>e. mr_device_id e = device_id \<and> mr_pd e = pd \<and> gpu_dmabuf_range_contains e addr len)
      in rb_probe gpu_dmabuf_mr_compare hit key (mr_cache gd))"

definition gpu_dmabuf_find_overlapping_mr ::
    "gpu_dmabuf_domain \<Rightarrow> int \<Rightarrow> ptr \<Rightarrow> ptr \<Rightarrow> u64 \<Rightarrow> gpu_dmabuf_mr option" where
  "gpu_dmabuf_find_overlapping_mr gd device_id pd addr len =
     (let key = \<lparr>mr_addr = addr, mr_len = 0, mr_device_id = device_id, mr_pd = pd, mr_mr = None\<rparr>;
          hit = (\<lambda>e. mr_device_id e = device_id \<and> mr_pd e = pd \<and> gpu_dmabuf_range_overlaps e addr len)
      in rb_probe gpu_dmabuf_mr_compare hit key (mr_cache gd))"

definition gpu_dmabuf_find_region ::
    "gpu_dmabuf_domain \<Rightarrow> ptr \<Rightarrow> u64 \<Rightarrow> gpu_dmabuf_region option" where
  "gpu_dmabuf_find_region gd addr len =
     (let key = \<lparr>rg_addr = addr, rg_len = 0, rg_device_id = 0\<rparr>
      in rb_probe gpu_dmabuf_region_compare (\<lambda>e. gpu_dmabuf_region_contains e addr len) key (regions gd))"

definition gpu_dmabuf_find_overlapping_region ::
    "gpu_dmabuf_domain \<Rightarrow> ptr \<Rightarrow> u64 \<Rightarrow> gpu_dmabuf_region option" where
  "gpu_dmabuf_find_overlapping_region gd addr len =
     (let key = \<lparr>rg_addr = addr, rg_len = 0, rg_device_id = 0\<rparr>
      in rb_probe gpu_dmabuf_region_compare (\<lambda>e. gpu_dmabuf_region_overlaps e addr len) key (regions gd))"

section \<open>Operations on a domain\<close>

definition gpu_dmabuf_add_region ::
    "gpu_env \<Rightarrow> gpu_dmabuf_domain \<Rightarrow> calls \<Rightarrow> ptr \<Rightarrow> u64 \<Rightarrow> int \<Rightarrow>
     (int + gpu_dmabuf_region) \<times> gpu_dmabuf_domain \<times> calls" where
  "gpu_dmabuf_add_region E gd h addr len device_id =
     (case gpu_dmabuf_find_region gd addr len of
        Some region \<Rightarrow>
          if rg_device_id region \<noteq> device_id then (Inl (- EINVAL), gd, h) else (Inr region, gd, h)
      | None \<Rightarrow>
          if gpu_dmabuf_find_overlapping_region gd addr len \<noteq> None then (Inl (- EINVAL), gd, h)
          else let (ok, h) = calloc E h in
          if \<not> ok then (Inl (- ENOMEM), gd, h)
          else let region = \<lparr>rg_addr = addr, rg_len = len, rg_device_id = device_id\<rparr>;
                   (old, t) = rb_insert gpu_dmabuf_region_compare region (regions gd)
          in if old \<noteq> None then (Inl (- EEXIST), gd, free h)
             else (Inr region, gd\<lparr>regions := t\<rparr>, h))"

text \<open>
  The part of \<open>gpu_dmabuf_register_mr\<close> that runs with the GPU context switched: find the
  allocation behind the address, check that the range lies inside it, and export it.
\<close>

definition gpu_dmabuf_export ::
    "gpu_env \<Rightarrow> calls \<Rightarrow> ptr \<Rightarrow> bool \<Rightarrow> ptr \<Rightarrow> u64 \<Rightarrow> (int + u64 \<times> int) \<times> calls" where
  "gpu_dmabuf_export E h prev_ctx ctx_changed addr len =
     (let (gpu_rc, alloc_base, alloc_size, h) = gpu_mem_get_address_range E h addr in
      if gpu_rc \<noteq> GPU_SUCCESS
      then (Inl (- EFAULT), gpu_dmabuf_restore_cuda_ctx E h prev_ctx ctx_changed)
      else if addr < alloc_base
      then (Inl (- EINVAL), gpu_dmabuf_restore_cuda_ctx E h prev_ctx ctx_changed)
      else let alloc_offset = addr - alloc_base in
      if alloc_offset > alloc_size \<or> len > alloc_size - alloc_offset
      then (Inl (- EINVAL), gpu_dmabuf_restore_cuda_ctx E h prev_ctx ctx_changed)
      else let (gpu_rc, dmabuf_fd, h) = gpu_mem_get_handle_for_address_range E h alloc_base alloc_size;
               h = gpu_dmabuf_restore_cuda_ctx E h prev_ctx ctx_changed in
      if gpu_rc \<noteq> GPU_SUCCESS then (Inl (- EFAULT), h)
      else (Inr (alloc_offset, dmabuf_fd), h))"

text \<open>
  The last part of \<open>gpu_dmabuf_register_mr\<close>: register the exported descriptor with the
  protection domain, close it, and enter the MR into the cache.
\<close>

definition gpu_dmabuf_cache_mr ::
    "gpu_env \<Rightarrow> gpu_dmabuf_domain \<Rightarrow> calls \<Rightarrow> int \<Rightarrow> ptr \<Rightarrow> ptr \<Rightarrow> u64 \<Rightarrow> u64 \<Rightarrow> int \<Rightarrow>
     (int + gpu_dmabuf_mr) \<times> gpu_dmabuf_domain \<times> calls" where
  "gpu_dmabuf_cache_mr E gd h device_id pd addr len dmabuf_offset dmabuf_fd =
     (let args = \<lparr>ra_pd = pd, ra_offset = dmabuf_offset, ra_length = len, ra_iova = addr,
                  ra_fd = dmabuf_fd, ra_access = gd_rdma_access_flags gd\<rparr>;
          (mr, errno) = ibv_reg_dmabuf_mr E h args;
          h = Call_close dmabuf_fd # Call_ibv_reg_dmabuf_mr args mr # h
      in case mr of
           None \<Rightarrow> (Inl (if errno \<noteq> 0 then - errno else - EFAULT), gd, free h)
         | Some m \<Rightarrow>
             (let entry = \<lparr>mr_addr = addr, mr_len = len, mr_device_id = device_id,
                           mr_pd = pd, mr_mr = Some m\<rparr>;
                  (old, t) = rb_insert gpu_dmabuf_mr_compare entry (mr_cache gd)
              in if old \<noteq> None
                 then (Inl (- EEXIST), gd, free (Call_ibv_dereg_mr m # h))
                 else (Inr entry, gd\<lparr>mr_cache := t\<rparr>, h)))"

definition gpu_dmabuf_register_mr ::
    "gpu_env \<Rightarrow> gpu_dmabuf_domain \<Rightarrow> calls \<Rightarrow> int \<Rightarrow> ptr \<Rightarrow> ptr \<Rightarrow> u64 \<Rightarrow>
     (int + gpu_dmabuf_mr) \<times> gpu_dmabuf_domain \<times> calls" where
  "gpu_dmabuf_register_mr E gd h device_id pd addr len =
     (if gpu_dmabuf_find_overlapping_mr gd device_id pd addr len \<noteq> None
      then (Inl (- EEXIST), gd, h)
      else let (ok, h) = calloc E h in
      if \<not> ok then (Inl (- ENOMEM), gd, h)
      else case gpu_dmabuf_get_cuda_ctx E gd h device_id of
        (Inl rc, gd, h) \<Rightarrow> (Inl rc, gd, free h)
      | (Inr cuda_ctx, gd, h) \<Rightarrow>
          (case gpu_dmabuf_set_cuda_ctx E h cuda_ctx of
             (Inl rc, h) \<Rightarrow> (Inl rc, gd, free h)
           | (Inr (prev_ctx, ctx_changed), h) \<Rightarrow>
               (case gpu_dmabuf_export E h prev_ctx ctx_changed addr len of
                  (Inl rc, h) \<Rightarrow> (Inl rc, gd, free h)
                | (Inr (dmabuf_offset, dmabuf_fd), h) \<Rightarrow>
                    gpu_dmabuf_cache_mr E gd h device_id pd addr len dmabuf_offset dmabuf_fd)))"

section \<open>The public interface\<close>

text \<open>Writing back the domain object the list entry points to, and the calls made.\<close>

fun update_domain :: "ptr \<Rightarrow> gpu_dmabuf_domain \<Rightarrow> gpu_dmabuf_domain list \<Rightarrow> gpu_dmabuf_domain list" where
  "update_domain domain gd [] = []"
| "update_domain domain gd (g # gs) =
     (if gd_domain g = domain then gd # gs else g # update_domain domain gd gs)"

definition put_domain :: "gpu_state \<Rightarrow> ptr \<Rightarrow> gpu_dmabuf_domain \<Rightarrow> calls \<Rightarrow> gpu_state" where
  "put_domain s domain gd h = s\<lparr>g_domains := update_domain domain gd (g_domains s), g_calls := h\<rparr>"

definition spdk_gpu_dmabuf_memory_domain_register ::
    "gpu_env \<Rightarrow> gpu_state \<Rightarrow> ptr \<Rightarrow> ptr \<Rightarrow> ptr \<Rightarrow> u64 \<Rightarrow> int \<times> gpu_state" where
  "spdk_gpu_dmabuf_memory_domain_register E s domain rdma_domain addr len =
     (if addr = 0 \<or> len = 0 then (- EINVAL, s)
      else case gpu_dmabuf_domain_find s domain of
        None \<Rightarrow> (- EINVAL, s)
      | Some gd \<Rightarrow>
      (case gpu_dmabuf_get_rdma_pd E rdma_domain of
        Inl rc \<Rightarrow> (rc, s)
      | Inr pd \<Rightarrow>
      (case gpu_dmabuf_get_ptr_device_id E gd (g_calls s) addr of
        (Inl rc, h) \<Rightarrow> (rc, s\<lparr>g_calls := h\<rparr>)
      | (Inr device_id, h) \<Rightarrow>
      (case gpu_dmabuf_add_region E gd h addr len device_id of
        (Inl rc, gd, h) \<Rightarrow> (rc, put_domain s domain gd h)
      | (Inr region, gd, h) \<Rightarrow>
      (case gpu_dmabuf_find_mr gd (rg_device_id region) pd (rg_addr region) (rg_len region) of
        Some entry \<Rightarrow> (0, put_domain s domain gd h)
      | None \<Rightarrow>
      (case gpu_dmabuf_register_mr E gd h (rg_device_id region) pd (rg_addr region) (rg_len region) of
        (Inl rc, gd, h) \<Rightarrow> (rc, put_domain s domain gd h)
      | (Inr entry, gd, h) \<Rightarrow> (0, put_domain s domain gd h)))))))"

record translation_result =
  tr_iov_count :: nat
  tr_iov_base :: ptr
  tr_iov_len :: u64
  tr_dst_domain :: ptr
  tr_lkey :: u32
  tr_rkey :: u32

text \<open>A translation fails with a code, fills the result, or reads through a null \<open>entry->mr\<close>.\<close>

datatype translate_outcome = Failed int | Translated translation_result | Null_deref

definition fill_translation :: "gpu_dmabuf_mr \<Rightarrow> ptr \<Rightarrow> ptr \<Rightarrow> u64 \<Rightarrow> translate_outcome" where
  "fill_translation entry dst_domain addr len =
     (case mr_mr entry of
        None \<Rightarrow> Null_deref
      | Some m \<Rightarrow> Translated \<lparr>tr_iov_count = 1, tr_iov_base = addr, tr_iov_len = len,
                              tr_dst_domain = dst_domain, tr_lkey = lkey m, tr_rkey = rkey m\<rparr>)"

definition gpu_dmabuf_translate ::
    "gpu_env \<Rightarrow> gpu_state \<Rightarrow> ptr \<Rightarrow> ptr \<Rightarrow> ptr \<Rightarrow> u64 \<Rightarrow> translate_outcome \<times> gpu_state" where
  "gpu_dmabuf_translate E s src_domain dst_domain addr len =
     (case gpu_dmabuf_domain_find s src_domain of
        None \<Rightarrow> (Failed (- EINVAL), s)
      | Some gd \<Rightarrow>
      (case gpu_dmabuf_get_rdma_pd E dst_domain of
        Inl rc \<Rightarrow> (Failed rc, s)
      | Inr pd \<Rightarrow>
      (case gpu_dmabuf_find_region gd addr len of
        None \<Rightarrow> (Failed (- EINVAL), s)
      | Some region \<Rightarrow>
      (case gpu_dmabuf_find_mr gd (rg_device_id region) pd addr len of
        Some entry \<Rightarrow> (fill_translation entry dst_domain addr len, s)
      | None \<Rightarrow>
      (case gpu_dmabuf_register_mr E gd (g_calls s) (rg_device_id region) pd
              (rg_addr region) (rg_len region) of
        (Inl rc, gd, h) \<Rightarrow> (Failed rc, put_domain s src_domain gd h)
      | (Inr entry, gd, h) \<Rightarrow>
          (fill_translation entry dst_domain addr len, put_domain s src_domain gd h))))))"

definition gpu_dmabuf_dereg_mr :: "gpu_dmabuf_mr \<Rightarrow> calls \<Rightarrow> calls" where
  "gpu_dmabuf_dereg_mr entry h =
     free (case mr_mr entry of None \<Rightarrow> h | Some m \<Rightarrow> Call_ibv_dereg_mr m # h)"

fun gpu_dmabuf_release_cuda_ctxs :: "gpu_env \<Rightarrow> gpu_dmabuf_cuda_ctx list \<Rightarrow> calls \<Rightarrow> calls" where
  "gpu_dmabuf_release_cuda_ctxs E [] h = h"
| "gpu_dmabuf_release_cuda_ctxs E (c # cs) h =
     gpu_dmabuf_release_cuda_ctxs E cs (free (gpu_device_primary_ctx_release E h (cc_device_id c)))"

text \<open>
  \<open>RB_FOREACH_SAFE\<close> with removal: walk the elements in order and take those that satisfy
  \<open>P\<close> out of the tree, with the calls that go with it.
\<close>

fun foreach_remove ::
    "('a \<Rightarrow> 'a \<Rightarrow> int) \<Rightarrow> ('a \<Rightarrow> bool) \<Rightarrow> ('a \<Rightarrow> calls \<Rightarrow> calls) \<Rightarrow> 'a list \<Rightarrow> 'a list \<Rightarrow> calls \<Rightarrow>
     'a list \<times> calls" where
  "foreach_remove cmp P act [] t h = (t, h)"
| "foreach_remove cmp P act (e # es) t h =
     (if P e then foreach_remove cmp P act es (rb_remove cmp e t) (act e h)
      else foreach_remove cmp P act es t h)"

definition gpu_dmabuf_invalidate_range ::
    "gpu_dmabuf_domain \<Rightarrow> calls \<Rightarrow> ptr \<Rightarrow> u64 \<Rightarrow> gpu_dmabuf_domain \<times> calls" where
  "gpu_dmabuf_invalidate_range gd h addr len =
     (if addr = 0 \<or> len = 0 then (gd, h)
      else let (mrs, h) = foreach_remove gpu_dmabuf_mr_compare
                  (\<lambda>e. gpu_dmabuf_range_overlaps e addr len) gpu_dmabuf_dereg_mr
                  (mr_cache gd) (mr_cache gd) h;
               (rgs, h) = foreach_remove gpu_dmabuf_region_compare
                  (\<lambda>r. gpu_dmabuf_region_overlaps r addr len) (\<lambda>r. free)
                  (regions gd) (regions gd) h
      in (gd\<lparr>mr_cache := mrs, regions := rgs\<rparr>, h))"

text \<open>The caller's options over the defaults; \<open>None\<close> is the \<open>-EINVAL\<close> of an empty structure.\<close>

definition gpu_dmabuf_merge_opts :: "gpu_env \<Rightarrow> gpu_dmabuf_opts option \<Rightarrow> gpu_dmabuf_opts option" where
  "gpu_dmabuf_merge_opts E opts_arg =
     (let d = spdk_gpu_dmabuf_memory_domain_get_opts E in
      case opts_arg of
        None \<Rightarrow> Some d
      | Some opts \<Rightarrow>
          if o_size opts = 0 then None
          else Some (d\<lparr>
            o_id := (if GPU_DMABUF_OPTS_HAS opts opts_end_id then o_id opts else o_id d),
            o_cuda_device_id := (if GPU_DMABUF_OPTS_HAS opts opts_end_cuda_device_id
                                 then o_cuda_device_id opts else o_cuda_device_id d),
            o_cuda_context := (if GPU_DMABUF_OPTS_HAS opts opts_end_cuda_context
                               then o_cuda_context opts else o_cuda_context d),
            o_rdma_access_flags :=
              (if GPU_DMABUF_OPTS_HAS opts opts_end_rdma_access_flags \<and> o_rdma_access_flags opts \<noteq> 0
               then o_rdma_access_flags opts else o_rdma_access_flags d)\<rparr>))"

text \<open>Acquiring the primary context of a configured device, with the two failures of the driver.\<close>

definition gpu_dmabuf_acquire_ctx ::
    "gpu_env \<Rightarrow> gpu_dmabuf_domain \<Rightarrow> calls \<Rightarrow> (int + gpu_dmabuf_domain) \<times> calls" where
  "gpu_dmabuf_acquire_ctx E gd h =
     (let (gpu_rc, h) = gpu_init E h in
      if gpu_rc \<noteq> GPU_SUCCESS then (Inl (- ENODEV), h)
      else if gd_cuda_ctx gd = 0 \<and> gd_cuda_device_id gd \<ge> 0
      then let (gpu_rc, cuda_device, h) = gpu_device_get E h (gd_cuda_device_id gd) in
           if gpu_rc \<noteq> GPU_SUCCESS then (Inl (- ENODEV), h)
           else let (gpu_rc, ctx, h) = gpu_device_primary_ctx_retain E h cuda_device in
           if gpu_rc \<noteq> GPU_SUCCESS then (Inl (- ENODEV), h)
           else (Inr (gd\<lparr>gd_cuda_ctx := ctx, owns_cuda_ctx := True\<rparr>), h)
      else (Inr gd, h))"

definition SPDK_GPU_DMABUF_DMA_DEVICE :: string where
  "SPDK_GPU_DMABUF_DMA_DEVICE = ''SPDK_GPU_DMABUF_DMA_DEVICE''"

text \<open>The last part of \<open>create\<close>: the SPDK memory domain, its callback, and the list of domains.\<close>

definition gpu_dmabuf_publish ::
    "gpu_env \<Rightarrow> gpu_state \<Rightarrow> gpu_dmabuf_domain \<Rightarrow> calls \<Rightarrow> string option \<Rightarrow> (int + ptr) \<times> gpu_state" where
  "gpu_dmabuf_publish E s gd h dev_name =
     (let name = (case dev_name of None \<Rightarrow> SPDK_GPU_DMABUF_DMA_DEVICE | Some n \<Rightarrow> n);
          (rc, dm) = spdk_memory_domain_create E h name;
          h = Call_spdk_memory_domain_create rc dm # h
      in if rc \<noteq> 0
         then (let h = (if owns_cuda_ctx gd
                        then gpu_device_primary_ctx_release E h (gd_cuda_device_id gd) else h)
               in (Inl rc, s\<lparr>g_calls := free h\<rparr>))
         else (Inr dm,
               s\<lparr>g_domains := g_domains s @ [gd\<lparr>gd_domain := dm\<rparr>],
                 g_calls := Call_spdk_memory_domain_set_translation dm # h\<rparr>))"

text \<open>\<open>create\<close> returns its code and, on success, the pointer stored through \<open>domain\<close>.\<close>

definition spdk_gpu_dmabuf_memory_domain_create ::
    "gpu_env \<Rightarrow> gpu_state \<Rightarrow> bool \<Rightarrow> gpu_dmabuf_opts option \<Rightarrow> (int + ptr) \<times> gpu_state" where
  "spdk_gpu_dmabuf_memory_domain_create E s domain_is_null opts_arg =
     (if domain_is_null then (Inl (- EINVAL), s)
      else case gpu_dmabuf_merge_opts E opts_arg of
        None \<Rightarrow> (Inl (- EINVAL), s)
      | Some local_opts \<Rightarrow>
          if o_cuda_device_id local_opts < - 1 then (Inl (- EINVAL), s)
          else let (ok, h) = calloc E (g_calls s) in
          if \<not> ok then (Inl (- ENOMEM), s\<lparr>g_calls := h\<rparr>)
          else let gd = \<lparr>gd_domain = 0, mr_cache = [], regions = [], cuda_ctxs = [],
                         gd_cuda_device_id = o_cuda_device_id local_opts,
                         gd_cuda_ctx = o_cuda_context local_opts, owns_cuda_ctx = False,
                         gd_rdma_access_flags = o_rdma_access_flags local_opts\<rparr>
          in case gpu_dmabuf_acquire_ctx E gd h of
            (Inl rc, h) \<Rightarrow> (Inl rc, s\<lparr>g_calls := free h\<rparr>)
          | (Inr gd, h) \<Rightarrow> gpu_dmabuf_publish E s gd h (o_id local_opts))"

definition spdk_gpu_dmabuf_memory_domain_invalidate ::
    "gpu_state \<Rightarrow> ptr \<Rightarrow> ptr \<Rightarrow> u64 \<Rightarrow> gpu_state" where
  "spdk_gpu_dmabuf_memory_domain_invalidate s domain addr len =
     (case gpu_dmabuf_domain_find s domain of
        None \<Rightarrow> s
      | Some gd \<Rightarrow>
          (let (gd, h) = gpu_dmabuf_invalidate_range gd (g_calls s) addr len
           in put_domain s domain gd h))"

fun remove_domain :: "ptr \<Rightarrow> gpu_dmabuf_domain list \<Rightarrow> gpu_dmabuf_domain list" where
  "remove_domain domain [] = []"
| "remove_domain domain (g # gs) =
     (if gd_domain g = domain then gs else g # remove_domain domain gs)"

definition spdk_gpu_dmabuf_memory_domain_destroy :: "gpu_env \<Rightarrow> gpu_state \<Rightarrow> ptr \<Rightarrow> gpu_state" where
  "spdk_gpu_dmabuf_memory_domain_destroy E s domain =
     (case gpu_dmabuf_domain_find s domain of
        None \<Rightarrow> s
      | Some gd \<Rightarrow>
          (let (mrs, h) = foreach_remove gpu_dmabuf_mr_compare (\<lambda>e. True) gpu_dmabuf_dereg_mr
                  (mr_cache gd) (mr_cache gd) (g_calls s);
               (rgs, h) = foreach_remove gpu_dmabuf_region_compare (\<lambda>r. True) (\<lambda>r. free)
                  (regions gd) (regions gd) h;
               h = Call_spdk_memory_domain_destroy (gd_domain gd) # h;
               h = (if owns_cuda_ctx gd
                    then gpu_device_primary_ctx_release E h (gd_cuda_device_id gd) else h);
               h = free (gpu_dmabuf_release_cuda_ctxs E (cuda_ctxs gd) h)
           in s\<lparr>g_domains := remove_domain domain (g_domains s), g_calls := h\<rparr>))"

end
