(* ===== verification/Gpu_Dmabuf_Inv.thy ===== *)
theory Gpu_Dmabuf_Inv
  imports Gpu_Dmabuf
begin

text \<open>
  Correctness of the GPU dma-buf domain.

  The comparison functions make both trees interval trees, so the lookups decide containment
  and overlap (first section).  The invariant \<open>domain_inv\<close> says that the declared regions are
  disjoint and that every cached MR is registered for exactly one of them; each operation
  keeps it (second section).  The trace functions count MRs, dma-buf descriptors, retained
  contexts and heap blocks, and the resource invariant says that what is live is what the
  domains hold (third section).
\<close>

section \<open>The lookups\<close>

abbreviation region_lo :: "gpu_dmabuf_region \<Rightarrow> nat" where
  "region_lo r \<equiv> unat (rg_addr r)"

abbreviation region_hi :: "gpu_dmabuf_region \<Rightarrow> nat" where
  "region_hi r \<equiv> unat (rg_addr r) + unat (rg_len r)"

abbreviation mr_lo :: "gpu_dmabuf_mr \<Rightarrow> nat" where
  "mr_lo e \<equiv> unat (mr_addr e)"

abbreviation mr_hi :: "gpu_dmabuf_mr \<Rightarrow> nat" where
  "mr_hi e \<equiv> unat (mr_addr e) + unat (mr_len e)"

interpretation mr_tree: interval_tree gpu_dmabuf_mr_compare mr_lo mr_hi
  "\<lambda>e. (mr_device_id e, mr_pd e)"
  by unfold_locales
    (auto simp: gpu_dmabuf_mr_compare_def word_less_nat_alt split: if_splits)

interpretation region_tree: interval_tree gpu_dmabuf_region_compare region_lo region_hi "\<lambda>_. ()"
  by unfold_locales
    (auto simp: gpu_dmabuf_region_compare_def word_less_nat_alt split: if_splits)

text \<open>Well-formed regions: in tree order, non-empty, disjoint, and none wraps around.\<close>

definition regions_ok :: "gpu_dmabuf_region list \<Rightarrow> bool" where
  "regions_ok rs \<longleftrightarrow> region_tree.ordered rs \<and> region_tree.separated (set rs) \<and>
     (\<forall>r \<in> set rs. no_wrap (rg_addr r) (rg_len r))"

text \<open>Well-formed MRs: in tree order, none null, and each covers one declared region exactly.\<close>

definition mrs_ok :: "gpu_dmabuf_region list \<Rightarrow> gpu_dmabuf_mr list \<Rightarrow> bool" where
  "mrs_ok rs ms \<longleftrightarrow> mr_tree.ordered ms \<and>
     (\<forall>e \<in> set ms. mr_mr e \<noteq> None \<and>
        (\<exists>r \<in> set rs. rg_addr r = mr_addr e \<and> rg_len r = mr_len e \<and> rg_device_id r = mr_device_id e))"

definition domain_inv :: "gpu_dmabuf_domain \<Rightarrow> bool" where
  "domain_inv gd \<longleftrightarrow> regions_ok (regions gd) \<and> mrs_ok (regions gd) (mr_cache gd)"

lemma mrs_ok_separated:
  assumes "regions_ok rs" "mrs_ok rs ms"
  shows "mr_tree.separated (set ms)"
  unfolding mr_tree.separated_def
proof (intro conjI ballI impI)
  fix e assume "e \<in> set ms"
  with assms obtain r where "r \<in> set rs" "rg_addr r = mr_addr e" "rg_len r = mr_len e"
    by (auto simp: mrs_ok_def)
  with assms(1) show "mr_lo e < mr_hi e"
    by (auto simp: regions_ok_def region_tree.separated_def)
next
  fix e f
  assume ef: "e \<in> set ms" "f \<in> set ms" "(mr_device_id e, mr_pd e) = (mr_device_id f, mr_pd f)" "e \<noteq> f"
  from assms(2) ef obtain r q where r: "r \<in> set rs" "rg_addr r = mr_addr e" "rg_len r = mr_len e"
    and q: "q \<in> set rs" "rg_addr q = mr_addr f" "rg_len q = mr_len f"
    unfolding mrs_ok_def by metis
  have "mr_addr e \<noteq> mr_addr f"
    using mr_tree.ordered_unique [of ms e f] assms(2) ef by (auto simp: mrs_ok_def mr_tree.cmp_eq)
  with r q have "r \<noteq> q" by auto
  with r(1) q(1) assms(1) have "region_hi r \<le> region_lo q \<or> region_hi q \<le> region_lo r"
    unfolding regions_ok_def region_tree.separated_def by blast
  with r q show "mr_hi e \<le> mr_lo f \<or> mr_hi f \<le> mr_lo e" by simp
qed

text \<open>\<open>gpu_dmabuf_find_region\<close> returns the region that contains the range, whenever there is one.\<close>

lemma find_region_iff:
  assumes "regions_ok (regions gd)" "0 < unat len"
  shows "gpu_dmabuf_find_region gd addr len = Some r \<longleftrightarrow>
    r \<in> set (regions gd) \<and> gpu_dmabuf_region_contains r addr len"
  unfolding gpu_dmabuf_find_region_def Let_def
  using assms
  by (intro region_tree.probe_stab)
    (auto simp: regions_ok_def gpu_dmabuf_region_contains_def range_contains_nat)

lemma find_region_None_iff:
  assumes "regions_ok (regions gd)" "0 < unat len"
  shows "gpu_dmabuf_find_region gd addr len = None \<longleftrightarrow>
    (\<forall>r \<in> set (regions gd). \<not> gpu_dmabuf_region_contains r addr len)"
  using find_region_iff [OF assms] by (metis not_None_eq)

lemma find_overlapping_region_None_iff:
  assumes "regions_ok (regions gd)" "0 < unat len" "no_wrap addr len"
  shows "gpu_dmabuf_find_overlapping_region gd addr len = None \<longleftrightarrow>
    (\<forall>r \<in> set (regions gd). \<not> gpu_dmabuf_region_overlaps r addr len)"
  unfolding gpu_dmabuf_find_overlapping_region_def Let_def
  using assms
  by (intro region_tree.probe_overlap [where n = "unat len"])
    (auto simp: regions_ok_def gpu_dmabuf_region_overlaps_def range_overlaps_nat
      region_tree.separated_def)

lemma mrs_no_wrap:
  "regions_ok rs \<Longrightarrow> mrs_ok rs ms \<Longrightarrow> e \<in> set ms \<Longrightarrow> no_wrap (mr_addr e) (mr_len e)"
  by (fastforce simp: regions_ok_def mrs_ok_def)

text \<open>\<open>gpu_dmabuf_find_mr\<close> returns the cached MR of the device and protection domain that contains the range.\<close>

lemma find_mr_iff:
  assumes "domain_inv gd" "0 < unat len"
  shows "gpu_dmabuf_find_mr gd dev pd addr len = Some e \<longleftrightarrow>
    e \<in> set (mr_cache gd) \<and> mr_device_id e = dev \<and> mr_pd e = pd \<and> gpu_dmabuf_range_contains e addr len"
  unfolding gpu_dmabuf_find_mr_def Let_def
  using assms
  by (intro mr_tree.probe_stab)
    (auto simp: domain_inv_def mrs_ok_def mrs_ok_separated mrs_no_wrap
      gpu_dmabuf_range_contains_def range_contains_nat)

lemma find_overlapping_mr_None_iff:
  assumes "domain_inv gd" "0 < unat len" "no_wrap addr len"
  shows "gpu_dmabuf_find_overlapping_mr gd dev pd addr len = None \<longleftrightarrow>
    (\<forall>e \<in> set (mr_cache gd). mr_device_id e = dev \<and> mr_pd e = pd \<longrightarrow> \<not> gpu_dmabuf_range_overlaps e addr len)"
proof -
  have "mr_tree.ordered (mr_cache gd)" "mr_tree.separated (set (mr_cache gd))"
    using assms(1) by (auto simp: domain_inv_def mrs_ok_def intro: mrs_ok_separated)
  moreover have "gpu_dmabuf_range_overlaps e addr len \<longleftrightarrow>
      unat addr < mr_hi e \<and> mr_lo e < unat addr + unat len" if "e \<in> set (mr_cache gd)" for e
  proof -
    have "no_wrap (mr_addr e) (mr_len e)" "mr_lo e < mr_hi e"
      using assms(1) that mrs_no_wrap mrs_ok_separated
      by (auto simp: domain_inv_def mr_tree.separated_def)
    with assms(2,3) show ?thesis
      by (auto simp: gpu_dmabuf_range_overlaps_def range_overlaps_nat)
  qed
  ultimately show ?thesis
    unfolding gpu_dmabuf_find_overlapping_mr_def Let_def
    using assms(2) by (subst mr_tree.probe_overlap [where n = "unat len"]) auto
qed

section \<open>Resources in the trace\<close>

text \<open>MRs registered and not deregistered, descriptors exported and not closed, contexts retained
  and not released, heap blocks allocated and not freed.\<close>

fun live_mrs :: "calls \<Rightarrow> ibv_mr multiset" where
  "live_mrs [] = {#}"
| "live_mrs (Call_ibv_reg_dmabuf_mr a (Some m) # h) = add_mset m (live_mrs h)"
| "live_mrs (Call_ibv_dereg_mr m # h) = live_mrs h - {#m#}"
| "live_mrs (c # h) = live_mrs h"

fun open_fds :: "calls \<Rightarrow> int multiset" where
  "open_fds [] = {#}"
| "open_fds (Call_MemGetHandleForAddressRange b n r fd # h) =
     (if r = GPU_SUCCESS then add_mset fd (open_fds h) else open_fds h)"
| "open_fds (Call_close fd # h) = open_fds h - {#fd#}"
| "open_fds (c # h) = open_fds h"

fun held_ctxs :: "calls \<Rightarrow> int multiset" where
  "held_ctxs [] = {#}"
| "held_ctxs (Call_cuDevicePrimaryCtxRetain d r # h) =
     (if r = GPU_SUCCESS then add_mset d (held_ctxs h) else held_ctxs h)"
| "held_ctxs (Call_cuDevicePrimaryCtxRelease d # h) = held_ctxs h - {#d#}"
| "held_ctxs (c # h) = held_ctxs h"

fun heap_blocks :: "calls \<Rightarrow> int" where
  "heap_blocks [] = 0"
| "heap_blocks (Call_calloc ok # h) = (if ok then heap_blocks h + 1 else heap_blocks h)"
| "heap_blocks (Call_free # h) = heap_blocks h - 1"
| "heap_blocks (c # h) = heap_blocks h"

text \<open>No release without a matching acquisition: nothing is deregistered, closed or released twice.\<close>

fun calls_ok :: "calls \<Rightarrow> bool" where
  "calls_ok [] = True"
| "calls_ok (Call_ibv_dereg_mr m # h) = (m \<in># live_mrs h \<and> calls_ok h)"
| "calls_ok (Call_close fd # h) = (fd \<in># open_fds h \<and> calls_ok h)"
| "calls_ok (Call_cuDevicePrimaryCtxRelease d # h) = (d \<in># held_ctxs h \<and> calls_ok h)"
| "calls_ok (c # h) = calls_ok h"

text \<open>A stretch of calls with no net effect on any resource.\<close>

definition quiet :: "calls \<Rightarrow> calls \<Rightarrow> bool" where
  "quiet h h' \<longleftrightarrow> live_mrs h' = live_mrs h \<and> open_fds h' = open_fds h \<and> held_ctxs h' = held_ctxs h \<and>
     heap_blocks h' = heap_blocks h \<and> calls_ok h' = calls_ok h"

lemma quiet_refl [simp]: "quiet h h"
  by (simp add: quiet_def)

lemma quiet_trans [trans]: "quiet h h1 \<Longrightarrow> quiet h1 h2 \<Longrightarrow> quiet h h2"
  by (simp add: quiet_def)

text \<open>
  The code retains a context for the device \<open>cuDeviceGet\<close> returned and releases it for the
  ordinal it asked for, so it relies on the two being the same.
\<close>

definition device_is_ordinal :: "gpu_env \<Rightarrow> bool" where
  "device_is_ordinal E \<longleftrightarrow> (\<forall>h d. fst (cuDeviceGet E h d) = GPU_SUCCESS \<longrightarrow> snd (cuDeviceGet E h d) = d)"

text \<open>The retained contexts of a list of devices: the MACA wrappers retain none.\<close>

definition ctx_refs :: "gpu_env \<Rightarrow> int list \<Rightarrow> int multiset" where
  "ctx_refs E ds = (case backend E of MACA \<Rightarrow> {#} | CUDA \<Rightarrow> mset ds)"

lemma ctx_refs_Nil [simp]: "ctx_refs E [] = {#}"
  by (simp add: ctx_refs_def split: gpu_backend.splits)

lemma ctx_refs_append: "ctx_refs E (ds @ es) = ctx_refs E ds + ctx_refs E es"
  by (simp add: ctx_refs_def split: gpu_backend.splits)

lemma ctx_refs_Cons: "ctx_refs E (d # es) = ctx_refs E [d] + ctx_refs E es"
  by (simp add: ctx_refs_def split: gpu_backend.splits)

subsection \<open>The effect of the helpers\<close>

lemma retain_effect:
  assumes "gpu_device_primary_ctx_retain E h d = (r, ctx, h')"
  shows "live_mrs h' = live_mrs h" "open_fds h' = open_fds h" "heap_blocks h' = heap_blocks h"
    "calls_ok h' = calls_ok h"
    "held_ctxs h' = held_ctxs h + (if r = GPU_SUCCESS then ctx_refs E [d] else {#})"
  using assms
  by (auto simp: gpu_device_primary_ctx_retain_def ctx_refs_def Let_def
      split: gpu_backend.splits prod.splits if_splits)

lemma release_effect:
  assumes "ctx_refs E [d] \<subseteq># held_ctxs h"
  shows "live_mrs (gpu_device_primary_ctx_release E h d) = live_mrs h"
    "open_fds (gpu_device_primary_ctx_release E h d) = open_fds h"
    "heap_blocks (gpu_device_primary_ctx_release E h d) = heap_blocks h"
    "calls_ok (gpu_device_primary_ctx_release E h d) = calls_ok h"
    "held_ctxs (gpu_device_primary_ctx_release E h d) = held_ctxs h - ctx_refs E [d]"
  using assms
  by (auto simp: gpu_device_primary_ctx_release_def ctx_refs_def split: gpu_backend.splits)

lemma device_get_quiet: "gpu_device_get E h d = (r, dev, h') \<Longrightarrow> quiet h h'"
  by (auto simp: gpu_device_get_def quiet_def Let_def split: gpu_backend.splits prod.splits)

lemma device_get_ordinal:
  "device_is_ordinal E \<Longrightarrow> gpu_device_get E h d = (GPU_SUCCESS, dev, h') \<Longrightarrow> dev = d"
  unfolding device_is_ordinal_def
  by (cases "cuDeviceGet E h d") (auto simp: gpu_device_get_def split: gpu_backend.splits dest: spec2 [of _ h d])

lemma init_quiet: "gpu_init E h = (r, h') \<Longrightarrow> quiet h h'"
  by (auto simp: gpu_init_def quiet_def split: gpu_backend.splits)

lemma pointer_attribute_quiet: "gpu_pointer_get_attribute E h p = (r, d, h') \<Longrightarrow> quiet h h'"
  by (auto simp: gpu_pointer_get_attribute_def quiet_def Let_def split: gpu_backend.splits prod.splits)

lemma set_current_quiet: "gpu_ctx_set_current E h c = (r, h') \<Longrightarrow> quiet h h'"
  by (auto simp: gpu_ctx_set_current_def quiet_def Let_def split: gpu_backend.splits)

lemma get_current_quiet: "gpu_ctx_get_current E h = (r, c, h') \<Longrightarrow> quiet h h'"
  by (auto simp: gpu_ctx_get_current_def quiet_def Let_def split: gpu_backend.splits prod.splits)

lemma address_range_quiet: "gpu_mem_get_address_range E h p = (r, b, n, h') \<Longrightarrow> quiet h h'"
  by (auto simp: gpu_mem_get_address_range_def quiet_def Let_def split: prod.splits)

lemma restore_quiet: "quiet h (gpu_dmabuf_restore_cuda_ctx E h c b)"
  using set_current_quiet [of E h c] by (cases "gpu_ctx_set_current E h c") (simp add: gpu_dmabuf_restore_cuda_ctx_def)

lemma restore_quiet_from: "quiet h h1 \<Longrightarrow> quiet h (gpu_dmabuf_restore_cuda_ctx E h1 c b)"
  using restore_quiet quiet_trans by blast

lemma set_cuda_ctx_quiet: "gpu_dmabuf_set_cuda_ctx E h c = (r, h') \<Longrightarrow> quiet h h'"
  by (auto simp: gpu_dmabuf_set_cuda_ctx_def Let_def split: prod.splits if_splits
      dest!: get_current_quiet set_current_quiet intro: quiet_trans)

lemma ptr_device_id_quiet: "gpu_dmabuf_get_ptr_device_id E gd h a = (r, h') \<Longrightarrow> quiet h h'"
  by (auto simp: gpu_dmabuf_get_ptr_device_id_def Let_def split: prod.splits if_splits
      dest!: pointer_attribute_quiet)

text \<open>Exporting opens one descriptor on success and nothing otherwise.\<close>

lemma export_effect:
  assumes "gpu_dmabuf_export E h prev ch addr len = (r, h')"
  shows "case r of Inl rc \<Rightarrow> quiet h h'
    | Inr (off, fd) \<Rightarrow> \<exists>b n h1. quiet h h1 \<and> quiet (Call_MemGetHandleForAddressRange b n GPU_SUCCESS fd # h1) h' \<and>
        off = addr - b \<and> b \<le> addr \<and> unat off + unat len \<le> unat n"
proof -
  obtain rc b n h1 where ar: "gpu_mem_get_address_range E h addr = (rc, b, n, h1)"
    by (metis prod_cases4)
  then have q1: "quiet h h1" by (rule address_range_quiet)
  obtain rc2 fd h2 where gh: "gpu_mem_get_handle_for_address_range E h1 b n = (rc2, fd, h2)"
    by (metis prod_cases3)
  then have h2: "h2 = Call_MemGetHandleForAddressRange b n rc2 fd # h1"
    by (auto simp: gpu_mem_get_handle_for_address_range_def Let_def split: prod.splits)
  have q2: "quiet h h2" if "rc2 \<noteq> GPU_SUCCESS" using that h2 q1 by (simp add: quiet_def)
  have rg: "unat (addr - b) + unat len \<le> unat n"
    if "\<not> (n < addr - b \<or> n - (addr - b) < len)"
  proof -
    from that have "unat (addr - b) \<le> unat n" "unat len \<le> unat (n - (addr - b))"
      by (simp_all add: word_le_nat_alt not_less)
    then show ?thesis by (simp add: unat_sub_if')
  qed
  show ?thesis
  proof (cases "rc = GPU_SUCCESS \<and> b \<le> addr \<and> \<not> (n < addr - b \<or> n - (addr - b) < len) \<and> rc2 = GPU_SUCCESS")
    case True
    with assms ar gh have "r = Inr (addr - b, fd)" "h' = gpu_dmabuf_restore_cuda_ctx E h2 prev ch"
      by (auto simp: gpu_dmabuf_export_def Let_def not_less [symmetric] split: if_splits)
    with True h2 q1 rg restore_quiet [of h2 E prev ch] show ?thesis
      by (auto intro!: exI [of _ b] exI [of _ n] exI [of _ h1])
  next
    case False
    with assms ar gh q1 q2 show ?thesis
      by (auto simp: gpu_dmabuf_export_def Let_def not_less not_le split: if_splits
          intro: restore_quiet_from)
  qed
qed

text \<open>What a call may change of a domain besides its trees: contexts are appended, and held.\<close>

definition ctx_step ::
    "gpu_env \<Rightarrow> gpu_dmabuf_domain \<Rightarrow> calls \<Rightarrow> gpu_dmabuf_domain \<Rightarrow> calls \<Rightarrow> bool" where
  "ctx_step E gd h gd' h' \<longleftrightarrow>
     (\<exists>new. gd' = gd\<lparr>cuda_ctxs := cuda_ctxs gd @ new\<rparr> \<and>
        (device_is_ordinal E \<longrightarrow> held_ctxs h' = held_ctxs h + ctx_refs E (map cc_device_id new)) \<and>
        heap_blocks h' = heap_blocks h + int (length new) \<and>
        live_mrs h' = live_mrs h \<and> open_fds h' = open_fds h \<and> calls_ok h' = calls_ok h)"

lemma ctx_step_same: "quiet h h' \<Longrightarrow> ctx_step E gd h gd h'"
  unfolding ctx_step_def quiet_def by (intro exI [of _ "[]"]) simp

lemma ctx_step_quiet: "ctx_step E gd h gd' h1 \<Longrightarrow> quiet h1 h2 \<Longrightarrow> ctx_step E gd h gd' h2"
  by (auto simp: ctx_step_def quiet_def)

lemma get_cuda_ctx_effect:
  assumes g: "gpu_dmabuf_get_cuda_ctx E gd h dev = (r, gd', h')"
  shows "ctx_step E gd h gd' h'"
proof (cases "gd_cuda_ctx gd \<noteq> 0 \<or> dev < 0 \<or> find (\<lambda>c. cc_device_id c = dev) (cuda_ctxs gd) \<noteq> None \<or> \<not> calloc_ok E h")
  case True
  with g show ?thesis
    by (auto simp: gpu_dmabuf_get_cuda_ctx_def calloc_def quiet_def intro!: ctx_step_same
        split: if_splits option.splits)
next
  case False
  let ?h1 = "Call_calloc True # h"
  obtain rc1 cd h2 where dg: "gpu_device_get E ?h1 dev = (rc1, cd, h2)" by (metis prod_cases3)
  obtain rc2 ctx h3 where re: "gpu_device_primary_ctx_retain E h2 cd = (rc2, ctx, h3)" by (metis prod_cases3)
  note q = device_get_quiet [OF dg] and e = retain_effect [OF re]
  show ?thesis
  proof (cases "rc1 = GPU_SUCCESS \<and> rc2 = GPU_SUCCESS")
    case True
    with False g dg re have gd': "gd' = gd\<lparr>cuda_ctxs := cuda_ctxs gd @ [\<lparr>cc_device_id = dev, cc_cuda_ctx = ctx\<rparr>]\<rparr>"
      and h': "h' = h3"
      by (auto simp: gpu_dmabuf_get_cuda_ctx_def calloc_def)
    from True dg have "device_is_ordinal E \<Longrightarrow> cd = dev" by (auto dest: device_get_ordinal)
    with True q e gd' h' show ?thesis
      unfolding ctx_step_def
      by (intro exI [of _ "[\<lparr>cc_device_id = dev, cc_cuda_ctx = ctx\<rparr>]"]) (simp add: quiet_def)
  next
    case fail: False
    with False g dg re have "gd' = gd" "quiet h h'"
      using q e by (auto simp: gpu_dmabuf_get_cuda_ctx_def calloc_def free_def quiet_def split: if_splits)
    then show ?thesis by (simp add: ctx_step_same)
  qed
qed

text \<open>
  \<open>gpu_dmabuf_register_mr\<close>: it fails with nothing gained, or caches an MR for exactly the
  range it was asked for, registered inside the exported allocation.
\<close>

definition reg_step ::
    "gpu_env \<Rightarrow> gpu_dmabuf_domain \<Rightarrow> calls \<Rightarrow> int \<Rightarrow> ptr \<Rightarrow> ptr \<Rightarrow> u64 \<Rightarrow>
     gpu_dmabuf_mr \<Rightarrow> gpu_dmabuf_domain \<Rightarrow> calls \<Rightarrow> bool" where
  "reg_step E gd h dev pd addr len e gd' h' \<longleftrightarrow>
     (\<exists>m gd1 h1. ctx_step E gd h gd1 h1 \<and>
        e = \<lparr>mr_addr = addr, mr_len = len, mr_device_id = dev, mr_pd = pd, mr_mr = Some m\<rparr> \<and>
        fst (rb_insert gpu_dmabuf_mr_compare e (mr_cache gd)) = None \<and>
        gd' = gd1\<lparr>mr_cache := snd (rb_insert gpu_dmabuf_mr_compare e (mr_cache gd))\<rparr> \<and>
        live_mrs h' = add_mset m (live_mrs h1) \<and> heap_blocks h' = heap_blocks h1 + 1 \<and>
        held_ctxs h' = held_ctxs h1 \<and> open_fds h' = open_fds h1 \<and> calls_ok h' = calls_ok h1)"

lemma ctx_step_mr_cache: "ctx_step E gd h gd' h' \<Longrightarrow> mr_cache gd' = mr_cache gd \<and> regions gd' = regions gd"
  by (auto simp: ctx_step_def)

lemma ctx_step_alloc:
  "ctx_step E gd (Call_calloc True # h) gd' h1 \<Longrightarrow> quiet h1 h2 \<Longrightarrow> ctx_step E gd h gd' (free h2)"
  by (auto simp: ctx_step_def quiet_def free_def)

text \<open>The last step, entered with one descriptor open and one heap block for the entry.\<close>

lemma cache_mr_effect:
  assumes step: "ctx_step E gd (Call_calloc True # h) gd1 h1"
    and ex: "quiet (Call_MemGetHandleForAddressRange b n GPU_SUCCESS fd # h1) h2"
    and g: "gpu_dmabuf_cache_mr E gd1 h2 dev pd addr len off fd = (r, gd', h')"
  shows "case r of Inl rc \<Rightarrow> ctx_step E gd h gd' h' | Inr e \<Rightarrow> reg_step E gd h dev pd addr len e gd' h'"
proof -
  let ?args = "\<lparr>ra_pd = pd, ra_offset = off, ra_length = len, ra_iova = addr, ra_fd = fd,
    ra_access = gd_rdma_access_flags gd1\<rparr>"
  obtain mr en where ib: "ibv_reg_dmabuf_mr E h2 ?args = (mr, en)" by (metis surj_pair)
  let ?h3 = "Call_close fd # Call_ibv_reg_dmabuf_mr ?args mr # h2"
  note gd1 = ctx_step_mr_cache [OF step]
  show ?thesis
  proof (cases mr)
    case None
    then have "quiet h1 ?h3" using ex by (auto simp: quiet_def)
    with None g ib step show ?thesis
      by (auto simp: gpu_dmabuf_cache_mr_def Let_def intro: ctx_step_alloc)
  next
    case (Some m)
    let ?e = "\<lparr>mr_addr = addr, mr_len = len, mr_device_id = dev, mr_pd = pd, mr_mr = Some m\<rparr>"
    show ?thesis
    proof (cases "fst (rb_insert gpu_dmabuf_mr_compare ?e (mr_cache gd))")
      case old: (Some o)
      have "quiet h1 (Call_ibv_dereg_mr m # ?h3)" using ex Some by (auto simp: quiet_def)
      with old Some g ib step gd1 show ?thesis
        by (auto simp: gpu_dmabuf_cache_mr_def Let_def split: prod.splits intro: ctx_step_alloc)
    next
      case None
      with Some g ib gd1 have "r = Inr ?e" "h' = ?h3"
        "gd' = gd1\<lparr>mr_cache := snd (rb_insert gpu_dmabuf_mr_compare ?e (mr_cache gd))\<rparr>"
        by (auto simp: gpu_dmabuf_cache_mr_def Let_def split: prod.splits)
      moreover have "ctx_step E gd h gd1 (free h1)" using step by (auto intro: ctx_step_alloc)
      ultimately show ?thesis
        using None ex Some unfolding reg_step_def
        by (auto simp: quiet_def free_def intro!: exI [of _ m] exI [of _ gd1] exI [of _ "free h1"])
    qed
  qed
qed

lemma register_mr_effect:
  assumes g: "gpu_dmabuf_register_mr E gd h dev pd addr len = (r, gd', h')"
  shows "case r of Inl rc \<Rightarrow> ctx_step E gd h gd' h' | Inr e \<Rightarrow> reg_step E gd h dev pd addr len e gd' h'"
proof (cases "gpu_dmabuf_find_overlapping_mr gd dev pd addr len \<noteq> None \<or> \<not> calloc_ok E h")
  case True
  with g show ?thesis
    by (auto simp: gpu_dmabuf_register_mr_def calloc_def quiet_def intro!: ctx_step_same split: if_splits)
next
  case False
  note def = False g gpu_dmabuf_register_mr_def calloc_def
  obtain r1 gd1 h1 where c: "gpu_dmabuf_get_cuda_ctx E gd (Call_calloc True # h) dev = (r1, gd1, h1)"
    by (metis prod_cases3)
  note cs = get_cuda_ctx_effect [OF c]
  note fails = ctx_step_alloc [OF cs]
  consider (ctx) rc where "r1 = Inl rc"
    | (cur) ctx rc h2 where "r1 = Inr ctx" "gpu_dmabuf_set_cuda_ctx E h1 ctx = (Inl rc, h2)"
    | (exp) ctx prev ch h2 where "r1 = Inr ctx" "gpu_dmabuf_set_cuda_ctx E h1 ctx = (Inr (prev, ch), h2)"
    by (metis (no_types, opaque_lifting) surj_pair sum.exhaust)
  then show ?thesis
  proof cases
    case ctx
    with def c fails [OF quiet_refl] show ?thesis by auto
  next
    case cur
    with def c fails set_cuda_ctx_quiet [of E h1 ctx] show ?thesis by auto
  next
    case exp
    note q = set_cuda_ctx_quiet [OF exp(2)]
    obtain r2 h3 where ex: "gpu_dmabuf_export E h2 prev ch addr len = (r2, h3)" by (metis surj_pair)
    note x = export_effect [OF ex]
    show ?thesis
    proof (cases r2)
      case (Inl rc)
      with x q have "quiet h1 h3" by (auto intro: quiet_trans)
      with Inl def c exp ex fails show ?thesis by auto
    next
      case (Inr p)
      obtain off fd where p: "p = (off, fd)" by (metis surj_pair)
      with x Inr obtain b n h4 where "quiet h2 h4"
        and h3: "quiet (Call_MemGetHandleForAddressRange b n GPU_SUCCESS fd # h4) h3" by auto
      with q have "quiet (Call_MemGetHandleForAddressRange b n GPU_SUCCESS fd # h1) h3"
        by (auto simp: quiet_def)
      moreover have "gpu_dmabuf_cache_mr E gd1 h3 dev pd addr len off fd = (r, gd', h')"
        using Inr p def c exp ex by (simp add: gpu_dmabuf_register_mr_def calloc_def)
      ultimately show ?thesis by (rule cache_mr_effect [OF cs])
    qed
  qed
qed

end
