(* ===== verification/Gpu_Dmabuf_Ops.thy ===== *)
theory Gpu_Dmabuf_Ops
  imports Gpu_Dmabuf_Inv
begin

text \<open>
  The operations of the GPU dma-buf domain keep its invariant and its resource balance.

  \<open>holds\<close> says, of one domain and the calls made so far, that the live MRs, retained contexts
  and heap blocks are those of the domain plus a frame that belongs to others; every operation
  is shown to keep it for every frame.  The last section lifts both predicates to the list of
  domains and to every reachable state.
\<close>

section \<open>Removal from a tree while walking it\<close>

context rb_order
begin

lemma rb_remove_mid: "ordered (ls @ e # rs) \<Longrightarrow> rb_remove cmp e (ls @ e # rs) = ls @ rs"
  by (induction ls) (use cmp_refl cmp_flip in \<open>fastforce simp: sorted_wrt_append\<close>)+

lemma foreach_remove_from:
  "ordered (ls @ es) \<Longrightarrow>
    foreach_remove cmp P act es (ls @ es) h = (ls @ filter (\<lambda>e. \<not> P e) es, fold act (filter P es) h)"
proof (induction es arbitrary: ls h)
  case Nil
  then show ?case by simp
next
  case (Cons e es)
  then have "ordered (ls @ es)" by (auto simp: sorted_wrt_append)
  with Cons.prems Cons.IH [of ls] Cons.IH [of "ls @ [e]"] show ?case by (simp add: rb_remove_mid)
qed

lemma foreach_remove_filter:
  "ordered t \<Longrightarrow> foreach_remove cmp P act t t h = (filter (\<lambda>e. \<not> P e) t, fold act (filter P t) h)"
  using foreach_remove_from [of "[]" t] by simp

end

section \<open>The invariant of one domain\<close>

lemma domain_inv_ordered:
  "domain_inv gd \<Longrightarrow> mr_tree.ordered (mr_cache gd)"
  "domain_inv gd \<Longrightarrow> region_tree.ordered (regions gd)"
  by (simp_all add: domain_inv_def mrs_ok_def regions_ok_def)

lemma ctx_step_inv: "ctx_step E gd h gd' h' \<Longrightarrow> domain_inv gd' \<longleftrightarrow> domain_inv gd"
  by (auto simp: domain_inv_def dest: ctx_step_mr_cache)

lemma regions_ok_insert:
  assumes "regions_ok rs" "fst (rb_insert gpu_dmabuf_region_compare r rs) = None"
    and "no_wrap (rg_addr r) (rg_len r)" "0 < unat (rg_len r)"
    and "\<And>q. q \<in> set rs \<Longrightarrow> \<not> gpu_dmabuf_region_overlaps q (rg_addr r) (rg_len r)"
  shows "regions_ok (snd (rb_insert gpu_dmabuf_region_compare r rs))"
proof -
  have "region_hi r \<le> region_lo q \<or> region_hi q \<le> region_lo r" if "q \<in> set rs" for q
  proof -
    have "no_wrap (rg_addr q) (rg_len q)" "region_lo q < region_hi q"
      using assms(1) that by (auto simp: regions_ok_def region_tree.separated_def)
    with assms(3,4) assms(5) [OF that] show ?thesis
      by (auto simp: gpu_dmabuf_region_overlaps_def range_overlaps_nat)
  qed
  with assms show ?thesis
    by (auto simp: regions_ok_def region_tree.rb_insert_ordered region_tree.rb_insert_set
        intro!: region_tree.separated_insert)
qed

text \<open>A region declared, or found: it contains the range and has the device asked for.\<close>

lemma add_region_effect:
  assumes inv: "domain_inv gd" and len: "0 < unat len" "no_wrap addr len"
    and g: "gpu_dmabuf_add_region E gd h addr len dev = (r, gd', h')"
  shows "domain_inv gd' \<and>
    (case r of
       Inl rc \<Rightarrow> gd' = gd \<and> quiet h h'
     | Inr q \<Rightarrow> q \<in> set (regions gd') \<and> gpu_dmabuf_region_contains q addr len \<and> rg_device_id q = dev \<and>
         (gd' = gd \<and> h' = h \<or>
          q = \<lparr>rg_addr = addr, rg_len = len, rg_device_id = dev\<rparr> \<and>
          fst (rb_insert gpu_dmabuf_region_compare q (regions gd)) = None \<and>
          gd' = gd\<lparr>regions := snd (rb_insert gpu_dmabuf_region_compare q (regions gd))\<rparr> \<and>
          h' = Call_calloc True # h))"
proof (cases "gpu_dmabuf_find_region gd addr len = None \<and> gpu_dmabuf_find_overlapping_region gd addr len = None \<and>
    calloc_ok E h \<and> fst (rb_insert gpu_dmabuf_region_compare
      \<lparr>rg_addr = addr, rg_len = len, rg_device_id = dev\<rparr> (regions gd)) = None")
  case True
  let ?q = "\<lparr>rg_addr = addr, rg_len = len, rg_device_id = dev\<rparr>"
  let ?rs = "snd (rb_insert gpu_dmabuf_region_compare ?q (regions gd))"
  from True g have r: "r = Inr ?q" "gd' = gd\<lparr>regions := ?rs\<rparr>" "h' = Call_calloc True # h"
    by (auto simp: gpu_dmabuf_add_region_def calloc_def Let_def split: prod.splits)
  have set: "set ?rs = insert ?q (set (regions gd))" using True by (simp add: region_tree.rb_insert_set)
  have rok: "regions_ok (regions gd)" using inv by (simp add: domain_inv_def)
  with True len have "regions_ok ?rs"
    by (intro regions_ok_insert) (auto simp: find_overlapping_region_None_iff)
  moreover have "mrs_ok ?rs (mr_cache gd)" using inv set by (auto simp: domain_inv_def mrs_ok_def)
  ultimately show ?thesis
    using r set True len
    by (auto simp: domain_inv_def gpu_dmabuf_region_contains_def range_contains_nat)
next
  case False
  show ?thesis
  proof (cases "gpu_dmabuf_find_region gd addr len")
    case None
    with False g inv show ?thesis
      by (auto simp: gpu_dmabuf_add_region_def calloc_def free_def Let_def quiet_def
          split: if_splits prod.splits)
  next
    case (Some q)
    with inv len have "q \<in> set (regions gd) \<and> gpu_dmabuf_region_contains q addr len"
      by (simp add: domain_inv_def find_region_iff)
    with Some g inv show ?thesis
      by (auto simp: gpu_dmabuf_add_region_def split: if_splits)
  qed
qed

lemma mrs_ok_insert:
  assumes "mrs_ok rs ms" "mr_mr e \<noteq> None" "r \<in> set rs"
    and "rg_addr r = mr_addr e" "rg_len r = mr_len e" "rg_device_id r = mr_device_id e"
  shows "mrs_ok rs (snd (rb_insert gpu_dmabuf_mr_compare e ms))"
  using assms by (auto simp: mrs_ok_def mr_tree.rb_insert_ordered mr_tree.rb_insert_set)

lemma register_mr_inv:
  assumes inv: "domain_inv gd" and r: "r \<in> set (regions gd)"
    and g: "gpu_dmabuf_register_mr E gd h (rg_device_id r) pd (rg_addr r) (rg_len r) = (res, gd', h')"
  shows "domain_inv gd' \<and> regions gd' = regions gd"
proof (cases res)
  case (Inl rc)
  with register_mr_effect [OF g] inv show ?thesis
    by (auto simp: ctx_step_inv dest: ctx_step_mr_cache)
next
  case (Inr e)
  with register_mr_effect [OF g] have "reg_step E gd h (rg_device_id r) pd (rg_addr r) (rg_len r) e gd' h'"
    by simp
  with inv r show ?thesis
    by (auto simp: reg_step_def domain_inv_def intro!: mrs_ok_insert dest!: ctx_step_mr_cache)
qed

text \<open>Invalidation takes out exactly the MRs and regions that overlap the range.\<close>

lemma invalidate_range_filter:
  assumes "domain_inv gd" "gpu_dmabuf_invalidate_range gd h addr len = (gd', h')" "addr \<noteq> 0" "len \<noteq> 0"
  shows "gd' = gd\<lparr>mr_cache := filter (\<lambda>e. \<not> gpu_dmabuf_range_overlaps e addr len) (mr_cache gd),
                  regions := filter (\<lambda>r. \<not> gpu_dmabuf_region_overlaps r addr len) (regions gd)\<rparr>"
    and "h' = fold (\<lambda>r. free) (filter (\<lambda>r. gpu_dmabuf_region_overlaps r addr len) (regions gd))
           (fold gpu_dmabuf_dereg_mr (filter (\<lambda>e. gpu_dmabuf_range_overlaps e addr len) (mr_cache gd)) h)"
  using assms domain_inv_ordered [OF assms(1)]
  by (auto simp: gpu_dmabuf_invalidate_range_def mr_tree.foreach_remove_filter
      region_tree.foreach_remove_filter)

lemma invalidate_range_inv:
  assumes inv: "domain_inv gd" and g: "gpu_dmabuf_invalidate_range gd h addr len = (gd', h')"
  shows "domain_inv gd'"
proof (cases "addr = 0 \<or> len = 0")
  case True
  with g inv show ?thesis by (auto simp: gpu_dmabuf_invalidate_range_def)
next
  case False
  let ?R = "\<lambda>r. \<not> gpu_dmabuf_region_overlaps r addr len"
  from inv have "regions_ok (filter ?R (regions gd))"
    by (auto simp: domain_inv_def regions_ok_def region_tree.ordered_filter
        intro: region_tree.separated_subset)
  moreover from inv have
    "mrs_ok (filter ?R (regions gd)) (filter (\<lambda>e. \<not> gpu_dmabuf_range_overlaps e addr len) (mr_cache gd))"
    by (fastforce simp: domain_inv_def mrs_ok_def mr_tree.ordered_filter
        gpu_dmabuf_region_overlaps_def gpu_dmabuf_range_overlaps_def)
  ultimately show ?thesis
    using invalidate_range_filter [OF inv g] False by (simp add: domain_inv_def)
qed

section \<open>The resources of one domain\<close>

definition dom_mrs :: "gpu_dmabuf_domain \<Rightarrow> ibv_mr multiset" where
  "dom_mrs gd = mset (map (\<lambda>e. the (mr_mr e)) (mr_cache gd))"

definition dom_ctxs :: "gpu_env \<Rightarrow> gpu_dmabuf_domain \<Rightarrow> int multiset" where
  "dom_ctxs E gd = ctx_refs E (map cc_device_id (cuda_ctxs gd)) +
     (if owns_cuda_ctx gd then ctx_refs E [gd_cuda_device_id gd] else {#})"

definition dom_blocks :: "gpu_dmabuf_domain \<Rightarrow> int" where
  "dom_blocks gd = 1 + int (length (mr_cache gd) + length (regions gd) + length (cuda_ctxs gd))"

definition holds ::
    "gpu_env \<Rightarrow> gpu_dmabuf_domain \<Rightarrow> calls \<Rightarrow> ibv_mr multiset \<Rightarrow> int multiset \<Rightarrow> int \<Rightarrow> bool" where
  "holds E gd h M C n \<longleftrightarrow> live_mrs h = dom_mrs gd + M \<and> held_ctxs h = dom_ctxs E gd + C \<and>
     heap_blocks h = dom_blocks gd + n \<and> open_fds h = {#} \<and> calls_ok h"

lemma holds_quiet: "holds E gd h M C n \<Longrightarrow> quiet h h' \<Longrightarrow> holds E gd h' M C n"
  by (simp add: holds_def quiet_def)

lemma ctx_step_holds:
  "device_is_ordinal E \<Longrightarrow> ctx_step E gd h gd' h' \<Longrightarrow> holds E gd h M C n \<Longrightarrow> holds E gd' h' M C n"
  by (auto simp: ctx_step_def holds_def dom_mrs_def dom_ctxs_def dom_blocks_def ctx_refs_append)

lemma add_region_holds:
  assumes "domain_inv gd" "0 < unat len" "no_wrap addr len" "holds E gd h M C n"
    and g: "gpu_dmabuf_add_region E gd h addr len dev = (r, gd', h')"
  shows "holds E gd' h' M C n"
proof (cases r)
  case (Inl rc)
  with add_region_effect [OF assms(1-3) g] assms(4) show ?thesis by (auto intro: holds_quiet)
next
  case (Inr q)
  have "length (snd (rb_insert gpu_dmabuf_region_compare q (regions gd))) = Suc (length (regions gd))"
    if "fst (rb_insert gpu_dmabuf_region_compare q (regions gd)) = None"
    using region_tree.rb_insert_mset [OF that] by (metis size_add_mset size_mset)
  with add_region_effect [OF assms(1-3) g] assms(4) Inr show ?thesis
    by (auto simp: holds_def dom_mrs_def dom_ctxs_def dom_blocks_def)
qed

lemma register_mr_holds:
  assumes d: "device_is_ordinal E" and "holds E gd h M C n"
    and g: "gpu_dmabuf_register_mr E gd h dev pd addr len = (r, gd', h')"
  shows "holds E gd' h' M C n"
proof (cases r)
  case (Inl rc)
  with register_mr_effect [OF g] assms show ?thesis by (auto intro: ctx_step_holds)
next
  case (Inr e)
  with register_mr_effect [OF g] obtain m gd1 h1 where step: "ctx_step E gd h gd1 h1"
    and e: "mr_mr e = Some m" and new: "fst (rb_insert gpu_dmabuf_mr_compare e (mr_cache gd)) = None"
    and gd': "gd' = gd1\<lparr>mr_cache := snd (rb_insert gpu_dmabuf_mr_compare e (mr_cache gd))\<rparr>"
    and h': "live_mrs h' = add_mset m (live_mrs h1)" "heap_blocks h' = heap_blocks h1 + 1"
      "held_ctxs h' = held_ctxs h1" "open_fds h' = open_fds h1" "calls_ok h' = calls_ok h1"
    by (auto simp: reg_step_def)
  note ms = mr_tree.rb_insert_mset [OF new]
  have "dom_mrs gd' = add_mset m (dom_mrs gd1)"
    using ms gd' e ctx_step_mr_cache [OF step] by (simp add: dom_mrs_def)
  moreover have "dom_blocks gd' = dom_blocks gd1 + 1"
    using arg_cong [OF ms, of size] gd' ctx_step_mr_cache [OF step] by (simp add: dom_blocks_def)
  moreover have "dom_ctxs E gd' = dom_ctxs E gd1" using gd' by (simp add: dom_ctxs_def)
  ultimately show ?thesis
    using ctx_step_holds [OF d step assms(2)] h' by (simp add: holds_def)
qed

text \<open>Deregistering a list of MRs takes them, and their heap blocks, off the live ones.\<close>

lemma dereg_mrs_effect:
  assumes "\<forall>e \<in> set es. mr_mr e \<noteq> None" "mset (map (\<lambda>e. the (mr_mr e)) es) \<subseteq># live_mrs h"
  shows "live_mrs (fold gpu_dmabuf_dereg_mr es h) = live_mrs h - mset (map (\<lambda>e. the (mr_mr e)) es) \<and>
    held_ctxs (fold gpu_dmabuf_dereg_mr es h) = held_ctxs h \<and>
    open_fds (fold gpu_dmabuf_dereg_mr es h) = open_fds h \<and>
    calls_ok (fold gpu_dmabuf_dereg_mr es h) = calls_ok h \<and>
    heap_blocks (fold gpu_dmabuf_dereg_mr es h) = heap_blocks h - int (length es)"
  using assms
proof (induction es arbitrary: h)
  case Nil
  then show ?case by simp
next
  case (Cons e es)
  then obtain m where m: "mr_mr e = Some m" by auto
  with Cons.prems have "mset (map (\<lambda>e. the (mr_mr e)) es) \<subseteq># live_mrs (gpu_dmabuf_dereg_mr e h)"
    "m \<in># live_mrs h"
    by (auto simp: gpu_dmabuf_dereg_mr_def free_def insert_subset_eq_iff)
  with Cons.IH [of "gpu_dmabuf_dereg_mr e h"] Cons.prems(1) m show ?case
    by (simp add: gpu_dmabuf_dereg_mr_def free_def)
qed

lemma free_all_effect:
  "live_mrs (fold (\<lambda>r. free) rs h) = live_mrs h \<and> held_ctxs (fold (\<lambda>r. free) rs h) = held_ctxs h \<and>
   open_fds (fold (\<lambda>r. free) rs h) = open_fds h \<and> calls_ok (fold (\<lambda>r. free) rs h) = calls_ok h \<and>
   heap_blocks (fold (\<lambda>r. free) rs h) = heap_blocks h - int (length rs)"
  by (induction rs arbitrary: h) (simp_all add: free_def)

lemma domain_inv_mr_Some: "domain_inv gd \<Longrightarrow> e \<in> set (mr_cache gd) \<Longrightarrow> mr_mr e \<noteq> None"
  by (simp add: domain_inv_def mrs_ok_def)

lemma mset_map_split: "mset (map f xs) = mset (map f (filter P xs)) + mset (map f (filter (\<lambda>x. \<not> P x) xs))"
  by (induction xs) auto

lemma length_split: "length xs = length (filter P xs) + length (filter (\<lambda>x. \<not> P x) xs)"
  by (induction xs) auto

lemma invalidate_range_holds:
  assumes inv: "domain_inv gd" and h: "holds E gd h M C n"
    and g: "gpu_dmabuf_invalidate_range gd h addr len = (gd', h')"
  shows "holds E gd' h' M C n"
proof (cases "addr = 0 \<or> len = 0")
  case True
  with g h show ?thesis by (auto simp: gpu_dmabuf_invalidate_range_def)
next
  case False
  let ?P = "\<lambda>e. gpu_dmabuf_range_overlaps e addr len" and ?f = "\<lambda>e. the (mr_mr e)"
  note eq = invalidate_range_filter [OF inv g]
  note ms = mset_map_split [of ?f "mr_cache gd" ?P]
  have "mset (map ?f (filter ?P (mr_cache gd))) \<subseteq># live_mrs h"
    using h ms unfolding holds_def dom_mrs_def by simp
  note de = dereg_mrs_effect [OF _ this] and fr = free_all_effect
  show ?thesis
    using False eq h ms domain_inv_mr_Some [OF inv]
      length_split [of "mr_cache gd" ?P] length_split [of "regions gd" "\<lambda>r. gpu_dmabuf_region_overlaps r addr len"]
    by (simp add: de fr holds_def dom_mrs_def dom_ctxs_def dom_blocks_def)
qed

lemma release_ctxs_effect:
  assumes "ctx_refs E (map cc_device_id cs) \<subseteq># held_ctxs h"
  shows "live_mrs (gpu_dmabuf_release_cuda_ctxs E cs h) = live_mrs h \<and>
    open_fds (gpu_dmabuf_release_cuda_ctxs E cs h) = open_fds h \<and>
    calls_ok (gpu_dmabuf_release_cuda_ctxs E cs h) = calls_ok h \<and>
    held_ctxs (gpu_dmabuf_release_cuda_ctxs E cs h) = held_ctxs h - ctx_refs E (map cc_device_id cs) \<and>
    heap_blocks (gpu_dmabuf_release_cuda_ctxs E cs h) = heap_blocks h - int (length cs)"
  using assms
proof (induction cs arbitrary: h)
  case Nil
  then show ?case by simp
next
  case (Cons c cs)
  let ?d = "cc_device_id c"
  let ?h = "free (gpu_device_primary_ctx_release E h ?d)"
  note split = ctx_refs_Cons [of E ?d "map cc_device_id cs"]
  with Cons.prems obtain R where held: "held_ctxs h = ctx_refs E [?d] + ctx_refs E (map cc_device_id cs) + R"
    by (auto simp: mset_subset_eq_exists_conv)
  then have "ctx_refs E [?d] \<subseteq># held_ctxs h" by simp
  note r = release_effect [OF this]
  with held have "held_ctxs ?h = ctx_refs E (map cc_device_id cs) + R" by (simp add: free_def)
  with Cons.IH [of ?h] r split held show ?case by (simp add: free_def)
qed

section \<open>States\<close>

definition state_inv :: "gpu_state \<Rightarrow> bool" where
  "state_inv s \<longleftrightarrow> (\<forall>gd \<in> set (g_domains s). domain_inv gd)"

definition state_res :: "gpu_env \<Rightarrow> gpu_state \<Rightarrow> bool" where
  "state_res E s \<longleftrightarrow> live_mrs (g_calls s) = sum_list (map dom_mrs (g_domains s)) \<and>
     held_ctxs (g_calls s) = sum_list (map (dom_ctxs E) (g_domains s)) \<and>
     heap_blocks (g_calls s) = sum_list (map dom_blocks (g_domains s)) \<and>
     open_fds (g_calls s) = {#} \<and> calls_ok (g_calls s)"

lemma domain_find_split:
  assumes "gpu_dmabuf_domain_find s d = Some gd"
  obtains ls rs where "g_domains s = ls @ gd # rs" "gd_domain gd = d"
    "\<And>gd'. update_domain d gd' (g_domains s) = ls @ gd' # rs" "remove_domain d (g_domains s) = ls @ rs"
proof -
  have "\<exists>ls rs. gs = ls @ gd # rs \<and> gd_domain gd = d \<and>
      (\<forall>gd'. update_domain d gd' gs = ls @ gd' # rs) \<and> remove_domain d gs = ls @ rs"
    if "find (\<lambda>gd. gd_domain gd = d) gs = Some gd" for gs
    using that
  proof (induction gs)
    case (Cons g gs)
    show ?case
    proof (cases "gd_domain g = d")
      case True
      with Cons.prems show ?thesis by (intro exI [of _ "[]"] exI [of _ gs]) auto
    next
      case False
      with Cons obtain ls rs where "gs = ls @ gd # rs" "gd_domain gd = d"
        "\<forall>gd'. update_domain d gd' gs = ls @ gd' # rs" "remove_domain d gs = ls @ rs" by auto
      with False show ?thesis by (intro exI [of _ "g # ls"] exI [of _ rs]) auto
    qed
  qed simp
  with assms that show ?thesis unfolding gpu_dmabuf_domain_find_def by metis
qed

lemma state_inv_find: "state_inv s \<Longrightarrow> gpu_dmabuf_domain_find s d = Some gd \<Longrightarrow> domain_inv gd"
  by (auto simp: state_inv_def elim!: domain_find_split)

lemma put_domain_inv:
  assumes "gpu_dmabuf_domain_find s d = Some gd" "state_inv s" "domain_inv gd'"
  shows "state_inv (put_domain s d gd' h)"
  by (rule domain_find_split [OF assms(1)]) (use assms(2,3) in \<open>auto simp: state_inv_def put_domain_def\<close>)

text \<open>The resources of the state are those of one domain plus a frame.\<close>

lemma state_res_frame:
  assumes "g_domains s = ls @ gd # rs"
  shows "state_res E s \<longleftrightarrow> holds E gd (g_calls s) (sum_list (map dom_mrs (ls @ rs)))
    (sum_list (map (dom_ctxs E) (ls @ rs))) (sum_list (map dom_blocks (ls @ rs)))"
  unfolding state_res_def holds_def assms by (simp add: ac_simps)

lemma put_domain_res:
  assumes f: "gpu_dmabuf_domain_find s d = Some gd" and res: "state_res E s"
    and keep: "\<And>M C n. holds E gd (g_calls s) M C n \<Longrightarrow> holds E gd' h M C n"
  shows "state_res E (put_domain s d gd' h)"
proof -
  obtain ls rs where s: "g_domains s = ls @ gd # rs" "update_domain d gd' (g_domains s) = ls @ gd' # rs"
    using domain_find_split [OF f] by metis
  then have "g_domains (put_domain s d gd' h) = ls @ gd' # rs" by (simp add: put_domain_def)
  note state_res_frame [OF this] moreover note keep res state_res_frame [OF s(1)]
  ultimately show ?thesis by (simp add: put_domain_def)
qed

end
