(* ===== verification/Gpu_Dmabuf_Reach.thy ===== *)
theory Gpu_Dmabuf_Reach
  imports Gpu_Dmabuf_Ops
begin

text \<open>
  The public operations as a step relation, and what holds in every reachable state.

  A register step asks for a range that does not wrap around the address space; the code does
  not check this, and \<open>Gpu_Dmabuf_Props\<close> shows what a wrapping range does.
\<close>

section \<open>Each operation keeps the state invariant\<close>

lemma state_inv_calls [simp]: "state_inv (s\<lparr>g_calls := h\<rparr>) = state_inv s"
  by (simp add: state_inv_def)

lemma register_state_inv:
  assumes inv: "state_inv s" and nw: "no_wrap addr len"
    and g: "spdk_gpu_dmabuf_memory_domain_register E s d rd addr len = (rc, s')"
  shows "state_inv s'"
proof -
  have keep: "domain_inv gd2" if f: "gpu_dmabuf_domain_find s d = Some gd" and len: "len \<noteq> 0"
    and a: "gpu_dmabuf_add_region E gd h addr len dev = (Inr r, gd1, h1)"
    and m: "gpu_dmabuf_register_mr E gd1 h1 (rg_device_id r) pd (rg_addr r) (rg_len r) = (res, gd2, h2)"
    for gd h dev r gd1 h1 pd res gd2 h2
    using add_region_effect [OF state_inv_find [OF inv f] _ nw a] register_mr_inv [OF _ _ m] len
    by (auto simp: unat_gt_0)
  have keep1: "domain_inv gd1" if "gpu_dmabuf_domain_find s d = Some gd" "len \<noteq> 0"
    "gpu_dmabuf_add_region E gd h addr len dev = (r, gd1, h1)" for gd h dev r gd1 h1
    using add_region_effect [OF state_inv_find [OF inv that(1)] _ nw that(3)] that(2)
    by (auto simp: unat_gt_0)
  show ?thesis
    using g inv
    by (auto simp: spdk_gpu_dmabuf_memory_domain_register_def put_domain_inv keep keep1
        split: if_splits option.splits sum.splits prod.splits)
qed

lemma find_region_in: "gpu_dmabuf_find_region gd addr len = Some r \<Longrightarrow> r \<in> set (regions gd)"
  unfolding gpu_dmabuf_find_region_def Let_def by (rule rb_probe_in)

lemma translate_state_inv:
  assumes inv: "state_inv s" and g: "gpu_dmabuf_translate E s d dst addr len = (t, s')"
  shows "state_inv s'"
proof -
  have keep: "domain_inv gd1" if "gpu_dmabuf_domain_find s d = Some gd" "gpu_dmabuf_find_region gd addr len = Some r"
    "gpu_dmabuf_register_mr E gd h (rg_device_id r) pd (rg_addr r) (rg_len r) = (res, gd1, h1)"
    for gd h r pd res gd1 h1
    using register_mr_inv [OF state_inv_find [OF inv that(1)] find_region_in [OF that(2)] that(3)] by simp
  show ?thesis
    using g inv
    by (auto simp: gpu_dmabuf_translate_def put_domain_inv keep
        split: option.splits sum.splits prod.splits)
qed

lemma invalidate_state_inv:
  assumes "state_inv s"
  shows "state_inv (spdk_gpu_dmabuf_memory_domain_invalidate s d addr len)"
  using assms invalidate_range_inv [OF state_inv_find [OF assms]]
  by (auto simp: spdk_gpu_dmabuf_memory_domain_invalidate_def put_domain_inv split: option.splits prod.splits)

lemma destroy_state_inv:
  assumes "state_inv s"
  shows "state_inv (spdk_gpu_dmabuf_memory_domain_destroy E s d)"
  using assms
  by (auto simp: spdk_gpu_dmabuf_memory_domain_destroy_def Let_def state_inv_def
      split: option.splits prod.splits elim!: domain_find_split)

lemma acquire_ctx_trees:
  "gpu_dmabuf_acquire_ctx E gd h = (Inr gd', h') \<Longrightarrow> mr_cache gd' = mr_cache gd \<and> regions gd' = regions gd"
  by (auto simp: gpu_dmabuf_acquire_ctx_def Let_def split: prod.splits if_splits)

lemma create_state_inv:
  assumes "state_inv s" and g: "spdk_gpu_dmabuf_memory_domain_create E s b opts = (r, s')"
  shows "state_inv s'"
proof -
  have empty: "domain_inv gd" if "mr_cache gd = [] \<and> regions gd = []" for gd
    using that by (simp add: domain_inv_def regions_ok_def mrs_ok_def region_tree.separated_def)
  show ?thesis
    using g assms(1)
    by (auto simp: spdk_gpu_dmabuf_memory_domain_create_def gpu_dmabuf_publish_def calloc_def Let_def
        state_inv_def empty split: if_splits option.splits sum.splits prod.splits dest!: acquire_ctx_trees)
qed

section \<open>Each operation keeps the resource balance\<close>

lemma state_res_quiet: "state_res E s \<Longrightarrow> quiet (g_calls s) h \<Longrightarrow> state_res E (s\<lparr>g_calls := h\<rparr>)"
  by (simp add: state_res_def quiet_def)

lemma register_state_res:
  assumes d: "device_is_ordinal E" and inv: "state_inv s" and res: "state_res E s" and nw: "no_wrap addr len"
    and g: "spdk_gpu_dmabuf_memory_domain_register E s dm rd addr len = (rc, s')"
  shows "state_res E s'"
proof (cases "gpu_dmabuf_domain_find s dm")
  case None
  with g res show ?thesis by (auto simp: spdk_gpu_dmabuf_memory_domain_register_def split: if_splits)
next
  case (Some gd)
  obtain dv h where pd: "gpu_dmabuf_get_ptr_device_id E gd (g_calls s) addr = (dv, h)" by (metis surj_pair)
  note q = ptr_device_id_quiet [OF pd]
  have add: "holds E gd1 h1 M C n" if "len \<noteq> 0" "gpu_dmabuf_add_region E gd h addr len dev = (r, gd1, h1)"
    "holds E gd (g_calls s) M C n" for dev r gd1 h1 M C n
    using add_region_holds [OF state_inv_find [OF inv Some] _ nw holds_quiet [OF that(3) q] that(2)] that(1)
    by (simp add: unat_gt_0)
  note reg = register_mr_holds [OF d add]
  show ?thesis
    using g res q Some pd put_domain_res [OF Some res add] put_domain_res [OF Some res reg]
    by (auto simp: spdk_gpu_dmabuf_memory_domain_register_def state_res_quiet
        split: if_splits option.splits sum.splits prod.splits)
qed

lemma translate_state_res:
  assumes d: "device_is_ordinal E" and res: "state_res E s"
    and g: "gpu_dmabuf_translate E s dm dst addr len = (t, s')"
  shows "state_res E s'"
  using g res put_domain_res [OF _ res register_mr_holds [OF d]]
  by (auto simp: gpu_dmabuf_translate_def split: option.splits sum.splits prod.splits)

lemma invalidate_state_res:
  assumes inv: "state_inv s" and res: "state_res E s"
  shows "state_res E (spdk_gpu_dmabuf_memory_domain_invalidate s dm addr len)"
  using res put_domain_res [OF _ res invalidate_range_holds [OF state_inv_find [OF inv]]]
  by (auto simp: spdk_gpu_dmabuf_memory_domain_invalidate_def split: option.splits prod.splits)

text \<open>Destroying a domain leaves the frame: everything the domain held is released, once.\<close>

lemma destroy_frame:
  assumes inv: "domain_inv gd" and f: "gpu_dmabuf_domain_find s dm = Some gd"
    and h: "holds E gd (g_calls s) M C n"
    and s': "s' = spdk_gpu_dmabuf_memory_domain_destroy E s dm"
  shows "live_mrs (g_calls s') = M \<and> held_ctxs (g_calls s') = C \<and> heap_blocks (g_calls s') = n \<and>
    open_fds (g_calls s') = {#} \<and> calls_ok (g_calls s')"
proof -
  let ?own = "if owns_cuda_ctx gd then ctx_refs E [gd_cuda_device_id gd] else {#}"
  let ?ctxs = "ctx_refs E (map cc_device_id (cuda_ctxs gd))"
  define h1 where "h1 = fold gpu_dmabuf_dereg_mr (mr_cache gd) (g_calls s)"
  define h2 where "h2 = Call_spdk_memory_domain_destroy (gd_domain gd) # fold (\<lambda>r. free) (regions gd) h1"
  define h3 where "h3 = (if owns_cuda_ctx gd
    then gpu_device_primary_ctx_release E h2 (gd_cuda_device_id gd) else h2)"
  have g: "g_calls s' = free (gpu_dmabuf_release_cuda_ctxs E (cuda_ctxs gd) h3)"
    using f domain_inv_ordered [OF inv]
    by (simp add: s' spdk_gpu_dmabuf_memory_domain_destroy_def h1_def h2_def h3_def
        mr_tree.foreach_remove_filter region_tree.foreach_remove_filter)
  have 1: "live_mrs h1 = M \<and> held_ctxs h1 = held_ctxs (g_calls s) \<and> open_fds h1 = {#} \<and> calls_ok h1 \<and>
      heap_blocks h1 = dom_blocks gd + n - int (length (mr_cache gd))"
    using dereg_mrs_effect [of "mr_cache gd" "g_calls s"] h domain_inv_mr_Some [OF inv]
    by (simp add: h1_def holds_def dom_mrs_def)
  then have 2: "live_mrs h2 = M \<and> held_ctxs h2 = ?ctxs + ?own + C \<and> open_fds h2 = {#} \<and> calls_ok h2 \<and>
      heap_blocks h2 = 1 + int (length (cuda_ctxs gd)) + n"
    using free_all_effect [of "regions gd" h1] h
    by (simp add: h2_def holds_def dom_ctxs_def dom_blocks_def)
  then have 3: "live_mrs h3 = M \<and> held_ctxs h3 = ?ctxs + C \<and> open_fds h3 = {#} \<and> calls_ok h3 \<and>
      heap_blocks h3 = 1 + int (length (cuda_ctxs gd)) + n"
    using release_effect [of E "gd_cuda_device_id gd" h2] by (simp add: h3_def)
  then show ?thesis
    using release_ctxs_effect [of E "cuda_ctxs gd" h3] by (simp add: g free_def)
qed

lemma destroy_domains:
  "gpu_dmabuf_domain_find s dm = Some gd \<Longrightarrow>
    g_domains (spdk_gpu_dmabuf_memory_domain_destroy E s dm) = remove_domain dm (g_domains s)"
  by (simp add: spdk_gpu_dmabuf_memory_domain_destroy_def Let_def split: prod.splits)

lemma destroy_state_res:
  assumes inv: "state_inv s" and res: "state_res E s"
  shows "state_res E (spdk_gpu_dmabuf_memory_domain_destroy E s dm)"
proof (cases "gpu_dmabuf_domain_find s dm")
  case None
  with res show ?thesis by (simp add: spdk_gpu_dmabuf_memory_domain_destroy_def)
next
  case (Some gd)
  obtain ls rs where s: "g_domains s = ls @ gd # rs" "remove_domain dm (g_domains s) = ls @ rs"
    using domain_find_split [OF Some] by metis
  with res have "holds E gd (g_calls s) (sum_list (map dom_mrs (ls @ rs)))
    (sum_list (map (dom_ctxs E) (ls @ rs))) (sum_list (map dom_blocks (ls @ rs)))"
    by (simp only: state_res_frame [OF s(1)])
  from destroy_frame [OF state_inv_find [OF inv Some] Some this refl] destroy_domains [OF Some, of E] s
  show ?thesis by (simp add: state_res_def)
qed

lemma acquire_ctx_holds:
  assumes d: "device_is_ordinal E" and g: "gpu_dmabuf_acquire_ctx E gd h = (r, h')"
    and own: "\<not> owns_cuda_ctx gd" and h: "holds E gd h M C n"
  shows "case r of Inl rc \<Rightarrow> holds E gd h' M C n | Inr gd' \<Rightarrow> holds E gd' h' M C n"
proof -
  obtain rc h1 where i: "gpu_init E h = (rc, h1)" by (metis surj_pair)
  obtain rc2 dev h2 where g2: "gpu_device_get E h1 (gd_cuda_device_id gd) = (rc2, dev, h2)" by (metis prod_cases3)
  obtain rc3 ctx h3 where g3: "gpu_device_primary_ctx_retain E h2 dev = (rc3, ctx, h3)" by (metis prod_cases3)
  note h1 = holds_quiet [OF h init_quiet [OF i]]
  note h2 = holds_quiet [OF h1 device_get_quiet [OF g2]]
  have dev: "dev = gd_cuda_device_id gd" if "rc2 = GPU_SUCCESS"
    using that g2 d by (auto dest: device_get_ordinal)
  have fail: "holds E gd h3 M C n" if "rc3 \<noteq> GPU_SUCCESS"
    using h2 retain_effect [OF g3] that by (simp add: holds_def)
  have ok: "holds E (gd\<lparr>gd_cuda_ctx := ctx, owns_cuda_ctx := True\<rparr>) h3 M C n"
    if "rc2 = GPU_SUCCESS" "rc3 = GPU_SUCCESS"
    using h2 retain_effect [OF g3] that own dev
    by (simp add: holds_def dom_mrs_def dom_ctxs_def dom_blocks_def)
  show ?thesis
    using g h1 h2 fail ok i g2 g3
    by (auto simp: gpu_dmabuf_acquire_ctx_def split: if_splits)
qed

text \<open>A domain whose creation stops gives back its block and, if it owns one, its context.\<close>

lemma holds_abandon:
  assumes "holds E gd h M C n" "mr_cache gd = []" "regions gd = []" "cuda_ctxs gd = []"
    and "h' = free (if owns_cuda_ctx gd then gpu_device_primary_ctx_release E h (gd_cuda_device_id gd) else h)"
  shows "live_mrs h' = M \<and> held_ctxs h' = C \<and> heap_blocks h' = n \<and> open_fds h' = {#} \<and> calls_ok h'"
  using assms release_effect [of E "gd_cuda_device_id gd" h]
  by (auto simp: holds_def dom_mrs_def dom_ctxs_def dom_blocks_def free_def)

lemma acquire_ctx_fields:
  "gpu_dmabuf_acquire_ctx E gd h = (Inr gd', h') \<Longrightarrow>
    mr_cache gd' = mr_cache gd \<and> regions gd' = regions gd \<and> cuda_ctxs gd' = cuda_ctxs gd"
  by (auto simp: gpu_dmabuf_acquire_ctx_def Let_def split: prod.splits if_splits)

lemma publish_state_res:
  assumes h: "holds E gd h (sum_list (map dom_mrs (g_domains s))) (sum_list (map (dom_ctxs E) (g_domains s)))
      (sum_list (map dom_blocks (g_domains s)))"
    and "mr_cache gd = []" "regions gd = []" "cuda_ctxs gd = []"
    and g: "gpu_dmabuf_publish E s gd h dev_name = (r, s')"
  shows "state_res E s'"
proof -
  obtain rc dm where c: "spdk_memory_domain_create E h (case dev_name of None \<Rightarrow> SPDK_GPU_DMABUF_DMA_DEVICE | Some n \<Rightarrow> n) = (rc, dm)"
    by (metis surj_pair)
  let ?h = "Call_spdk_memory_domain_create rc dm # h"
  have q: "holds E gd ?h M C n" if "holds E gd h M C n" for M C n
    using that by (simp add: holds_def)
  show ?thesis
  proof (cases "rc = 0")
    case True
    have "dom_mrs (gd\<lparr>gd_domain := dm\<rparr>) = dom_mrs gd" "dom_ctxs E (gd\<lparr>gd_domain := dm\<rparr>) = dom_ctxs E gd"
      "dom_blocks (gd\<lparr>gd_domain := dm\<rparr>) = dom_blocks gd"
      by (simp_all add: dom_mrs_def dom_ctxs_def dom_blocks_def)
    with True g c h show ?thesis by (auto simp: gpu_dmabuf_publish_def state_res_def holds_def)
  next
    case False
    with g c holds_abandon [OF q [OF h] assms(2-4) refl] show ?thesis
      by (auto simp: gpu_dmabuf_publish_def state_res_def Let_def)
  qed
qed

lemma create_state_res:
  assumes d: "device_is_ordinal E" and res: "state_res E s"
    and g: "spdk_gpu_dmabuf_memory_domain_create E s b opts = (r, s')"
  shows "state_res E s'"
proof (cases "\<exists>lo. \<not> b \<and> gpu_dmabuf_merge_opts E opts = Some lo \<and> \<not> o_cuda_device_id lo < - 1 \<and> calloc_ok E (g_calls s)")
  case False
  then have "quiet (g_calls s) (g_calls s') \<and> g_domains s' = g_domains s"
    using g by (auto simp: spdk_gpu_dmabuf_memory_domain_create_def calloc_def quiet_def split: if_splits option.splits)
  with res show ?thesis by (simp add: state_res_def quiet_def)
next
  case True
  then obtain lo where lo: "\<not> b" "gpu_dmabuf_merge_opts E opts = Some lo" "\<not> o_cuda_device_id lo < - 1"
    "calloc_ok E (g_calls s)" by auto
  let ?M = "sum_list (map dom_mrs (g_domains s))" and ?C = "sum_list (map (dom_ctxs E) (g_domains s))"
    and ?n = "sum_list (map dom_blocks (g_domains s))" and ?h = "Call_calloc True # g_calls s"
  define gd where "gd = \<lparr>gd_domain = 0, mr_cache = [], regions = [], cuda_ctxs = [],
    gd_cuda_device_id = o_cuda_device_id lo, gd_cuda_ctx = o_cuda_context lo, owns_cuda_ctx = False,
    gd_rdma_access_flags = o_rdma_access_flags lo\<rparr>"
  have h: "holds E gd ?h ?M ?C ?n"
    using res by (simp add: state_res_def holds_def gd_def dom_mrs_def dom_ctxs_def dom_blocks_def)
  obtain a h1 where a: "gpu_dmabuf_acquire_ctx E gd ?h = (a, h1)" by (metis surj_pair)
  note ah = acquire_ctx_holds [OF d a _ h]
  show ?thesis
  proof (cases a)
    case (Inl rc)
    have "s' = s\<lparr>g_calls := free h1\<rparr>"
      using g lo a Inl by (simp add: spdk_gpu_dmabuf_memory_domain_create_def calloc_def gd_def)
    with ah Inl holds_abandon [of E gd h1] show ?thesis by (simp add: gd_def state_res_def)
  next
    case (Inr gd1)
    then have h1: "holds E gd1 h1 ?M ?C ?n" using ah by (simp add: gd_def)
    note f = acquire_ctx_fields [OF a [unfolded Inr]]
    have "gpu_dmabuf_publish E s gd1 h1 (o_id lo) = (r, s')"
      using g lo a Inr by (simp add: spdk_gpu_dmabuf_memory_domain_create_def calloc_def gd_def)
    with publish_state_res [OF h1] f show ?thesis by (simp add: gd_def)
  qed
qed

section \<open>Reachable states\<close>

inductive gpu_step :: "gpu_env \<Rightarrow> gpu_state \<Rightarrow> gpu_state \<Rightarrow> bool" for E where
  step_create: "spdk_gpu_dmabuf_memory_domain_create E s b opts = (r, s') \<Longrightarrow> gpu_step E s s'"
| step_register: "no_wrap addr len \<Longrightarrow>
    spdk_gpu_dmabuf_memory_domain_register E s dm rd addr len = (rc, s') \<Longrightarrow> gpu_step E s s'"
| step_translate: "gpu_dmabuf_translate E s dm dst addr len = (t, s') \<Longrightarrow> gpu_step E s s'"
| step_invalidate: "spdk_gpu_dmabuf_memory_domain_invalidate s dm addr len = s' \<Longrightarrow> gpu_step E s s'"
| step_destroy: "spdk_gpu_dmabuf_memory_domain_destroy E s dm = s' \<Longrightarrow> gpu_step E s s'"

definition gpu_init_state :: gpu_state where
  "gpu_init_state = \<lparr>g_domains = [], g_calls = []\<rparr>"

inductive gpu_reachable :: "gpu_env \<Rightarrow> gpu_state \<Rightarrow> bool" for E where
  reach_init: "gpu_reachable E gpu_init_state"
| reach_step: "gpu_reachable E s \<Longrightarrow> gpu_step E s s' \<Longrightarrow> gpu_reachable E s'"

lemma gpu_step_inv: "gpu_step E s s' \<Longrightarrow> state_inv s \<Longrightarrow> state_inv s'"
  by (induction rule: gpu_step.induct)
    (auto intro: create_state_inv register_state_inv translate_state_inv invalidate_state_inv destroy_state_inv)

lemma gpu_step_res:
  "gpu_step E s s' \<Longrightarrow> device_is_ordinal E \<Longrightarrow> state_inv s \<Longrightarrow> state_res E s \<Longrightarrow> state_res E s'"
  by (induction rule: gpu_step.induct)
    (auto intro: create_state_res register_state_res translate_state_res invalidate_state_res destroy_state_res)

lemma init_state_ok: "state_inv gpu_init_state" "state_res E gpu_init_state"
  by (simp_all add: gpu_init_state_def state_inv_def state_res_def)

lemma reachable_inv: "gpu_reachable E s \<Longrightarrow> state_inv s"
  by (induction rule: gpu_reachable.induct) (auto intro: gpu_step_inv init_state_ok)

lemma reachable_res: "gpu_reachable E s \<Longrightarrow> device_is_ordinal E \<Longrightarrow> state_res E s"
  by (induction rule: gpu_reachable.induct) (auto intro: gpu_step_res reachable_inv init_state_ok)

end
