(* ===== verification/Gpu_Dmabuf_Props.thy ===== *)
theory Gpu_Dmabuf_Props
  imports Gpu_Dmabuf_Reach
begin

text \<open>
  The properties of the GPU dma-buf domain, with their witnesses: first the facts behind them,
  then a concrete environment, then one theorem per property.
\<close>

section \<open>What a lookup returns, as address sets\<close>

lemma region_contains_span:
  "domain_inv gd \<Longrightarrow> r \<in> set (regions gd) \<Longrightarrow> 0 < unat len \<Longrightarrow>
    gpu_dmabuf_region_contains r addr len \<longleftrightarrow> no_wrap addr len \<and> span addr len \<subseteq> span (rg_addr r) (rg_len r)"
  by (simp add: gpu_dmabuf_region_contains_def domain_inv_def regions_ok_def range_contains_span)

lemma region_overlaps_span:
  "domain_inv gd \<Longrightarrow> r \<in> set (regions gd) \<Longrightarrow>
    gpu_dmabuf_region_overlaps r addr len \<longleftrightarrow> no_wrap addr len \<and> span addr len \<inter> span (rg_addr r) (rg_len r) \<noteq> {}"
  by (simp add: gpu_dmabuf_region_overlaps_def domain_inv_def regions_ok_def range_overlaps_span)

lemma regions_disjoint_span:
  assumes "domain_inv gd" "r \<in> set (regions gd)" "q \<in> set (regions gd)" "r \<noteq> q"
  shows "span (rg_addr r) (rg_len r) \<inter> span (rg_addr q) (rg_len q) = {}"
proof -
  have "region_hi r \<le> region_lo q \<or> region_hi q \<le> region_lo r"
    using assms unfolding domain_inv_def regions_ok_def region_tree.separated_def by blast
  then show ?thesis by (auto simp: span_def)
qed

lemma mrs_disjoint_span:
  assumes "domain_inv gd" "e \<in> set (mr_cache gd)" "f \<in> set (mr_cache gd)" "e \<noteq> f"
    "mr_device_id e = mr_device_id f" "mr_pd e = mr_pd f"
  shows "span (mr_addr e) (mr_len e) \<inter> span (mr_addr f) (mr_len f) = {}"
proof -
  have "mr_tree.separated (set (mr_cache gd))" using assms(1) mrs_ok_separated by (auto simp: domain_inv_def)
  with assms(2-6) have "mr_hi e \<le> mr_lo f \<or> mr_hi f \<le> mr_lo e"
    unfolding mr_tree.separated_def by blast
  then show ?thesis by (auto simp: span_def)
qed

section \<open>Translation\<close>

lemma find_mr_sound:
  assumes "gpu_dmabuf_find_mr gd dev pd addr len = Some e"
  shows "e \<in> set (mr_cache gd)" "mr_device_id e = dev" "mr_pd e = pd" "gpu_dmabuf_range_contains e addr len"
  using assms unfolding gpu_dmabuf_find_mr_def Let_def by (auto dest: rb_probe_in rb_probe_sound)

lemma find_region_sound: "gpu_dmabuf_find_region gd addr len = Some r \<Longrightarrow> gpu_dmabuf_region_contains r addr len"
  unfolding gpu_dmabuf_find_region_def Let_def by (rule rb_probe_sound)

lemma put_domain_find:
  assumes "gpu_dmabuf_domain_find s d = Some gd" "gd_domain gd' = gd_domain gd"
  shows "gpu_dmabuf_domain_find (put_domain s d gd' h) d = Some gd'"
proof -
  have "find (\<lambda>gd. gd_domain gd = d) (update_domain d gd' gs) = Some gd'"
    if "find (\<lambda>gd. gd_domain gd = d) gs = Some gd" for gs
    using that assms(2) by (induction gs) (auto split: if_splits)
  with assms(1) show ?thesis by (simp add: gpu_dmabuf_domain_find_def put_domain_def)
qed

lemma register_mr_domain_id:
  "gpu_dmabuf_register_mr E gd h dev pd addr len = (r, gd', h') \<Longrightarrow> gd_domain gd' = gd_domain gd"
  using register_mr_effect [of E gd h dev pd addr len r gd' h']
  by (cases r) (auto simp: reg_step_def ctx_step_def)

lemma register_mr_entry:
  assumes "gpu_dmabuf_register_mr E gd h dev pd addr len = (Inr e, gd', h')"
  shows "mr_addr e = addr" "mr_len e = len" "mr_device_id e = dev" "mr_pd e = pd" "mr_mr e \<noteq> None"
    "e \<in> set (mr_cache gd')"
  using register_mr_effect [OF assms] by (auto simp: reg_step_def mr_tree.rb_insert_set)

text \<open>The entry a successful translation reads its keys from.\<close>

lemma translate_entry:
  assumes inv: "state_inv s" and t: "gpu_dmabuf_translate E s d dst addr len = (t, s')"
  shows "(\<exists>rc. t = Failed rc) \<or>
    (\<exists>gd e pd. t = fill_translation e dst addr len \<and> gpu_dmabuf_get_rdma_pd E dst = Inr pd \<and>
       gpu_dmabuf_domain_find s' d = Some gd \<and> e \<in> set (mr_cache gd) \<and> mr_pd e = pd \<and>
       range_contains (mr_addr e) (mr_len e) addr len)"
  (is "_ \<or> ?ok")
proof (cases "\<exists>rc. t = Failed rc")
  case False
  then obtain gd pd r where f: "gpu_dmabuf_domain_find s d = Some gd"
    and pd: "gpu_dmabuf_get_rdma_pd E dst = Inr pd" and r: "gpu_dmabuf_find_region gd addr len = Some r"
    using t by (auto simp: gpu_dmabuf_translate_def split: option.splits sum.splits)
  have ?ok
  proof (cases "gpu_dmabuf_find_mr gd (rg_device_id r) pd addr len")
    case (Some e)
    with t f pd r find_mr_sound [OF Some] show ?thesis
      by (auto simp: gpu_dmabuf_translate_def gpu_dmabuf_range_contains_def)
  next
    case None
    then obtain e gd' h' where m: "gpu_dmabuf_register_mr E gd (g_calls s) (rg_device_id r) pd
        (rg_addr r) (rg_len r) = (Inr e, gd', h')"
      and t': "t = fill_translation e dst addr len" "s' = put_domain s d gd' h'"
      using t f pd r False by (auto simp: gpu_dmabuf_translate_def split: sum.splits prod.splits)
    with put_domain_find [OF f register_mr_domain_id [OF m]] register_mr_entry [OF m]
      find_region_sound [OF r] pd show ?thesis
      by (auto simp: gpu_dmabuf_region_contains_def)
  qed
  then show ?thesis by blast
qed simp

section \<open>Error codes and successful registration\<close>

lemma get_rdma_pd_code: "gpu_dmabuf_get_rdma_pd E d = Inl rc \<Longrightarrow> rc \<noteq> 0"
  by (auto simp: gpu_dmabuf_get_rdma_pd_def errno_defs split: if_splits option.splits)

lemma ptr_device_id_code: "gpu_dmabuf_get_ptr_device_id E gd h a = (Inl rc, h') \<Longrightarrow> rc \<noteq> 0"
  by (auto simp: gpu_dmabuf_get_ptr_device_id_def errno_defs split: if_splits prod.splits)

lemma add_region_code: "gpu_dmabuf_add_region E gd h addr len dev = (Inl rc, gd', h') \<Longrightarrow> rc \<noteq> 0"
  by (auto simp: gpu_dmabuf_add_region_def errno_defs Let_def split: if_splits option.splits prod.splits)

lemma get_cuda_ctx_code: "gpu_dmabuf_get_cuda_ctx E gd h dev = (Inl rc, gd', h') \<Longrightarrow> rc \<noteq> 0"
  by (auto simp: gpu_dmabuf_get_cuda_ctx_def errno_defs split: if_splits option.splits prod.splits)

lemma set_cuda_ctx_code: "gpu_dmabuf_set_cuda_ctx E h c = (Inl rc, h') \<Longrightarrow> rc \<noteq> 0"
  by (auto simp: gpu_dmabuf_set_cuda_ctx_def errno_defs split: if_splits prod.splits)

lemma export_rc_code: "gpu_dmabuf_export E h c b addr len = (Inl rc, h') \<Longrightarrow> rc \<noteq> 0"
  by (auto simp: gpu_dmabuf_export_def errno_defs Let_def split: if_splits prod.splits)

lemma cache_mr_code: "gpu_dmabuf_cache_mr E gd h dev pd addr len off fd = (Inl rc, gd', h') \<Longrightarrow> rc \<noteq> 0"
  by (auto simp: gpu_dmabuf_cache_mr_def errno_defs Let_def split: if_splits option.splits prod.splits)

lemma register_mr_code: "gpu_dmabuf_register_mr E gd h dev pd addr len = (Inl rc, gd', h') \<Longrightarrow> rc \<noteq> 0"
  by (auto simp: gpu_dmabuf_register_mr_def errno_defs
      split: if_splits prod.splits sum.splits
      dest: get_cuda_ctx_code set_cuda_ctx_code export_rc_code cache_mr_code)

text \<open>After a successful registration the range is declared, and cached for the protection domain.\<close>

lemma register_success:
  assumes inv: "state_inv s" and nw: "no_wrap addr len"
    and g: "spdk_gpu_dmabuf_memory_domain_register E s d rd addr len = (0, s')"
  obtains gd pd r e where "gpu_dmabuf_domain_find s' d = Some gd" "gpu_dmabuf_get_rdma_pd E rd = Inr pd"
    "domain_inv gd" "r \<in> set (regions gd)" "gpu_dmabuf_region_contains r addr len"
    "gpu_dmabuf_find_mr gd (rg_device_id r) pd (rg_addr r) (rg_len r) = Some e"
proof -
  obtain gd pd dev h r gd1 h1 where f: "gpu_dmabuf_domain_find s d = Some gd" and len: "len \<noteq> 0"
    and pd: "gpu_dmabuf_get_rdma_pd E rd = Inr pd"
    and a: "gpu_dmabuf_add_region E gd h addr len dev = (Inr r, gd1, h1)"
    and s': "case gpu_dmabuf_find_mr gd1 (rg_device_id r) pd (rg_addr r) (rg_len r) of
        Some e \<Rightarrow> s' = put_domain s d gd1 h1
      | None \<Rightarrow> \<exists>e gd2 h2. s' = put_domain s d gd2 h2 \<and>
          gpu_dmabuf_register_mr E gd1 h1 (rg_device_id r) pd (rg_addr r) (rg_len r) = (Inr e, gd2, h2)"
    using g
    by (auto simp: spdk_gpu_dmabuf_memory_domain_register_def errno_defs
        split: if_splits option.splits sum.splits prod.splits
        dest: get_rdma_pd_code ptr_device_id_code add_region_code register_mr_code)
  note ae = add_region_effect [OF state_inv_find [OF inv f] _ nw a]
  have inv1: "domain_inv gd1" "r \<in> set (regions gd1)" "gpu_dmabuf_region_contains r addr len"
    and id1: "gd_domain gd1 = gd_domain gd"
    using ae len by (auto simp: unat_gt_0)
  show ?thesis
  proof (cases "gpu_dmabuf_find_mr gd1 (rg_device_id r) pd (rg_addr r) (rg_len r)")
    case (Some e)
    with s' have "gpu_dmabuf_domain_find s' d = Some gd1" using put_domain_find [OF f id1] by simp
    from that [OF this pd inv1 Some] show ?thesis .
  next
    case None
    with s' obtain e gd2 h2 where s2: "s' = put_domain s d gd2 h2"
      and m: "gpu_dmabuf_register_mr E gd1 h1 (rg_device_id r) pd (rg_addr r) (rg_len r) = (Inr e, gd2, h2)"
      by auto
    note m2 = register_mr_inv [OF inv1(1,2) m] and ent = register_mr_entry [OF m]
    have "0 < unat (rg_len r)" "no_wrap (rg_addr r) (rg_len r)"
      using inv1 by (auto simp: domain_inv_def regions_ok_def region_tree.separated_def)
    with m2 ent have "gpu_dmabuf_find_mr gd2 (rg_device_id r) pd (rg_addr r) (rg_len r) = Some e"
      by (simp add: find_mr_iff gpu_dmabuf_range_contains_def range_contains_nat)
    moreover have "gpu_dmabuf_domain_find s' d = Some gd2"
      unfolding s2 using put_domain_find [OF f] register_mr_domain_id [OF m] id1 by simp
    ultimately show ?thesis using that [OF _ pd, of gd2 r e] m2 inv1 by simp
  qed
qed

section \<open>A concrete environment\<close>

text \<open>
  A CUDA driver on which every call succeeds: one allocation of 64 KiB at address 4096, a
  dma-buf descriptor 5, an RDMA domain with a protection domain, and fixed keys.
\<close>

definition demo_mr :: ibv_mr where
  "demo_mr = \<lparr>ibv_handle = 1, lkey = 11, rkey = 12\<rparr>"

definition demo_env :: gpu_env where
  "demo_env = \<lparr>backend = CUDA, calloc_ok = (\<lambda>h. True), cuInit = (\<lambda>h. GPU_SUCCESS),
     cuDeviceGet = (\<lambda>h d. (GPU_SUCCESS, d)), cuDevicePrimaryCtxRetain = (\<lambda>h d. (GPU_SUCCESS, 77)),
     mcSetDevice = (\<lambda>h d. GPU_SUCCESS), cuCtxGetCurrent = (\<lambda>h. (GPU_SUCCESS, 77)),
     cuCtxSetCurrent = (\<lambda>h c. GPU_SUCCESS), cuPointerGetAttribute = (\<lambda>h p. (GPU_SUCCESS, 0)),
     cuMemGetAddressRange = (\<lambda>h p. (GPU_SUCCESS, 4096, 65536)),
     mcMemGetAddressRange = (\<lambda>h p. (GPU_SUCCESS, 4096, 65536)),
     cuMemGetHandleForAddressRange = (\<lambda>h b n. (GPU_SUCCESS, 5)),
     mcMemGetHandleForAddressRange = (\<lambda>h b n. (GPU_SUCCESS, 5)),
     ibv_reg_dmabuf_mr = (\<lambda>h a. (Some demo_mr, 0)),
     spdk_memory_domain_create = (\<lambda>h n. (0, 100)),
     spdk_memory_domain_get_dma_device_type = (\<lambda>p. SPDK_DMA_DEVICE_TYPE_RDMA),
     spdk_memory_domain_get_context = (\<lambda>p. Some (Some \<lparr>rc_size = 16, rc_ibv_pd = 9\<rparr>)),
     rdma_ctx_pd_end = 16, ibv_relaxed_ordering = None\<rparr>"

definition demo_created :: gpu_state where
  "demo_created = snd (spdk_gpu_dmabuf_memory_domain_create demo_env gpu_init_state False None)"

definition demo_registered :: gpu_state where
  "demo_registered = snd (spdk_gpu_dmabuf_memory_domain_register demo_env demo_created 100 7 8192 4096)"

lemma demo_ordinal: "device_is_ordinal demo_env"
  by (simp add: device_is_ordinal_def demo_env_def)

lemma demo_created_reachable: "gpu_reachable demo_env demo_created"
  unfolding demo_created_def
  by (rule reach_step [OF reach_init step_create]) (rule surjective_pairing)

lemma demo_no_wrap: "no_wrap 8192 4096" "no_wrap 8200 16"
  by (simp_all add: no_wrap_def)

lemma demo_registered_reachable: "gpu_reachable demo_env demo_registered"
  unfolding demo_registered_def
  by (rule reach_step [OF demo_created_reachable step_register]) (auto simp: demo_no_wrap intro: surjective_pairing)

lemmas demo_defs = demo_created_def demo_registered_def demo_env_def demo_mr_def gpu_init_state_def

definition demo_domain :: gpu_dmabuf_domain where
  "demo_domain = \<lparr>gd_domain = 100,
     mr_cache = [\<lparr>mr_addr = 8192, mr_len = 4096, mr_device_id = 0, mr_pd = 9, mr_mr = Some demo_mr\<rparr>],
     regions = [\<lparr>rg_addr = 8192, rg_len = 4096, rg_device_id = 0\<rparr>],
     cuda_ctxs = [\<lparr>cc_device_id = 0, cc_cuda_ctx = 77\<rparr>], gd_cuda_device_id = -1, gd_cuda_ctx = 0,
     owns_cuda_ctx = False, gd_rdma_access_flags = 7\<rparr>"

lemma demo_registered_domains: "g_domains demo_registered = [demo_domain]"
  by code_simp

section \<open>Properties\<close>

text \<open>
  C1.  In every reachable state, and for every behaviour of the driver and of the verbs
  library, the declared regions of a domain are pairwise disjoint address ranges, every cached
  MR is non-null and covers exactly one declared region of its device, and two cached MRs of
  the same device and protection domain never overlap.
\<close>

theorem gpu_reachable_regions_mrs:
  assumes "gpu_reachable E s" "gd \<in> set (g_domains s)"
  shows "(\<forall>r \<in> set (regions gd). \<forall>q \<in> set (regions gd). r \<noteq> q \<longrightarrow>
            span (rg_addr r) (rg_len r) \<inter> span (rg_addr q) (rg_len q) = {}) \<and>
    (\<forall>e \<in> set (mr_cache gd). mr_mr e \<noteq> None \<and>
       (\<exists>r \<in> set (regions gd). rg_addr r = mr_addr e \<and> rg_len r = mr_len e \<and> rg_device_id r = mr_device_id e)) \<and>
    (\<forall>e \<in> set (mr_cache gd). \<forall>f \<in> set (mr_cache gd).
       e \<noteq> f \<and> mr_device_id e = mr_device_id f \<and> mr_pd e = mr_pd f \<longrightarrow>
       span (mr_addr e) (mr_len e) \<inter> span (mr_addr f) (mr_len f) = {})"
proof -
  have inv: "domain_inv gd" using reachable_inv [OF assms(1)] assms(2) by (simp add: state_inv_def)
  then have "\<forall>e \<in> set (mr_cache gd). mr_mr e \<noteq> None \<and>
       (\<exists>r \<in> set (regions gd). rg_addr r = mr_addr e \<and> rg_len r = mr_len e \<and> rg_device_id r = mr_device_id e)"
    by (simp add: domain_inv_def mrs_ok_def)
  with regions_disjoint_span [OF inv] mrs_disjoint_span [OF inv] show ?thesis by blast
qed

theorem gpu_reachable_regions_mrs_witness:
  "\<exists>e r. e \<in> set (mr_cache demo_domain) \<and> mr_mr e \<noteq> None \<and> r \<in> set (regions demo_domain) \<and> rg_addr r = mr_addr e"
proof -
  let ?e = "\<lparr>mr_addr = 8192, mr_len = 4096, mr_device_id = 0, mr_pd = 9, mr_mr = Some demo_mr\<rparr>"
  have e: "?e \<in> set (mr_cache demo_domain)" by (simp add: demo_domain_def)
  have "demo_domain \<in> set (g_domains demo_registered)" by (simp add: demo_registered_domains)
  from gpu_reachable_regions_mrs [OF demo_registered_reachable this] e
  obtain r where "mr_mr ?e \<noteq> None" "r \<in> set (regions demo_domain)" "rg_addr r = mr_addr ?e" by blast
  with e show ?thesis by blast
qed

text \<open>
  C2.  In every reachable state the live MRs are exactly those in the caches of the live
  domains, the retained driver contexts exactly those the domains hold, the heap blocks exactly
  one per domain, MR, region and context entry; no dma-buf descriptor is left open, and nothing
  was ever deregistered, closed or released twice.  The driver is assumed to number devices by
  their ordinals, because the code retains by handle and releases by ordinal.
\<close>

theorem gpu_reachable_resources:
  assumes "device_is_ordinal E" "gpu_reachable E s"
  shows "live_mrs (g_calls s) = (\<Sum>gd \<leftarrow> g_domains s. mset (map (\<lambda>e. the (mr_mr e)) (mr_cache gd))) \<and>
    held_ctxs (g_calls s) = (\<Sum>gd \<leftarrow> g_domains s. dom_ctxs E gd) \<and>
    heap_blocks (g_calls s) = (\<Sum>gd \<leftarrow> g_domains s.
      1 + int (length (mr_cache gd) + length (regions gd) + length (cuda_ctxs gd))) \<and>
    open_fds (g_calls s) = {#} \<and> calls_ok (g_calls s)"
  using reachable_res [OF assms(2,1)] unfolding state_res_def dom_mrs_def dom_blocks_def .

theorem gpu_reachable_resources_witness:
  "live_mrs (g_calls demo_registered) = {#demo_mr#} \<and> open_fds (g_calls demo_registered) = {#} \<and>
   heap_blocks (g_calls demo_registered) = 4"
  using gpu_reachable_resources [OF demo_ordinal demo_registered_reachable]
  by (simp add: demo_registered_domains demo_domain_def)

lemma destroy_all:
  assumes "device_is_ordinal E" "state_inv s" "state_res E s"
  shows "g_domains (fold (\<lambda>d s. spdk_gpu_dmabuf_memory_domain_destroy E s d) (map gd_domain (g_domains s)) s) = [] \<and>
    state_res E (fold (\<lambda>d s. spdk_gpu_dmabuf_memory_domain_destroy E s d) (map gd_domain (g_domains s)) s)"
  using assms
proof (induction "g_domains s" arbitrary: s)
  case Nil
  then show ?case by (simp flip: Nil(1))
next
  case (Cons g gs)
  let ?s = "spdk_gpu_dmabuf_memory_domain_destroy E s (gd_domain g)"
  have "gpu_dmabuf_domain_find s (gd_domain g) = Some g"
    by (simp add: gpu_dmabuf_domain_find_def flip: Cons.hyps(2))
  from destroy_domains [OF this, of E] have "g_domains ?s = gs" by (simp flip: Cons.hyps(2))
  with Cons.hyps(1) [of ?s] Cons.prems destroy_state_inv destroy_state_res show ?case
    by (simp flip: Cons.hyps(2))
qed

text \<open>
  C3.  Destroying every domain releases everything: no MR, context, descriptor or heap block
  remains, and nothing is released twice on the way.
\<close>

theorem destroy_all_no_leak:
  assumes "device_is_ordinal E" "gpu_reachable E s"
    and "s' = fold (\<lambda>d s. spdk_gpu_dmabuf_memory_domain_destroy E s d) (map gd_domain (g_domains s)) s"
  shows "g_domains s' = [] \<and> live_mrs (g_calls s') = {#} \<and> held_ctxs (g_calls s') = {#} \<and>
    heap_blocks (g_calls s') = 0 \<and> open_fds (g_calls s') = {#} \<and> calls_ok (g_calls s')"
  using destroy_all [OF assms(1) reachable_inv [OF assms(2)] reachable_res [OF assms(2,1)]] assms(3)
  by (simp add: state_res_def)

theorem destroy_all_no_leak_witness:
  "live_mrs (g_calls (spdk_gpu_dmabuf_memory_domain_destroy demo_env demo_registered 100)) = {#} \<and>
   heap_blocks (g_calls (spdk_gpu_dmabuf_memory_domain_destroy demo_env demo_registered 100)) = 0"
  using destroy_all_no_leak [OF demo_ordinal demo_registered_reachable refl]
  by (simp add: demo_registered_domains demo_domain_def)

text \<open>The keys a translation fills in from a cached entry.\<close>

lemma fill_translation_live:
  assumes inv: "state_inv s" and res: "state_res E s" and f: "gpu_dmabuf_domain_find s d = Some gd"
    and e: "e \<in> set (mr_cache gd)" "range_contains (mr_addr e) (mr_len e) addr len"
  obtains m where "mr_mr e = Some m" "m \<in># live_mrs (g_calls s)" "no_wrap addr len"
    "span addr len \<subseteq> span (mr_addr e) (mr_len e)"
    "fill_translation e dst addr len = Translated \<lparr>tr_iov_count = 1, tr_iov_base = addr, tr_iov_len = len,
       tr_dst_domain = dst, tr_lkey = lkey m, tr_rkey = rkey m\<rparr>"
proof -
  have gd: "domain_inv gd" using state_inv_find [OF inv f] .
  from domain_inv_mr_Some [OF this e(1)] obtain m where m: "mr_mr e = Some m" by auto
  have "m \<in># dom_mrs gd" using m e(1) by (force simp: dom_mrs_def)
  moreover obtain ls rs where "g_domains s = ls @ gd # rs" using domain_find_split [OF f] by metis
  ultimately have "m \<in># live_mrs (g_calls s)" using res state_res_frame [of s ls gd rs E] by (simp add: holds_def)
  moreover have "no_wrap (mr_addr e) (mr_len e)" using gd e(1) mrs_no_wrap by (auto simp: domain_inv_def)
  ultimately show ?thesis
    using that [OF m] e(2) m by (auto simp: fill_translation_def range_contains_nat span_def)
qed

text \<open>
  C4.  A translation never reads through a null MR.  When it succeeds it describes one range,
  the one asked for, and the two keys it returns are those of a live MR, of the protection
  domain of the destination, whose registered range contains the range asked for.
\<close>

theorem translate_sound:
  assumes "device_is_ordinal E" "gpu_reachable E s"
    and t: "gpu_dmabuf_translate E s d dst addr len = (t, s')"
  shows "t \<noteq> Null_deref \<and>
    (\<forall>res. t = Translated res \<longrightarrow>
       (\<exists>gd e m. gpu_dmabuf_domain_find s' d = Some gd \<and> e \<in> set (mr_cache gd) \<and> mr_mr e = Some m \<and>
          m \<in># live_mrs (g_calls s') \<and> gpu_dmabuf_get_rdma_pd E dst = Inr (mr_pd e) \<and>
          no_wrap addr len \<and> span addr len \<subseteq> span (mr_addr e) (mr_len e) \<and>
          res = \<lparr>tr_iov_count = 1, tr_iov_base = addr, tr_iov_len = len, tr_dst_domain = dst,
                 tr_lkey = lkey m, tr_rkey = rkey m\<rparr>))"
proof -
  note inv = reachable_inv [OF assms(2)] and res = reachable_res [OF assms(2,1)]
  note inv' = translate_state_inv [OF inv t] and res' = translate_state_res [OF assms(1) res t]
  from translate_entry [OF inv t] show ?thesis
  proof (elim disjE exE conjE)
    fix gd e pd
    assume t: "t = fill_translation e dst addr len" and pd: "gpu_dmabuf_get_rdma_pd E dst = Inr pd" "mr_pd e = pd"
      and e: "gpu_dmabuf_domain_find s' d = Some gd" "e \<in> set (mr_cache gd)" "range_contains (mr_addr e) (mr_len e) addr len"
    show ?thesis
      by (rule fill_translation_live [OF inv' res' e, of dst]) (use t pd e in auto)
  qed simp
qed

lemma demo_translate:
  "gpu_dmabuf_translate demo_env demo_registered 100 7 8200 16 =
    (Translated \<lparr>tr_iov_count = 1, tr_iov_base = 8200, tr_iov_len = 16, tr_dst_domain = 7,
       tr_lkey = 11, tr_rkey = 12\<rparr>, demo_registered)"
  by code_simp

theorem translate_sound_witness:
  "\<exists>m. m \<in># live_mrs (g_calls demo_registered) \<and> lkey m = 11"
  using translate_sound [OF demo_ordinal demo_registered_reachable demo_translate] by auto

text \<open>
  C5.  After a successful register of a range, translating any non-empty part of it for the same
  RDMA domain succeeds from the cache: the driver and the verbs library are not called, and
  the state does not change.
\<close>

theorem register_then_translate:
  assumes "gpu_reachable E s" "no_wrap addr len"
    and "spdk_gpu_dmabuf_memory_domain_register E s d rd addr len = (0, s')"
    and part: "no_wrap a n" "0 < unat n" "span a n \<subseteq> span addr len"
  shows "\<exists>res. gpu_dmabuf_translate E s' d rd a n = (Translated res, s') \<and>
    tr_iov_base res = a \<and> tr_iov_len res = n \<and> tr_dst_domain res = rd"
proof -
  obtain gd pd r e where f: "gpu_dmabuf_domain_find s' d = Some gd" and pd: "gpu_dmabuf_get_rdma_pd E rd = Inr pd"
    and inv: "domain_inv gd" and r: "r \<in> set (regions gd)" "gpu_dmabuf_region_contains r addr len"
    and e: "gpu_dmabuf_find_mr gd (rg_device_id r) pd (rg_addr r) (rg_len r) = Some e"
    using register_success [OF reachable_inv [OF assms(1)] assms(2,3)] by metis
  note es = find_mr_sound [OF e]
  have nw: "no_wrap (rg_addr r) (rg_len r)" "no_wrap (mr_addr e) (mr_len e)"
    using inv r(1) es(1) mrs_no_wrap by (auto simp: domain_inv_def regions_ok_def)
  have "0 < unat len" using part by (auto simp: span_def)
  with r(2) part nw have sub: "span a n \<subseteq> span (rg_addr r) (rg_len r)"
    by (auto simp: gpu_dmabuf_region_contains_def range_contains_span)
  then have rf: "gpu_dmabuf_find_region gd a n = Some r"
    using inv r(1) part by (simp add: find_region_iff domain_inv_def region_contains_span [OF inv])
  have "gpu_dmabuf_range_contains e a n"
    using sub part nw es(4) unfolding gpu_dmabuf_range_contains_def
    by (auto simp: range_contains_nat span_def)
  then have "gpu_dmabuf_find_mr gd (rg_device_id r) pd a n = Some e"
    using inv es part by (simp add: find_mr_iff)
  moreover obtain m where "mr_mr e = Some m" using domain_inv_mr_Some [OF inv es(1)] by auto
  ultimately show ?thesis
    using f pd rf by (simp add: gpu_dmabuf_translate_def fill_translation_def)
qed

lemma demo_register:
  "spdk_gpu_dmabuf_memory_domain_register demo_env demo_created 100 7 8192 4096 = (0, demo_registered)"
  by code_simp

theorem register_then_translate_witness:
  "\<exists>res. gpu_dmabuf_translate demo_env demo_registered 100 7 8200 16 = (Translated res, demo_registered) \<and>
     tr_iov_base res = 8200"
  using register_then_translate [OF demo_created_reachable demo_no_wrap(1) demo_register demo_no_wrap(2)]
  by (force simp: span_def)

text \<open>
  C6.  After a range is invalidated, the domain keeps no region and no MR that overlaps it, and
  translating any non-empty range that overlaps it is refused with \<open>-EINVAL\<close>, whatever was
  registered before.
\<close>

theorem invalidate_then_translate:
  assumes "gpu_reachable E s" "gpu_dmabuf_domain_find s d = Some gd" "gpu_dmabuf_get_rdma_pd E dst = Inr pd"
    and range: "addr \<noteq> 0" "len \<noteq> 0" "no_wrap addr len"
    and overlap: "0 < unat n" "span a n \<inter> span addr len \<noteq> {}"
    and s': "s' = spdk_gpu_dmabuf_memory_domain_invalidate s d addr len"
  shows "gpu_dmabuf_translate E s' d dst a n = (Failed (- EINVAL), s') \<and>
    (\<exists>gd'. gpu_dmabuf_domain_find s' d = Some gd' \<and>
       (\<forall>r \<in> set (regions gd'). span (rg_addr r) (rg_len r) \<inter> span addr len = {}) \<and>
       (\<forall>e \<in> set (mr_cache gd'). span (mr_addr e) (mr_len e) \<inter> span addr len = {}))"
proof -
  note inv = state_inv_find [OF reachable_inv [OF assms(1)] assms(2)]
  obtain gd' h' where g: "gpu_dmabuf_invalidate_range gd (g_calls s) addr len = (gd', h')" by (metis surj_pair)
  note flt = invalidate_range_filter [OF inv g range(1,2)] and inv' = invalidate_range_inv [OF inv g]
  have f: "gpu_dmabuf_domain_find s' d = Some gd'"
    using put_domain_find [OF assms(2), of gd' h'] flt g assms(2)
    by (simp add: s' spdk_gpu_dmabuf_memory_domain_invalidate_def)
  have rs: "span (rg_addr r) (rg_len r) \<inter> span addr len = {}" if "r \<in> set (regions gd')" for r
    using that flt(1) range(3) region_overlaps_span [OF inv, of r addr len] by auto
  have "span (mr_addr e) (mr_len e) \<inter> span addr len = {}" if "e \<in> set (mr_cache gd')" for e
  proof -
    from that inv' obtain r where "r \<in> set (regions gd')" "rg_addr r = mr_addr e" "rg_len r = mr_len e"
      by (auto simp: domain_inv_def mrs_ok_def)
    with rs show ?thesis by fastforce
  qed
  moreover have "gpu_dmabuf_find_region gd' a n = None"
    using rs overlap inv' find_region_None_iff [of gd' n a] region_contains_span [OF inv' _ overlap(1), of _ a]
    by (fastforce simp: domain_inv_def)
  ultimately show ?thesis
    using f rs assms(3) by (simp add: gpu_dmabuf_translate_def)
qed

lemma demo_found: "gpu_dmabuf_domain_find demo_registered 100 = Some demo_domain"
  by (simp add: gpu_dmabuf_domain_find_def demo_registered_domains demo_domain_def)

lemma demo_pd: "gpu_dmabuf_get_rdma_pd demo_env 7 = Inr 9"
  by (simp add: gpu_dmabuf_get_rdma_pd_def demo_env_def)

theorem invalidate_then_translate_witness:
  "fst (gpu_dmabuf_translate demo_env (spdk_gpu_dmabuf_memory_domain_invalidate demo_registered 100 8192 4096)
     100 7 8200 16) = Failed (- EINVAL)"
proof -
  have "(8200::nat) \<in> span 8200 16 \<inter> span 8192 4096" by (simp add: span_def)
  then have "span 8200 16 \<inter> span 8192 4096 \<noteq> {}" by blast
  from invalidate_then_translate [OF demo_registered_reachable demo_found demo_pd _ _ demo_no_wrap(1) _ this refl]
  show ?thesis by simp
qed

text \<open>
  C7.  The two-step lookups (least element not below the key, then the one before it) are exact:
  in a reachable state a region is found if and only if it is declared and contains the range,
  an MR if and only if it is cached for the device and protection domain and contains the range,
  and the overlap lookups return nothing if and only if nothing overlaps.
\<close>

theorem lookups_exact:
  assumes "gpu_reachable E s" "gd \<in> set (g_domains s)" "0 < unat len" "no_wrap addr len"
  shows "(gpu_dmabuf_find_region gd addr len = Some r \<longleftrightarrow>
       r \<in> set (regions gd) \<and> span addr len \<subseteq> span (rg_addr r) (rg_len r)) \<and>
    (gpu_dmabuf_find_mr gd dev pd addr len = Some e \<longleftrightarrow>
       e \<in> set (mr_cache gd) \<and> mr_device_id e = dev \<and> mr_pd e = pd \<and> span addr len \<subseteq> span (mr_addr e) (mr_len e)) \<and>
    (gpu_dmabuf_find_overlapping_region gd addr len = None \<longleftrightarrow>
       {q \<in> set (regions gd). span addr len \<inter> span (rg_addr q) (rg_len q) \<noteq> {}} = {}) \<and>
    (gpu_dmabuf_find_overlapping_mr gd dev pd addr len = None \<longleftrightarrow>
       {f \<in> set (mr_cache gd). mr_device_id f = dev \<and> mr_pd f = pd \<and>
          span addr len \<inter> span (mr_addr f) (mr_len f) \<noteq> {}} = {})"
proof -
  have inv: "domain_inv gd" using reachable_inv [OF assms(1)] assms(2) by (simp add: state_inv_def)
  have rok: "regions_ok (regions gd)" using inv by (simp add: domain_inv_def)
  have mnw: "no_wrap (mr_addr f) (mr_len f)" if "f \<in> set (mr_cache gd)" for f
    using inv that mrs_no_wrap by (auto simp: domain_inv_def)
  show ?thesis
  proof (intro conjI)
    show "gpu_dmabuf_find_region gd addr len = Some r \<longleftrightarrow>
        r \<in> set (regions gd) \<and> span addr len \<subseteq> span (rg_addr r) (rg_len r)"
      using region_contains_span [OF inv _ assms(3)] assms(4) by (auto simp: find_region_iff [OF rok assms(3)])
    show "gpu_dmabuf_find_mr gd dev pd addr len = Some e \<longleftrightarrow> e \<in> set (mr_cache gd) \<and> mr_device_id e = dev \<and>
        mr_pd e = pd \<and> span addr len \<subseteq> span (mr_addr e) (mr_len e)"
      using assms(3,4) mnw
      by (auto simp: find_mr_iff [OF inv assms(3)] gpu_dmabuf_range_contains_def range_contains_span)
    show "gpu_dmabuf_find_overlapping_region gd addr len = None \<longleftrightarrow>
        {q \<in> set (regions gd). span addr len \<inter> span (rg_addr q) (rg_len q) \<noteq> {}} = {}"
      using region_overlaps_span [OF inv] assms(4)
      by (auto simp: find_overlapping_region_None_iff [OF rok assms(3,4)])
    show "gpu_dmabuf_find_overlapping_mr gd dev pd addr len = None \<longleftrightarrow>
        {f \<in> set (mr_cache gd). mr_device_id f = dev \<and> mr_pd f = pd \<and>
           span addr len \<inter> span (mr_addr f) (mr_len f) \<noteq> {}} = {}"
      using assms(4) mnw
      by (auto simp: find_overlapping_mr_None_iff [OF inv assms(3,4)] gpu_dmabuf_range_overlaps_def range_overlaps_span)
  qed
qed

theorem lookups_exact_witness:
  "gpu_dmabuf_find_region demo_domain 8200 16 = Some \<lparr>rg_addr = 8192, rg_len = 4096, rg_device_id = 0\<rparr>"
  using lookups_exact [OF demo_registered_reachable _ _ demo_no_wrap(2),
      of demo_domain "\<lparr>rg_addr = 8192, rg_len = 4096, rg_device_id = 0\<rparr>"]
  by (simp add: demo_registered_domains) (simp add: demo_domain_def span_def)

lemma get_cuda_ctx_flags:
  "gpu_dmabuf_get_cuda_ctx E gd h dev = (r, gd', h') \<Longrightarrow> gd_rdma_access_flags gd' = gd_rdma_access_flags gd"
  by (auto simp: gpu_dmabuf_get_cuda_ctx_def split: if_splits option.splits prod.splits)

lemma export_handle_call:
  assumes "gpu_dmabuf_export E h prev ch addr len = (Inr (off, fd), h')"
  shows "\<exists>b n. Call_MemGetHandleForAddressRange b n GPU_SUCCESS fd \<in> set h' \<and> off = addr - b \<and> b \<le> addr \<and>
    unat off + unat len \<le> unat n"
proof -
  have keep: "c \<in> set (gpu_dmabuf_restore_cuda_ctx E h1 prev ch)" if "c \<in> set h1" for c h1
    using that by (auto simp: gpu_dmabuf_restore_cuda_ctx_def gpu_ctx_set_current_def Let_def split: gpu_backend.splits)
  have fits: "unat (addr - b) + unat len \<le> unat n" if "addr - b \<le> n" "len \<le> n - (addr - b)" for b n :: u64
    using that by (simp add: word_le_nat_alt unat_sub_if')
  show ?thesis
    using assms
    by (auto simp: gpu_dmabuf_export_def gpu_mem_get_handle_for_address_range_def Let_def not_less
        intro!: exI keep fits split: if_splits prod.splits)
qed

lemma register_mr_success:
  assumes "gpu_dmabuf_register_mr E gd h dev pd addr len = (Inr e, gd', h')"
  obtains ctx gd1 h1 prev ch h2 off fd h3 where
    "gpu_dmabuf_get_cuda_ctx E gd (Call_calloc True # h) dev = (Inr ctx, gd1, h1)"
    "gpu_dmabuf_set_cuda_ctx E h1 ctx = (Inr (prev, ch), h2)"
    "gpu_dmabuf_export E h2 prev ch addr len = (Inr (off, fd), h3)"
    "gpu_dmabuf_cache_mr E gd1 h3 dev pd addr len off fd = (Inr e, gd', h')"
proof -
  have "calloc_ok E h" using assms by (auto simp: gpu_dmabuf_register_mr_def calloc_def split: if_splits)
  with assms show ?thesis
    by (auto simp: gpu_dmabuf_register_mr_def calloc_def split: if_splits prod.splits sum.splits intro: that)
qed

text \<open>
  C8.  A dma-buf MR never reaches outside the exported allocation: when a registration succeeds,
  the last calls are the registration and the close of a descriptor that was exported for an
  allocation \<open>[b, b + n)\<close>, the offset passed is the distance of the address from \<open>b\<close>, offset and
  length fit in \<open>n\<close>, and the cached entry carries the MR the verbs library returned.
\<close>

theorem register_mr_inside_allocation:
  assumes "gpu_dmabuf_register_mr E gd h dev pd addr len = (Inr e, gd', h')"
  shows "\<exists>b n m args rest. h' = Call_close (ra_fd args) # Call_ibv_reg_dmabuf_mr args (Some m) # rest \<and>
    Call_MemGetHandleForAddressRange b n GPU_SUCCESS (ra_fd args) \<in> set rest \<and>
    ra_pd args = pd \<and> ra_iova args = addr \<and> ra_length args = len \<and>
    ra_access args = gd_rdma_access_flags gd \<and>
    b \<le> addr \<and> ra_offset args = addr - b \<and> unat (ra_offset args) + unat len \<le> unat n \<and> mr_mr e = Some m"
proof -
  obtain ctx gd1 h1 prev ch h2 off fd h3 where
    g: "gpu_dmabuf_get_cuda_ctx E gd (Call_calloc True # h) dev = (Inr ctx, gd1, h1)"
    and x: "gpu_dmabuf_export E h2 prev ch addr len = (Inr (off, fd), h3)"
    and c: "gpu_dmabuf_cache_mr E gd1 h3 dev pd addr len off fd = (Inr e, gd', h')"
    using register_mr_success [OF assms] by metis
  from export_handle_call [OF x] obtain b n where
    "Call_MemGetHandleForAddressRange b n GPU_SUCCESS fd \<in> set h3" "off = addr - b" "b \<le> addr"
    "unat off + unat len \<le> unat n" by metis
  with c get_cuda_ctx_flags [OF g] show ?thesis
    by (auto simp: gpu_dmabuf_cache_mr_def Let_def split: option.splits prod.splits if_splits)
qed

theorem register_mr_inside_allocation_witness:
  "\<exists>b n fd. Call_MemGetHandleForAddressRange b n GPU_SUCCESS fd \<in>
      set (snd (snd (gpu_dmabuf_register_mr demo_env (demo_domain\<lparr>mr_cache := []\<rparr>) [] 0 9 8192 4096))) \<and>
    b \<le> 8192 \<and> unat (8192 - b) + unat (4096 :: u64) \<le> unat n"
proof -
  let ?r = "gpu_dmabuf_register_mr demo_env (demo_domain\<lparr>mr_cache := []\<rparr>) [] 0 9 8192 4096"
  have "fst ?r = Inr \<lparr>mr_addr = 8192, mr_len = 4096, mr_device_id = 0, mr_pd = 9, mr_mr = Some demo_mr\<rparr>"
    by code_simp
  then have "?r = (Inr \<lparr>mr_addr = 8192, mr_len = 4096, mr_device_id = 0, mr_pd = 9, mr_mr = Some demo_mr\<rparr>,
      fst (snd ?r), snd (snd ?r))" by (simp add: prod_eq_iff)
  from register_mr_inside_allocation [OF this] show ?thesis by (metis list.set_intros(2))
qed

text \<open>
  C9. Options are compatible across structure versions: creating a domain with an options
  structure depends only on the fields that lie inside the size the caller declared; every
  other field takes its default.  A non-zero size is enough for creation to accept it.
\<close>

definition opts_agree :: "u64 \<Rightarrow> gpu_dmabuf_opts \<Rightarrow> gpu_dmabuf_opts \<Rightarrow> bool" where
  "opts_agree n a b \<longleftrightarrow> (n \<ge> opts_end_id \<longrightarrow> o_id a = o_id b) \<and>
     (n \<ge> opts_end_cuda_device_id \<longrightarrow> o_cuda_device_id a = o_cuda_device_id b) \<and>
     (n \<ge> opts_end_cuda_context \<longrightarrow> o_cuda_context a = o_cuda_context b) \<and>
     (n \<ge> opts_end_rdma_access_flags \<longrightarrow> o_rdma_access_flags a = o_rdma_access_flags b)"

theorem create_ignores_fields_beyond_size:
  assumes "o_size a = o_size b" "opts_agree (o_size a) a b"
  shows "spdk_gpu_dmabuf_memory_domain_create E s is_null (Some a) =
      spdk_gpu_dmabuf_memory_domain_create E s is_null (Some b) \<and>
    (o_size a \<noteq> 0 \<and> o_size a < opts_end_id \<longrightarrow>
      spdk_gpu_dmabuf_memory_domain_create E s is_null (Some a) =
      spdk_gpu_dmabuf_memory_domain_create E s is_null None)"
proof -
  have "gpu_dmabuf_merge_opts E (Some a) = gpu_dmabuf_merge_opts E (Some b)"
    using assms by (auto simp: gpu_dmabuf_merge_opts_def opts_agree_def GPU_DMABUF_OPTS_HAS_def Let_def)
  moreover have "gpu_dmabuf_merge_opts E (Some a) = gpu_dmabuf_merge_opts E None"
    if "o_size a \<noteq> 0" "o_size a < opts_end_id"
  proof -
    have "\<not> opts_end_id \<le> o_size a" "\<not> opts_end_cuda_device_id \<le> o_size a"
      "\<not> opts_end_cuda_context \<le> o_size a" "\<not> opts_end_rdma_access_flags \<le> o_size a"
      using that(2)
      by (simp_all add: not_le opts_end_id_def opts_end_cuda_device_id_def opts_end_cuda_context_def
          opts_end_rdma_access_flags_def word_less_nat_alt)
    with that(1) show ?thesis by (simp add: gpu_dmabuf_merge_opts_def GPU_DMABUF_OPTS_HAS_def Let_def)
  qed
  ultimately show ?thesis by (auto simp: spdk_gpu_dmabuf_memory_domain_create_def)
qed

theorem create_ignores_fields_beyond_size_witness:
  "spdk_gpu_dmabuf_memory_domain_create demo_env gpu_init_state False
     (Some \<lparr>o_size = 8, o_id = None, o_cuda_device_id = 3, o_cuda_context = 5, o_rdma_access_flags = 0\<rparr>) =
   spdk_gpu_dmabuf_memory_domain_create demo_env gpu_init_state False None"
  using create_ignores_fields_beyond_size [of
      "\<lparr>o_size = 8, o_id = None, o_cuda_device_id = 3, o_cuda_context = 5, o_rdma_access_flags = 0\<rparr>"
      "\<lparr>o_size = 8, o_id = None, o_cuda_device_id = 3, o_cuda_context = 5, o_rdma_access_flags = 0\<rparr>"
      demo_env gpu_init_state False]
  by (simp add: opts_agree_def opts_end_id_def)

text \<open>
  A register that fails after the range was declared leaves the range declared: the region
  stays in the tree although no MR exists for it, and the caller sees the error code only.
\<close>

theorem failed_register_keeps_region:
  assumes "gpu_reachable E s" "no_wrap addr len" "addr \<noteq> 0" "len \<noteq> 0"
    and "gpu_dmabuf_domain_find s d = Some gd" "gpu_dmabuf_get_rdma_pd E rd = Inr pd"
    and "gpu_dmabuf_get_ptr_device_id E gd (g_calls s) addr = (Inr dev, h)"
    and a: "gpu_dmabuf_add_region E gd h addr len dev = (Inr r, gd1, h1)"
    and "gpu_dmabuf_find_mr gd1 (rg_device_id r) pd (rg_addr r) (rg_len r) = None"
    and m: "gpu_dmabuf_register_mr E gd1 h1 (rg_device_id r) pd (rg_addr r) (rg_len r) = (Inl rc, gd2, h2)"
  shows "\<exists>s'. spdk_gpu_dmabuf_memory_domain_register E s d rd addr len = (rc, s') \<and> rc \<noteq> 0 \<and>
    (\<exists>gd'. gpu_dmabuf_domain_find s' d = Some gd' \<and> gpu_dmabuf_find_region gd' addr len = Some r \<and>
       mr_cache gd' = mr_cache gd)"
proof -
  have len: "0 < unat len" using assms(4) by (simp add: unat_gt_0)
  note ae = add_region_effect [OF state_inv_find [OF reachable_inv [OF assms(1)] assms(5)] len assms(2) a]
  then have inv1: "domain_inv gd1" "r \<in> set (regions gd1)" "gpu_dmabuf_region_contains r addr len"
    and id1: "gd_domain gd1 = gd_domain gd" "mr_cache gd1 = mr_cache gd" by auto
  note inv2 = register_mr_inv [OF inv1(1,2) m]
  have "mr_cache gd2 = mr_cache gd" using register_mr_effect [OF m] id1 by (auto dest: ctx_step_mr_cache)
  moreover have "gpu_dmabuf_find_region gd2 addr len = Some r"
    using inv1 inv2 len by (simp add: find_region_iff domain_inv_def)
  moreover have "gpu_dmabuf_domain_find (put_domain s d gd2 h2) d = Some gd2"
    using put_domain_find [OF assms(5)] register_mr_domain_id [OF m] id1 by simp
  moreover have "spdk_gpu_dmabuf_memory_domain_register E s d rd addr len = (rc, put_domain s d gd2 h2)"
    using assms by (simp add: spdk_gpu_dmabuf_memory_domain_register_def)
  ultimately show ?thesis using register_mr_code [OF m] by blast
qed

text \<open>The witness: the same environment with a verbs library that refuses with \<open>ENOMEM\<close>.\<close>

definition demo_env_noreg :: gpu_env where
  "demo_env_noreg = demo_env\<lparr>ibv_reg_dmabuf_mr := (\<lambda>h a. (None, 12))\<rparr>"

definition demo_created_noreg :: gpu_state where
  "demo_created_noreg = snd (spdk_gpu_dmabuf_memory_domain_create demo_env_noreg gpu_init_state False None)"

lemma demo_created_noreg_reachable: "gpu_reachable demo_env_noreg demo_created_noreg"
  unfolding demo_created_noreg_def
  by (rule reach_step [OF reach_init step_create]) (rule surjective_pairing)

theorem failed_register_keeps_region_witness:
  "\<exists>s' gd'. spdk_gpu_dmabuf_memory_domain_register demo_env_noreg demo_created_noreg 100 7 8192 4096 = (- 12, s') \<and>
     gpu_dmabuf_domain_find s' 100 = Some gd' \<and> gpu_dmabuf_find_region gd' 8192 4096 \<noteq> None \<and> mr_cache gd' = []"
proof -
  define gd where "gd = demo_domain\<lparr>mr_cache := [], regions := [], cuda_ctxs := []\<rparr>"
  define gd1 where "gd1 = demo_domain\<lparr>mr_cache := [], cuda_ctxs := []\<rparr>"
  let ?h = "Call_cuPointerGetAttribute 8192 GPU_SUCCESS # g_calls demo_created_noreg"
  let ?h1 = "Call_calloc True # ?h" and ?r = "\<lparr>rg_addr = 8192, rg_len = 4096, rg_device_id = 0\<rparr>"
  have 1: "gpu_dmabuf_domain_find demo_created_noreg 100 = Some gd" unfolding gd_def by code_simp
  have 2: "gpu_dmabuf_get_rdma_pd demo_env_noreg 7 = Inr 9" by code_simp
  have 3: "gpu_dmabuf_get_ptr_device_id demo_env_noreg gd (g_calls demo_created_noreg) 8192 = (Inr 0, ?h)"
    unfolding gd_def by code_simp
  have 4: "gpu_dmabuf_add_region demo_env_noreg gd ?h 8192 4096 0 = (Inr ?r, gd1, ?h1)"
    unfolding gd_def gd1_def by code_simp
  have 5: "gpu_dmabuf_find_mr gd1 0 9 8192 4096 = None" unfolding gd1_def by code_simp
  have "fst (gpu_dmabuf_register_mr demo_env_noreg gd1 ?h1 0 9 8192 4096) = Inl (- 12)"
    unfolding gd1_def by code_simp
  then obtain gd2 h2 where 6: "gpu_dmabuf_register_mr demo_env_noreg gd1 ?h1 0 9 8192 4096 = (Inl (- 12), gd2, h2)"
    by (metis prod.collapse)
  from failed_register_keeps_region [OF demo_created_noreg_reachable demo_no_wrap(1) _ _ 1 2 3 4, simplified, OF 5 6]
  show ?thesis by (auto simp: gd_def)
qed

lemma find_append_None: "find P xs = None \<Longrightarrow> find P (xs @ ys) = find P ys"
  by (induction xs) (auto split: if_splits)

text \<open>
  On MACA the device cannot be inferred from a pointer: a domain created with the default
  options (device -1) refuses every register with \<open>-EFAULT\<close>, whatever the driver answers.
\<close>

theorem maca_default_register_fails:
  assumes "backend E = MACA"
    and c: "spdk_gpu_dmabuf_memory_domain_create E s False None = (Inr d, s')"
    and "gpu_dmabuf_domain_find s d = None" "gpu_dmabuf_get_rdma_pd E rd = Inr pd" "addr \<noteq> 0" "len \<noteq> 0"
  shows "spdk_gpu_dmabuf_memory_domain_register E s' d rd addr len = (- EFAULT, s')"
proof -
  obtain gd where "gpu_dmabuf_domain_find s' d = Some gd" "gd_cuda_device_id gd = - 1"
    using c assms(1,3)
    by (auto simp: spdk_gpu_dmabuf_memory_domain_create_def gpu_dmabuf_merge_opts_def gpu_dmabuf_publish_def
        spdk_gpu_dmabuf_memory_domain_get_opts_def gpu_dmabuf_acquire_ctx_def gpu_init_def calloc_def
        gpu_dmabuf_domain_find_def Let_def find_append_None split: if_splits prod.splits)
  with assms show ?thesis
    by (simp add: spdk_gpu_dmabuf_memory_domain_register_def gpu_dmabuf_get_ptr_device_id_def
        gpu_pointer_get_attribute_def)
qed

definition demo_env_maca :: gpu_env where
  "demo_env_maca = demo_env\<lparr>backend := MACA\<rparr>"

theorem maca_default_register_fails_witness:
  "\<exists>s'. spdk_gpu_dmabuf_memory_domain_create demo_env_maca gpu_init_state False None = (Inr 100, s') \<and>
     spdk_gpu_dmabuf_memory_domain_register demo_env_maca s' 100 7 8192 4096 = (- EFAULT, s')"
proof -
  have "fst (spdk_gpu_dmabuf_memory_domain_create demo_env_maca gpu_init_state False None) = Inr 100" by code_simp
  then obtain s' where c: "spdk_gpu_dmabuf_memory_domain_create demo_env_maca gpu_init_state False None = (Inr 100, s')"
    by (metis prod.collapse)
  have "gpu_dmabuf_get_rdma_pd demo_env_maca 7 = Inr 9" by code_simp
  with maca_default_register_fails [OF _ c, of 7 9 8192 4096] c show ?thesis
    by (simp add: demo_env_maca_def gpu_dmabuf_domain_find_def gpu_init_state_def)
qed

text \<open>
  A register of a range that wraps around the address space is not rejected before the
  range is declared.  The call itself fails, because the range does not fit the allocation, but
  the wrapped region stays in the tree and hides a correctly registered region: a translation
  that succeeded before is refused afterwards.
\<close>

theorem wrapped_register_hides_region:
  "let (rc, s') = spdk_gpu_dmabuf_memory_domain_register demo_env demo_registered 100 7 10240 18446744073709551360
   in \<not> no_wrap 10240 18446744073709551360 \<and> rc = - EINVAL \<and>
      (\<exists>res. fst (gpu_dmabuf_translate demo_env demo_registered 100 7 10496 16) = Translated res) \<and>
      fst (gpu_dmabuf_translate demo_env s' 100 7 10496 16) = Failed (- EINVAL)"
proof -
  let ?r = "spdk_gpu_dmabuf_memory_domain_register demo_env demo_registered 100 7 10240 18446744073709551360"
  have "\<not> no_wrap 10240 18446744073709551360" by (simp add: no_wrap_def)
  moreover have "fst ?r = - EINVAL" by code_simp
  moreover have "fst (gpu_dmabuf_translate demo_env demo_registered 100 7 10496 16) =
      Translated \<lparr>tr_iov_count = 1, tr_iov_base = 10496, tr_iov_len = 16, tr_dst_domain = 7,
        tr_lkey = 11, tr_rkey = 12\<rparr>" by code_simp
  moreover have "fst (gpu_dmabuf_translate demo_env (snd ?r) 100 7 10496 16) = Failed (- EINVAL)" by code_simp
  ultimately show ?thesis by (simp add: case_prod_unfold Let_def)
qed

end
