(* ===== verification/Gpu_Dmabuf_Ctx.thy ===== *)
theory Gpu_Dmabuf_Ctx
  imports Gpu_Dmabuf_Props
begin

text \<open>
  The GPU context of the calling thread.  Exporting a dma-buf needs the context of the device,
  so registration switches to it and back; the theorem of this theory says that every path,
  also those that fail halfway, leaves the context as it was.
\<close>

text \<open>The current context, from the one at the start and the successful switches since then.\<close>

fun current_ctx :: "ptr \<Rightarrow> calls \<Rightarrow> ptr" where
  "current_ctx c0 [] = c0"
| "current_ctx c0 (Call_cuCtxSetCurrent c r # h) = (if r = GPU_SUCCESS then c else current_ctx c0 h)"
| "current_ctx c0 (c # h) = current_ctx c0 h"

text \<open>
  What the driver documents: the getter returns the current context, and a context that was
  current earlier can be made current again.
\<close>

definition ctx_driver :: "gpu_env \<Rightarrow> ptr \<Rightarrow> bool" where
  "ctx_driver E c0 \<longleftrightarrow>
     (\<forall>h. fst (cuCtxGetCurrent E h) = GPU_SUCCESS \<longrightarrow> snd (cuCtxGetCurrent E h) = current_ctx c0 h) \<and>
     (\<forall>h h'. cuCtxSetCurrent E (h' @ h) (current_ctx c0 h) = GPU_SUCCESS)"

definition ctx_kept :: "ptr \<Rightarrow> calls \<Rightarrow> calls \<Rightarrow> bool" where
  "ctx_kept c0 h h' \<longleftrightarrow> (\<exists>x. h' = x @ h) \<and> current_ctx c0 h' = current_ctx c0 h"

lemma ctx_kept_refl [simp]: "ctx_kept c0 h h"
  by (simp add: ctx_kept_def)

lemma ctx_kept_trans [trans]: "ctx_kept c0 h h1 \<Longrightarrow> ctx_kept c0 h1 h2 \<Longrightarrow> ctx_kept c0 h h2"
  by (auto simp: ctx_kept_def)

lemma ctx_kept_Cons:
  "(\<And>c' r. c \<noteq> Call_cuCtxSetCurrent c' r) \<Longrightarrow> ctx_kept c0 h h' \<Longrightarrow> ctx_kept c0 h (c # h')"
  by (cases c) (auto simp: ctx_kept_def)

lemma ctx_kept_free [simp]: "ctx_kept c0 h (free h') \<longleftrightarrow> ctx_kept c0 h h' \<or> h = free h'"
  by (auto simp: free_def ctx_kept_def Cons_eq_append_conv)

lemma address_range_kept: "gpu_mem_get_address_range E h p = (r, b, n, h') \<Longrightarrow> ctx_kept c0 h h'"
  by (auto simp: gpu_mem_get_address_range_def Let_def intro!: ctx_kept_Cons split: prod.splits)

lemma handle_kept: "gpu_mem_get_handle_for_address_range E h b n = (r, fd, h') \<Longrightarrow> ctx_kept c0 h h'"
  by (auto simp: gpu_mem_get_handle_for_address_range_def Let_def intro!: ctx_kept_Cons split: prod.splits)

lemma get_current_kept: "gpu_ctx_get_current E h = (r, c, h') \<Longrightarrow> ctx_kept c0 h h'"
  by (auto simp: gpu_ctx_get_current_def Let_def intro!: ctx_kept_Cons split: gpu_backend.splits prod.splits)

lemma retain_kept: "gpu_device_primary_ctx_retain E h d = (r, c, h') \<Longrightarrow> ctx_kept c0 h h'"
  by (auto simp: gpu_device_primary_ctx_retain_def Let_def intro!: ctx_kept_Cons
      split: gpu_backend.splits prod.splits)

lemma device_get_kept: "gpu_device_get E h d = (r, c, h') \<Longrightarrow> ctx_kept c0 h h'"
  by (auto simp: gpu_device_get_def Let_def intro!: ctx_kept_Cons split: gpu_backend.splits prod.splits)

lemma attribute_kept: "gpu_pointer_get_attribute E h p = (r, d, h') \<Longrightarrow> ctx_kept c0 h h'"
  by (auto simp: gpu_pointer_get_attribute_def Let_def intro!: ctx_kept_Cons split: gpu_backend.splits prod.splits)

lemma calloc_kept: "calloc E h = (ok, h') \<Longrightarrow> ctx_kept c0 h h'"
  by (auto simp: calloc_def intro!: ctx_kept_Cons)

lemma get_cuda_ctx_kept: "gpu_dmabuf_get_cuda_ctx E gd h dev = (r, gd', h') \<Longrightarrow> ctx_kept c0 h h'"
  by (auto simp: gpu_dmabuf_get_cuda_ctx_def split: if_splits option.splits prod.splits
      dest!: calloc_kept [of E _ _ _ c0] device_get_kept [of E _ _ _ _ _ c0] retain_kept [of E _ _ _ _ _ c0]
      intro: ctx_kept_trans)

text \<open>Between a switch and its undoing, the context to return to is the one at the switch.\<close>

lemma set_cuda_ctx_effect:
  assumes d: "ctx_driver E c0" and g: "gpu_dmabuf_set_cuda_ctx E h c = (r, h')"
  shows "case r of Inl rc \<Rightarrow> ctx_kept c0 h h'
    | Inr (prev, ch) \<Rightarrow> (\<exists>x. h' = x @ h) \<and> (if ch \<and> backend E = CUDA then prev = current_ctx c0 h else ctx_kept c0 h h')"
  using g d
  by (cases "backend E"; cases "cuCtxGetCurrent E h")
    (auto simp: gpu_dmabuf_set_cuda_ctx_def gpu_ctx_get_current_def gpu_ctx_set_current_def ctx_driver_def
      ctx_kept_def Let_def split: if_splits dest: spec [of _ h])

lemma restore_effect:
  assumes d: "ctx_driver E c0" and k: "ctx_kept c0 h1 h2" and h1: "\<exists>x. h1 = x @ h"
    and p: "if ch \<and> backend E = CUDA then prev = current_ctx c0 h else ctx_kept c0 h h1"
  shows "ctx_kept c0 h (gpu_dmabuf_restore_cuda_ctx E h2 prev ch)"
proof (cases "ch \<and> backend E = CUDA")
  case True
  from k h1 obtain x where "h2 = x @ h" by (auto simp: ctx_kept_def)
  with d have "cuCtxSetCurrent E h2 (current_ctx c0 h) = GPU_SUCCESS" by (simp add: ctx_driver_def)
  with True p \<open>h2 = x @ h\<close> show ?thesis
    by (auto simp: gpu_dmabuf_restore_cuda_ctx_def gpu_ctx_set_current_def ctx_kept_def)
next
  case False
  with p k have "ctx_kept c0 h h2" by (auto intro: ctx_kept_trans)
  with False show ?thesis
    by (cases "backend E") (auto simp: gpu_dmabuf_restore_cuda_ctx_def gpu_ctx_set_current_def)
qed

lemma export_kept:
  assumes d: "ctx_driver E c0" and g: "gpu_dmabuf_export E h1 prev ch addr len = (r, h')"
    and h1: "\<exists>x. h1 = x @ h" "if ch \<and> backend E = CUDA then prev = current_ctx c0 h else ctx_kept c0 h h1"
  shows "ctx_kept c0 h h'"
proof -
  obtain rc b n h2 where a: "gpu_mem_get_address_range E h1 addr = (rc, b, n, h2)" by (metis prod_cases4)
  obtain rc2 fd h3 where hd: "gpu_mem_get_handle_for_address_range E h2 b n = (rc2, fd, h3)" by (metis prod_cases3)
  note k2 = address_range_kept [OF a] and k3 = ctx_kept_trans [OF address_range_kept [OF a] handle_kept [OF hd]]
  note r = restore_effect [OF d k2 h1] restore_effect [OF d k3 h1]
  from g a hd r show ?thesis by (auto simp: gpu_dmabuf_export_def Let_def split: if_splits)
qed

lemma cache_mr_kept:
  assumes "gpu_dmabuf_cache_mr E gd h dev pd addr len off fd = (r, gd', h')"
  shows "ctx_kept c0 h h'"
  using assms
  by (auto simp: gpu_dmabuf_cache_mr_def free_def Let_def intro!: ctx_kept_Cons
      split: option.splits prod.splits if_splits)

lemma register_mr_kept:
  assumes d: "ctx_driver E c0" and g: "gpu_dmabuf_register_mr E gd h dev pd addr len = (r, gd', h')"
  shows "ctx_kept c0 h h'"
proof (cases "gpu_dmabuf_find_overlapping_mr gd dev pd addr len \<noteq> None \<or> \<not> calloc_ok E h")
  case True
  with g show ?thesis
    by (auto simp: gpu_dmabuf_register_mr_def calloc_def intro!: ctx_kept_Cons split: if_splits)
next
  case False
  let ?h0 = "Call_calloc True # h"
  note def = False g gpu_dmabuf_register_mr_def calloc_def
  have k0: "ctx_kept c0 h ?h0" by (intro ctx_kept_Cons) auto
  obtain r1 gd1 h1 where c: "gpu_dmabuf_get_cuda_ctx E gd ?h0 dev = (r1, gd1, h1)" by (metis prod_cases3)
  note k1 = ctx_kept_trans [OF k0 get_cuda_ctx_kept [OF c]]
  show ?thesis
  proof (cases r1)
    case (Inl rc)
    with def c k1 show ?thesis by auto
  next
    case (Inr ctx)
    obtain r2 h2 where s: "gpu_dmabuf_set_cuda_ctx E h1 ctx = (r2, h2)" by (metis surj_pair)
    note e = set_cuda_ctx_effect [OF d s]
    show ?thesis
    proof (cases r2)
      case (Inl rc)
      with Inr def c s e k1 show ?thesis by (auto intro: ctx_kept_trans)
    next
      case r2: (Inr p)
      obtain prev ch where p: "p = (prev, ch)" by (metis surj_pair)
      obtain r3 h3 where x: "gpu_dmabuf_export E h2 prev ch addr len = (r3, h3)" by (metis surj_pair)
      have k3: "ctx_kept c0 h h3"
        using ctx_kept_trans [OF k1 export_kept [OF d x]] e r2 p by simp
      show ?thesis
        using def c s x Inr r2 p k3 ctx_kept_trans [OF k3 cache_mr_kept]
        by (cases r3) (auto split: prod.splits)
    qed
  qed
qed

lemma put_domain_calls [simp]: "g_calls (put_domain s d gd h) = h"
  by (simp add: put_domain_def)

lemma add_region_kept: "gpu_dmabuf_add_region E gd h addr len dev = (r, gd', h') \<Longrightarrow> ctx_kept c0 h h'"
  by (auto simp: gpu_dmabuf_add_region_def free_def calloc_def Let_def intro!: ctx_kept_Cons
      split: if_splits option.splits prod.splits)

lemma ptr_device_id_kept: "gpu_dmabuf_get_ptr_device_id E gd h a = (r, h') \<Longrightarrow> ctx_kept c0 h h'"
  by (auto simp: gpu_dmabuf_get_ptr_device_id_def Let_def split: if_splits prod.splits dest!: attribute_kept)


text \<open>The witness runs with context 55 current, so registration switches to 77 and back.\<close>

definition demo_env_ctx :: gpu_env where
  "demo_env_ctx = demo_env\<lparr>cuCtxGetCurrent := (\<lambda>h. (GPU_SUCCESS, current_ctx 55 h))\<rparr>"


end
