(* ===== verification/Decimal.thy ===== *)
theory Decimal
  imports Mooncake_Prelude
begin

text \<open>
  Decimal printing and parsing of the C++ library: \<open>std::to_string\<close>, \<open>std::stoull\<close> and
  \<open>std::stoi\<close> with their white-space, sign and range rules.  An exception is \<open>None\<close>.
\<close>

section \<open>Printing\<close>

definition digit_char :: "nat \<Rightarrow> char" where
  "digit_char d = char_of (48 + d)"

fun show_nat :: "nat \<Rightarrow> string" where
  "show_nat n = (if n < 10 then [digit_char n] else show_nat (n div 10) @ [digit_char (n mod 10)])"

declare show_nat.simps [simp del]

definition show_int :: "int \<Rightarrow> string" where
  "show_int i = (if i < 0 then CHR ''-'' # show_nat (nat (- i)) else show_nat (nat i))"

section \<open>Parsing\<close>

definition is_digit :: "char \<Rightarrow> bool" where
  "is_digit c \<longleftrightarrow> 48 \<le> (of_char c :: nat) \<and> (of_char c :: nat) \<le> 57"

definition digit_val :: "char \<Rightarrow> nat" where
  "digit_val c = of_char c - 48"

definition is_space :: "char \<Rightarrow> bool" where
  "is_space c \<longleftrightarrow> (of_char c :: nat) = 32 \<or> 9 \<le> (of_char c :: nat) \<and> (of_char c :: nat) \<le> 13"

definition read_digits :: "string \<Rightarrow> nat" where
  "read_digits cs = foldl (\<lambda>a c. 10 * a + digit_val c) 0 cs"

text \<open>The shape \<open>strtol\<close> reads: white space, an optional sign, the longest run of digits.\<close>

definition scan_number :: "string \<Rightarrow> (bool \<times> nat) option" where
  "scan_number s =
     (let s = dropWhile is_space s;
          neg = (s \<noteq> [] \<and> hd s = CHR ''-'');
          s = (if s \<noteq> [] \<and> (hd s = CHR ''-'' \<or> hd s = CHR ''+'') then tl s else s);
          ds = takeWhile is_digit s
      in if ds = [] then None else Some (neg, read_digits ds))"

text \<open>\<open>strtoull\<close> negates in the unsigned type; a magnitude beyond 64 bits is out of range.\<close>

definition stoull :: "string \<Rightarrow> u64 option" where
  "stoull s = (case scan_number s of
     None \<Rightarrow> None
   | Some (neg, v) \<Rightarrow> if v \<ge> 2 ^ 64 then None else Some (if neg then - of_nat v else of_nat v))"

definition stoi :: "string \<Rightarrow> int option" where
  "stoi s = (case scan_number s of
     None \<Rightarrow> None
   | Some (neg, v) \<Rightarrow>
       (let i = (if neg then - int v else int v)
        in if i < - (2 ^ 31) \<or> i \<ge> 2 ^ 31 then None else Some i))"

section \<open>Round trips\<close>

lemma digit_char_code: "d < 10 \<Longrightarrow> (of_char (digit_char d) :: nat) = 48 + d"
  by (simp add: digit_char_def)

lemma digit_char_val: "d < 10 \<Longrightarrow> is_digit (digit_char d) \<and> digit_val (digit_char d) = d"
  by (simp add: is_digit_def digit_val_def digit_char_code)

lemma show_nat_digits: "c \<in> set (show_nat n) \<Longrightarrow> is_digit c"
proof (induction n rule: show_nat.induct)
  case (1 n)
  then show ?case by (subst (asm) show_nat.simps) (auto simp: digit_char_val split: if_splits)
qed

lemma show_nat_not_Nil [simp]: "show_nat n \<noteq> []"
  by (subst show_nat.simps) simp

lemma read_show_nat [simp]: "read_digits (show_nat n) = n"
proof (induction n rule: show_nat.induct)
  case (1 n)
  then show ?case
    by (subst show_nat.simps) (auto simp: read_digits_def digit_char_val)
qed

text \<open>A number is read back from its decimal text, whatever non-digit follows it.\<close>

lemma scan_show_nat:
  assumes "cs = [] \<or> \<not> is_digit (hd cs)"
  shows "scan_number (show_nat n @ cs) = Some (False, n)"
proof -
  obtain d ds where s: "show_nat n = d # ds" by (cases "show_nat n") auto
  have d: "is_digit d" using show_nat_digits [of d n] s by simp
  then have c: "\<not> is_space d" "d \<noteq> CHR ''-''" "d \<noteq> CHR ''+''"
    by (auto simp: is_digit_def is_space_def)
  have "takeWhile is_digit (show_nat n @ cs) = show_nat n"
    using assms show_nat_digits [of _ n] by (cases cs) (auto simp: takeWhile_append)
  with c s show ?thesis
    using read_show_nat [of n] by (simp add: scan_number_def Let_def)
qed

lemma scan_show_neg: "scan_number (CHR ''-'' # show_nat n) = Some (True, n)"
proof -
  have t: "takeWhile is_digit (show_nat n) = show_nat n"
    using show_nat_digits [of _ n] by (simp add: takeWhile_eq_all_conv)
  show ?thesis by (simp add: scan_number_def Let_def is_space_def t)
qed

lemma stoull_show [simp]: "stoull (show_nat (unat (w :: u64))) = Some w"
proof -
  have "unat w < 2 ^ 64" using unsigned_less [of w] by simp
  with scan_show_nat [of "[]" "unat w"] show ?thesis by (simp add: stoull_def)
qed

lemma stoi_show: "- (2 ^ 31) \<le> i \<Longrightarrow> i < 2 ^ 31 \<Longrightarrow> stoi (show_int i) = Some i"
  using scan_show_nat [of "[]" "nat i"] scan_show_neg [of "nat (- i)"]
  by (cases "i < 0") (simp_all add: stoi_def show_int_def)

lemma show_int_chars: "c \<in> set (show_int i) \<Longrightarrow> is_digit c \<or> c = CHR ''-''"
  using show_nat_digits by (auto simp: show_int_def split: if_splits)

lemma show_int_not_Nil [simp]: "show_int i \<noteq> []"
  by (simp add: show_int_def)

end
