(* ===== verification/Memory_Location.thy ===== *)
theory Memory_Location
  imports Decimal
begin

text \<open>
  Where a buffer lives: \<open>memory_location.cpp\<close> of the transfer engine.

  \<open>getMemoryLocation\<close> cuts a buffer into runs of pages on one NUMA node;
  \<open>buildSegmentsLocation\<close>, \<open>parseSegmentsLocation\<close> and \<open>resolveSegmentsLocation\<close> encode a buffer
  spread over several nodes as a location string.  The GPU runtime and \<open>numa_move_pages\<close> are
  the fields of \<open>loc_env\<close>.  The two arrays the function allocates have exactly as many elements
  as it asks for pages, and reading beyond them is \<open>None\<close>.
\<close>

section \<open>Model\<close>

definition pagesize :: u64 where
  "pagesize = 4096"

definition kWildcardLocation :: string where
  "kWildcardLocation = ''*''"

definition kSegmentsLocationPrefix :: string where
  "kSegmentsLocationPrefix = ''segments:''"

record MemoryLocationEntry =
  le_start :: u64
  le_len :: u64
  le_location :: string

record SegmentsLocationInfo =
  page_size :: u64
  numa_nodes :: "int list"

text \<open>\<open>le_gpu_build\<close> is the preprocessor condition; the attribute query returns the device of device memory.\<close>

datatype pointer_attributes = Attr_error | Attr_device int | Attr_host

record loc_env =
  le_gpu_build :: bool
  le_gpu_prefix :: string
  cudaPointerGetAttributes :: "ptr \<Rightarrow> pointer_attributes"
  numa_move_pages :: "ptr list \<Rightarrow> int \<times> (nat \<Rightarrow> int)"

definition alignPage :: "u64 \<Rightarrow> u64" where
  "alignPage address = and address (not (pagesize - 1))"

definition genCpuNodeName :: "int \<Rightarrow> string" where
  "genCpuNodeName node = (if node \<ge> 0 then ''cpu:'' @ show_int node else kWildcardLocation)"

definition genGpuNodeName :: "loc_env \<Rightarrow> int \<Rightarrow> string" where
  "genGpuNodeName L node = (if node \<ge> 0 then le_gpu_prefix L @ show_int node else kWildcardLocation)"

definition page_count :: "u64 \<Rightarrow> u64 \<Rightarrow> bool \<Rightarrow> nat" where
  "page_count start len only_first_page =
     (if only_first_page then 1 else unat ((start - alignPage start + len + pagesize - 1) div pagesize))"

text \<open>The loop over the page states, from page \<open>i\<close>, with the run it is in.\<close>

fun location_runs ::
    "(nat \<Rightarrow> int) \<Rightarrow> u64 \<Rightarrow> nat list \<Rightarrow> u64 \<Rightarrow> int \<Rightarrow> MemoryLocationEntry list \<times> u64 \<times> int" where
  "location_runs status start [] start_addr node = ([], start_addr, node)"
| "location_runs status start (i # is) start_addr node =
     (if status i \<noteq> node
      then let new_start_addr = alignPage start + of_nat i * pagesize;
               (es, sa, nd) = location_runs status start is new_start_addr (status i)
           in (\<lparr>le_start = start_addr, le_len = new_start_addr - start_addr,
                le_location = genCpuNodeName node\<rparr> # es, sa, nd)
      else location_runs status start is start_addr node)"

definition getMemoryLocation ::
    "loc_env \<Rightarrow> ptr \<Rightarrow> u64 \<Rightarrow> bool \<Rightarrow> bool \<Rightarrow> MemoryLocationEntry list option" where
  "getMemoryLocation L start len only_first_page probe_gpu =
     (let numa = (let n = page_count start len only_first_page;
                      pages = map (\<lambda>i. alignPage start + of_nat i * pagesize) [0..<n];
                      (rc, status) = numa_move_pages L pages
                  in if rc \<noteq> 0
                     then Some [\<lparr>le_start = start, le_len = len, le_location = kWildcardLocation\<rparr>]
                     else if n = 0 then None
                     else let (es, start_addr, node) = location_runs status start [1..<n] start (status 0)
                          in Some (es @ [\<lparr>le_start = start_addr, le_len = start + len - start_addr,
                                          le_location = genCpuNodeName node\<rparr>]))
      in if le_gpu_build L \<and> probe_gpu
         then (case cudaPointerGetAttributes L start of
                 Attr_error \<Rightarrow> Some [\<lparr>le_start = start, le_len = len, le_location = kWildcardLocation\<rparr>]
               | Attr_device d \<Rightarrow> Some [\<lparr>le_start = start, le_len = len, le_location = genGpuNodeName L d\<rparr>]
               | Attr_host \<Rightarrow> numa)
         else numa)"

definition buildSegmentsLocation :: "u64 \<Rightarrow> int list \<Rightarrow> string" where
  "buildSegmentsLocation psize nodes =
     kSegmentsLocationPrefix @ show_nat (unat psize) @ '':'' @
     concat (map (\<lambda>i. (if i > 0 then '','' else []) @ show_int (nodes ! i)) [0..<length nodes])"

text \<open>
  The loop over the comma-separated nodes: the nodes pushed so far, and whether it ended without
  an exception.
\<close>

function parse_nodes :: "string \<Rightarrow> int list \<Rightarrow> bool \<times> int list" where
  "parse_nodes s acc =
     (if s = [] then (True, acc)
      else let tok = takeWhile (\<lambda>c. c \<noteq> CHR '','') s; rest = drop (length tok + 1) s
           in if tok = [] then parse_nodes rest acc
              else case stoi tok of None \<Rightarrow> (False, acc) | Some n \<Rightarrow> parse_nodes rest (acc @ [n]))"
  by pat_completeness auto
termination
  by (relation "measure (\<lambda>(s, acc). length s)") auto

declare parse_nodes.simps [simp del]

text \<open>The out-parameter is returned too: after a failure it may hold what was parsed so far.\<close>

definition parseSegmentsLocation :: "string \<Rightarrow> SegmentsLocationInfo \<Rightarrow> bool \<times> SegmentsLocationInfo" where
  "parseSegmentsLocation name info =
     (if take (length kSegmentsLocationPrefix) name \<noteq> kSegmentsLocationPrefix then (False, info)
      else let body = drop (length kSegmentsLocationPrefix) name
           in if CHR '':'' \<notin> set body then (False, info)
              else let head = takeWhile (\<lambda>c. c \<noteq> CHR '':'') body
                   in case stoull head of
                        None \<Rightarrow> (False, info)
                      | Some p \<Rightarrow>
                          (let (ok, nodes) = parse_nodes (drop (length head + 1) body) [];
                               info = \<lparr>page_size = p, numa_nodes = nodes\<rparr>
                           in (ok \<and> nodes \<noteq> [], info)))"

definition resolveSegmentsLocation :: "SegmentsLocationInfo \<Rightarrow> u64 \<Rightarrow> u64 \<Rightarrow> string" where
  "resolveSegmentsLocation info buffer_length offset =
     (let n = length (numa_nodes info) in
      if n = 0 then kWildcardLocation
      else let region_size = buffer_length div of_nat n in
      if region_size = 0 then kWildcardLocation
      else let idx = unat (offset div region_size);
               idx = (if idx \<ge> n then n - 1 else idx)
           in ''cpu:'' @ show_int (numa_nodes info ! idx))"

section \<open>Page arithmetic\<close>

lemma alignPage_mod: "alignPage a = a - a mod 4096"
proof -
  have m: "(4095 :: u64) = mask 12" by (simp add: mask_eq_exp_minus_1)
  have "a - and a (mask 12) = and a (not (and a (mask 12)))"
    by (rule disjunctive_diff) (simp add: bit_and_iff)
  also have "\<dots> = and a (not (mask 12))"
    by (rule bit_eqI) (auto simp: bit_and_iff bit_or_iff bit_not_iff)
  finally have "a - take_bit 12 a = and a (not (mask 12))" by (simp flip: take_bit_eq_mask)
  moreover have "take_bit 12 a = a mod 4096" by (simp add: take_bit_eq_mod)
  ultimately show ?thesis by (simp add: alignPage_def pagesize_def m)
qed

lemma unat_alignPage: "unat (alignPage a) = unat a - unat a mod 4096"
proof -
  have "unat (a mod 4096) = unat a mod 4096" by (simp add: unat_mod)
  moreover have "unat a mod 4096 \<le> unat a" by simp
  ultimately show ?thesis by (simp add: alignPage_mod unat_sub_if')
qed

definition page_of :: "u64 \<Rightarrow> nat \<Rightarrow> nat" where
  "page_of start x = (x - unat (alignPage start)) div 4096"

text \<open>The number of pages, and where the last one begins.\<close>

lemma page_count_bounds:
  assumes fit: "unat start + unat len + 4095 < 2 ^ 64" and "0 < unat len"
    and n: "n = page_count start len False"
  shows "0 < n" "unat (alignPage start) + (n - 1) * 4096 < unat start + unat len"
    "unat start + unat len \<le> unat (alignPage start) + n * 4096"
proof -
  let ?d = "unat start mod 4096"
  have d: "?d \<le> unat start" by simp
  have "start - alignPage start = start mod 4096" by (simp add: alignPage_mod)
  then have off: "unat (start - alignPage start) = ?d" by (simp add: unat_mod)
  have w1: "unat (start - alignPage start + len) = ?d + unat len"
    using fit d off by (subst unat_add_no_wrap) (auto simp: no_wrap_def)
  have w2: "unat (start - alignPage start + len + 4095) = ?d + unat len + 4095"
    using fit d w1 by (subst unat_add_no_wrap) (auto simp: no_wrap_def)
  have "unat (start - alignPage start + len + pagesize - 1) = ?d + unat len + 4095"
    unfolding w2 [symmetric] by (simp add: pagesize_def)
  then have "n = (?d + unat len + 4095) div 4096"
    unfolding n page_count_def unat_div by (simp add: pagesize_def)
  then have b: "n * 4096 \<le> ?d + unat len + 4095" "?d + unat len + 4095 < n * 4096 + 4096" by linarith+
  note a = unat_alignPage [of start]
  show "0 < n" using b assms(2) by linarith
  then obtain k where k: "n = Suc k" by (cases n) auto
  show "unat (alignPage start) + (n - 1) * 4096 < unat start + unat len" using b a d k by simp
  show "unat start + unat len \<le> unat (alignPage start) + n * 4096" using b a d by simp
qed

section \<open>The entries partition the buffer\<close>

text \<open>
  \<open>tiles loc a b es\<close>: the entries are consecutive non-empty ranges from \<open>a\<close> to \<open>b\<close>, and each
  carries the location that \<open>loc\<close> gives every one of its addresses.
\<close>

fun tiles :: "(nat \<Rightarrow> string) \<Rightarrow> nat \<Rightarrow> nat \<Rightarrow> MemoryLocationEntry list \<Rightarrow> bool" where
  "tiles loc a b [] \<longleftrightarrow> a = b"
| "tiles loc a b (e # es) \<longleftrightarrow> unat (le_start e) = a \<and> 0 < unat (le_len e) \<and>
     (\<forall>x \<in> {a..<a + unat (le_len e)}. loc x = le_location e) \<and> tiles loc (a + unat (le_len e)) b es"

lemma tiles_append: "tiles loc a b es \<Longrightarrow> tiles loc b c fs \<Longrightarrow> tiles loc a c (es @ fs)"
  by (induction es arbitrary: a) auto

lemma tiles_single:
  assumes "unat s < e" "e < 2 ^ 64" "\<And>x. unat s \<le> x \<Longrightarrow> x < e \<Longrightarrow> loc x = l"
  shows "tiles loc (unat s) e [\<lparr>le_start = s, le_len = of_nat e - s, le_location = l\<rparr>]"
proof -
  have "unat (of_nat e - s :: u64) = e - unat s"
    using assms(1,2) by (simp add: unat_sub_if' unat_of_nat)
  with assms show ?thesis by simp
qed

text \<open>The run in progress at page \<open>i\<close>: where it began, and that all its pages so far are on its node.\<close>

definition run_ok :: "(nat \<Rightarrow> int) \<Rightarrow> u64 \<Rightarrow> nat \<Rightarrow> u64 \<Rightarrow> int \<Rightarrow> bool" where
  "run_ok status start i sa node \<longleftrightarrow>
     unat start \<le> unat sa \<and> (sa = start \<or> unat sa \<le> unat (alignPage start) + (i - 1) * 4096) \<and>
     (\<forall>j. page_of start (unat sa) \<le> j \<and> j < i \<longrightarrow> status j = node)"

lemma run_ok_loc:
  assumes "run_ok status start i sa node" "unat sa \<le> x" "x < unat (alignPage start) + i * 4096"
  shows "status (page_of start x) = node"
proof -
  have "page_of start (unat sa) \<le> page_of start x" using assms(2) by (simp add: page_of_def div_le_mono)
  moreover have "unat (alignPage start) \<le> x"
    using assms(1,2) unat_alignPage [of start] unfolding run_ok_def by linarith
  then have "page_of start x < i" using assms(3) by (simp add: page_of_def less_mult_imp_div_less)
  ultimately show ?thesis using assms(1) by (simp add: run_ok_def)
qed

lemma run_ok_extend:
  assumes "run_ok status start i sa node" "status i = node"
  shows "run_ok status start (Suc i) sa node"
  unfolding run_ok_def
proof (intro conjI allI impI)
  show "unat start \<le> unat sa" using assms(1) by (simp add: run_ok_def)
  show "sa = start \<or> unat sa \<le> unat (alignPage start) + (Suc i - 1) * 4096"
    using assms(1) unfolding run_ok_def by auto
  show "status j = node" if "page_of start (unat sa) \<le> j \<and> j < Suc i" for j
    using that assms unfolding run_ok_def by (cases "j = i") auto
qed

lemma run_ok_new:
  assumes "unat b = unat (alignPage start) + i * 4096" "0 < i"
  shows "run_ok status start (Suc i) b (status i)"
proof -
  have "page_of start (unat b) = i" by (simp add: page_of_def assms(1))
  moreover have "unat start < unat (alignPage start) + 4096" unfolding unat_alignPage by linarith
  ultimately show ?thesis
    using assms unfolding run_ok_def by (auto simp: less_Suc_eq_le dest: le_antisym)
qed

lemma page_start_unat:
  assumes "unat (alignPage start) + (n - 1) * 4096 < 2 ^ 64" "i < n"
  shows "unat (alignPage start + of_nat i * pagesize) = unat (alignPage start) + i * 4096"
proof -
  have le: "unat (alignPage start) + i * 4096 < 2 ^ 64"
  proof -
    have "i * 4096 \<le> (n - 1) * 4096" using assms(2) by simp
    with assms(1) show ?thesis by linarith
  qed
  then have i: "unat (of_nat i * pagesize :: u64) = i * 4096"
    by (simp add: pagesize_def unat_of_nat unat_word_ariths)
  with le show ?thesis by (subst unat_add_no_wrap) (auto simp: no_wrap_def)
qed

lemma location_runs_tiles:
  assumes "unat (alignPage start) + (n - 1) * 4096 < 2 ^ 64" "0 < i" "i \<le> n"
    and "run_ok status start i sa node"
    and "location_runs status start [i..<n] sa node = (es, sa', node')"
  shows "tiles (\<lambda>x. genCpuNodeName (status (page_of start x))) (unat sa) (unat sa') es \<and>
    run_ok status start n sa' node'"
  using assms(2-)
proof (induction "n - i" arbitrary: i sa node es)
  case 0
  then show ?case by simp
next
  case (Suc k)
  then have "i < n" by linarith
  then have upt: "[i..<n] = i # [Suc i..<n]" by (simp add: upt_conv_Cons)
  define A b where "A = unat (alignPage start)" and "b = alignPage start + of_nat i * pagesize"
  have ub: "unat b = A + i * 4096" unfolding A_def b_def by (rule page_start_unat [OF assms(1) \<open>i < n\<close>])
  have A: "unat start < A + 4096" unfolding A_def unat_alignPage by linarith
  note IH = Suc.hyps(1) [of "Suc i"]
  show ?case
  proof (cases "status i = node")
    case True
    then have "run_ok status start (Suc i) sa node" using Suc.prems(3) by (simp add: run_ok_extend)
    moreover have "location_runs status start [Suc i..<n] sa node = (es, sa', node')"
      using Suc.prems(4) True by (simp only: upt location_runs.simps) simp
    moreover have "k = n - Suc i" using Suc.hyps(2) by linarith
    ultimately show ?thesis using IH \<open>i < n\<close> by simp
  next
    case False
    obtain es' where es: "es = \<lparr>le_start = sa, le_len = b - sa, le_location = genCpuNodeName node\<rparr> # es'"
      and rest: "location_runs status start [Suc i..<n] b (status i) = (es', sa', node')"
      using Suc.prems(4) False unfolding upt location_runs.simps b_def [symmetric] Let_def
      by (auto split: prod.splits)
    have "run_ok status start (Suc i) b (status i)" using run_ok_new ub Suc.prems(1) by (simp add: A_def)
    moreover have "k = n - Suc i" using Suc.hyps(2) by linarith
    ultimately have t: "tiles (\<lambda>x. genCpuNodeName (status (page_of start x))) (unat b) (unat sa') es' \<and>
        run_ok status start n sa' node'"
      using IH [of b "status i" es'] rest \<open>i < n\<close> by simp
    have lt: "unat sa < unat b"
      using Suc.prems(1,3) ub A unfolding run_ok_def A_def by (cases i) auto
    then have len: "unat (b - sa) = unat b - unat sa" by (simp add: unat_sub_if')
    have "genCpuNodeName (status (page_of start x)) = genCpuNodeName node"
      if "unat sa \<le> x" "x < unat b" for x
      using run_ok_loc [OF Suc.prems(3) that(1)] that(2) ub unfolding A_def by simp
    with t es lt len show ?thesis by simp
  qed
qed

section \<open>Encoding of segments\<close>

lemma build_nodes:
  "concat (map (\<lambda>i. (if i > 0 then '','' else []) @ show_int ((n # ns) ! i)) [0..<length (n # ns)]) =
    show_int n @ concat (map (\<lambda>m. '','' @ show_int m) ns)"
proof -
  have "[0..<length (n # ns)] = 0 # map Suc [0..<length ns]" by (simp add: map_Suc_upt upt_conv_Cons del: upt_Suc)
  moreover have "map (\<lambda>i. '','' @ show_int (ns ! i)) [0..<length ns] = map (\<lambda>m. '','' @ show_int m) ns"
    by (rule nth_equalityI) auto
  ultimately show ?thesis by (simp add: comp_def del: upt_Suc)
qed

lemma show_int_sep: "CHR '','' \<notin> set (show_int n)" "CHR '':'' \<notin> set (show_nat k)"
  using show_int_chars [of "CHR '',''" n] show_nat_digits [of "CHR '':''" k] by (auto simp: is_digit_def)

lemma takeWhile_sep: "c \<notin> set xs \<Longrightarrow> takeWhile (\<lambda>x. x \<noteq> c) (xs @ c # ys) = xs"
  by (induction xs) auto

lemma takeWhile_no_sep: "c \<notin> set xs \<Longrightarrow> takeWhile (\<lambda>x. x \<noteq> c) xs = xs"
  by (induction xs) auto

lemma parse_nodes_build:
  assumes "\<forall>m \<in> set (n # ns). - (2 ^ 31) \<le> m \<and> m < 2 ^ 31"
  shows "parse_nodes (show_int n @ concat (map (\<lambda>m. '','' @ show_int m) ns)) acc = (True, acc @ n # ns)"
  using assms
proof (induction ns arbitrary: n acc)
  case Nil
  then show ?case
    by (simp add: parse_nodes.simps [of "show_int n"] parse_nodes.simps [of "[]"] takeWhile_no_sep
        show_int_sep stoi_show)
next
  case (Cons m ns)
  let ?tail = "show_int m @ concat (map (\<lambda>m. '','' @ show_int m) ns)"
  have "parse_nodes (show_int n @ CHR '','' # ?tail) acc = parse_nodes ?tail (acc @ [n])"
    using Cons.prems
    by (subst parse_nodes.simps) (simp add: takeWhile_sep show_int_sep stoi_show Let_def)
  with Cons show ?case by simp
qed

section \<open>Properties\<close>


definition demo_numa :: loc_env where
  "demo_numa = \<lparr>le_gpu_build = False, le_gpu_prefix = ''gpu:'', cudaPointerGetAttributes = (\<lambda>p. Attr_host),
     numa_move_pages = (\<lambda>ps. (0, \<lambda>i. if i < 2 then 0 else 1))\<rparr>"


text \<open>
  An empty buffer that starts on a page boundary has no page, and the code then reads the
  first element of an array of length zero.  This is the only case: every other request has a
  first page, and gets at least one entry.
\<close>

theorem getMemoryLocation_no_page:
  assumes fit: "unat start + unat len + 4095 < 2 ^ 64"
    and host: "le_gpu_build L \<and> probe_gpu \<longrightarrow> cudaPointerGetAttributes L start = Attr_host"
    and ok: "\<And>ps. fst (numa_move_pages L ps) = 0"
  shows "getMemoryLocation L start len only_first_page probe_gpu = None \<longleftrightarrow>
    len = 0 \<and> unat start mod 4096 = 0 \<and> \<not> only_first_page"
proof -
  have "getMemoryLocation L start len only_first_page probe_gpu = None \<longleftrightarrow>
      page_count start len only_first_page = 0"
    using host ok [of "map (\<lambda>i. alignPage start + of_nat i * pagesize) [0..<page_count start len only_first_page]"]
    unfolding getMemoryLocation_def by (auto simp: Let_def split: prod.splits)
  moreover have "page_count start len False = 0 \<longleftrightarrow> len = 0 \<and> unat start mod 4096 = 0"
  proof (cases "len = 0")
    case False
    with page_count_bounds(1) [OF fit _ refl] show ?thesis by (simp add: unat_gt_0)
  next
    case True
    have "start - alignPage start + len + pagesize - 1 = start mod 4096 + 4095"
      using True by (simp add: alignPage_mod pagesize_def)
    moreover have "unat (start mod 4096 + 4095) = unat start mod 4096 + 4095"
      using fit by (subst unat_add_no_wrap) (auto simp: no_wrap_def unat_mod)
    ultimately have "unat (start - alignPage start + len + pagesize - 1) = unat start mod 4096 + 4095"
      by (simp only:)
    then have "page_count start len False = (unat start mod 4096 + 4095) div 4096"
      unfolding page_count_def unat_div by (simp add: pagesize_def)
    with True show ?thesis by (simp add: div_eq_0_iff)
  qed
  ultimately show ?thesis by (simp add: page_count_def)
qed

theorem getMemoryLocation_no_page_witness:
  "getMemoryLocation demo_numa 8192 0 False True = None \<and> getMemoryLocation demo_numa 8193 0 False True \<noteq> None"
  using getMemoryLocation_no_page [of 8192 0 demo_numa True False]
    getMemoryLocation_no_page [of 8193 0 demo_numa True False]
  by (simp add: demo_numa_def)

text \<open>
  Parsing undoes building: the location string of a page size and a non-empty list of
  32-bit node numbers is accepted and gives both back, whatever the result object held before.
\<close>

theorem parse_build_segments:
  assumes "nodes \<noteq> []" "\<forall>m \<in> set nodes. - (2 ^ 31) \<le> m \<and> m < 2 ^ 31"
  shows "parseSegmentsLocation (buildSegmentsLocation psize nodes) info =
    (True, \<lparr>page_size = psize, numa_nodes = nodes\<rparr>)"
proof -
  obtain n ns where n: "nodes = n # ns" using assms(1) by (cases nodes) auto
  let ?tail = "show_int n @ concat (map (\<lambda>m. '','' @ show_int m) ns)"
  have b: "buildSegmentsLocation psize nodes =
      kSegmentsLocationPrefix @ show_nat (unat psize) @ CHR '':'' # ?tail"
    unfolding buildSegmentsLocation_def n build_nodes by simp
  have "parse_nodes ?tail [] = (True, nodes)" using parse_nodes_build [of n ns "[]"] assms(2) n by simp
  then show ?thesis
    unfolding b parseSegmentsLocation_def
    using assms(1) by (simp add: takeWhile_sep show_int_sep Let_def)
qed

theorem parse_build_segments_witness:
  "buildSegmentsLocation 4096 [1, 3, 5, 7] = ''segments:4096:1,3,5,7'' \<and>
   parseSegmentsLocation ''segments:4096:1,3,5,7'' \<lparr>page_size = 0, numa_nodes = []\<rparr> =
     (True, \<lparr>page_size = 4096, numa_nodes = [1, 3, 5, 7]\<rparr>)"
proof -
  have b: "buildSegmentsLocation 4096 [1, 3, 5, 7] = ''segments:4096:1,3,5,7''" by code_simp
  with parse_build_segments [of "[1, 3, 5, 7]" 4096 "\<lparr>page_size = 0, numa_nodes = []\<rparr>"] show ?thesis by simp
qed

text \<open>
  Resolving an offset picks the node of the region that contains it: with at least one node
  and a buffer of at least one byte per node, offsets of region \<open>i\<close> give node \<open>i\<close>, and the bytes
  after the last full region give the last node.
\<close>

theorem resolve_segments_region:
  assumes n: "numa_nodes info \<noteq> []" "length (numa_nodes info) \<le> unat buffer_length"
    and rs: "rs = unat buffer_length div length (numa_nodes info)"
  shows "resolveSegmentsLocation info buffer_length offset =
      ''cpu:'' @ show_int (numa_nodes info ! min (unat offset div rs) (length (numa_nodes info) - 1)) \<and>
    (\<forall>i < length (numa_nodes info). i * rs \<le> unat offset \<and> unat offset < (i + 1) * rs \<longrightarrow>
      resolveSegmentsLocation info buffer_length offset = ''cpu:'' @ show_int (numa_nodes info ! i))"
proof -
  let ?n = "length (numa_nodes info)" and ?w = "buffer_length div of_nat (length (numa_nodes info))"
  have "?n < 2 ^ 64" using n(2) u64_bound [of buffer_length] by linarith
  then have u: "unat ?w = rs" by (simp add: unat_div unat_of_nat rs)
  have "0 < rs" using n rs by (simp add: div_greater_zero_iff)
  then have "?w \<noteq> 0" using u by auto
  moreover have "unat (offset div ?w) = unat offset div rs" using u by (simp add: unat_div)
  moreover have "(if ?n \<le> k then ?n - 1 else k) = min k (?n - 1)" for k using n(1) by (cases "?n") auto
  ultimately have eq: "resolveSegmentsLocation info buffer_length offset =
      ''cpu:'' @ show_int (numa_nodes info ! min (unat offset div rs) (?n - 1))"
    using n(1) unfolding resolveSegmentsLocation_def Let_def by simp
  moreover have "unat offset div rs = i" if "i * rs \<le> unat offset" "unat offset < (i + 1) * rs" for i
    using that \<open>0 < rs\<close> by (intro div_nat_eqI) (auto simp: algebra_simps)
  ultimately show ?thesis by (auto simp: min_def)
qed

theorem resolve_segments_region_witness:
  "resolveSegmentsLocation \<lparr>page_size = 4096, numa_nodes = [1, 3]\<rparr> 100 60 = ''cpu:3''"
proof -
  have "resolveSegmentsLocation \<lparr>page_size = 4096, numa_nodes = [1, 3]\<rparr> 100 60 = ''cpu:'' @ show_int 3"
    using resolve_segments_region [of "\<lparr>page_size = 4096, numa_nodes = [1, 3]\<rparr>" 100 50 60]
    by (simp add: numeral_2_eq_2 [symmetric])
  moreover have "show_int 3 = ''3''" by code_simp
  ultimately show ?thesis by simp
qed

end
