(* ===== verification/Verbs.thy ===== *)
theory Verbs
  imports Decimal
begin

text \<open>
  The environment of the RDMA transport: verbs, the GPU runtimes, epoll and the files of the
  kernel.  As in the dma-buf domain, every external call appends to a trace (newest first) and
  may depend on it; the trace functions at the end count what is open.
\<close>

section \<open>Calls\<close>

record verbs_mr =
  vm_handle :: ptr
  vm_length :: u64
  vm_lkey :: u32
  vm_rkey :: u32

record dmabuf_args =
  da_pd :: ptr
  da_offset :: u64
  da_length :: u64
  da_iova :: u64
  da_fd :: int
  da_access :: int

datatype vcall =
    V_get_device_list bool
  | V_free_device_list
  | V_open_device "ptr option"
  | V_close_device ptr
  | V_alloc_pd "ptr option"
  | V_dealloc_pd ptr
  | V_create_comp_channel "ptr option"
  | V_destroy_comp_channel ptr
  | V_create_cq "ptr option"
  | V_destroy_cq ptr
  | V_epoll_create int
  | V_close int
  | V_reg_mr ptr u64 "verbs_mr option"
  | V_reg_dmabuf_mr dmabuf_args "verbs_mr option"
  | V_dereg_mr verbs_mr bool
  | V_export_dmabuf ptr u64 "int option"
  | V_ctx_retain int bool
  | V_ctx_release int
  | V_ctx_set ptr
  | V_hip_set_device int bool
  | V_query
  | V_destroyQPs

type_synonym vcalls = "vcall list"

text \<open>
  The build of the transfer engine: \<open>USE_CUDA\<close>; \<open>USE_MLU\<close> or \<open>USE_MACA\<close>, whose runtime is reached
  through the same names; \<open>USE_HIP_DMABUF\<close>; or none of them.
\<close>

datatype rdma_build = Build_CUDA | Build_CUDA_alike | Build_HIP_DMABUF | Build_plain

datatype mem_type = CU_MEMORYTYPE_HOST | CU_MEMORYTYPE_DEVICE | CU_MEMORYTYPE_OTHER int

datatype hip_mem_type =
    hipMemoryTypeHost | hipMemoryTypeUnregistered | hipMemoryTypeManaged | hipMemoryTypeDevice
  | hipMemoryTypeOther int

record verbs_env =
  ve_build :: rdma_build
  ve_max_mr_size :: u64
  ve_with_peermem :: bool
  ve_mem_type :: "vcalls \<Rightarrow> ptr \<Rightarrow> mem_type option"
  ve_device_ordinal :: "vcalls \<Rightarrow> ptr \<Rightarrow> int"
  ve_device_get :: "vcalls \<Rightarrow> int \<Rightarrow> int"
  ve_ctx_retain :: "vcalls \<Rightarrow> int \<Rightarrow> bool \<times> ptr"
  ve_address_range :: "vcalls \<Rightarrow> ptr \<Rightarrow> (ptr \<times> u64) option"
  ve_export :: "vcalls \<Rightarrow> ptr \<Rightarrow> u64 \<Rightarrow> int option"
  ve_reg_mr :: "vcalls \<Rightarrow> ptr \<Rightarrow> ptr \<Rightarrow> u64 \<Rightarrow> int \<Rightarrow> verbs_mr option"
  ve_reg_dmabuf_mr :: "vcalls \<Rightarrow> dmabuf_args \<Rightarrow> verbs_mr option"
  ve_dereg_mr :: "vcalls \<Rightarrow> verbs_mr \<Rightarrow> int"
  ve_hip_attributes :: "vcalls \<Rightarrow> ptr \<Rightarrow> (hip_mem_type \<times> int) option"
  ve_hip_get_device :: "vcalls \<Rightarrow> int option"
  ve_hip_set_device :: "vcalls \<Rightarrow> int \<Rightarrow> bool"
  ve_hsa_export :: "vcalls \<Rightarrow> ptr \<Rightarrow> u64 \<Rightarrow> (int \<times> u64) option"
  ve_kernel_dmabuf :: bool

section \<open>What is open\<close>

fun v_live_mrs :: "vcalls \<Rightarrow> verbs_mr multiset" where
  "v_live_mrs [] = {#}"
| "v_live_mrs (V_reg_mr a l (Some m) # h) = add_mset m (v_live_mrs h)"
| "v_live_mrs (V_reg_dmabuf_mr a (Some m) # h) = add_mset m (v_live_mrs h)"
| "v_live_mrs (V_dereg_mr m ok # h) = (if ok then v_live_mrs h - {#m#} else v_live_mrs h)"
| "v_live_mrs (c # h) = v_live_mrs h"

text \<open>Descriptors: dma-buf exports and epoll instances, until they are closed.\<close>

fun v_open_fds :: "vcalls \<Rightarrow> int multiset" where
  "v_open_fds [] = {#}"
| "v_open_fds (V_export_dmabuf b n (Some fd) # h) = add_mset fd (v_open_fds h)"
| "v_open_fds (V_epoll_create fd # h) = (if fd < 0 then v_open_fds h else add_mset fd (v_open_fds h))"
| "v_open_fds (V_close fd # h) = v_open_fds h - {#fd#}"
| "v_open_fds (c # h) = v_open_fds h"

fun v_held_ctxs :: "vcalls \<Rightarrow> int multiset" where
  "v_held_ctxs [] = {#}"
| "v_held_ctxs (V_ctx_retain d ok # h) = (if ok then add_mset d (v_held_ctxs h) else v_held_ctxs h)"
| "v_held_ctxs (V_ctx_release d # h) = v_held_ctxs h - {#d#}"
| "v_held_ctxs (c # h) = v_held_ctxs h"

text \<open>Handles of the verbs objects other than MRs: devices, device lists, protection domains,
  completion channels and completion queues.\<close>

datatype verbs_object = Obj_device_list | Obj_device ptr | Obj_pd ptr | Obj_channel ptr | Obj_cq ptr

fun v_objects :: "vcalls \<Rightarrow> verbs_object multiset" where
  "v_objects [] = {#}"
| "v_objects (V_get_device_list ok # h) = (if ok then add_mset Obj_device_list (v_objects h) else v_objects h)"
| "v_objects (V_free_device_list # h) = v_objects h - {#Obj_device_list#}"
| "v_objects (V_open_device (Some p) # h) = add_mset (Obj_device p) (v_objects h)"
| "v_objects (V_close_device p # h) = v_objects h - {#Obj_device p#}"
| "v_objects (V_alloc_pd (Some p) # h) = add_mset (Obj_pd p) (v_objects h)"
| "v_objects (V_dealloc_pd p # h) = v_objects h - {#Obj_pd p#}"
| "v_objects (V_create_comp_channel (Some p) # h) = add_mset (Obj_channel p) (v_objects h)"
| "v_objects (V_destroy_comp_channel p # h) = v_objects h - {#Obj_channel p#}"
| "v_objects (V_create_cq (Some p) # h) = add_mset (Obj_cq p) (v_objects h)"
| "v_objects (V_destroy_cq p # h) = v_objects h - {#Obj_cq p#}"
| "v_objects (c # h) = v_objects h"

end
