(* ===== verification/Rdma_Memory.thy ===== *)
theory Rdma_Memory
  imports Verbs
begin

text \<open>
  The memory regions of an RDMA context (\<open>rdma_context.cpp\<close>): registration through
  \<open>ibv_reg_mr\<close> or a GPU dma-buf, the address-ordered map of regions, and the key lookups.
  The map is a \<open>std::map\<close> from start address to region, modelled by its entries in key order.
\<close>

section \<open>Model\<close>

text \<open>Return codes: zero, the named errors of the engine, and codes passed through.\<close>

datatype rdma_rc =
    RC_OK | ERR_CONTEXT | ERR_DEVICE_NOT_FOUND | ERR_INVALID_ARGUMENT | ERR_ADDRESS_NOT_REGISTERED
  | ERR_ENDPOINT | RC_CODE int

record MemoryRegionMeta =
  meta_addr :: ptr
  meta_mr :: verbs_mr

text \<open>
  What a registration leaves in the \<open>MemoryRegionMeta\<close> of its caller: an error code, a region,
  or, on the paths that assign neither field, an indeterminate pointer that is then read.
\<close>

datatype reg_outcome = Reg_failed rdma_rc | Reg_ok MemoryRegionMeta | Reg_uninitialised

definition shrink_length :: "verbs_env \<Rightarrow> u64 \<Rightarrow> u64" where
  "shrink_length E len = (if len > ve_max_mr_size E then ve_max_mr_size E else len)"

definition meta_of :: "ptr \<Rightarrow> verbs_mr option \<Rightarrow> reg_outcome" where
  "meta_of addr mr = (case mr of None \<Rightarrow> Reg_failed ERR_CONTEXT
     | Some m \<Rightarrow> Reg_ok \<lparr>meta_addr = addr, meta_mr = m\<rparr>)"

definition reg_host :: "verbs_env \<Rightarrow> vcalls \<Rightarrow> ptr \<Rightarrow> ptr \<Rightarrow> u64 \<Rightarrow> int \<Rightarrow> reg_outcome \<times> vcalls" where
  "reg_host E h pd addr len access =
     (let mr = ve_reg_mr E h pd addr len access
      in (meta_of addr mr, V_reg_mr addr len mr # h))"

definition reg_dmabuf ::
    "verbs_env \<Rightarrow> vcalls \<Rightarrow> ptr \<Rightarrow> u64 \<Rightarrow> ptr \<Rightarrow> u64 \<Rightarrow> int \<Rightarrow> int \<Rightarrow> reg_outcome \<times> vcalls" where
  "reg_dmabuf E h pd offset addr len dmabuf_fd access =
     (let args = \<lparr>da_pd = pd, da_offset = offset, da_length = len, da_iova = addr,
                  da_fd = dmabuf_fd, da_access = access\<rparr>;
          mr = ve_reg_dmabuf_mr E h args
      in (meta_of addr mr, V_close dmabuf_fd # V_reg_dmabuf_mr args mr # h))"

text \<open>
  Device memory on the CUDA-like builds.  With \<open>USE_CUDA\<close> the primary context of the device is
  made current first and released on every path; the results of those three driver calls are
  not looked at.
\<close>

definition reg_cuda_device ::
    "verbs_env \<Rightarrow> vcalls \<Rightarrow> ptr \<Rightarrow> ptr \<Rightarrow> u64 \<Rightarrow> int \<Rightarrow> reg_outcome \<times> vcalls" where
  "reg_cuda_device E h pd addr len access =
     (let cuda = (ve_build E = Build_CUDA);
          cuDev = ve_device_get E h (ve_device_ordinal E h addr);
          (ok, cuCtx) = ve_ctx_retain E h cuDev;
          h = (if cuda then V_ctx_set cuCtx # V_ctx_retain cuDev ok # h else h);
          release = (\<lambda>h. if cuda then V_ctx_release cuDev # h else h)
      in case ve_address_range E h addr of
           None \<Rightarrow> (Reg_failed ERR_CONTEXT, release h)
         | Some (allocBase, allocSize) \<Rightarrow>
             (let fd = ve_export E h allocBase allocSize;
                  h = V_export_dmabuf allocBase allocSize fd # h
              in case fd of
                   None \<Rightarrow> (Reg_failed ERR_CONTEXT, release h)
                 | Some dmabuf_fd \<Rightarrow>
                     (let (r, h) = reg_dmabuf E h pd (addr - allocBase) addr len dmabuf_fd access
                      in (r, release h))))"

definition reg_cuda_alike ::
    "verbs_env \<Rightarrow> vcalls \<Rightarrow> ptr \<Rightarrow> ptr \<Rightarrow> u64 \<Rightarrow> int \<Rightarrow> bool \<Rightarrow> reg_outcome \<times> vcalls" where
  "reg_cuda_alike E h pd addr len access allow_gpu_dmabuf =
     (if \<not> allow_gpu_dmabuf then reg_host E h pd addr len access
      else case ve_mem_type E h addr of
        None \<Rightarrow> reg_host E h pd addr len access
      | Some CU_MEMORYTYPE_HOST \<Rightarrow> reg_host E h pd addr len access
      | Some CU_MEMORYTYPE_DEVICE \<Rightarrow>
          if ve_build E = Build_CUDA \<and> ve_with_peermem E then reg_host E h pd addr len access
          else reg_cuda_device E h pd addr len access
      | Some (CU_MEMORYTYPE_OTHER _) \<Rightarrow> (Reg_uninitialised, h))"

text \<open>
  Device memory on HIP, between the constructor and the destructor of \<open>HipDeviceGuard\<close>: the
  previous device is restored on every path when it was read and differs.
\<close>

definition reg_hip_device ::
    "verbs_env \<Rightarrow> vcalls \<Rightarrow> ptr \<Rightarrow> ptr \<Rightarrow> u64 \<Rightarrow> int \<Rightarrow> int \<Rightarrow> reg_outcome \<times> vcalls" where
  "reg_hip_device E h pd addr len access device =
     (let prev = ve_hip_get_device E h;
          set_ok = ve_hip_set_device E h device;
          h = V_hip_set_device device set_ok # h;
          restore = (\<lambda>h. case prev of
              Some p \<Rightarrow> if p \<noteq> device then V_hip_set_device p (ve_hip_set_device E h p) # h else h
            | None \<Rightarrow> h)
      in if \<not> set_ok then (Reg_failed ERR_CONTEXT, restore h)
         else case ve_address_range E h addr of
           None \<Rightarrow> (Reg_failed ERR_CONTEXT, restore h)
         | Some (allocBase, allocSize) \<Rightarrow>
             (let ex = ve_hsa_export E h allocBase allocSize;
                  h = V_export_dmabuf allocBase allocSize (map_option fst ex) # h
              in case ex of
                   None \<Rightarrow> (Reg_failed ERR_CONTEXT, restore h)
                 | Some (dmabuf_fd, hsa_dmabuf_offset) \<Rightarrow>
                     (let (r, h) = reg_dmabuf E h pd (addr - allocBase + hsa_dmabuf_offset) addr len
                                     dmabuf_fd access
                      in (r, restore h))))"

definition reg_hip ::
    "verbs_env \<Rightarrow> vcalls \<Rightarrow> ptr \<Rightarrow> ptr \<Rightarrow> u64 \<Rightarrow> int \<Rightarrow> reg_outcome \<times> vcalls" where
  "reg_hip E h pd addr len access =
     (case ve_hip_attributes E h addr of
        None \<Rightarrow> reg_host E h pd addr len access
      | Some (hipMemoryTypeHost, _) \<Rightarrow> reg_host E h pd addr len access
      | Some (hipMemoryTypeUnregistered, _) \<Rightarrow> reg_host E h pd addr len access
      | Some (hipMemoryTypeManaged, _) \<Rightarrow> reg_host E h pd addr len access
      | Some (hipMemoryTypeDevice, device) \<Rightarrow>
          if \<not> ve_kernel_dmabuf E then reg_host E h pd addr len access
          else reg_hip_device E h pd addr len access device
      | Some (hipMemoryTypeOther _, _) \<Rightarrow> (Reg_uninitialised, h))"

definition registerMemoryRegionInternal ::
    "verbs_env \<Rightarrow> vcalls \<Rightarrow> ptr \<Rightarrow> ptr \<Rightarrow> u64 \<Rightarrow> int \<Rightarrow> bool \<Rightarrow> reg_outcome \<times> vcalls" where
  "registerMemoryRegionInternal E h pd addr len access allow_gpu_dmabuf =
     (let len = shrink_length E len
      in case ve_build E of
           Build_CUDA \<Rightarrow> reg_cuda_alike E h pd addr len access allow_gpu_dmabuf
         | Build_CUDA_alike \<Rightarrow> reg_cuda_alike E h pd addr len access allow_gpu_dmabuf
         | Build_HIP_DMABUF \<Rightarrow> reg_hip E h pd addr len access
         | Build_plain \<Rightarrow> reg_host E h pd addr len access)"

subsection \<open>The map of regions\<close>

type_synonym region_map = "(u64 \<times> MemoryRegionMeta) list"

fun map_assign :: "u64 \<Rightarrow> MemoryRegionMeta \<Rightarrow> region_map \<Rightarrow> region_map" where
  "map_assign k v [] = [(k, v)]"
| "map_assign k v ((j, w) # m) =
     (if k = j then (j, v) # m else if k < j then (k, v) # (j, w) # m else (j, w) # map_assign k v m)"

definition map_erase :: "u64 \<Rightarrow> region_map \<Rightarrow> region_map" where
  "map_erase k m = filter (\<lambda>(j, w). j \<noteq> k) m"

definition containsAddress :: "MemoryRegionMeta \<Rightarrow> u64 \<Rightarrow> bool" where
  "containsAddress region addr =
     (let region_start = meta_addr region; region_length = vm_length (meta_mr region)
      in region_start \<le> addr \<and> addr - region_start < region_length)"

text \<open>\<open>upper_bound\<close> splits the map after the keys up to the address; the candidate is the last of those.\<close>

definition findMemoryRegionContaining :: "region_map \<Rightarrow> u64 \<Rightarrow> (u64 \<times> MemoryRegionMeta) option" where
  "findMemoryRegionContaining m addr =
     (let below = takeWhile (\<lambda>(k, w). k \<le> addr) m
      in if below = [] then None
         else if containsAddress (snd (last below)) addr then Some (last below) else None)"

text \<open>The three outcomes of a call that may read an indeterminate pointer: \<open>None\<close> is that read.\<close>

definition registerMemoryRegion ::
    "verbs_env \<Rightarrow> vcalls \<Rightarrow> ptr \<Rightarrow> region_map \<Rightarrow> ptr \<Rightarrow> u64 \<Rightarrow> int \<Rightarrow> bool \<Rightarrow>
     rdma_rc option \<times> region_map \<times> vcalls" where
  "registerMemoryRegion E h pd m addr len access allow_gpu_dmabuf =
     (case registerMemoryRegionInternal E h pd addr len access allow_gpu_dmabuf of
        (Reg_failed rc, h) \<Rightarrow> (Some rc, m, h)
      | (Reg_ok meta, h) \<Rightarrow> (Some RC_OK, map_assign (meta_addr meta) meta m, h)
      | (Reg_uninitialised, h) \<Rightarrow> (None, m, h))"

definition unregisterMemoryRegion ::
    "verbs_env \<Rightarrow> vcalls \<Rightarrow> region_map \<Rightarrow> ptr \<Rightarrow> rdma_rc \<times> region_map \<times> vcalls" where
  "unregisterMemoryRegion E h m addr =
     (case findMemoryRegionContaining m addr of
        None \<Rightarrow> (RC_OK, m, h)
      | Some (k, meta) \<Rightarrow>
          (let ret = ve_dereg_mr E h (meta_mr meta); h = V_dereg_mr (meta_mr meta) (ret = 0) # h
           in if ret \<noteq> 0 then (ERR_CONTEXT, m, h) else (RC_OK, map_erase k m, h)))"

definition preTouchMemory ::
    "verbs_env \<Rightarrow> vcalls \<Rightarrow> ptr \<Rightarrow> ptr \<Rightarrow> u64 \<Rightarrow> bool \<Rightarrow> rdma_rc option \<times> vcalls" where
  "preTouchMemory E h pd addr len allow_gpu_dmabuf =
     (case registerMemoryRegionInternal E h pd addr len 1 allow_gpu_dmabuf of
        (Reg_failed rc, h) \<Rightarrow> (Some rc, h)
      | (Reg_ok meta, h) \<Rightarrow>
          (let ret = ve_dereg_mr E h (meta_mr meta)
           in (Some (if ret = 0 then RC_OK else RC_CODE ret), V_dereg_mr (meta_mr meta) (ret = 0) # h))
      | (Reg_uninitialised, h) \<Rightarrow> (None, h))"

definition rkey_of :: "region_map \<Rightarrow> ptr \<Rightarrow> u32" where
  "rkey_of m addr = (case findMemoryRegionContaining m addr of
     Some (k, meta) \<Rightarrow> vm_rkey (meta_mr meta) | None \<Rightarrow> 0)"

definition lkey_of :: "region_map \<Rightarrow> ptr \<Rightarrow> u32" where
  "lkey_of m addr = (case findMemoryRegionContaining m addr of
     Some (k, meta) \<Rightarrow> vm_lkey (meta_mr meta) | None \<Rightarrow> 0)"

end
