(* ===== verification/Rdma_Gid.thy ===== *)
theory Rdma_Gid
  imports Verbs
begin

text \<open>
  GIDs of an RDMA port (\<open>rdma_context.cpp\<close>): their text form and classification, the automatic
  choice of a GID index, the reprobe that switches to another one at run time, and the test
  whether the running kernel supports dma-buf registration.

  A GID is its 16 raw bytes.  \<open>s6_addr32\<close> words are compared in network order in the code; the
  model reads them big-endian and compares with the same constants in host order.  The table of
  candidates is filled here; how the best candidate is chosen (\<open>rdma_gid_probe.h\<close>) is a parameter.
\<close>

type_synonym gid = "u8 list"

definition isNullGid :: "gid \<Rightarrow> bool" where
  "isNullGid g \<longleftrightarrow> list_all (\<lambda>b. b = 0) (take 16 g)"

definition hex_digit :: "nat \<Rightarrow> char" where
  "hex_digit d = (if d < 10 then char_of (48 + d) else char_of (87 + d))"

definition hex_byte :: "u8 \<Rightarrow> string" where
  "hex_byte b = [hex_digit (unat b div 16), hex_digit (unat b mod 16)]"

definition gidBytesToString :: "gid \<Rightarrow> string" where
  "gidBytesToString raw =
     concat (map (\<lambda>i. (if i = 0 then [] else '':'') @ hex_byte (raw ! i)) [0..<16])"

definition be32 :: "u8 \<Rightarrow> u8 \<Rightarrow> u8 \<Rightarrow> u8 \<Rightarrow> u32" where
  "be32 a b c d = or (or (push_bit 24 (ucast a)) (push_bit 16 (ucast b))) (or (push_bit 8 (ucast c)) (ucast d))"

definition s6_addr32 :: "gid \<Rightarrow> nat \<Rightarrow> u32" where
  "s6_addr32 a i = be32 (a ! (4 * i)) (a ! (4 * i + 1)) (a ! (4 * i + 2)) (a ! (4 * i + 3))"

definition ipv6_addr_v4mapped :: "gid \<Rightarrow> bool" where
  "ipv6_addr_v4mapped a \<longleftrightarrow>
     or (or (s6_addr32 a 0) (s6_addr32 a 1)) (xor (s6_addr32 a 2) 0x0000ffff) = 0 \<or>
     (s6_addr32 a 0 = 0xff0e0000 \<and> or (s6_addr32 a 1) (xor (s6_addr32 a 2) 0x0000ffff) = 0)"

text \<open>\<open>gv_first_line\<close> is the first line of a file, if it can be opened.\<close>

definition readGidNdev :: "(string \<Rightarrow> string option) \<Rightarrow> string \<Rightarrow> u8 \<Rightarrow> int \<Rightarrow> string" where
  "readGidNdev first_line device_name port gid_index =
     (let sysfs_path = ''/sys/class/infiniband/'' @ device_name @ ''/ports/'' @ show_nat (unat port) @
                       ''/gid_attrs/ndevs/'' @ show_int gid_index
      in case first_line sysfs_path of None \<Rightarrow> [] | Some ndev \<Rightarrow> ndev)"

definition isOverlayNetwork :: "string \<Rightarrow> bool" where
  "isOverlayNetwork ndev \<longleftrightarrow> starts_with ''flannel'' ndev \<or> starts_with ''cni'' ndev \<or>
     starts_with ''calico'' ndev \<or> starts_with ''vxlan'' ndev \<or> starts_with ''docker'' ndev \<or> ndev = ''tunl0''"

definition isOverlayIPv4 :: "gid \<Rightarrow> bool" where
  "isOverlayIPv4 addr \<longleftrightarrow>
     (if \<not> ipv6_addr_v4mapped addr then False
      else let ipv4 = s6_addr32 addr 3;
               octet1 = and (drop_bit 24 ipv4) 0xFF; octet2 = and (drop_bit 16 ipv4) 0xFF
           in if octet1 = 10 then True
              else if octet1 = 172 \<and> octet2 \<ge> 16 \<and> octet2 \<le> 31 then True
              else if octet1 = 100 \<and> octet2 \<ge> 64 \<and> octet2 \<le> 127 then True
              else False)"

text \<open>\<open>IN6_IS_ADDR_LINKLOCAL\<close>: the first ten bits are those of \<open>fe80::/10\<close>.\<close>

definition isLinkLocalIpv6 :: "gid \<Rightarrow> bool" where
  "isLinkLocalIpv6 addr \<longleftrightarrow> and (s6_addr32 addr 0) 0xffc00000 = 0xfe800000"

datatype GidNetworkState = GID_WITH_NETWORK | GID_WITHOUT_NETWORK | GID_NOT_FOUND

definition GidNetworkStateToString :: "GidNetworkState \<Rightarrow> string" where
  "GidNetworkStateToString state = (case state of
     GID_WITH_NETWORK \<Rightarrow> ''with network device''
   | GID_WITHOUT_NETWORK \<Rightarrow> ''without network device''
   | GID_NOT_FOUND \<Rightarrow> ''not found'')"

datatype AutoGidCandidateClass =
  kNetworkRoutable | kNetworkDegraded | kNoNetworkRoutable | kNoNetworkDegraded | kFallbackNonzero

record AutoGidSelection =
  sel_gid_index :: int
  sel_candidate_class :: AutoGidCandidateClass

definition autoGidStateFromSelection :: "AutoGidSelection \<Rightarrow> GidNetworkState" where
  "autoGidStateFromSelection selection = (case sel_candidate_class selection of
     kNetworkRoutable \<Rightarrow> GID_WITH_NETWORK
   | kNetworkDegraded \<Rightarrow> GID_WITH_NETWORK
   | kNoNetworkRoutable \<Rightarrow> GID_WITHOUT_NETWORK
   | kNoNetworkDegraded \<Rightarrow> GID_WITHOUT_NETWORK
   | kFallbackNonzero \<Rightarrow> GID_WITHOUT_NETWORK)"

record AutoGidCandidate =
  cand_gid_index :: int
  cand_query_succeeded :: bool
  cand_gid :: string
  cand_gid_type :: int
  cand_has_network_device :: bool
  cand_is_ipv4_mapped :: bool
  cand_is_link_local_ipv6 :: bool
  cand_is_overlay_network :: bool
  cand_is_overlay_ipv4 :: bool
  cand_is_null_gid :: bool

text \<open>
  The verbs queries, the file system and the selection functions of \<open>rdma_gid_probe.h\<close>, with the
  member initialisers of its candidate structure.
\<close>

record gid_env =
  gv_query_port :: "u8 \<Rightarrow> nat option"
  gv_query_gid_ex :: "u8 \<Rightarrow> int \<Rightarrow> (gid \<times> int) option"
  gv_query_gid :: "u8 \<Rightarrow> int \<Rightarrow> gid option"
  gv_first_line :: "string \<Rightarrow> string option"
  gv_candidate :: AutoGidCandidate
  gv_select :: "AutoGidCandidate list \<Rightarrow> AutoGidSelection option"
  gv_reselect :: "AutoGidCandidate list \<Rightarrow> int \<Rightarrow> string \<Rightarrow> (int \<times> string) list \<Rightarrow> AutoGidSelection option"

definition gid_candidate :: "gid_env \<Rightarrow> string \<Rightarrow> u8 \<Rightarrow> int \<Rightarrow> AutoGidCandidate" where
  "gid_candidate V device_name port i =
     (let candidate = (gv_candidate V)\<lparr>cand_gid_index := i\<rparr>
      in case gv_query_gid_ex V port i of
           None \<Rightarrow> candidate\<lparr>cand_query_succeeded := False\<rparr>
         | Some (g, gid_type) \<Rightarrow>
             (let ndev = readGidNdev (gv_first_line V) device_name port i
              in candidate\<lparr>
                   cand_gid := gidBytesToString g,
                   cand_gid_type := gid_type,
                   cand_has_network_device := (ndev \<noteq> []),
                   cand_is_ipv4_mapped := ipv6_addr_v4mapped g,
                   cand_is_link_local_ipv6 := isLinkLocalIpv6 g,
                   cand_is_overlay_network := (ndev \<noteq> [] \<and> isOverlayNetwork ndev),
                   cand_is_overlay_ipv4 := (ipv6_addr_v4mapped g \<and> isOverlayIPv4 g),
                   cand_is_null_gid := isNullGid g\<rparr>))"

definition findBestGidIndex :: "gid_env \<Rightarrow> string \<Rightarrow> nat \<Rightarrow> u8 \<Rightarrow> GidNetworkState \<times> int" where
  "findBestGidIndex V device_name gid_tbl_len port =
     (let candidates = map (\<lambda>i. gid_candidate V device_name port (int i)) [0..<gid_tbl_len]
      in case gv_select V candidates of
           None \<Rightarrow> (GID_NOT_FOUND, -1)
         | Some selection \<Rightarrow> (autoGidStateFromSelection selection, sel_gid_index selection))"

record gid_state =
  gs_device_name :: string
  gs_auto_gid_selection_enabled :: bool
  gs_has_context :: bool
  gs_gid :: gid
  gs_gid_index :: int
  gs_lid :: u16
  gs_port :: u8

record GidSelectionSnapshot =
  snap_gid :: string
  snap_gid_index :: int

definition gidSelection :: "gid_state \<Rightarrow> GidSelectionSnapshot" where
  "gidSelection c = \<lparr>snap_gid = gidBytesToString (gs_gid c), snap_gid_index = gs_gid_index c\<rparr>"

text \<open>
  The result, the context, and the strings stored through \<open>previous_gid\<close> and \<open>next_gid\<close> (none:
  not written).  \<open>refresh\<close> is \<open>RdmaTransport::refreshLocalDeviceDesc\<close>, which publishes the new GID.
\<close>

definition reprobeAutoGid ::
    "gid_env \<Rightarrow> (string \<Rightarrow> u16 \<Rightarrow> string \<Rightarrow> int) \<Rightarrow> gid_state \<Rightarrow> GidSelectionSnapshot \<Rightarrow>
     (int \<times> string) list \<Rightarrow> bool \<times> gid_state \<times> string option \<times> string option" where
  "reprobeAutoGid V refresh c expected_selection tried_selections =
     (if \<not> gs_auto_gid_selection_enabled c \<or> \<not> gs_has_context c then (False, c, None, None)
      else let current_gid_string = gidBytesToString (gs_gid c) in
      if gs_gid_index c \<noteq> snap_gid_index expected_selection \<or> current_gid_string \<noteq> snap_gid expected_selection
      then (False, c, None, None)
      else case gv_query_port V (gs_port c) of
        None \<Rightarrow> (False, c, None, None)
      | Some gid_tbl_len \<Rightarrow>
      (let candidates = map (\<lambda>i. gid_candidate V (gs_device_name c) (gs_port c) (int i)) [0..<gid_tbl_len]
       in case gv_reselect V candidates (gs_gid_index c) current_gid_string tried_selections of
        None \<Rightarrow> (False, c, None, Some current_gid_string)
      | Some selection \<Rightarrow>
      (case gv_query_gid V (gs_port c) (sel_gid_index selection) of
        None \<Rightarrow> (False, c, None, None)
      | Some new_gid \<Rightarrow>
          if isNullGid new_gid then (False, c, None, None)
          else let next_gid_string = gidBytesToString new_gid in
          if refresh (gs_device_name c) (gs_lid c) next_gid_string \<noteq> 0
          then (False, c, Some current_gid_string, None)
          else let c' = c\<lparr>gs_gid := new_gid, gs_gid_index := sel_gid_index selection\<rparr>
               in (next_gid_string \<noteq> [], c', Some current_gid_string, Some next_gid_string))))"

section \<open>Kernel support for dma-buf\<close>

text \<open>Scanning the lines of one file for two needles, stopping when both were seen.\<close>

fun scan_lines :: "string \<Rightarrow> string \<Rightarrow> bool \<times> bool \<Rightarrow> string list \<Rightarrow> bool \<times> bool" where
  "scan_lines n0 n1 f [] = f"
| "scan_lines n0 n1 (f0, f1) (l # ls) =
     (let f = (f0 \<or> contains_str n0 l, f1 \<or> contains_str n1 l)
      in if fst f \<and> snd f then f else scan_lines n0 n1 f ls)"

fun scan_files :: "(string \<Rightarrow> string list option) \<Rightarrow> bool \<times> bool \<Rightarrow> string list \<Rightarrow> bool \<times> bool" where
  "scan_files files f [] = f"
| "scan_files files f (p # ps) =
     (case files p of
        None \<Rightarrow> scan_files files f ps
      | Some ls \<Rightarrow>
          if contains_str ''.gz'' p then scan_files files f ps
          else let f = scan_lines ''CONFIG_PCI_P2PDMA=y'' ''CONFIG_DMABUF_MOVE_NOTIFY=y'' f ls
               in if fst f \<and> snd f then f else scan_files files f ps)"

definition isKernelDmabufSupported ::
    "string option \<Rightarrow> string option \<Rightarrow> (string \<Rightarrow> string list option) \<Rightarrow> bool" where
  "isKernelDmabufSupported disable_env uname_release files \<longleftrightarrow>
     (case disable_env of
        Some env \<Rightarrow> if env \<noteq> ''0'' then False else True
      | None \<Rightarrow> True) \<and>
     (let release = (case uname_release of None \<Rightarrow> [] | Some r \<Rightarrow> r);
          candidates = [''/proc/config.gz'', ''/boot/config-'' @ release,
            ''/usr/src/linux-'' @ release @ ''/.config'', ''/usr/src/linux/.config'',
            ''/usr/lib/modules/'' @ release @ ''/config'', ''/usr/lib/ostree-boot/config-'' @ release,
            ''/usr/lib/kernel/config-'' @ release, ''/usr/src/linux-headers-'' @ release @ ''/.config'',
            ''/lib/modules/'' @ release @ ''/build/.config''];
          found = scan_files files (False, False) candidates;
          found = (if \<not> fst found \<or> \<not> snd found
                   then (case files ''/proc/kallsyms'' of
                           None \<Rightarrow> found
                         | Some ls \<Rightarrow> scan_lines ''pci_p2pdma'' ''dma_buf_move_notify'' found ls)
                   else found)
      in fst found \<and> snd found)"

section \<open>Facts\<close>

lemma hex_digit_inj:
  assumes "d < 16" "e < 16" "hex_digit d = hex_digit e"
  shows "d = e"
proof -
  have code: "(of_char (hex_digit k) :: nat) = (if k < 10 then 48 + k else 87 + k)" if "k < 16" for k
    using that by (simp add: hex_digit_def)
  have "(if d < 10 then 48 + d else 87 + d) = (if e < 10 then 48 + e else 87 + e)"
    unfolding code [OF assms(1), symmetric] code [OF assms(2), symmetric] assms(3) by (rule refl)
  then show ?thesis using assms(1,2) by (simp split: if_splits)
qed

lemma hex_byte_inj:
  assumes eq: "hex_byte a = hex_byte b"
  shows "a = b"
proof -
  have "unat a < 256" "unat b < 256" using unsigned_less [of a] unsigned_less [of b] by simp_all
  then have lt: "unat a div 16 < 16" "unat b div 16 < 16" by (simp_all add: less_mult_imp_div_less)
  have "unat a div 16 = unat b div 16" "unat a mod 16 = unat b mod 16"
    using eq hex_digit_inj [OF lt] hex_digit_inj [of "unat a mod 16" "unat b mod 16"]
    by (simp_all add: hex_byte_def)
  then have "unat a = unat b"
    using div_mult_mod_eq [of "unat a" 16] div_mult_mod_eq [of "unat b" 16] by linarith
  then show ?thesis by (rule unsigned_word_eqI)
qed

text \<open>Byte \<open>i\<close> is printed at position \<open>3 i\<close>.\<close>

lemma chunk_of_three:
  assumes "\<And>x. length (f x) = 3" "i < length xs"
  shows "take 3 (drop (3 * i) (concat (map f xs))) = f (xs ! i)"
  using assms(2)
proof (induction xs arbitrary: i)
  case (Cons x xs)
  then show ?case using assms(1) [of x] by (cases i) auto
qed simp

lemma gid_string_chunks:
  "CHR '':'' # gidBytesToString raw = concat (map (\<lambda>i. CHR '':'' # hex_byte (raw ! i)) [0..<16])"
proof -
  have upt: "[0..<16] = 0 # [1..<16 :: nat]" unfolding One_nat_def by (rule upt_conv_Cons) simp
  have "map (\<lambda>i. (if i = 0 then [] else '':'') @ hex_byte (raw ! i)) [1..<16] =
      map (\<lambda>i. CHR '':'' # hex_byte (raw ! i)) [1..<16]" by (rule map_cong) auto
  then show ?thesis unfolding gidBytesToString_def upt list.map concat.simps by (simp only:) simp
qed

lemma gid_string_inj:
  assumes "length a = 16" "length b = 16" "gidBytesToString a = gidBytesToString b"
  shows "a = b"
proof (rule nth_equalityI)
  let ?f = "\<lambda>raw i. CHR '':'' # hex_byte (raw ! i :: u8)"
  define xs where "xs = [0..<16 :: nat]"
  have l: "length (?f raw i) = 3" for raw i by (simp add: hex_byte_def)
  have eq: "concat (map (?f a) xs) = concat (map (?f b) xs)"
    unfolding xs_def gid_string_chunks [symmetric] using assms(3) by simp
  show "length a = length b" using assms by simp
  fix i assume "i < length a"
  then have "i < length xs" "xs ! i = i" using assms(1) unfolding xs_def by (simp_all only: length_upt nth_upt)
  with chunk_of_three [where f = "?f a" and xs = xs and i = i, OF l]
    chunk_of_three [where f = "?f b" and xs = xs and i = i, OF l] eq
  have "?f a i = ?f b i" by simp
  then show "a ! i = b ! i" by (auto intro: hex_byte_inj)
qed

lemma be32_octets:
  "and (drop_bit 24 (be32 a b c d)) 0xFF = ucast a"
  "and (drop_bit 16 (be32 a b c d)) 0xFF = ucast b"
  "and (drop_bit 8 (be32 a b c d)) 0xFF = ucast c"
  "and (be32 a b c d) 0xFF = ucast d"
proof -
  have m: "(0xFF :: u32) = mask 8" by (simp add: mask_eq_exp_minus_1)
  have b8: "\<And>(x :: u8) n. bit x n \<Longrightarrow> n < 8" using bit_imp_le_length by force
  show "and (drop_bit 24 (be32 a b c d)) 0xFF = ucast a" unfolding m be32_def
    by (rule bit_eqI) (auto simp: bit_simps dest: b8)
  show "and (drop_bit 16 (be32 a b c d)) 0xFF = ucast b" unfolding m be32_def
    by (rule bit_eqI) (auto simp: bit_simps dest: b8)
  show "and (drop_bit 8 (be32 a b c d)) 0xFF = ucast c" unfolding m be32_def
    by (rule bit_eqI) (auto simp: bit_simps dest: b8)
  show "and (be32 a b c d) 0xFF = ucast d" unfolding m be32_def
    by (rule bit_eqI) (auto simp: bit_simps dest: b8)
qed

lemma unat_ucast_u8: "unat (ucast (a :: u8) :: u32) = unat a"
proof -
  have "unat a < 2 ^ 8" using unsigned_less [of a] by simp
  then show ?thesis by (simp add: unsigned_ucast_eq take_bit_nat_eq_self)
qed

lemma ucast_u8_eq: "(ucast (a :: u8) :: u32) = ucast b \<longleftrightarrow> a = b"
  by (metis unat_ucast_u8 unsigned_word_eqI)

lemma be32_eq: "be32 a b c d = be32 a' b' c' d' \<longleftrightarrow> a = a' \<and> b = b' \<and> c = c' \<and> d = d'"
  using be32_octets [of a b c d] be32_octets [of a' b' c' d'] by (metis ucast_u8_eq)

lemma be32_consts: "be32 0 0 0 0 = 0" "be32 0 0 255 255 = 0xffff" "be32 255 14 0 0 = 0xff0e0000"
  by (simp_all add: be32_def)

lemma v4mapped_bytes:
  "ipv6_addr_v4mapped a \<longleftrightarrow>
     (a ! 0 = 0 \<and> a ! 1 = 0 \<or> a ! 0 = 255 \<and> a ! 1 = 14) \<and> a ! 2 = 0 \<and> a ! 3 = 0 \<and>
     a ! 4 = 0 \<and> a ! 5 = 0 \<and> a ! 6 = 0 \<and> a ! 7 = 0 \<and> a ! 8 = 0 \<and> a ! 9 = 0 \<and> a ! 10 = 255 \<and> a ! 11 = 255"
proof -
  have x: "xor y z = 0 \<longleftrightarrow> y = z" for y z :: u32 by (metis xor.assoc xor.right_neutral xor.left_neutral xor_self_eq)
  have w: "s6_addr32 a 0 = be32 (a ! 0) (a ! 1) (a ! 2) (a ! 3)"
    "s6_addr32 a 1 = be32 (a ! 4) (a ! 5) (a ! 6) (a ! 7)"
    "s6_addr32 a 2 = be32 (a ! 8) (a ! 9) (a ! 10) (a ! 11)"
    by (simp_all add: s6_addr32_def numeral_eq_Suc)
  show ?thesis
    unfolding ipv6_addr_v4mapped_def or_eq_0_iff x w
    unfolding be32_consts [symmetric] be32_eq by blast
qed

section \<open>Properties\<close>

text \<open>
  The text of a GID determines it: two GIDs of 16 bytes have the same text only if they are
  equal, so comparing the strings, as the reprobe does, compares the GIDs.
\<close>

theorem gid_text_injective:
  assumes "length a = 16" "length b = 16"
  shows "gidBytesToString a = gidBytesToString b \<longleftrightarrow> a = b"
  using gid_string_inj [OF assms] by blast

theorem gid_text_injective_witness:
  "gidBytesToString (replicate 15 0 @ [171]) = ''00:00:00:00:00:00:00:00:00:00:00:00:00:00:00:ab'' \<and>
   gidBytesToString (replicate 15 0 @ [171]) \<noteq> gidBytesToString (replicate 16 0)"
proof -
  have "gidBytesToString (replicate 15 0 @ [171]) = ''00:00:00:00:00:00:00:00:00:00:00:00:00:00:00:ab''" by code_simp
  moreover have "replicate 15 0 @ [171] \<noteq> (replicate 16 0 :: gid)"
  proof
    assume "replicate 15 0 @ [171] = (replicate 16 0 :: gid)"
    then have "last (replicate 15 0 @ [171]) = last (replicate 16 (0 :: u8))" by (rule arg_cong)
    then show False by simp
  qed
  ultimately show ?thesis
    using gid_text_injective [of "replicate 15 0 @ [171]" "replicate 16 0"] by simp
qed

text \<open>
  An address counts as an overlay IPv4 address exactly when it is IPv4-mapped (or the
  IPv4-encoded multicast form) and its first two octets lie in 10/8, 172.16/12 or 100.64/10.
\<close>

theorem overlay_ipv4_ranges:
  "isOverlayIPv4 a \<longleftrightarrow>
     (a ! 0 = 0 \<and> a ! 1 = 0 \<or> a ! 0 = 255 \<and> a ! 1 = 14) \<and> a ! 2 = 0 \<and> a ! 3 = 0 \<and>
     a ! 4 = 0 \<and> a ! 5 = 0 \<and> a ! 6 = 0 \<and> a ! 7 = 0 \<and> a ! 8 = 0 \<and> a ! 9 = 0 \<and> a ! 10 = 255 \<and> a ! 11 = 255 \<and>
     (unat (a ! 12) = 10 \<or> unat (a ! 12) = 172 \<and> unat (a ! 13) \<in> {16..31} \<or>
      unat (a ! 12) = 100 \<and> unat (a ! 13) \<in> {64..127})"
proof -
  have w: "s6_addr32 a 3 = be32 (a ! 12) (a ! 13) (a ! 14) (a ! 15)"
    by (simp add: s6_addr32_def numeral_eq_Suc)
  have eq: "(ucast b = (w :: u32)) \<longleftrightarrow> unat b = unat w" for b :: u8 and w
    by (metis unat_ucast_u8 unsigned_word_eqI)
  have "(isOverlayIPv4 a) \<longleftrightarrow> ipv6_addr_v4mapped a \<and>
      (unat (a ! 12) = 10 \<or> unat (a ! 12) = 172 \<and> unat (a ! 13) \<in> {16..31} \<or>
       unat (a ! 12) = 100 \<and> unat (a ! 13) \<in> {64..127})"
    unfolding isOverlayIPv4_def Let_def w be32_octets eq word_le_nat_alt unat_ucast_u8 by auto
  then show ?thesis unfolding v4mapped_bytes by blast
qed

text \<open>
  C14.  A reprobe is all or nothing.  It reports success exactly when it changed the context, and
  then the context was on the selection the caller expected, the new GID is not null, it was
  published before it was stored, and the two strings handed back are the old and the new GID.
  On every other path the context is as before.
\<close>

theorem reprobe_all_or_nothing:
  assumes "reprobeAutoGid V refresh c expected tried = (ok, c', prev, next_gid)"
  shows "if ok
    then \<exists>g i. c' = c\<lparr>gs_gid := g, gs_gid_index := i\<rparr> \<and> gidSelection c = expected \<and>
      \<not> isNullGid g \<and> gv_query_gid V (gs_port c) i = Some g \<and>
      refresh (gs_device_name c) (gs_lid c) (gidBytesToString g) = 0 \<and>
      prev = Some (gidBytesToString (gs_gid c)) \<and> next_gid = Some (gidBytesToString g)
    else c' = c"
proof -
  have ne: "gidBytesToString g \<noteq> []" for g
  proof
    assume "gidBytesToString g = []"
    with gid_string_chunks [of g] have "length (concat (map (\<lambda>i. CHR '':'' # hex_byte (g ! i)) [0..<16])) = 1"
      by (metis One_nat_def length_Cons list.size(3))
    then show False by (simp add: length_concat comp_def hex_byte_def sum_list_triv)
  qed
  show ?thesis
    using assms
    by (auto simp: reprobeAutoGid_def Let_def ne gidSelection_def split: if_splits option.splits)
qed

definition demo_gid_env :: gid_env where
  "demo_gid_env = \<lparr>gv_query_port = (\<lambda>p. Some 2), gv_query_gid_ex = (\<lambda>p i. Some (replicate 16 1, 2)),
     gv_query_gid = (\<lambda>p i. Some (replicate 16 2)), gv_first_line = (\<lambda>p. Some ''eth0''),
     gv_candidate = \<lparr>cand_gid_index = -1, cand_query_succeeded = True, cand_gid = [], cand_gid_type = 0,
       cand_has_network_device = False, cand_is_ipv4_mapped = False, cand_is_link_local_ipv6 = False,
       cand_is_overlay_network = False, cand_is_overlay_ipv4 = False, cand_is_null_gid = False\<rparr>,
     gv_select = (\<lambda>cs. None),
     gv_reselect = (\<lambda>cs i g ts. Some \<lparr>sel_gid_index = 1, sel_candidate_class = kNetworkRoutable\<rparr>)\<rparr>"

definition demo_gid_state :: gid_state where
  "demo_gid_state = \<lparr>gs_device_name = ''mlx5_0'', gs_auto_gid_selection_enabled = True, gs_has_context = True,
     gs_gid = replicate 16 1, gs_gid_index = 0, gs_lid = 3, gs_port = 1\<rparr>"

theorem reprobe_all_or_nothing_witness:
  "\<exists>g i. fst (snd (reprobeAutoGid demo_gid_env (\<lambda>d l g. 0) demo_gid_state (gidSelection demo_gid_state) [])) =
     demo_gid_state\<lparr>gs_gid := g, gs_gid_index := i\<rparr> \<and> \<not> isNullGid g"
proof -
  let ?r = "reprobeAutoGid demo_gid_env (\<lambda>d l g. 0) demo_gid_state (gidSelection demo_gid_state) []"
  have ok: "fst ?r" by code_simp
  have "?r = (fst ?r, fst (snd ?r), fst (snd (snd ?r)), snd (snd (snd ?r)))" by simp
  from reprobe_all_or_nothing [OF this] ok show ?thesis by (simp only: if_True) blast
qed

end
