(* ===== verification/Rdma_Context.thy ===== *)
theory Rdma_Context
  imports Rdma_Memory Rdma_Gid
begin

text \<open>
  The life of an RDMA context (\<open>rdma_context.cpp\<close>): opening the device, building the protection
  domain, completion channels, the epoll instance and the completion queues, and tearing all of
  it down again.  Queries leave a \<open>V_query\<close> in the trace, so that the two queries of the port
  may answer differently.  The endpoint store and the worker pool are not part of the repository:
  the state records which store was made and whether the pool runs, and the operations of the
  store are arguments of \<open>endpoint\<close>.  \<open>ibv_fork_init\<close>, whose failure is only logged, and
  \<open>updateGlobalConfig\<close>, which is outside the repository, are left out.
\<close>

section \<open>Environment and state\<close>

record ibv_port_attr =
  pa_active :: bool
  pa_lid :: u16
  pa_active_mtu :: int
  pa_active_speed :: int
  pa_gid_tbl_len :: nat

datatype EndpointStoreType = FIFO | SIEVE

text \<open>A topology entry: its name, the preferred and the available HCAs.\<close>

type_synonym topology_entry = "string \<times> string list \<times> string list"

record dev_env =
  de_device_list :: "vcalls \<Rightarrow> string list option"
  de_open_device :: "vcalls \<Rightarrow> nat \<Rightarrow> ptr option"
  de_query_port :: "vcalls \<Rightarrow> ptr \<Rightarrow> u8 \<Rightarrow> ibv_port_attr option"
  de_query_device :: "vcalls \<Rightarrow> ptr \<Rightarrow> bool"
  de_gpu_build :: bool
  de_cuda_build :: bool
  de_with_peermem :: bool
  de_local_topology :: "topology_entry list option"
  de_gpu_prefix :: string
  de_cuInit :: bool
  de_cuDeviceGet :: "int \<Rightarrow> int option"
  de_dmabuf_supported :: "int \<Rightarrow> bool option"
  de_gid :: gid_env
  de_query_gid :: "vcalls \<Rightarrow> ptr \<Rightarrow> u8 \<Rightarrow> int \<Rightarrow> gid option"
  de_skip_null_gid_check :: bool
  de_endpoint_store_type :: EndpointStoreType
  de_alloc_pd :: "vcalls \<Rightarrow> ptr option"
  de_create_comp_channel :: "vcalls \<Rightarrow> ptr option"
  de_channel_fd :: "ptr \<Rightarrow> int"
  de_async_fd :: "ptr \<Rightarrow> int"
  de_num_comp_vectors :: "ptr \<Rightarrow> int"
  de_epoll_create :: "vcalls \<Rightarrow> int"
  de_fcntl_getfl :: "int \<Rightarrow> int"
  de_fcntl_setfl_nonblock :: "int \<Rightarrow> int \<Rightarrow> int"
  de_epoll_ctl_add :: "int \<Rightarrow> int \<Rightarrow> int"
  de_create_cq :: "vcalls \<Rightarrow> nat \<Rightarrow> ptr option \<Rightarrow> int \<Rightarrow> ptr option"
  de_lag_ports :: "ptr \<Rightarrow> u8 option"
  de_dereg_mr :: "vcalls \<Rightarrow> verbs_mr \<Rightarrow> int"

record RdmaCq =
  cq_native :: "ptr option"
  cq_outstanding :: int

definition new_RdmaCq :: RdmaCq where
  "new_RdmaCq = \<lparr>cq_native = None, cq_outstanding = 0\<rparr>"

text \<open>A null pointer is \<open>None\<close>; \<open>rx_comp_channel\<close> is the array once it is allocated.\<close>

record RdmaContext =
  rx_device_name :: string
  rx_context :: "ptr option"
  rx_pd :: "ptr option"
  rx_event_fd :: int
  rx_num_comp_channel :: nat
  rx_comp_channel :: "ptr option list option"
  rx_cq_list :: "RdmaCq list"
  rx_port :: u8
  rx_lid :: u16
  rx_gid_index :: int
  rx_active_speed :: int
  rx_active_mtu :: int
  rx_num_lag_ports :: u8
  rx_gid :: gid
  rx_auto_gid_selection_enabled :: bool
  rx_memory_region_map :: region_map
  rx_endpoint_store :: "(EndpointStoreType \<times> int) option"
  rx_worker_pool :: bool
  rx_active :: bool
  rx_next_comp_channel_index :: "32 word"
  rx_next_comp_vector_index :: "32 word"
  rx_next_cq_list_index :: "32 word"

text \<open>
  The state after the constructor and the member initialisers.  The GID and the MTU have no
  initialiser: their indeterminate values are the arguments \<open>g\<close> and \<open>mtu\<close>.
\<close>

definition new_RdmaContext :: "string \<Rightarrow> gid \<Rightarrow> int \<Rightarrow> RdmaContext" where
  "new_RdmaContext device_name g mtu =
     \<lparr>rx_device_name = device_name, rx_context = None, rx_pd = None, rx_event_fd = -1,
      rx_num_comp_channel = 0, rx_comp_channel = None, rx_cq_list = [], rx_port = 0, rx_lid = 0,
      rx_gid_index = -1, rx_active_speed = -1, rx_active_mtu = mtu, rx_num_lag_ports = 0, rx_gid = g,
      rx_auto_gid_selection_enabled = False, rx_memory_region_map = [], rx_endpoint_store = None,
      rx_worker_pool = False, rx_active = True, rx_next_comp_channel_index = 0, rx_next_comp_vector_index = 0,
      rx_next_cq_list_index = 0\<rparr>"

section \<open>Round-robin counters\<close>

text \<open>
  The counters are atomic \<open>int\<close>s that wrap around.  Against a \<open>size_t\<close> the counter is converted to
  unsigned before the remainder; against an \<open>int\<close> the remainder truncates towards zero.  A zero
  divisor is \<open>None\<close>.
\<close>

definition wrap_index :: "32 word \<Rightarrow> nat \<Rightarrow> nat option" where
  "wrap_index c n = (if n = 0 then None else Some (unat (scast c :: u64) mod n))"

definition cq :: "RdmaContext \<Rightarrow> ptr option option \<times> RdmaContext" where
  "cq c = (map_option (\<lambda>i. cq_native (rx_cq_list c ! i)) (wrap_index (rx_next_cq_list_index c) (length (rx_cq_list c))),
           c\<lparr>rx_next_cq_list_index := rx_next_cq_list_index c + 1\<rparr>)"

definition compChannel :: "RdmaContext \<Rightarrow> ptr option option \<times> RdmaContext" where
  "compChannel c =
     (map_option (\<lambda>i. case rx_comp_channel c of None \<Rightarrow> None | Some cs \<Rightarrow> cs ! i)
        (wrap_index (rx_next_comp_channel_index c) (rx_num_comp_channel c)),
      c\<lparr>rx_next_comp_channel_index := rx_next_comp_channel_index c + 1\<rparr>)"

definition compVector :: "dev_env \<Rightarrow> RdmaContext \<Rightarrow> int option \<times> RdmaContext" where
  "compVector D c =
     (let n = (case rx_context c of None \<Rightarrow> 0 | Some p \<Rightarrow> de_num_comp_vectors D p);
          k = sint (rx_next_comp_vector_index c)
      in (if n = 0 then None else Some (if k < 0 then - ((- k) mod abs n) else k mod abs n),
          c\<lparr>rx_next_comp_vector_index := rx_next_comp_vector_index c + 1\<rparr>))"

section \<open>Opening the device\<close>

text \<open>The GPU devices the topology maps to this RNIC, sorted and without duplicates.\<close>

definition mapped_gpu_devices :: "dev_env \<Rightarrow> string \<Rightarrow> int list" where
  "mapped_gpu_devices D device_name =
     (case de_local_topology D of
        None \<Rightarrow> []
      | Some matrix \<Rightarrow>
          remdups_adj (sort (List.map_filter (\<lambda>(name, preferred_hca, avail_hca).
            if \<not> starts_with (de_gpu_prefix D) name then None
            else if device_name \<notin> set preferred_hca \<and> device_name \<notin> set avail_hca then None
            else stoi (drop (length (de_gpu_prefix D)) name)) matrix)))"

definition gpu_supports_dmabuf :: "dev_env \<Rightarrow> int \<Rightarrow> bool" where
  "gpu_supports_dmabuf D gpu_device =
     (case de_cuDeviceGet D gpu_device of
        None \<Rightarrow> False
      | Some cuDevice \<Rightarrow> (case de_dmabuf_supported D cuDevice of None \<Rightarrow> False | Some ok \<Rightarrow> ok))"

definition validate_dmabuf :: "dev_env \<Rightarrow> string \<Rightarrow> bool" where
  "validate_dmabuf D device_name =
     (if \<not> de_gpu_build D \<or> de_with_peermem D then True
      else let gpus = mapped_gpu_devices D device_name
           in if gpus = [] then True
              else if de_cuda_build D \<and> \<not> de_cuInit D then False
              else list_all (gpu_supports_dmabuf D) gpus)"

text \<open>
  From the second query of the port on: choosing the GID, reading it, and storing the members.
  The flag is false when the device must be closed again; the members written up to then stay.
\<close>

definition select_gid ::
    "dev_env \<Rightarrow> RdmaContext \<Rightarrow> vcalls \<Rightarrow> ptr \<Rightarrow> u8 \<Rightarrow> int \<Rightarrow> ibv_port_attr \<Rightarrow> ibv_port_attr \<Rightarrow> bool \<times> RdmaContext" where
  "select_gid D c h context port gid_index attr port_attr =
     (let c = c\<lparr>rx_auto_gid_selection_enabled := gid_index < 0\<rparr>;
          chosen = (if gid_index < 0
                    then (case findBestGidIndex (de_gid D) (rx_device_name c) (pa_gid_tbl_len port_attr) port of
                            (GID_NOT_FOUND, _) \<Rightarrow> None
                          | (_, found_gid_index) \<Rightarrow> Some found_gid_index)
                    else Some gid_index)
      in case chosen of
           None \<Rightarrow> (False, c)
         | Some gid_index \<Rightarrow>
             (case de_query_gid D h context port gid_index of
                None \<Rightarrow> (False, c)
              | Some g \<Rightarrow>
                  (let c = c\<lparr>rx_gid := g\<rparr>
                   in if \<not> de_skip_null_gid_check D \<and> isNullGid g then (False, c)
                      else (True, c\<lparr>rx_context := Some context, rx_port := port, rx_lid := pa_lid attr,
                              rx_active_mtu := pa_active_mtu attr, rx_active_speed := pa_active_speed attr,
                              rx_gid_index := gid_index\<rparr>))))"

definition openRdmaDevice ::
    "dev_env \<Rightarrow> RdmaContext \<Rightarrow> vcalls \<Rightarrow> u8 \<Rightarrow> int \<Rightarrow> rdma_rc \<times> RdmaContext \<times> vcalls" where
  "openRdmaDevice D c h port gid_index =
     (case de_device_list D h of
        None \<Rightarrow> (ERR_DEVICE_NOT_FOUND, c, V_get_device_list False # h)
      | Some devices \<Rightarrow>
      (let h = V_get_device_list True # h in
       if devices = [] then (ERR_DEVICE_NOT_FOUND, c, V_free_device_list # h)
       else case find (\<lambda>i. devices ! i = rx_device_name c) [0..<length devices] of
         None \<Rightarrow> (ERR_DEVICE_NOT_FOUND, c, V_free_device_list # h)
       | Some i \<Rightarrow>
       (let opened = de_open_device D h i; h = V_open_device opened # h
        in case opened of
          None \<Rightarrow> (ERR_CONTEXT, c, V_free_device_list # h)
        | Some context \<Rightarrow>
        (let cleanup = (\<lambda>h. V_free_device_list # V_close_device context # h);
             attr = de_query_port D h context port; h = V_query # h
         in case attr of
           None \<Rightarrow> (ERR_CONTEXT, c, cleanup h)
         | Some attr \<Rightarrow>
             if \<not> pa_active attr then (ERR_CONTEXT, c, cleanup h)
             else let device_attr = de_query_device D h context; h = V_query # h in
             if \<not> device_attr then (ERR_CONTEXT, c, cleanup h)
             else if \<not> validate_dmabuf D (rx_device_name c) then (ERR_CONTEXT, c, cleanup h)
             else let port_attr = de_query_port D h context port; h = V_query # h in
             (case port_attr of
                None \<Rightarrow> (ERR_CONTEXT, c, cleanup h)
              | Some port_attr \<Rightarrow>
                  (let (ok, c) = select_gid D c h context port gid_index attr port_attr
                   in if ok then (RC_OK, c, V_free_device_list # h) else (ERR_CONTEXT, c, cleanup h)))))))"

section \<open>Construction\<close>

definition joinNonblockingPollList :: "dev_env \<Rightarrow> int \<Rightarrow> int \<Rightarrow> rdma_rc" where
  "joinNonblockingPollList D event_fd data_fd =
     (let flags = de_fcntl_getfl D data_fd in
      if flags = -1 then ERR_CONTEXT
      else if de_fcntl_setfl_nonblock D data_fd flags = -1 then ERR_CONTEXT
      else if de_epoll_ctl_add D event_fd data_fd \<noteq> 0 then ERR_CONTEXT
      else RC_OK)"

text \<open>The channels created so far and the null entries after them; the flag says whether all were created.\<close>

fun create_channels :: "dev_env \<Rightarrow> vcalls \<Rightarrow> nat \<Rightarrow> bool \<times> ptr option list \<times> vcalls" where
  "create_channels D h 0 = (True, [], h)"
| "create_channels D h (Suc n) =
     (let ch = de_create_comp_channel D h; h = V_create_comp_channel ch # h
      in case ch of
           None \<Rightarrow> (False, replicate (Suc n) None, h)
         | Some p \<Rightarrow> (let (ok, cs, h) = create_channels D h n in (ok, Some p # cs, h)))"

text \<open>
  The loop over the completion queues from entry \<open>i\<close> of the resized list, with \<open>n\<close> left.  The
  result is \<open>None\<close> for the remainder by zero when there is no completion channel or vector.
\<close>

fun create_cqs ::
    "dev_env \<Rightarrow> RdmaContext \<Rightarrow> vcalls \<Rightarrow> nat \<Rightarrow> nat \<Rightarrow> nat \<Rightarrow> bool option \<times> RdmaContext \<times> vcalls" where
  "create_cqs D c h max_cqe i 0 = (Some True, c, h)"
| "create_cqs D c h max_cqe i (Suc n) =
     (let (channel, c) = compChannel c; (vector, c) = compVector D c
      in case (channel, vector) of
           (Some ch, Some v) \<Rightarrow>
             (let q = de_create_cq D h max_cqe ch v; h = V_create_cq q # h
              in case q of
                   None \<Rightarrow> (Some False, c, h)
                 | Some p \<Rightarrow>
                     create_cqs D (c\<lparr>rx_cq_list := (rx_cq_list c)[i := (rx_cq_list c ! i)\<lparr>cq_native := q\<rparr>]\<rparr>)
                       h max_cqe (Suc i) n)
         | _ \<Rightarrow> (None, c, h))"

definition join_failed :: "dev_env \<Rightarrow> int \<Rightarrow> int list \<Rightarrow> bool" where
  "join_failed D event_fd fds = list_ex (\<lambda>fd. joinNonblockingPollList D event_fd fd \<noteq> RC_OK) fds"

text \<open>From the creation of the epoll instance on; a failure closes it, and only it.\<close>

definition construct_queues ::
    "dev_env \<Rightarrow> RdmaContext \<Rightarrow> vcalls \<Rightarrow> ptr \<Rightarrow> ptr option list \<Rightarrow> nat \<Rightarrow> nat \<Rightarrow>
     rdma_rc option \<times> RdmaContext \<times> vcalls" where
  "construct_queues D c h context channels num_cq_list max_cqe =
     (let event_fd = de_epoll_create D h; h = V_epoll_create event_fd # h; c = c\<lparr>rx_event_fd := event_fd\<rparr>
      in if event_fd < 0 then (Some ERR_CONTEXT, c, h)
      else if join_failed D event_fd (de_async_fd D context # map (\<lambda>p. de_channel_fd D (the p)) channels)
           then (Some ERR_CONTEXT, c\<lparr>rx_event_fd := -1\<rparr>, V_close event_fd # h)
      else (case create_cqs D (c\<lparr>rx_cq_list := replicate num_cq_list new_RdmaCq\<rparr>) h max_cqe 0 num_cq_list of
              (None, c, h) \<Rightarrow> (None, c, h)
            | (Some False, c, h) \<Rightarrow> (Some ERR_CONTEXT, c\<lparr>rx_event_fd := -1\<rparr>, V_close event_fd # h)
            | (Some True, c, h) \<Rightarrow>
                (Some RC_OK, c\<lparr>rx_worker_pool := True,
                   rx_num_lag_ports := (case de_lag_ports D context of None \<Rightarrow> rx_num_lag_ports c | Some n \<Rightarrow> n)\<rparr>, h)))"

text \<open>\<open>de_lag_ports\<close> is \<open>None\<close> also in a build without \<open>USE_MLX5DV\<close>.\<close>

definition construct ::
    "dev_env \<Rightarrow> RdmaContext \<Rightarrow> vcalls \<Rightarrow> nat \<Rightarrow> nat \<Rightarrow> u8 \<Rightarrow> int \<Rightarrow> nat \<Rightarrow> int \<Rightarrow>
     rdma_rc option \<times> RdmaContext \<times> vcalls" where
  "construct D c h num_cq_list num_comp_channels port gid_index max_cqe max_endpoints =
     (let c = c\<lparr>rx_endpoint_store := Some (de_endpoint_store_type D, max_endpoints)\<rparr>;
          (rc, c, h) = openRdmaDevice D c h port gid_index
      in if rc \<noteq> RC_OK then (Some ERR_CONTEXT, c, h)
      else let pd = de_alloc_pd D h; h = V_alloc_pd pd # h; c = c\<lparr>rx_pd := pd\<rparr>
      in if pd = None then (Some ERR_CONTEXT, c, h)
      else let (ok, channels, h) = create_channels D h num_comp_channels;
               c = c\<lparr>rx_num_comp_channel := num_comp_channels, rx_comp_channel := Some channels\<rparr>
      in if \<not> ok then (Some ERR_CONTEXT, c, h)
      else construct_queues D c h (the (rx_context c)) channels num_cq_list max_cqe)"

section \<open>Tearing down\<close>

definition destroy_some :: "(ptr \<Rightarrow> vcall) \<Rightarrow> ptr option list \<Rightarrow> vcalls \<Rightarrow> vcalls" where
  "destroy_some f ps h = fold (\<lambda>p h. case p of None \<Rightarrow> h | Some p \<Rightarrow> f p # h) ps h"

definition dereg_all :: "dev_env \<Rightarrow> region_map \<Rightarrow> vcalls \<Rightarrow> vcalls" where
  "dereg_all D m h = fold (\<lambda>(k, w) h. V_dereg_mr (meta_mr w) (de_dereg_mr D h (meta_mr w) = 0) # h) m h"

definition deconstruct :: "dev_env \<Rightarrow> RdmaContext \<Rightarrow> vcalls \<Rightarrow> RdmaContext \<times> vcalls" where
  "deconstruct D c h =
     (let h = dereg_all D (rx_memory_region_map c) (V_destroyQPs # h);
          h = destroy_some V_destroy_cq (map cq_native (rx_cq_list c)) h;
          h = (if rx_event_fd c \<ge> 0 then V_close (rx_event_fd c) # h else h);
          h = (case rx_comp_channel c of None \<Rightarrow> h
               | Some cs \<Rightarrow> destroy_some V_destroy_comp_channel (take (rx_num_comp_channel c) cs) h);
          h = (case rx_pd c of None \<Rightarrow> h | Some p \<Rightarrow> V_dealloc_pd p # h);
          h = (case rx_context c of None \<Rightarrow> h | Some p \<Rightarrow> V_close_device p # h)
      in (c\<lparr>rx_worker_pool := False, rx_memory_region_map := [], rx_cq_list := [], rx_event_fd := -1,
            rx_comp_channel := None, rx_pd := None, rx_context := None\<rparr>, h))"

definition destroy_RdmaContext :: "dev_env \<Rightarrow> RdmaContext \<Rightarrow> vcalls \<Rightarrow> vcalls" where
  "destroy_RdmaContext D c h = (if rx_context c \<noteq> None then snd (deconstruct D c h) else h)"

section \<open>Endpoints and polling\<close>

text \<open>
  \<open>endpoint\<close> over the operations of the endpoint store, whose state is \<open>'s\<close>.
\<close>

definition endpoint ::
    "('s \<Rightarrow> string \<Rightarrow> 'e option) \<Rightarrow> ('s \<Rightarrow> string \<Rightarrow> 'e option \<times> 's) \<Rightarrow> ('s \<Rightarrow> 's) \<Rightarrow>
     RdmaContext \<Rightarrow> 's \<Rightarrow> string \<Rightarrow> 'e option \<times> 's" where
  "endpoint getEndpoint insertEndpoint reclaimEndpoint c st peer_nic_path =
     (if \<not> rx_active c then (None, st)
      else if peer_nic_path = [] then (None, st)
      else case getEndpoint st peer_nic_path of
        Some e \<Rightarrow> (Some e, st)
      | None \<Rightarrow> (let (e, st) = insertEndpoint st peer_nic_path in (e, reclaimEndpoint st)))"

text \<open>A queue index outside the list and a null queue are \<open>None\<close>.\<close>

definition poll :: "(ptr \<Rightarrow> nat \<Rightarrow> int) \<Rightarrow> RdmaContext \<Rightarrow> nat \<Rightarrow> nat \<Rightarrow> rdma_rc option" where
  "poll ibv_poll_cq c num_entries cq_index =
     (if cq_index \<ge> length (rx_cq_list c) then None
      else case cq_native (rx_cq_list c ! cq_index) of
        None \<Rightarrow> None
      | Some q \<Rightarrow> (let nr_poll = ibv_poll_cq q num_entries in Some (if nr_poll < 0 then ERR_CONTEXT else RC_CODE nr_poll)))"

end
