(* ===== verification/Rdma_Context_Props.thy ===== *)
theory Rdma_Context_Props
  imports Rdma_Context
begin

text \<open>
  Resources of an RDMA context: at every point of its construction the context owns exactly what
  was acquired, so that the destructor returns all of it whether the construction succeeded or
  not; and what a successful construction leaves behind.
\<close>

section \<open>Ownership\<close>

definition some_objs :: "(ptr \<Rightarrow> verbs_object) \<Rightarrow> ptr option list \<Rightarrow> verbs_object multiset" where
  "some_objs f ps = mset (List.map_filter (map_option f) ps)"

lemma some_objs_simps [simp]:
  "some_objs f [] = {#}"
  "some_objs f (None # ps) = some_objs f ps"
  "some_objs f (Some p # ps) = add_mset (f p) (some_objs f ps)"
  "some_objs f (replicate n None) = {#}"
  by (simp_all add: some_objs_def map_filter_simps) (induction n; simp add: map_filter_simps)

definition ctx_objects :: "RdmaContext \<Rightarrow> verbs_object multiset" where
  "ctx_objects c = some_objs Obj_device [rx_context c] + some_objs Obj_pd [rx_pd c] +
     (case rx_comp_channel c of None \<Rightarrow> {#} | Some cs \<Rightarrow> some_objs Obj_channel (take (rx_num_comp_channel c) cs)) +
     some_objs Obj_cq (map cq_native (rx_cq_list c))"

definition ctx_fds :: "RdmaContext \<Rightarrow> int multiset" where
  "ctx_fds c = (if rx_event_fd c \<ge> 0 then {#rx_event_fd c#} else {#})"

text \<open>What was open in \<open>h0\<close> is open in \<open>h\<close>, and beyond it exactly what the context refers to.\<close>

definition owns :: "vcalls \<Rightarrow> RdmaContext \<Rightarrow> vcalls \<Rightarrow> bool" where
  "owns h0 c h \<longleftrightarrow> v_objects h = ctx_objects c + v_objects h0 \<and> v_open_fds h = ctx_fds c + v_open_fds h0 \<and>
     v_live_mrs h = mset (map (meta_mr \<circ> snd) (rx_memory_region_map c)) + v_live_mrs h0"

lemmas owns_defs = owns_def ctx_objects_def ctx_fds_def

section \<open>Construction\<close>

lemma select_gid_frame:
  assumes "select_gid D c h context port gid_index attr port_attr = (ok, c')"
  shows "rx_context c' = (if ok then Some context else rx_context c) \<and> rx_pd c' = rx_pd c \<and>
    rx_comp_channel c' = rx_comp_channel c \<and> rx_num_comp_channel c' = rx_num_comp_channel c \<and>
    rx_cq_list c' = rx_cq_list c \<and> rx_event_fd c' = rx_event_fd c \<and>
    rx_memory_region_map c' = rx_memory_region_map c"
  using assms by (auto simp: select_gid_def Let_def split: if_splits option.splits)

lemma openRdmaDevice_owns:
  assumes "openRdmaDevice D c h port gid_index = (rc, c', h')" "rx_context c = None" "owns h0 c h"
  shows "owns h0 c' h' \<and> (rx_context c' \<noteq> None \<longleftrightarrow> rc = RC_OK) \<and> rx_pd c' = rx_pd c \<and>
    rx_comp_channel c' = rx_comp_channel c \<and> rx_cq_list c' = rx_cq_list c \<and> rx_event_fd c' = rx_event_fd c"
  using assms
  by (auto simp: openRdmaDevice_def Let_def owns_defs dest!: select_gid_frame
      split: if_splits option.splits prod.splits)

lemma create_channels_objects:
  assumes "create_channels D h n = (ok, cs, h')"
  shows "length cs = n \<and> v_objects h' = some_objs Obj_channel cs + v_objects h \<and>
    v_open_fds h' = v_open_fds h \<and> v_live_mrs h' = v_live_mrs h \<and> (ok \<longrightarrow> None \<notin> set cs)"
  using assms
proof (induction n arbitrary: h ok cs h')
  case (Suc n)
  show ?case
  proof (cases "de_create_comp_channel D h")
    case None
    with Suc.prems show ?thesis by (auto simp: Let_def simp flip: replicate_Suc)
  next
    case (Some p)
    obtain ok' cs' h'' where r: "create_channels D (V_create_comp_channel (Some p) # h) n = (ok', cs', h'')"
      by (cases "create_channels D (V_create_comp_channel (Some p) # h) n") auto
    from Suc.IH [OF r] Some r Suc.prems show ?thesis by (auto simp: Let_def)
  qed
qed simp

lemma compChannel_frame [simp]: "owns h0 (snd (compChannel c)) h = owns h0 c h"
  by (simp add: owns_defs compChannel_def cong: option.case_cong)

lemma compVector_frame [simp]: "owns h0 (snd (compVector D c)) h = owns h0 c h"
  by (simp add: owns_defs compVector_def Let_def cong: option.case_cong)

lemma some_objs_update:
  "i < length ps \<Longrightarrow> ps ! i = None \<Longrightarrow> some_objs f (ps[i := Some p]) = add_mset (f p) (some_objs f ps)"
proof (induction ps arbitrary: i)
  case (Cons a ps)
  then show ?case by (cases i; cases a) auto
qed simp

definition same_frame :: "RdmaContext \<Rightarrow> RdmaContext \<Rightarrow> bool" where
  "same_frame c c' \<longleftrightarrow> rx_context c' = rx_context c \<and> rx_pd c' = rx_pd c \<and> rx_comp_channel c' = rx_comp_channel c \<and>
     rx_num_comp_channel c' = rx_num_comp_channel c \<and> rx_event_fd c' = rx_event_fd c \<and>
     rx_memory_region_map c' = rx_memory_region_map c \<and> rx_gid c' = rx_gid c \<and>
     length (rx_cq_list c') = length (rx_cq_list c)"

lemma next_counters_frame:
  "same_frame c (snd (compVector D (snd (compChannel c))))"
  "rx_cq_list (snd (compVector D (snd (compChannel c)))) = rx_cq_list c"
  by (simp_all add: same_frame_def compVector_def compChannel_def Let_def)

lemma owns_set_cq:
  assumes "owns h0 c h" "i < length (rx_cq_list c)" "cq_native (rx_cq_list c ! i) = None"
  shows "owns h0 (c\<lparr>rx_cq_list := (rx_cq_list c)[i := (rx_cq_list c ! i)\<lparr>cq_native := Some p\<rparr>]\<rparr>)
    (V_create_cq (Some p) # h)"
  using assms by (auto simp: owns_defs map_update some_objs_update split: option.splits)

lemma create_cqs_owns:
  assumes "create_cqs D c h m i n = (r, c', h')" "owns h0 c h" "i + n = length (rx_cq_list c)"
    "\<And>j. i \<le> j \<Longrightarrow> j < length (rx_cq_list c) \<Longrightarrow> cq_native (rx_cq_list c ! j) = None"
    "\<And>j. j < i \<Longrightarrow> cq_native (rx_cq_list c ! j) \<noteq> None"
  shows "owns h0 c' h' \<and> same_frame c c' \<and>
    (r = Some True \<longrightarrow> (\<forall>j < length (rx_cq_list c'). cq_native (rx_cq_list c' ! j) \<noteq> None))"
  using assms
proof (induction n arbitrary: c h i)
  case 0
  then show ?case by (simp add: same_frame_def)
next
  case (Suc n)
  define c1 where "c1 = snd (compVector D (snd (compChannel c)))"
  have f1: "same_frame c c1" and l1: "rx_cq_list c1 = rx_cq_list c" and o1: "owns h0 c1 h"
    using next_counters_frame [where c = c and D = D] Suc.prems(2) by (simp_all add: c1_def)
  have o2: "owns h0 c1 (V_create_cq None # h)" using o1 by (simp add: owns_defs cong: option.case_cong)
  obtain ch v where cv: "fst (compChannel c) = ch" "fst (compVector D (snd (compChannel c))) = v" by auto
  show ?case
  proof (cases "ch = None \<or> v = None")
    case True
    then have "c' = c1 \<and> h' = h \<and> r = None"
      using Suc.prems(1) cv by (auto simp: c1_def case_prod_unfold Let_def split: option.splits)
    with o1 f1 show ?thesis by simp
  next
    case False
    then obtain x y where xy: "ch = Some x" "v = Some y" by auto
    show ?thesis
    proof (cases "de_create_cq D h m x y")
      case None
      then have "c' = c1 \<and> h' = V_create_cq None # h \<and> r = Some False"
        using Suc.prems(1) cv xy by (auto simp: c1_def case_prod_unfold Let_def)
      with o2 f1 show ?thesis by simp
    next
      case (Some p)
      define c2 where "c2 = c1\<lparr>rx_cq_list := (rx_cq_list c1)[i := (rx_cq_list c1 ! i)\<lparr>cq_native := Some p\<rparr>]\<rparr>"
      have run: "create_cqs D c2 (V_create_cq (Some p) # h) m (Suc i) n = (r, c', h')"
        using Suc.prems(1) cv xy Some by (simp add: c1_def c2_def case_prod_unfold Let_def)
      have "owns h0 c2 (V_create_cq (Some p) # h)"
        unfolding c2_def by (rule owns_set_cq) (use o1 l1 Suc.prems in auto)
      then have "owns h0 c' h' \<and> same_frame c2 c' \<and>
        (r = Some True \<longrightarrow> (\<forall>j < length (rx_cq_list c'). cq_native (rx_cq_list c' ! j) \<noteq> None))"
        by (rule Suc.IH [OF run]) (use Suc.prems l1 in \<open>auto simp: c2_def nth_list_update\<close>)
      moreover have "same_frame c c2" using f1 by (simp add: same_frame_def c2_def)
      ultimately show ?thesis by (simp add: same_frame_def)
    qed
  qed
qed

lemma construct_queues_owns:
  assumes "construct_queues D c h context cs n m = (rc, c', h')" "owns h0 c h" "rx_event_fd c = -1" "rx_cq_list c = []"
  shows "owns h0 c' h' \<and> rx_context c' = rx_context c \<and> rx_pd c' = rx_pd c \<and> rx_comp_channel c' = rx_comp_channel c \<and>
    rx_gid c' = rx_gid c \<and> (rc = Some RC_OK \<longrightarrow> rx_event_fd c' \<ge> 0 \<and> length (rx_cq_list c') = n \<and>
      (\<forall>j < n. cq_native (rx_cq_list c' ! j) \<noteq> None) \<and> rx_worker_pool c')"
proof -
  define fd where "fd = de_epoll_create D h"
  define c1 where "c1 = c\<lparr>rx_event_fd := fd\<rparr>"
  define c2 where "c2 = c1\<lparr>rx_cq_list := replicate n new_RdmaCq\<rparr>"
  define h1 where "h1 = V_epoll_create fd # h"
  have o1: "owns h0 c1 h1"
    using assms(2-4) by (auto simp: owns_defs c1_def h1_def cong: option.case_cong)
  have o2: "owns h0 c2 h1"
    using o1 assms(4) by (simp add: owns_defs c1_def c2_def new_RdmaCq_def cong: option.case_cong)
  have closed: "owns h0 (d\<lparr>rx_event_fd := -1\<rparr>) (V_close fd # k)"
    if "owns h0 d k" "rx_event_fd d = fd" "fd \<ge> 0" for d k
    using that by (auto simp: owns_defs cong: option.case_cong)
  obtain r d k where run: "create_cqs D c2 h1 m 0 n = (r, d, k)" by (cases "create_cqs D c2 h1 m 0 n") auto
  have cqs: "owns h0 d k \<and> same_frame c2 d \<and>
      (r = Some True \<longrightarrow> (\<forall>j < length (rx_cq_list d). cq_native (rx_cq_list d ! j) \<noteq> None))"
    by (rule create_cqs_owns [OF run o2]) (auto simp: c2_def new_RdmaCq_def)
  have final: "owns h0 (d\<lparr>rx_worker_pool := True, rx_num_lag_ports := x\<rparr>) k"
      "owns h0 (d\<lparr>rx_worker_pool := True\<rparr>) k" for x
    using cqs by (simp_all add: owns_defs cong: option.case_cong)
  show ?thesis
    using assms(1,3,4) o1 cqs run closed [of c1 h1] closed [of d k] final
    unfolding construct_queues_def Let_def fd_def [symmetric] c1_def [symmetric] h1_def [symmetric] c2_def [symmetric] run
    by (auto simp: same_frame_def c1_def c2_def split: if_splits option.splits bool.splits)
qed

lemma construct_owns:
  assumes "construct D (new_RdmaContext name g mtu) h n_cq n_ch port gid_index m e = (rc, c, h')"
  shows "owns h c h' \<and> (rc = Some RC_OK \<longrightarrow> rx_context c \<noteq> None \<and> rx_pd c \<noteq> None \<and> rx_event_fd c \<ge> 0 \<and>
      (\<exists>cs. rx_comp_channel c = Some cs \<and> length cs = n_ch \<and> None \<notin> set cs) \<and>
      length (rx_cq_list c) = n_cq \<and> (\<forall>j < n_cq. cq_native (rx_cq_list c ! j) \<noteq> None) \<and> rx_worker_pool c) \<and>
    (rx_context c = None \<longrightarrow> ctx_objects c = {#} \<and> ctx_fds c = {#} \<and> rx_memory_region_map c = [])"
proof -
  define c0 where "c0 = (new_RdmaContext name g mtu)\<lparr>rx_endpoint_store := Some (de_endpoint_store_type D, e)\<rparr>"
  obtain r1 c1 h1 where op: "openRdmaDevice D c0 h port gid_index = (r1, c1, h1)"
    by (cases "openRdmaDevice D c0 h port gid_index") auto
  have "owns h c0 h" by (simp add: owns_defs c0_def new_RdmaContext_def)
  from openRdmaDevice_owns [OF op _ this] have o1: "owns h c1 h1" "rx_context c1 \<noteq> None \<longleftrightarrow> r1 = RC_OK"
    and c1: "rx_pd c1 = None" "rx_comp_channel c1 = None" "rx_cq_list c1 = []" "rx_event_fd c1 = -1"
    by (simp_all add: c0_def new_RdmaContext_def)
  have m1: "rx_memory_region_map c1 = []"
    using op by (auto simp: openRdmaDevice_def Let_def c0_def new_RdmaContext_def dest!: select_gid_frame
        split: if_splits option.splits prod.splits)
  define pd where "pd = de_alloc_pd D h1"
  define c2 where "c2 = c1\<lparr>rx_pd := pd\<rparr>"
  obtain ok cs h3 where ch: "create_channels D (V_alloc_pd pd # h1) n_ch = (ok, cs, h3)"
    by (cases "create_channels D (V_alloc_pd pd # h1) n_ch") auto
  define c3 where "c3 = c2\<lparr>rx_num_comp_channel := n_ch, rx_comp_channel := Some cs\<rparr>"
  have o2: "owns h c2 (V_alloc_pd pd # h1)"
    using o1(1) c1 by (cases pd) (simp_all add: owns_defs c2_def)
  have o3: "owns h c3 h3"
    using o2 c1 create_channels_objects [OF ch] by (simp add: owns_defs c2_def c3_def)
  have res: "(rc, c, h') =
      (if r1 \<noteq> RC_OK then (Some ERR_CONTEXT, c1, h1)
       else if pd = None then (Some ERR_CONTEXT, c2, V_alloc_pd pd # h1)
       else if \<not> ok then (Some ERR_CONTEXT, c3, h3)
       else construct_queues D c3 h3 (the (rx_context c3)) cs n_cq m)"
    using assms unfolding construct_def Let_def c0_def [symmetric] op
    by (simp add: ch [unfolded pd_def] pd_def c2_def c3_def split: if_splits)
  have queues: "owns h c h' \<and> rx_context c = rx_context c3 \<and> rx_pd c = rx_pd c3 \<and>
      rx_comp_channel c = rx_comp_channel c3 \<and> (rc = Some RC_OK \<longrightarrow> rx_event_fd c \<ge> 0 \<and>
      length (rx_cq_list c) = n_cq \<and> (\<forall>j < n_cq. cq_native (rx_cq_list c ! j) \<noteq> None) \<and> rx_worker_pool c)"
    if "construct_queues D c3 h3 (the (rx_context c3)) cs n_cq m = (rc, c, h')"
    using construct_queues_owns [OF that o3] c1 by (simp add: c3_def c2_def)
  show ?thesis
    using res o1 o2 o3 queues c1 m1 create_channels_objects [OF ch]
    by (auto simp: c2_def c3_def ctx_objects_def ctx_fds_def split: if_splits)
qed

section \<open>Destruction\<close>

lemma destroy_some_effect:
  assumes "\<And>p h. v_objects (f p # h) = v_objects h - {#g p#}" "\<And>p h. v_open_fds (f p # h) = v_open_fds h"
    "\<And>p h. v_live_mrs (f p # h) = v_live_mrs h"
  shows "v_objects (destroy_some f ps h) = v_objects h - some_objs g ps \<and>
    v_open_fds (destroy_some f ps h) = v_open_fds h \<and> v_live_mrs (destroy_some f ps h) = v_live_mrs h"
proof (induction ps arbitrary: h)
  case (Cons p ps)
  then show ?case by (cases p) (simp_all add: destroy_some_def assms)
qed (simp add: destroy_some_def)

lemmas destroy_effects =
  destroy_some_effect [where f = V_destroy_cq and g = Obj_cq, simplified]
  destroy_some_effect [where f = V_destroy_comp_channel and g = Obj_channel, simplified]

lemma dereg_all_effect:
  "v_objects (dereg_all D rm h) = v_objects h \<and> v_open_fds (dereg_all D rm h) = v_open_fds h \<and>
   ((\<forall>h x. de_dereg_mr D h x = 0) \<longrightarrow>
     v_live_mrs (dereg_all D rm h) = v_live_mrs h - mset (map (meta_mr \<circ> snd) rm))"
proof (induction rm arbitrary: h)
  case (Cons p rm)
  then show ?case by (cases p) (simp add: dereg_all_def)
qed (simp add: dereg_all_def)

lemma deconstruct_returns:
  assumes "owns h0 c h"
  shows "v_objects (snd (deconstruct D c h)) = v_objects h0 \<and> v_open_fds (snd (deconstruct D c h)) = v_open_fds h0 \<and>
    ((\<forall>h x. de_dereg_mr D h x = 0) \<longrightarrow> v_live_mrs (snd (deconstruct D c h)) = v_live_mrs h0)"
  using assms
  by (auto simp: deconstruct_def Let_def owns_defs destroy_effects dereg_all_effect split: option.splits)

section \<open>Properties\<close>

text \<open>
  C15.  A context that is constructed and then destroyed leaves no verbs object (device list,
  device, protection domain, completion channel, completion queue) and no descriptor behind,
  whatever the device answers and wherever the construction stops.
\<close>

theorem construct_destroy_no_leak:
  "case construct D (new_RdmaContext name g mtu) h n_cq n_ch port gid_index max_cqe max_endpoints of
     (rc, c, h') \<Rightarrow> v_objects (destroy_RdmaContext D c h') = v_objects h \<and>
       v_open_fds (destroy_RdmaContext D c h') = v_open_fds h"
proof -
  obtain rc c h' where r:
    "construct D (new_RdmaContext name g mtu) h n_cq n_ch port gid_index max_cqe max_endpoints = (rc, c, h')"
    by (cases "construct D (new_RdmaContext name g mtu) h n_cq n_ch port gid_index max_cqe max_endpoints") auto
  from construct_owns [OF r] deconstruct_returns [of h c h' D] show ?thesis
    by (auto simp: r destroy_RdmaContext_def owns_def)
qed

text \<open>
  A successful construction leaves a context that is ready: device and protection domain
  are open, every completion channel and every one of the requested completion queues exists, the
  epoll descriptor is valid and the worker pool runs.
\<close>

theorem construct_ready:
  assumes "construct D (new_RdmaContext name g mtu) h n_cq n_ch port gid_index max_cqe max_endpoints = (Some RC_OK, c, h')"
  shows "rx_context c \<noteq> None \<and> rx_pd c \<noteq> None \<and> rx_event_fd c \<ge> 0 \<and>
    (\<exists>cs. rx_comp_channel c = Some cs \<and> length cs = n_ch \<and> None \<notin> set cs) \<and>
    length (rx_cq_list c) = n_cq \<and> (\<forall>j < n_cq. cq_native (rx_cq_list c ! j) \<noteq> None) \<and> rx_worker_pool c"
  using construct_owns [OF assms] by simp

definition demo_port :: ibv_port_attr where
  "demo_port = \<lparr>pa_active = True, pa_lid = 3, pa_active_mtu = 5, pa_active_speed = 32, pa_gid_tbl_len = 2\<rparr>"

definition demo_dev_env :: dev_env where
  "demo_dev_env = \<lparr>de_device_list = (\<lambda>h. Some [''mlx5_1'', ''mlx5_0'']), de_open_device = (\<lambda>h i. Some (0x100 + of_nat i)),
     de_query_port = (\<lambda>h p n. Some demo_port), de_query_device = (\<lambda>h p. True), de_gpu_build = True,
     de_cuda_build = True, de_with_peermem = False,
     de_local_topology = Some [(''cuda:0'', [''mlx5_0''], []), (''cpu:0'', [''mlx5_0''], [])], de_gpu_prefix = ''cuda:'',
     de_cuInit = True, de_cuDeviceGet = Some, de_dmabuf_supported = (\<lambda>d. Some True), de_gid = demo_gid_env,
     de_query_gid = (\<lambda>h p n i. Some (replicate 16 2)), de_skip_null_gid_check = False,
     de_endpoint_store_type = SIEVE, de_alloc_pd = (\<lambda>h. Some 0x200), de_create_comp_channel = (\<lambda>h. Some (0x300 + of_nat (length h))),
     de_channel_fd = (\<lambda>p. 9), de_async_fd = (\<lambda>p. 8), de_num_comp_vectors = (\<lambda>p. 4), de_epoll_create = (\<lambda>h. 7),
     de_fcntl_getfl = (\<lambda>fd. 2), de_fcntl_setfl_nonblock = (\<lambda>fd fl. 0), de_epoll_ctl_add = (\<lambda>e fd. 0),
     de_create_cq = (\<lambda>h m ch v. Some (0x400 + of_nat (length h))), de_lag_ports = (\<lambda>p. None), de_dereg_mr = (\<lambda>h m. 0)\<rparr>"

theorem construct_ready_witness:
  "\<exists>c h'. construct demo_dev_env (new_RdmaContext ''mlx5_0'' [] 0) [] 2 1 1 3 4096 256 = (Some RC_OK, c, h') \<and>
     rx_context c \<noteq> None \<and> length (rx_cq_list c) = 2"
proof -
  obtain rc c h' where r: "construct demo_dev_env (new_RdmaContext ''mlx5_0'' [] 0) [] 2 1 1 3 4096 256 = (rc, c, h')"
    by (cases "construct demo_dev_env (new_RdmaContext ''mlx5_0'' [] 0) [] 2 1 1 3 4096 256") auto
  have "fst (construct demo_dev_env (new_RdmaContext ''mlx5_0'' [] 0) [] 2 1 1 3 4096 256) = Some RC_OK"
    by code_simp
  with r have ok: "rc = Some RC_OK" by simp
  from construct_ready [OF r [unfolded ok]] r ok show ?thesis by auto
qed

end
