(* ===== verification/Rdma_Memory_Props.thy ===== *)
theory Rdma_Memory_Props
  imports Rdma_Memory
begin

text \<open>
  Correctness of the memory regions of an RDMA context: what a registration acquires, when the
  key lookup is exact, and how registering and unregistering compose.
\<close>

section \<open>What a registration acquires\<close>

text \<open>The net effect on the trace: the MR of the outcome, and nothing else.\<close>

definition outcome_mrs :: "reg_outcome \<Rightarrow> verbs_mr multiset" where
  "outcome_mrs r = (case r of Reg_ok meta \<Rightarrow> {#meta_mr meta#} | _ \<Rightarrow> {#})"

definition reg_balanced :: "reg_outcome \<Rightarrow> vcalls \<Rightarrow> vcalls \<Rightarrow> bool" where
  "reg_balanced r h h' \<longleftrightarrow> v_live_mrs h' = outcome_mrs r + v_live_mrs h \<and>
     v_open_fds h' = v_open_fds h \<and> v_held_ctxs h' = v_held_ctxs h \<and> v_objects h' = v_objects h"

lemma reg_host_balanced: "reg_host E h pd addr len access = (r, h') \<Longrightarrow> reg_balanced r h h'"
  by (auto simp: reg_host_def meta_of_def reg_balanced_def outcome_mrs_def Let_def split: option.splits)

lemma reg_dmabuf_effect:
  assumes "reg_dmabuf E h pd off addr len fd access = (r, h')" "fd \<in># v_open_fds h"
  shows "v_live_mrs h' = outcome_mrs r + v_live_mrs h \<and> v_open_fds h' = v_open_fds h - {#fd#} \<and>
    v_held_ctxs h' = v_held_ctxs h \<and> v_objects h' = v_objects h"
  using assms
  by (auto simp: reg_dmabuf_def meta_of_def outcome_mrs_def Let_def split: option.splits)

lemma reg_cuda_device_balanced:
  assumes ret: "\<And>h d. fst (ve_ctx_retain E h d)"
    and g: "reg_cuda_device E h pd addr len access = (r, h')"
  shows "reg_balanced r h h'"
proof -
  define cuDev where "cuDev = ve_device_get E h (ve_device_ordinal E h addr)"
  define h1 where "h1 = (if ve_build E = Build_CUDA
    then V_ctx_set (snd (ve_ctx_retain E h cuDev)) # V_ctx_retain cuDev True # h else h)"
  define rel where "rel = (\<lambda>h. if ve_build E = Build_CUDA then V_ctx_release cuDev # h else h)"
  have rel: "reg_balanced r h (rel h2)"
    if "v_live_mrs h2 = outcome_mrs r + v_live_mrs h1" "v_open_fds h2 = v_open_fds h1"
      "v_held_ctxs h2 = v_held_ctxs h1" "v_objects h2 = v_objects h1" for r h2
    using that by (auto simp: reg_balanced_def rel_def h1_def)
  have g': "(case ve_address_range E h1 addr of
      None \<Rightarrow> (Reg_failed ERR_CONTEXT, rel h1)
    | Some (b, n) \<Rightarrow>
        (case ve_export E h1 b n of
           None \<Rightarrow> (Reg_failed ERR_CONTEXT, rel (V_export_dmabuf b n None # h1))
         | Some fd \<Rightarrow>
             (let (r, h) = reg_dmabuf E (V_export_dmabuf b n (Some fd) # h1) pd (addr - b) addr len fd access
              in (r, rel h)))) = (r, h')"
    using g ret [of h cuDev]
    by (auto simp: reg_cuda_device_def Let_def cuDev_def h1_def rel_def split: prod.splits option.splits)
  show ?thesis
    using g'
    by (auto simp: Let_def outcome_mrs_def split: option.splits prod.splits dest!: reg_dmabuf_effect intro!: rel)
qed

lemma reg_hip_device_balanced:
  assumes "reg_hip_device E h pd addr len access d = (r, h')"
  shows "reg_balanced r h h'"
proof -
  define h1 where "h1 = V_hip_set_device d (ve_hip_set_device E h d) # h"
  define restore where "restore = (\<lambda>h'. case ve_hip_get_device E h of
      Some p \<Rightarrow> if p \<noteq> d then V_hip_set_device p (ve_hip_set_device E h' p) # h' else h' | None \<Rightarrow> h')"
  have restore: "reg_balanced r h (restore h2)"
    if "v_live_mrs h2 = outcome_mrs r + v_live_mrs h1" "v_open_fds h2 = v_open_fds h1"
      "v_held_ctxs h2 = v_held_ctxs h1" "v_objects h2 = v_objects h1" for r h2
    using that by (auto simp: reg_balanced_def restore_def h1_def split: option.splits)
  have g': "(if \<not> ve_hip_set_device E h d then (Reg_failed ERR_CONTEXT, restore h1)
    else case ve_address_range E h1 addr of
      None \<Rightarrow> (Reg_failed ERR_CONTEXT, restore h1)
    | Some (b, n) \<Rightarrow>
        (case ve_hsa_export E h1 b n of
           None \<Rightarrow> (Reg_failed ERR_CONTEXT, restore (V_export_dmabuf b n None # h1))
         | Some (fd, off) \<Rightarrow>
             (let (r, h) = reg_dmabuf E (V_export_dmabuf b n (Some fd) # h1) pd (addr - b + off) addr len fd access
              in (r, restore h)))) = (r, h')"
    using assms
    by (auto simp: reg_hip_device_def Let_def h1_def restore_def split: prod.splits option.splits if_splits)
  show ?thesis
    using g'
    by (auto simp: Let_def outcome_mrs_def split: option.splits prod.splits if_splits
        dest!: reg_dmabuf_effect intro!: restore)
qed

lemma register_internal_balanced:
  assumes "\<And>h d. fst (ve_ctx_retain E h d)"
    and "registerMemoryRegionInternal E h pd addr len access gpu = (r, h')"
  shows "reg_balanced r h h'"
  using assms(2)
  by (auto simp: registerMemoryRegionInternal_def reg_cuda_alike_def reg_hip_def Let_def
      reg_balanced_def [of Reg_uninitialised] outcome_mrs_def
      intro: reg_host_balanced reg_cuda_device_balanced [OF assms(1)] reg_hip_device_balanced
      split: rdma_build.splits option.splits mem_type.splits hip_mem_type.splits if_splits prod.splits)

section \<open>The map\<close>

text \<open>Keys in strictly ascending order, each the start address of its region.\<close>

definition region_map_inv :: "region_map \<Rightarrow> bool" where
  "region_map_inv m \<longleftrightarrow> sorted_wrt (\<lambda>(k, v) (j, w). k < j) m \<and> (\<forall>(k, w) \<in> set m. k = meta_addr w)"

lemma map_assign_in:
  "region_map_inv m \<Longrightarrow> (i, x) \<in> set (map_assign k v m) \<longleftrightarrow> (i, x) = (k, v) \<or> (i, x) \<in> set m \<and> i \<noteq> k"
proof (induction m)
  case Nil
  then show ?case by simp
next
  case (Cons e m)
  obtain j w where e: "e = (j, w)" by (cases e)
  have tl: "region_map_inv m" and gt: "(i, x) \<in> set m \<Longrightarrow> j < i"
    using Cons.prems e by (auto simp: region_map_inv_def)
  consider "k = j" | "k < j" | "k \<noteq> j" "\<not> k < j" by blast
  then show ?case
  proof cases
    case 1
    with gt e show ?thesis by (cases "(i, x) \<in> set m") auto
  next
    case 2
    with gt have "(i, x) \<in> set m \<Longrightarrow> i \<noteq> k" by force
    with 2 e show ?thesis by auto
  next
    case 3
    with Cons.IH [OF tl] e show ?thesis by auto
  qed
qed

lemma map_assign_inv: "region_map_inv m \<Longrightarrow> region_map_inv (map_assign (meta_addr v) v m)"
proof (induction m)
  case Nil
  then show ?case by (simp add: region_map_inv_def)
next
  case (Cons e m)
  obtain j w where e: "e = (j, w)" by (cases e)
  have tl: "region_map_inv m" and gt: "\<And>i x. (i, x) \<in> set m \<Longrightarrow> j < i" and w: "j = meta_addr w"
    using Cons.prems e by (auto simp: region_map_inv_def)
  consider "meta_addr v = j" | "meta_addr v < j" | "j < meta_addr v" by (metis linorder_neqE)
  then show ?case
  proof cases
    case 1
    with Cons.prems e show ?thesis by (auto simp: region_map_inv_def)
  next
    case 2
    with gt have "\<And>i x. (i, x) \<in> set m \<Longrightarrow> meta_addr v < i" by force
    with 2 Cons.prems e show ?thesis by (auto simp: region_map_inv_def)
  next
    case 3
    have "j < i" if "(i, x) \<in> set (map_assign (meta_addr v) v m)" for i x
      using that 3 gt by (auto simp: map_assign_in [OF tl])
    with 3 Cons.IH [OF tl] e w show ?thesis by (auto simp: region_map_inv_def)
  qed
qed

lemma map_erase_inv: "region_map_inv m \<Longrightarrow> region_map_inv (map_erase k m)"
  by (auto simp: region_map_inv_def map_erase_def sorted_wrt_filter)

lemma map_erase_assign:
  assumes "region_map_inv m" "\<And>w. (k, w) \<notin> set m"
  shows "map_erase k (map_assign k v m) = m"
  using assms
proof (induction m)
  case Nil
  then show ?case by (simp add: map_erase_def)
next
  case (Cons e m)
  obtain j w where e: "e = (j, w)" by (cases e)
  have "region_map_inv m" using Cons.prems(1) by (auto simp: region_map_inv_def)
  moreover have "filter (\<lambda>(j, w). j \<noteq> k) m = m"
    using Cons.prems(2) by (intro filter_True) auto
  moreover have "j \<noteq> k" using Cons.prems(2) e by auto
  ultimately show ?case using Cons e by (auto simp: map_erase_def)
qed

abbreviation keys_sorted :: "region_map \<Rightarrow> bool" where
  "keys_sorted m \<equiv> sorted_wrt (\<lambda>(k, v) (j, w). k < j) m"

lemma takeWhile_below:
  "keys_sorted m \<Longrightarrow> set (takeWhile (\<lambda>(k, w). k \<le> addr) m) = {(j, x) \<in> set m. j \<le> addr}"
proof (induction m)
  case Nil
  then show ?case by simp
next
  case (Cons e m)
  obtain j w where e: "e = (j, w)" by (cases e)
  have tl: "keys_sorted m" and gt: "\<forall>(i, x) \<in> set m. j < i" using Cons.prems e by auto
  show ?case
  proof (cases "j \<le> addr")
    case True
    with Cons.IH [OF tl] e show ?thesis by auto
  next
    case False
    with gt have "\<forall>(i, x) \<in> set m. \<not> i \<le> addr" by (auto simp: not_le)
    with False e show ?thesis by auto
  qed
qed

lemma keys_sorted_last: "keys_sorted b \<Longrightarrow> (j, x) \<in> set b \<Longrightarrow> j \<le> fst (last b)"
  by (cases b rule: rev_cases) (auto simp: sorted_wrt_append split: prod.splits)

lemma keys_sorted_unique: "keys_sorted m \<Longrightarrow> (k, v) \<in> set m \<Longrightarrow> (k, w) \<in> set m \<Longrightarrow> v = w"
  by (induction m) auto

text \<open>The candidate is the region with the greatest start not above the address.\<close>

lemma find_candidate:
  assumes inv: "region_map_inv m"
  shows "findMemoryRegionContaining m addr = Some (k, w) \<longleftrightarrow>
    (k, w) \<in> set m \<and> containsAddress w addr \<and> (\<forall>j x. (j, x) \<in> set m \<longrightarrow> j \<le> addr \<longrightarrow> j \<le> k)"
proof -
  define b where "b = takeWhile (\<lambda>(k, w). k \<le> addr) m"
  have srt: "keys_sorted m" using inv by (simp add: region_map_inv_def)
  have set_b: "set b = {(j, x) \<in> set m. j \<le> addr}" unfolding b_def by (rule takeWhile_below [OF srt])
  have srt_b: "keys_sorted b"
    using srt sorted_wrt_append [of "\<lambda>(k, v) (j, w). k < j" b "dropWhile (\<lambda>(k, w). k \<le> addr) m"]
    unfolding b_def takeWhile_dropWhile_id by blast
  have f: "findMemoryRegionContaining m addr =
      (if b = [] then None else if containsAddress (snd (last b)) addr then Some (last b) else None)"
    by (simp add: findMemoryRegionContaining_def b_def)
  show ?thesis
  proof
    assume "findMemoryRegionContaining m addr = Some (k, w)"
    with f have "b \<noteq> []" "last b = (k, w)" "containsAddress w addr"
      by (cases "last b"; simp split: if_splits)+
    moreover have "(k, w) \<in> set b" using calculation last_in_set [of b] by simp
    moreover have "j \<le> k" if "(j, x) \<in> set m" "j \<le> addr" for j x
    proof -
      have "(j, x) \<in> set b" using that by (simp add: set_b)
      from keys_sorted_last [OF srt_b this] show ?thesis by (simp add: \<open>last b = (k, w)\<close>)
    qed
    ultimately show
      "(k, w) \<in> set m \<and> containsAddress w addr \<and> (\<forall>j x. (j, x) \<in> set m \<longrightarrow> j \<le> addr \<longrightarrow> j \<le> k)" by (simp add: set_b)
  next
    assume c: "(k, w) \<in> set m \<and> containsAddress w addr \<and> (\<forall>j x. (j, x) \<in> set m \<longrightarrow> j \<le> addr \<longrightarrow> j \<le> k)"
    then have "k \<le> addr" using inv by (auto simp: region_map_inv_def containsAddress_def Let_def)
    with c have kb: "(k, w) \<in> set b" by (simp add: set_b)
    then have ne: "b \<noteq> []" by auto
    obtain j x where l: "last b = (j, x)" by (cases "last b")
    have "(j, x) \<in> set b" using last_in_set [OF ne] l by simp
    then have jx: "(j, x) \<in> set m" "j \<le> addr" by (simp_all add: set_b)
    moreover from jx c have "j \<le> k" by blast
    moreover have "k \<le> j" using keys_sorted_last [OF srt_b kb] l by simp
    ultimately have "j = k" "(k, x) \<in> set m" by simp_all
    with keys_sorted_unique [OF srt, of k x w] c l have "last b = (k, w)" by simp
    with f ne c show "findMemoryRegionContaining m addr = Some (k, w)" by simp
  qed
qed

text \<open>Regions that do not overlap: then the candidate is the only region that can contain the address.\<close>

definition regions_disjoint :: "region_map \<Rightarrow> bool" where
  "regions_disjoint m \<longleftrightarrow> (\<forall>(k, w) \<in> set m. \<forall>(j, x) \<in> set m. k < j \<longrightarrow>
     unat k + unat (vm_length (meta_mr w)) \<le> unat j)"

lemma containsAddress_span:
  "containsAddress w addr \<longleftrightarrow> unat addr \<in> span (meta_addr w) (vm_length (meta_mr w))"
  by (auto simp: containsAddress_def Let_def span_def word_le_nat_alt word_less_nat_alt unat_sub_if')

lemma find_disjoint:
  assumes inv: "region_map_inv m" and dis: "regions_disjoint m"
  shows "findMemoryRegionContaining m addr = Some (k, w) \<longleftrightarrow>
    (k, w) \<in> set m \<and> unat addr \<in> span (meta_addr w) (vm_length (meta_mr w))"
proof -
  have "j \<le> k" if kw: "(k, w) \<in> set m" "containsAddress w addr" and jx: "(j, x) \<in> set m" "j \<le> addr" for j x
  proof (rule ccontr)
    assume "\<not> j \<le> k"
    with kw jx dis have "unat k + unat (vm_length (meta_mr w)) \<le> unat j"
      by (force simp: regions_disjoint_def not_le)
    moreover have "k = meta_addr w" using inv kw by (auto simp: region_map_inv_def)
    ultimately show False
      using kw(2) jx(2) by (simp add: containsAddress_span span_def word_le_nat_alt)
  qed
  then show ?thesis by (auto simp: find_candidate [OF inv] containsAddress_span)
qed

section \<open>Properties\<close>

text \<open>A plain build on which every call succeeds and the MR records the length it was asked for.\<close>

definition demo_vmr :: "u64 \<Rightarrow> u32 \<Rightarrow> verbs_mr" where
  "demo_vmr len key = \<lparr>vm_handle = 1, vm_length = len, vm_lkey = key, vm_rkey = key + 1\<rparr>"

definition demo_verbs :: verbs_env where
  "demo_verbs = \<lparr>ve_build = Build_CUDA, ve_max_mr_size = 1048576, ve_with_peermem = False,
     ve_mem_type = (\<lambda>h a. Some CU_MEMORYTYPE_DEVICE), ve_device_ordinal = (\<lambda>h a. 0),
     ve_device_get = (\<lambda>h d. d), ve_ctx_retain = (\<lambda>h d. (True, 77)),
     ve_address_range = (\<lambda>h a. Some (4096, 65536)), ve_export = (\<lambda>h b n. Some 5),
     ve_reg_mr = (\<lambda>h pd a l acc. Some (demo_vmr l (ucast a))),
     ve_reg_dmabuf_mr = (\<lambda>h a. Some (demo_vmr (da_length a) (ucast (da_iova a)))),
     ve_dereg_mr = (\<lambda>h m. 0), ve_hip_attributes = (\<lambda>h a. None), ve_hip_get_device = (\<lambda>h. None),
     ve_hip_set_device = (\<lambda>h d. True), ve_hsa_export = (\<lambda>h b n. None), ve_kernel_dmabuf = False\<rparr>"



text \<open>
  A registration reads an indeterminate MR pointer exactly when the GPU runtime reports a
  memory type for which the code has no branch: neither host nor device on the CUDA-like builds
  with dma-buf allowed, none of host, unregistered, managed and device on HIP.
\<close>

theorem registration_uninitialised:
  "fst (registerMemoryRegionInternal E h pd addr len access gpu) = Reg_uninitialised \<longleftrightarrow>
   (case ve_build E of
      Build_plain \<Rightarrow> False
    | Build_HIP_DMABUF \<Rightarrow> (\<exists>t d. ve_hip_attributes E h addr = Some (hipMemoryTypeOther t, d))
    | _ \<Rightarrow> gpu \<and> (\<exists>t. ve_mem_type E h addr = Some (CU_MEMORYTYPE_OTHER t)))"
proof -
  have meta: "meta_of a mr \<noteq> Reg_uninitialised" for a mr by (simp add: meta_of_def split: option.splits)
  have host: "fst (reg_host E h pd addr len access) \<noteq> Reg_uninitialised" for h len
    using meta by (simp add: reg_host_def Let_def)
  have dma: "fst (reg_dmabuf E h pd off addr len fd access) \<noteq> Reg_uninitialised" for h off len fd
    using meta by (simp add: reg_dmabuf_def Let_def)
  have cuda: "fst (reg_cuda_device E h pd addr len access) \<noteq> Reg_uninitialised" for len
    by (auto simp: reg_cuda_device_def Let_def case_prod_unfold dma split: option.splits)
  have hip: "fst (reg_hip_device E h pd addr len access d) \<noteq> Reg_uninitialised" for len d
    by (auto simp: reg_hip_device_def Let_def case_prod_unfold dma split: option.splits)
  show ?thesis
    by (auto simp: registerMemoryRegionInternal_def Let_def reg_cuda_alike_def reg_hip_def host cuda hip
        split: rdma_build.splits option.splits mem_type.splits hip_mem_type.splits prod.splits)
qed

text \<open>
  C12.  As long as the registered regions do not overlap, the key lookup is exact: an address
  gets the keys of the region that contains it, and key 0 if no region does.
\<close>

theorem key_lookup_exact:
  assumes "region_map_inv m" "regions_disjoint m"
  shows "(findMemoryRegionContaining m addr = Some (k, w) \<longleftrightarrow>
      (k, w) \<in> set m \<and> unat addr \<in> span (meta_addr w) (vm_length (meta_mr w))) \<and>
    (((k, w) \<in> set m \<and> unat addr \<in> span (meta_addr w) (vm_length (meta_mr w))) \<longrightarrow>
      lkey_of m addr = vm_lkey (meta_mr w) \<and> rkey_of m addr = vm_rkey (meta_mr w)) \<and>
    ({(j, x) \<in> set m. unat addr \<in> span (meta_addr x) (vm_length (meta_mr x))} = {} \<longrightarrow>
      lkey_of m addr = 0 \<and> rkey_of m addr = 0)"
proof -
  note f = find_disjoint [OF assms]
  have none: "lkey_of m addr = 0 \<and> rkey_of m addr = 0"
    if "{(j, x) \<in> set m. unat addr \<in> span (meta_addr x) (vm_length (meta_mr x))} = {}"
    using that f [of addr]
    by (cases "findMemoryRegionContaining m addr") (auto simp: lkey_of_def rkey_of_def)
  have some: "lkey_of m addr = vm_lkey (meta_mr w) \<and> rkey_of m addr = vm_rkey (meta_mr w)"
    if "findMemoryRegionContaining m addr = Some (k, w)"
    unfolding lkey_of_def rkey_of_def that by simp
  show ?thesis using f none some by blast
qed

definition demo_regions :: region_map where
  "demo_regions = [(4096, \<lparr>meta_addr = 4096, meta_mr = demo_vmr 4096 1\<rparr>), (16384, \<lparr>meta_addr = 16384, meta_mr = demo_vmr 100 5\<rparr>)]"

lemma demo_regions_ok: "region_map_inv demo_regions" "regions_disjoint demo_regions"
  by (simp_all add: demo_regions_def region_map_inv_def regions_disjoint_def demo_vmr_def)

theorem key_lookup_exact_witness:
  "lkey_of demo_regions 5000 = 1 \<and> lkey_of demo_regions 9000 = 0"
proof -
  have "(4096, \<lparr>meta_addr = 4096, meta_mr = demo_vmr 4096 1\<rparr>) \<in> set demo_regions \<and>
      unat (5000 :: u64) \<in> span 4096 (vm_length (demo_vmr 4096 1))"
    by (simp add: demo_regions_def span_def demo_vmr_def)
  then have "lkey_of demo_regions 5000 = 1"
    using key_lookup_exact [OF demo_regions_ok, of 5000 4096 "\<lparr>meta_addr = 4096, meta_mr = demo_vmr 4096 1\<rparr>"]
    by (simp add: demo_vmr_def)
  moreover have "{(j, x) \<in> set demo_regions. unat (9000 :: u64) \<in> span (meta_addr x) (vm_length (meta_mr x))} = {}"
    by (auto simp: demo_regions_def span_def demo_vmr_def)
  then have "lkey_of demo_regions 9000 = 0" using key_lookup_exact [OF demo_regions_ok, of 9000] by simp
  ultimately show ?thesis by simp
qed

text \<open>
  C13.  Unregistering undoes registering: after a successful registration at a new start address
  of a non-empty MR, unregistering that address gives back the map and the set of live MRs.
\<close>

theorem unregister_register:
  assumes "\<And>h d. fst (ve_ctx_retain E h d)" "\<And>h x. ve_dereg_mr E h x = 0"
    and inv: "region_map_inv m" and fresh: "\<And>w. (addr, w) \<notin> set m"
    and r: "registerMemoryRegionInternal E h pd addr len access gpu = (Reg_ok meta, h1)"
    and len: "meta_addr meta = addr" "0 < unat (vm_length (meta_mr meta))"
  shows "\<exists>m' h2. registerMemoryRegion E h pd m addr len access gpu = (Some RC_OK, m', h1) \<and>
    (addr, meta) \<in> set m' \<and>
    unregisterMemoryRegion E h1 m' addr = (RC_OK, m, h2) \<and> v_live_mrs h2 = v_live_mrs h"
proof -
  let ?m = "map_assign addr meta m"
  have reg: "registerMemoryRegion E h pd m addr len access gpu = (Some RC_OK, ?m, h1)"
    using r len by (simp add: registerMemoryRegion_def)
  have inv': "region_map_inv ?m" using map_assign_inv [OF inv, of meta] len by simp
  have in_m: "(addr, meta) \<in> set ?m" by (simp add: map_assign_in [OF inv])
  have "containsAddress meta addr" using len by (simp add: containsAddress_span span_def)
  with in_m have f: "findMemoryRegionContaining ?m addr = Some (addr, meta)"
    by (simp add: find_candidate [OF inv'])
  have "v_live_mrs h1 = add_mset (meta_mr meta) (v_live_mrs h)"
    using register_internal_balanced [OF assms(1) r] by (simp add: reg_balanced_def outcome_mrs_def)
  moreover have "unregisterMemoryRegion E h1 ?m addr = (RC_OK, m, V_dereg_mr (meta_mr meta) True # h1)"
    using f assms(2) map_erase_assign [OF inv fresh] by (simp add: unregisterMemoryRegion_def)
  ultimately show ?thesis using reg in_m by auto
qed

theorem unregister_register_witness:
  "\<exists>m' h1 h2. registerMemoryRegion demo_verbs [] 9 demo_regions 8192 4096 7 True = (Some RC_OK, m', h1) \<and>
     unregisterMemoryRegion demo_verbs h1 m' 8192 = (RC_OK, demo_regions, h2) \<and> v_live_mrs h2 = {#}"
proof -
  let ?r = "registerMemoryRegionInternal demo_verbs [] 9 8192 4096 7 True"
  let ?m = "\<lparr>meta_addr = 8192, meta_mr = demo_vmr 4096 8192\<rparr>"
  have "fst ?r = Reg_ok ?m" by code_simp
  then have r: "?r = (Reg_ok ?m, snd ?r)" by (simp add: prod_eq_iff)
  have "\<And>h d. fst (ve_ctx_retain demo_verbs h d)" "\<And>h x. ve_dereg_mr demo_verbs h x = 0"
    by (simp_all add: demo_verbs_def)
  moreover have "(8192, w) \<notin> set demo_regions" for w by (simp add: demo_regions_def)
  ultimately show ?thesis
    using unregister_register [OF _ _ demo_regions_ok(1) _ r] by (simp add: demo_vmr_def) blast
qed

text \<open>
  Registering an address that is already a start address replaces the map entry without
  deregistering the MR that was there: the old MR stays live and no longer belongs to the map,
  so neither unregistering nor tearing down the context can release it.
\<close>

theorem reregister_leaks:
  assumes "\<And>h d. fst (ve_ctx_retain E h d)" and inv: "region_map_inv m" and old: "(addr, w) \<in> set m"
    and live: "meta_mr w \<in># v_live_mrs h"
    and r: "registerMemoryRegionInternal E h pd addr len access gpu = (Reg_ok meta, h')"
    and new: "meta_addr meta = addr" "meta \<noteq> w"
  shows "\<exists>m'. registerMemoryRegion E h pd m addr len access gpu = (Some RC_OK, m', h') \<and>
    (addr, w) \<notin> set m' \<and> (addr, meta) \<in> set m' \<and>
    v_live_mrs h' = add_mset (meta_mr meta) (v_live_mrs h) \<and> meta_mr w \<in># v_live_mrs h'"
proof -
  have "registerMemoryRegion E h pd m addr len access gpu = (Some RC_OK, map_assign addr meta m, h')"
    using r new by (simp add: registerMemoryRegion_def)
  moreover have "v_live_mrs h' = add_mset (meta_mr meta) (v_live_mrs h)"
    using register_internal_balanced [OF assms(1) r] by (simp add: reg_balanced_def outcome_mrs_def)
  ultimately show ?thesis using live new by (auto simp: map_assign_in [OF inv])
qed

theorem reregister_leaks_witness:
  "\<exists>m' h'. registerMemoryRegion demo_verbs [V_reg_mr 4096 4096 (Some (demo_vmr 4096 1))] 9 demo_regions 4096 8192 7 True =
      (Some RC_OK, m', h') \<and> demo_vmr 4096 1 \<in># v_live_mrs h' \<and>
      (4096, \<lparr>meta_addr = 4096, meta_mr = demo_vmr 4096 1\<rparr>) \<notin> set m'"
proof -
  let ?h = "[V_reg_mr 4096 4096 (Some (demo_vmr 4096 1))]"
  let ?r = "registerMemoryRegionInternal demo_verbs ?h 9 4096 8192 7 True"
  let ?w = "\<lparr>meta_addr = 4096, meta_mr = demo_vmr 4096 1\<rparr>"
  let ?m = "\<lparr>meta_addr = 4096, meta_mr = demo_vmr 8192 4096\<rparr>"
  have "fst ?r = Reg_ok ?m" by code_simp
  then have r: "?r = (Reg_ok ?m, snd ?r)" by (simp add: prod_eq_iff)
  have "\<And>h d. fst (ve_ctx_retain demo_verbs h d)" by (simp add: demo_verbs_def)
  moreover have "(4096, ?w) \<in> set demo_regions" by (simp add: demo_regions_def)
  ultimately show ?thesis
    using reregister_leaks [OF _ demo_regions_ok(1) _ _ r, of ?w] by (simp add: demo_vmr_def) blast
qed

text \<open>
  Without disjointness the lookup is not exact: registering a region inside another one hides
  the rest of the outer region, whose addresses then get key 0 although they are registered.
\<close>

theorem nested_region_hides:
  "let (rc1, m1, h1) = registerMemoryRegion demo_verbs [] 9 [] 4096 32768 7 True;
       (rc2, m2, h2) = registerMemoryRegion demo_verbs h1 9 m1 8192 256 7 True
   in rc1 = Some RC_OK \<and> rc2 = Some RC_OK \<and> lkey_of m1 16384 = 4096 \<and> lkey_of m2 16384 = 0 \<and>
      map fst m2 = [4096, 8192]"
  by code_simp

end
