(* ===== verification/Rdma_Transport.thy ===== *)
theory Rdma_Transport
  imports Memory_Location Rdma_Context_Props Rdma_Memory_Props
begin

text \<open>
  The RDMA transport (\<open>rdma_transport.cpp\<close>): setting up one context per device, registering
  memory with all of them, and publishing the local segment.

  The metadata service is not part of the repository.  Its calls go to a log of their own (newest
  first), and what it answers is a function of that log.  Threads and futures that the code joins
  before it continues run one after the other in the order of their creation.
\<close>

section \<open>Data\<close>

record BufferDesc =
  bd_name :: string
  bd_addr :: u64
  bd_length :: u64
  bd_lkey :: "u32 list"
  bd_rkey :: "u32 list"

record DeviceDesc =
  dd_name :: string
  dd_lid :: u16
  dd_gid :: string

text \<open>
  The topology of a segment is what the code asks of it: \<open>selectDevice\<close> with a location, a hint
  (empty for the overload without one) and a retry count.  The first argument numbers the calls,
  since the choice among several devices need not be the same each time.
\<close>

type_synonym topology_select = "nat \<Rightarrow> string \<Rightarrow> string \<Rightarrow> int \<Rightarrow> int"

record SegmentDesc =
  sd_name :: string
  sd_rdma_server_name :: string
  sd_protocol :: string
  sd_devices :: "DeviceDesc list"
  sd_topology :: topology_select
  sd_buffers :: "BufferDesc list"

datatype mcall =
    M_addLocalMemoryBuffer BufferDesc bool rdma_rc
  | M_removeLocalMemoryBuffer ptr bool rdma_rc
  | M_addLocalSegment SegmentDesc
  | M_updateLocalSegmentDesc rdma_rc
  | M_startHandshakeDaemon rdma_rc

type_synonym mcalls = "mcall list"

record meta_env =
  me_get_local :: "mcalls \<Rightarrow> SegmentDesc option"
  me_new_segment :: SegmentDesc
  me_add_buffer :: "mcalls \<Rightarrow> BufferDesc \<Rightarrow> bool \<Rightarrow> rdma_rc"
  me_remove_buffer :: "mcalls \<Rightarrow> ptr \<Rightarrow> bool \<Rightarrow> rdma_rc"
  me_update_desc :: "mcalls \<Rightarrow> rdma_rc"
  me_start_daemon :: "mcalls \<Rightarrow> rdma_rc"

record transport_env =
  te_verbs :: verbs_env
  te_dev :: dev_env
  te_loc :: loc_env
  te_meta :: meta_env
  te_maca_build :: bool
  te_cuda_build :: bool
  te_multi_protocol :: bool
  te_relaxed_ordering_mode :: int
  te_has_ibv_reg_mr_iova2 :: bool
  te_hardware_concurrency :: nat
  te_parallel_reg_mr :: int
  te_num_cq_per_ctx :: nat
  te_num_comp_channels_per_ctx :: nat
  te_port :: u8
  te_gid_index :: int
  te_max_cqe :: nat
  te_max_ep_per_ctx :: int
  te_bind_address :: "string option"
  te_port_of :: "string \<Rightarrow> nat"
  te_topology_empty :: "string list \<Rightarrow> bool"

record RdmaTransport =
  rt_context_list :: "RdmaContext list"
  rt_local_server_name :: string
  rt_rdma_server_name :: string
  rt_topology :: topology_select
  rt_disabled :: "string list"
  rt_relaxed_ordering :: bool
  rt_calls :: vcalls
  rt_meta :: mcalls

section \<open>Relaxed ordering\<close>

definition getIbRelaxedOrderingMode :: "int \<Rightarrow> int" where
  "getIbRelaxedOrderingMode val = (if val < 0 \<or> val > 2 then 2 else val)"

text \<open>The constructor: the process-wide flag.\<close>

definition relaxed_ordering_enabled :: "transport_env \<Rightarrow> bool" where
  "relaxed_ordering_enabled T =
     (if getIbRelaxedOrderingMode (te_relaxed_ordering_mode T) = 0 then False else te_has_ibv_reg_mr_iova2 T)"

text \<open>Local write, remote write and remote read are bits 0 to 2; relaxed ordering is bit 20.\<close>

definition access_rights :: "bool \<Rightarrow> int" where
  "access_rights relaxed = (if relaxed then 7 + 2 ^ 20 else 7)"

section \<open>Registering memory\<close>

definition pd_ptr :: "RdmaContext \<Rightarrow> ptr" where
  "pd_ptr c = (case rx_pd c of None \<Rightarrow> 0 | Some p \<Rightarrow> p)"

text \<open>The first code that is not success; \<open>None\<close> is the read of an indeterminate pointer.\<close>

fun first_error :: "rdma_rc option list \<Rightarrow> rdma_rc option" where
  "first_error [] = Some RC_OK"
| "first_error (None # rs) = None"
| "first_error (Some rc # rs) = (if None \<in> set rs then None else if rc \<noteq> RC_OK then Some rc else first_error rs)"

fun pre_touch_blocks ::
    "verbs_env \<Rightarrow> vcalls \<Rightarrow> ptr \<Rightarrow> (ptr \<times> u64) list \<Rightarrow> bool \<Rightarrow> rdma_rc option list \<times> vcalls" where
  "pre_touch_blocks E h pd [] gpu = ([], h)"
| "pre_touch_blocks E h pd ((a, n) # bs) gpu =
     (let (rc, h) = preTouchMemory E h pd a n gpu; (rcs, h) = pre_touch_blocks E h pd bs gpu in (rc # rcs, h))"

text \<open>No processor count gives no thread, and the division by it is \<open>None\<close>.\<close>

definition transport_preTouchMemory ::
    "transport_env \<Rightarrow> RdmaTransport \<Rightarrow> ptr \<Rightarrow> u64 \<Rightarrow> bool \<Rightarrow> rdma_rc option \<times> RdmaTransport" where
  "transport_preTouchMemory T t addr len gpu =
     (case rt_context_list t of
        [] \<Rightarrow> (Some RC_OK, t)
      | c # cs \<Rightarrow>
          (let hwc = te_hardware_concurrency T;
               num_threads = (if hwc > 64 then 16 else min hwc 8);
               len = min len (ve_max_mr_size (te_verbs T))
           in if num_threads = 0 then (None, t)
           else let block_size = len div of_nat num_threads
           in if block_size = 0 then (Some RC_OK, t)
           else let blocks = map (\<lambda>i. (addr + of_nat i * block_size, block_size)) [0..<num_threads];
                    (rcs, h) = pre_touch_blocks (te_verbs T) (rt_calls t) (pd_ptr c) blocks gpu
                in (first_error rcs, t\<lparr>rt_calls := h\<rparr>)))"

text \<open>All contexts in parallel: every one is tried.\<close>

fun register_parallel ::
    "verbs_env \<Rightarrow> vcalls \<Rightarrow> RdmaContext list \<Rightarrow> ptr \<Rightarrow> u64 \<Rightarrow> int \<Rightarrow> bool \<Rightarrow>
     rdma_rc option list \<times> RdmaContext list \<times> vcalls" where
  "register_parallel E h [] addr len access gpu = ([], [], h)"
| "register_parallel E h (c # cs) addr len access gpu =
     (let (rc, m, h) = registerMemoryRegion E h (pd_ptr c) (rx_memory_region_map c) addr len access gpu;
          (rcs, cs, h) = register_parallel E h cs addr len access gpu
      in (rc # rcs, c\<lparr>rx_memory_region_map := m\<rparr> # cs, h))"

text \<open>One after the other: the first failure ends the loop.\<close>

fun register_sequential ::
    "verbs_env \<Rightarrow> vcalls \<Rightarrow> RdmaContext list \<Rightarrow> ptr \<Rightarrow> u64 \<Rightarrow> int \<Rightarrow> bool \<Rightarrow>
     rdma_rc option \<times> RdmaContext list \<times> vcalls" where
  "register_sequential E h [] addr len access gpu = (Some RC_OK, [], h)"
| "register_sequential E h (c # cs) addr len access gpu =
     (let (rc, m, h) = registerMemoryRegion E h (pd_ptr c) (rx_memory_region_map c) addr len access gpu;
          c = c\<lparr>rx_memory_region_map := m\<rparr>
      in if rc \<noteq> Some RC_OK then (rc, c # cs, h)
         else let (rc, cs, h) = register_sequential E h cs addr len access gpu in (rc, c # cs, h))"

definition use_parallel_reg :: "transport_env \<Rightarrow> bool \<Rightarrow> bool \<Rightarrow> bool" where
  "use_parallel_reg T force_sequential auto =
     (if force_sequential then False
      else if te_parallel_reg_mr T = -1 then auto else te_parallel_reg_mr T \<noteq> 0)"

definition register_contexts ::
    "transport_env \<Rightarrow> bool \<Rightarrow> RdmaTransport \<Rightarrow> ptr \<Rightarrow> u64 \<Rightarrow> int \<Rightarrow> bool \<Rightarrow> rdma_rc option \<times> RdmaTransport" where
  "register_contexts T par t addr len access gpu =
     (if par
      then let (rcs, cs, h) = register_parallel (te_verbs T) (rt_calls t) (rt_context_list t) addr len access gpu
           in (first_error rcs, t\<lparr>rt_context_list := cs, rt_calls := h\<rparr>)
      else let (rc, cs, h) = register_sequential (te_verbs T) (rt_calls t) (rt_context_list t) addr len access gpu
           in (rc, t\<lparr>rt_context_list := cs, rt_calls := h\<rparr>))"

text \<open>
  The buffer's name: found by looking at the first page for the wildcard.  The outer \<open>None\<close> is
  the read beyond the page states, the inner one the empty list of entries.
\<close>

definition buffer_name ::
    "transport_env \<Rightarrow> ptr \<Rightarrow> u64 \<Rightarrow> string \<Rightarrow> bool \<Rightarrow> string option option" where
  "buffer_name T addr len name allow_gpu_dmabuf =
     (if name = kWildcardLocation
      then (case getMemoryLocation (te_loc T) addr len True (if te_maca_build T then allow_gpu_dmabuf else True) of
              None \<Rightarrow> None
            | Some [] \<Rightarrow> Some None
            | Some (e # es) \<Rightarrow> Some (Some (le_location e)))
      else Some (Some name))"

definition add_buffer ::
    "transport_env \<Rightarrow> RdmaTransport \<Rightarrow> BufferDesc \<Rightarrow> bool \<Rightarrow> rdma_rc \<times> RdmaTransport" where
  "add_buffer T t b update_metadata =
     (let rc = me_add_buffer (te_meta T) (rt_meta t) b update_metadata
      in (rc, t\<lparr>rt_meta := M_addLocalMemoryBuffer b update_metadata rc # rt_meta t\<rparr>))"

definition registerLocalMemoryInternal ::
    "transport_env \<Rightarrow> RdmaTransport \<Rightarrow> ptr \<Rightarrow> u64 \<Rightarrow> string \<Rightarrow> bool \<Rightarrow> bool \<Rightarrow> rdma_rc option \<times> RdmaTransport" where
  "registerLocalMemoryInternal T t addr len name update_metadata force_sequential =
     (let allow_gpu_dmabuf = (if te_maca_build T then starts_with (le_gpu_prefix (te_loc T)) name else True);
          access = access_rights (rt_relaxed_ordering t);
          do_pre_touch = (rt_context_list t \<noteq> [] \<and> te_hardware_concurrency T \<ge> 4 \<and> len \<ge> 4294967296);
          (rc, t) = (if do_pre_touch then transport_preTouchMemory T t addr len allow_gpu_dmabuf else (Some RC_OK, t))
      in if rc \<noteq> Some RC_OK then (rc, t)
      else let par = use_parallel_reg T force_sequential (length (rt_context_list t) > 1 \<and> do_pre_touch);
               (rc, t) = register_contexts T par t addr len access allow_gpu_dmabuf
      in if rc \<noteq> Some RC_OK then (rc, t)
      else case buffer_name T addr len name allow_gpu_dmabuf of
        None \<Rightarrow> (None, t)
      | Some None \<Rightarrow> (Some (RC_CODE (-1)), t)
      | Some (Some nm) \<Rightarrow>
          (let b = \<lparr>bd_name = nm, bd_addr = addr, bd_length = len,
                    bd_lkey = map (\<lambda>c. lkey_of (rx_memory_region_map c) addr) (rt_context_list t),
                    bd_rkey = map (\<lambda>c. rkey_of (rx_memory_region_map c) addr) (rt_context_list t)\<rparr>;
               (rc, t) = add_buffer T t b update_metadata
           in (Some rc, t)))"

definition registerLocalMemory ::
    "transport_env \<Rightarrow> RdmaTransport \<Rightarrow> ptr \<Rightarrow> u64 \<Rightarrow> string \<Rightarrow> bool \<Rightarrow> rdma_rc option \<times> RdmaTransport" where
  "registerLocalMemory T t addr len name update_metadata =
     registerLocalMemoryInternal T t addr len name update_metadata False"

section \<open>Unregistering memory\<close>

fun unregister_parallel ::
    "verbs_env \<Rightarrow> vcalls \<Rightarrow> RdmaContext list \<Rightarrow> ptr \<Rightarrow> rdma_rc list \<times> RdmaContext list \<times> vcalls" where
  "unregister_parallel E h [] addr = ([], [], h)"
| "unregister_parallel E h (c # cs) addr =
     (let (rc, m, h) = unregisterMemoryRegion E h (rx_memory_region_map c) addr;
          (rcs, cs, h) = unregister_parallel E h cs addr
      in (rc # rcs, c\<lparr>rx_memory_region_map := m\<rparr> # cs, h))"

fun unregister_sequential ::
    "verbs_env \<Rightarrow> vcalls \<Rightarrow> RdmaContext list \<Rightarrow> ptr \<Rightarrow> rdma_rc \<times> RdmaContext list \<times> vcalls" where
  "unregister_sequential E h [] addr = (RC_OK, [], h)"
| "unregister_sequential E h (c # cs) addr =
     (let (rc, m, h) = unregisterMemoryRegion E h (rx_memory_region_map c) addr;
          c = c\<lparr>rx_memory_region_map := m\<rparr>
      in if rc \<noteq> RC_OK then (rc, c # cs, h)
         else let (rc, cs, h) = unregister_sequential E h cs addr in (rc, c # cs, h))"

fun first_failure :: "rdma_rc list \<Rightarrow> rdma_rc" where
  "first_failure [] = RC_OK"
| "first_failure (rc # rcs) = (if rc \<noteq> RC_OK then rc else first_failure rcs)"

definition unregisterLocalMemoryInternal ::
    "transport_env \<Rightarrow> RdmaTransport \<Rightarrow> ptr \<Rightarrow> bool \<Rightarrow> bool \<Rightarrow> rdma_rc \<times> RdmaTransport" where
  "unregisterLocalMemoryInternal T t addr update_metadata force_sequential =
     (let rc = me_remove_buffer (te_meta T) (rt_meta t) addr update_metadata;
          t = t\<lparr>rt_meta := M_removeLocalMemoryBuffer addr update_metadata rc # rt_meta t\<rparr>
      in if rc \<noteq> RC_OK then (rc, t)
      else if use_parallel_reg T force_sequential (length (rt_context_list t) > 1)
      then let (rcs, cs, h) = unregister_parallel (te_verbs T) (rt_calls t) (rt_context_list t) addr
           in (first_failure rcs, t\<lparr>rt_context_list := cs, rt_calls := h\<rparr>)
      else let (rc, cs, h) = unregister_sequential (te_verbs T) (rt_calls t) (rt_context_list t) addr
           in (rc, t\<lparr>rt_context_list := cs, rt_calls := h\<rparr>))"

definition unregisterLocalMemory ::
    "transport_env \<Rightarrow> RdmaTransport \<Rightarrow> ptr \<Rightarrow> bool \<Rightarrow> rdma_rc \<times> RdmaTransport" where
  "unregisterLocalMemory T t addr update_metadata = unregisterLocalMemoryInternal T t addr update_metadata False"

section \<open>Batches of buffers\<close>

text \<open>The codes of the single registrations only reach the log; \<open>None\<close> is again the indeterminate read.\<close>

fun register_buffers ::
    "transport_env \<Rightarrow> bool \<Rightarrow> RdmaTransport \<Rightarrow> (ptr \<times> u64) list \<Rightarrow> string \<Rightarrow> RdmaTransport option" where
  "register_buffers T force_sequential t [] location = Some t"
| "register_buffers T force_sequential t ((a, n) # bs) location =
     (case registerLocalMemoryInternal T t a n location False force_sequential of
        (None, t) \<Rightarrow> None
      | (Some rc, t) \<Rightarrow> register_buffers T force_sequential t bs location)"

definition update_desc :: "transport_env \<Rightarrow> RdmaTransport \<Rightarrow> rdma_rc \<times> RdmaTransport" where
  "update_desc T t =
     (let rc = me_update_desc (te_meta T) (rt_meta t)
      in (rc, t\<lparr>rt_meta := M_updateLocalSegmentDesc rc # rt_meta t\<rparr>))"

definition registerLocalMemoryBatch ::
    "transport_env \<Rightarrow> RdmaTransport \<Rightarrow> (ptr \<times> u64) list \<Rightarrow> string \<Rightarrow> (rdma_rc \<times> RdmaTransport) option" where
  "registerLocalMemoryBatch T t buffer_list location =
     map_option (update_desc T)
       (register_buffers T (\<not> (te_cuda_build T \<and> \<not> ve_with_peermem (te_verbs T))) t buffer_list location)"

definition unregisterLocalMemoryBatch ::
    "transport_env \<Rightarrow> RdmaTransport \<Rightarrow> ptr list \<Rightarrow> rdma_rc \<times> RdmaTransport" where
  "unregisterLocalMemoryBatch T t addr_list =
     update_desc T (fold (\<lambda>a t. snd (unregisterLocalMemoryInternal T t a False True)) addr_list t)"

section \<open>The local segment\<close>

definition add_segment :: "SegmentDesc \<Rightarrow> RdmaTransport \<Rightarrow> RdmaTransport" where
  "add_segment d t = t\<lparr>rt_meta := M_addLocalSegment d # rt_meta t\<rparr>"

definition device_desc :: "RdmaContext \<Rightarrow> DeviceDesc" where
  "device_desc c = \<lparr>dd_name = rx_device_name c, dd_lid = rx_lid c, dd_gid = gidBytesToString (rx_gid c)\<rparr>"

definition allocateLocalSegmentID :: "transport_env \<Rightarrow> RdmaTransport \<Rightarrow> rdma_rc \<times> RdmaTransport" where
  "allocateLocalSegmentID T t =
     (let desc = (case me_get_local (te_meta T) (rt_meta t) of None \<Rightarrow> me_new_segment (te_meta T) | Some d \<Rightarrow> d);
          desc = desc\<lparr>sd_name := rt_local_server_name t\<rparr>;
          desc = (if rt_rdma_server_name t \<noteq> rt_local_server_name t
                  then desc\<lparr>sd_rdma_server_name := rt_rdma_server_name t\<rparr> else desc);
          desc = desc\<lparr>sd_protocol :=
                   (if te_multi_protocol T
                    then (if sd_protocol desc \<noteq> [] then sd_protocol desc @ '','' else []) @ ''rdma''
                    else ''rdma'')\<rparr>;
          desc = desc\<lparr>sd_devices := sd_devices desc @ map device_desc (rt_context_list t)\<rparr>
      in (RC_OK, add_segment (desc\<lparr>sd_topology := rt_topology t\<rparr>) t))"

text \<open>The device list with the first device of that name changed, or none if there is no such device.\<close>

fun set_device :: "string \<Rightarrow> u16 \<Rightarrow> string \<Rightarrow> DeviceDesc list \<Rightarrow> DeviceDesc list option" where
  "set_device name lid gid [] = None"
| "set_device name lid gid (d # ds) =
     (if dd_name d \<noteq> name then map_option (Cons d) (set_device name lid gid ds)
      else Some (d\<lparr>dd_lid := lid, dd_gid := gid\<rparr> # ds))"

definition refreshLocalDeviceDesc ::
    "transport_env \<Rightarrow> RdmaTransport \<Rightarrow> string \<Rightarrow> u16 \<Rightarrow> string \<Rightarrow> rdma_rc \<times> RdmaTransport" where
  "refreshLocalDeviceDesc T t device_name lid gid =
     (case me_get_local (te_meta T) (rt_meta t) of
        None \<Rightarrow> (ERR_ADDRESS_NOT_REGISTERED, t)
      | Some original_desc \<Rightarrow>
          (case set_device device_name lid gid (sd_devices original_desc) of
             None \<Rightarrow> (ERR_DEVICE_NOT_FOUND, t)
           | Some devices \<Rightarrow>
               (let (ret, t) = update_desc T (add_segment (original_desc\<lparr>sd_devices := devices\<rparr>) t)
                in (ret, if ret \<noteq> RC_OK then add_segment original_desc t else t))))"

section \<open>Setting up\<close>

text \<open>
  One context per device of the topology.  A context that cannot be constructed is destroyed at
  the end of its iteration.  \<open>g\<close> and \<open>mtu\<close> are the indeterminate members of a new context; \<open>None\<close>
  is a construction that divides by zero.
\<close>

fun init_contexts ::
    "transport_env \<Rightarrow> gid \<Rightarrow> int \<Rightarrow> vcalls \<Rightarrow> string list \<Rightarrow> (RdmaContext list \<times> string list \<times> vcalls) option" where
  "init_contexts T g mtu h [] = Some ([], [], h)"
| "init_contexts T g mtu h (device_name # hcas) =
     (case construct (te_dev T) (new_RdmaContext device_name g mtu) h (te_num_cq_per_ctx T)
             (te_num_comp_channels_per_ctx T) (te_port T) (te_gid_index T) (te_max_cqe T) (te_max_ep_per_ctx T) of
        (None, c, h) \<Rightarrow> None
      | (Some rc, c, h) \<Rightarrow>
          if rc \<noteq> RC_OK
          then map_option (\<lambda>(cs, ds, h). (cs, device_name # ds, h))
                 (init_contexts T g mtu (destroy_RdmaContext (te_dev T) c h) hcas)
          else map_option (\<lambda>(cs, ds, h). (c # cs, ds, h)) (init_contexts T g mtu h hcas))"

definition initializeRdmaResources ::
    "transport_env \<Rightarrow> gid \<Rightarrow> int \<Rightarrow> string list \<Rightarrow> RdmaTransport \<Rightarrow> (rdma_rc \<times> RdmaTransport) option" where
  "initializeRdmaResources T g mtu hca_list t =
     map_option (\<lambda>(cs, ds, h).
         (if te_topology_empty T ds then ERR_DEVICE_NOT_FOUND else RC_OK,
          t\<lparr>rt_context_list := rt_context_list t @ cs, rt_disabled := rt_disabled t @ ds, rt_calls := h\<rparr>))
       (init_contexts T g mtu (rt_calls t) hca_list)"

definition server_names :: "transport_env \<Rightarrow> string \<Rightarrow> string" where
  "server_names T local_server_name =
     (case te_bind_address T of
        None \<Rightarrow> local_server_name
      | Some a \<Rightarrow> if a = [] then local_server_name else a @ '':'' @ show_nat (te_port_of T local_server_name))"

text \<open>\<open>install\<close>; the topology pointer is \<open>None\<close> when it is missing.\<close>

definition install ::
    "transport_env \<Rightarrow> gid \<Rightarrow> int \<Rightarrow> string \<Rightarrow> (topology_select \<times> string list) option \<Rightarrow> RdmaTransport \<Rightarrow>
     (rdma_rc \<times> RdmaTransport) option" where
  "install T g mtu local_server_name topo t =
     (case topo of
        None \<Rightarrow> Some (ERR_INVALID_ARGUMENT, t)
      | Some (select, hca_list) \<Rightarrow>
          (let t = t\<lparr>rt_local_server_name := local_server_name, rt_topology := select,
                     rt_rdma_server_name := server_names T local_server_name\<rparr>
           in case initializeRdmaResources T g mtu hca_list t of
                None \<Rightarrow> None
              | Some (ret, t) \<Rightarrow>
                  Some (if ret \<noteq> RC_OK then (ret, t)
                        else let (ret, t) = allocateLocalSegmentID T t
                        in if ret \<noteq> RC_OK then (ret, t)
                        else let ret = me_start_daemon (te_meta T) (rt_meta t);
                                 t = t\<lparr>rt_meta := M_startHandshakeDaemon ret # rt_meta t\<rparr>
                        in if ret \<noteq> RC_OK then (ret, t) else update_desc T t)))"

text \<open>
  The context a peer's handshake is for: the position of the NIC's name in the topology's list
  of devices indexes the list of contexts.  \<open>None\<close> is an index outside the list of contexts.
\<close>

fun nic_index :: "string \<Rightarrow> string list \<Rightarrow> nat option" where
  "nic_index nic [] = None"
| "nic_index nic (e # es) = (if e = nic then Some 0 else map_option Suc (nic_index nic es))"

definition onSetupRdmaConnections ::
    "(RdmaContext \<Rightarrow> string \<Rightarrow> 'e option) \<Rightarrow> ('e \<Rightarrow> rdma_rc) \<Rightarrow> string list \<Rightarrow> RdmaTransport \<Rightarrow> string \<Rightarrow> string \<Rightarrow>
     rdma_rc option" where
  "onSetupRdmaConnections get_endpoint setupConnectionsByPassive hca_list t local_nic_name peer_nic_path =
     (if local_nic_name = [] then Some ERR_INVALID_ARGUMENT
      else case nic_index local_nic_name hca_list of
        None \<Rightarrow> Some ERR_INVALID_ARGUMENT
      | Some index \<Rightarrow>
          if index \<ge> length (rt_context_list t) then None
          else case get_endpoint (rt_context_list t ! index) peer_nic_path of
            None \<Rightarrow> Some ERR_ENDPOINT
          | Some e \<Rightarrow> Some (setupConnectionsByPassive e))"

end
