(* ===== verification/Rdma_Submit.thy ===== *)
theory Rdma_Submit
  imports Rdma_Transport
begin

text \<open>
  Transfers of the RDMA transport (\<open>rdma_transport.cpp\<close>): the choice of buffer and device, the
  cutting of requests into slices, the posting of slices and the status of a task.

  Slices are allocated one after the other and numbered.  The slices a call collects are kept per
  device in the order of their first use; the code iterates over an unordered map.  A failed
  \<open>assert\<close> is \<open>Abort\<close>.  The slice loop is a \<open>partial_function\<close>: not returning is \<open>None\<close>.
\<close>

section \<open>Choosing a device\<close>

definition buffer_contains :: "BufferDesc \<Rightarrow> u64 \<Rightarrow> u64 \<Rightarrow> bool" where
  "buffer_contains b offset len =
     (\<not> (offset < bd_addr b \<or> len > bd_length b \<or> offset - bd_addr b > bd_length b - len))"

definition buffer_location :: "BufferDesc \<Rightarrow> u64 \<Rightarrow> string" where
  "buffer_location b offset =
     (case parseSegmentsLocation (bd_name b) \<lparr>page_size = 0, numa_nodes = []\<rparr> of
        (True, seg_info) \<Rightarrow> resolveSegmentsLocation seg_info (bd_length b) (offset - bd_addr b)
      | (False, seg_info) \<Rightarrow> bd_name b)"

text \<open>The loop from buffer \<open>i\<close> on; \<open>k\<close> numbers the calls to the topology.\<close>

fun select_from ::
    "topology_select \<Rightarrow> nat \<Rightarrow> BufferDesc list \<Rightarrow> int \<Rightarrow> u64 \<Rightarrow> u64 \<Rightarrow> string \<Rightarrow> int \<Rightarrow> int \<Rightarrow>
     rdma_rc \<times> int \<times> int \<times> nat" where
  "select_from sel k [] i offset len hint device_id retry_count = (ERR_ADDRESS_NOT_REGISTERED, i, device_id, k)"
| "select_from sel k (b # bs) i offset len hint device_id retry_count =
     (if \<not> buffer_contains b offset len then select_from sel k bs (i + 1) offset len hint device_id retry_count
      else let d = sel k (buffer_location b offset) hint retry_count
      in if d \<ge> 0 then (RC_OK, i, d, k + 1)
      else let d = sel (k + 1) kWildcardLocation hint retry_count
      in if d \<ge> 0 then (RC_OK, i, d, k + 2)
      else select_from sel (k + 2) bs (i + 1) offset len hint d retry_count)"

definition selectDevice ::
    "nat \<Rightarrow> SegmentDesc \<Rightarrow> u64 \<Rightarrow> u64 \<Rightarrow> string \<Rightarrow> int \<Rightarrow> int \<Rightarrow> rdma_rc \<times> int \<times> int \<times> nat" where
  "selectDevice k desc offset len hint device_id retry_count =
     select_from (sd_topology desc) k (sd_buffers desc) 0 offset len hint device_id retry_count"

section \<open>Tasks and slices\<close>

record TransferRequest =
  rq_opcode :: int
  rq_source :: u64
  rq_target_id :: u64
  rq_target_offset :: u64
  rq_length :: u64
  rq_advise_retry_cnt :: int

text \<open>A slice in its pending state; the key is \<open>None\<close> until a device is found for it.\<close>

record Slice =
  sl_id :: nat
  sl_source_addr :: u64
  sl_length :: u64
  sl_opcode :: int
  sl_dest_addr :: u64
  sl_retry_cnt :: int
  sl_max_retry_cnt :: int
  sl_task :: nat
  sl_target_id :: u64
  sl_source_lkey :: "u32 option"

record TransferTask =
  tk_request :: "TransferRequest option"
  tk_slice_list :: "Slice list"
  tk_total_bytes :: u64
  tk_slice_count :: u64
  tk_transferred_bytes :: u64
  tk_success_slice_count :: u64
  tk_failed_slice_count :: u64
  tk_is_finished :: bool

datatype Status = Status_OK | Status_InvalidArgument | Status_AddressNotRegistered

datatype submit_result = Go | Return Status | Abort

record submit_env =
  se_desc :: SegmentDesc
  se_contexts :: "RdmaContext list"
  se_slice_size :: u64
  se_retry_cnt :: int
  se_fragment_limit :: u64
  se_submit_watermark :: nat
  se_from_cache :: "nat \<Rightarrow> bool"

record submit_state =
  ss_to_post :: "(nat \<times> Slice list) list"
  ss_posted :: "(nat \<times> Slice list) list"
  ss_freed :: "Slice list"
  ss_next_id :: nat
  ss_nr_slices :: nat
  ss_selects :: nat

section \<open>Submitting\<close>

text \<open>The retry loop of one slice; a count at the limit or an exhausted search is \<open>Search_none\<close>.\<close>

datatype search = Search_found nat nat nat | Search_none nat | Search_abort

function find_device :: "submit_env \<Rightarrow> Slice \<Rightarrow> int \<Rightarrow> int \<Rightarrow> nat \<Rightarrow> search" where
  "find_device E s retry_cnt device_id k =
     (if retry_cnt \<ge> se_retry_cnt E then Search_none k
      else let (rc, b, d, k) = selectDevice k (se_desc E) (sl_source_addr s) (sl_length s) [] device_id retry_cnt
      in if rc \<noteq> RC_OK then find_device E s (retry_cnt + 1) d k
      else if nat d \<ge> length (se_contexts E) then Search_abort
      else if \<not> rx_active (se_contexts E ! nat d) then find_device E s (retry_cnt + 1) d k
      else if length (bd_lkey (sd_buffers (se_desc E) ! nat b)) \<noteq> length (se_contexts E) then Search_abort
      else Search_found (nat b) (nat d) k)"
  by pat_completeness auto
termination
  by (relation "measure (\<lambda>(E, s, r, d, k). nat (se_retry_cnt E - r))") auto

declare find_device.simps [simp del]

fun add_post :: "nat \<Rightarrow> Slice \<Rightarrow> (nat \<times> Slice list) list \<Rightarrow> (nat \<times> Slice list) list" where
  "add_post d s [] = [(d, [s])]"
| "add_post d s ((e, ss) # ps) = (if e = d then (e, ss @ [s]) # ps else (e, ss) # add_post d s ps)"

definition new_slice :: "submit_env \<Rightarrow> nat \<Rightarrow> nat \<Rightarrow> TransferRequest \<Rightarrow> u64 \<Rightarrow> bool \<Rightarrow> Slice" where
  "new_slice E sid task rq offset merge_final_slice =
     \<lparr>sl_id = sid, sl_source_addr = rq_source rq + offset,
      sl_length = (if merge_final_slice then rq_length rq - offset else se_slice_size E),
      sl_opcode = rq_opcode rq, sl_dest_addr = rq_target_offset rq + offset,
      sl_retry_cnt = rq_advise_retry_cnt rq, sl_max_retry_cnt = se_retry_cnt E, sl_task = task,
      sl_target_id = rq_target_id rq, sl_source_lkey = None\<rparr>"

text \<open>
  One slice: allocation, the search for a device (skipped when the request has one), the two
  error returns, the bookkeeping and the early posting at the watermark.  The key array is read
  at the device's index; an index outside it is \<open>Abort\<close>.
\<close>

definition submit_slice ::
    "submit_env \<Rightarrow> nat \<Rightarrow> TransferRequest \<Rightarrow> (nat \<times> nat) option \<Rightarrow> u64 \<Rightarrow> bool \<Rightarrow> submit_state \<Rightarrow> TransferTask \<Rightarrow>
     submit_result \<times> submit_state \<times> TransferTask" where
  "submit_slice E i rq chosen offset merge_final_slice st tk =
     (let s = new_slice E (ss_next_id st) i rq offset merge_final_slice;
          st = st\<lparr>ss_next_id := ss_next_id st + 1,
                  ss_nr_slices := (if se_from_cache E (ss_next_id st) then ss_nr_slices st else ss_nr_slices st + 1)\<rparr>;
          found = (case chosen of Some (b, d) \<Rightarrow> Search_found b d (ss_selects st)
                   | None \<Rightarrow> find_device E s (rq_advise_retry_cnt rq) (-1) (ss_selects st))
      in case found of
           Search_abort \<Rightarrow> (Abort, st, tk\<lparr>tk_slice_list := tk_slice_list tk @ [s]\<rparr>)
         | Search_none k \<Rightarrow>
             (Return Status_AddressNotRegistered,
              st\<lparr>ss_freed := ss_freed st @ concat (map snd (ss_to_post st)), ss_selects := k\<rparr>,
              tk\<lparr>tk_slice_list := tk_slice_list tk @ [s]\<rparr>)
         | Search_found b d k \<Rightarrow>
             (let st = st\<lparr>ss_selects := k\<rparr>; keys = bd_lkey (sd_buffers (se_desc E) ! b)
              in if d \<ge> length (se_contexts E) then (Abort, st, tk\<lparr>tk_slice_list := tk_slice_list tk @ [s]\<rparr>)
              else if \<not> rx_active (se_contexts E ! d)
              then (Return Status_InvalidArgument, st, tk\<lparr>tk_slice_list := tk_slice_list tk @ [s]\<rparr>)
              else if d \<ge> length keys then (Abort, st, tk\<lparr>tk_slice_list := tk_slice_list tk @ [s]\<rparr>)
              else let s = s\<lparr>sl_source_lkey := Some (keys ! d)\<rparr>;
                       st = st\<lparr>ss_to_post := add_post d s (ss_to_post st)\<rparr>;
                       tk = tk\<lparr>tk_slice_list := tk_slice_list tk @ [s],
                               tk_total_bytes := tk_total_bytes tk + sl_length s,
                               tk_slice_count := tk_slice_count tk + 1\<rparr>
                   in (Go, if ss_nr_slices st \<ge> se_submit_watermark E
                           then st\<lparr>ss_posted := ss_posted st @ ss_to_post st, ss_to_post := [], ss_nr_slices := 0\<rparr>
                           else st, tk)))"

definition merges :: "submit_env \<Rightarrow> TransferRequest \<Rightarrow> u64 \<Rightarrow> bool" where
  "merges E rq offset = (rq_length rq - offset \<le> se_slice_size E + se_fragment_limit E)"

partial_function (option) slice_loop ::
    "submit_env \<Rightarrow> nat \<Rightarrow> TransferRequest \<Rightarrow> (nat \<times> nat) option \<Rightarrow> u64 \<Rightarrow> submit_state \<Rightarrow> TransferTask \<Rightarrow>
     (submit_result \<times> submit_state \<times> TransferTask) option" where
  "slice_loop E i rq chosen offset st tk =
     (if offset < rq_length rq
      then let r = submit_slice E i rq chosen offset (merges E rq offset) st tk
           in if fst r \<noteq> Go then Some r
              else if merges E rq offset then Some r
              else slice_loop E i rq chosen (offset + se_slice_size E) (fst (snd r)) (snd (snd r))
      else Some (Go, st, tk))"

declare slice_loop.simps [code]

text \<open>The choice for the whole request, used for all its slices when it succeeds.\<close>

definition request_device :: "submit_env \<Rightarrow> TransferRequest \<Rightarrow> nat \<Rightarrow> (nat \<times> nat) option \<times> nat" where
  "request_device E rq k =
     (let (rc, b, d, k) = selectDevice k (se_desc E) (rq_source rq) (rq_length rq) [] (-1) 0
      in (if rc = RC_OK then Some (nat b, nat d) else None, k))"

fun submit_tasks ::
    "submit_env \<Rightarrow> nat \<Rightarrow> TransferTask list \<Rightarrow> submit_state \<Rightarrow> (submit_result \<times> submit_state \<times> TransferTask list) option" where
  "submit_tasks E i [] st = Some (Go, st, [])"
| "submit_tasks E i (tk # tks) st =
     (case tk_request tk of
        None \<Rightarrow> Some (Abort, st, tk # tks)
      | Some rq \<Rightarrow>
          (let (chosen, k) = request_device E rq (ss_selects st)
           in case slice_loop E i rq chosen 0 (st\<lparr>ss_nr_slices := 0, ss_selects := k\<rparr>) tk of
                None \<Rightarrow> None
              | Some (r, st, tk) \<Rightarrow>
                  if r \<noteq> Go then Some (r, st, tk # tks)
                  else map_option (\<lambda>(r, st, tks). (r, st, tk # tks)) (submit_tasks E (i + 1) tks st)))"

definition submitTransferTask ::
    "submit_env \<Rightarrow> TransferTask list \<Rightarrow> submit_state \<Rightarrow> (submit_result \<times> submit_state \<times> TransferTask list) option" where
  "submitTransferTask E task_list st =
     map_option (\<lambda>(r, st, tks).
         if r = Go
         then (Return Status_OK, st\<lparr>ss_posted := ss_posted st @ filter (\<lambda>(d, ss). ss \<noteq> []) (ss_to_post st), ss_to_post := []\<rparr>, tks)
         else (r, st, tks))
       (submit_tasks E 0 task_list (st\<lparr>ss_to_post := []\<rparr>))"

text \<open>\<open>new_task\<close> is the task that growing the list makes.\<close>

definition submitTransfer ::
    "submit_env \<Rightarrow> TransferTask \<Rightarrow> nat \<Rightarrow> TransferTask list \<Rightarrow> TransferRequest list \<Rightarrow> submit_state \<Rightarrow>
     (submit_result \<times> submit_state \<times> TransferTask list) option" where
  "submitTransfer E new_task batch_size task_list entries st =
     (if length task_list + length entries > batch_size then Some (Return Status_InvalidArgument, st, task_list)
      else submitTransferTask E (task_list @ replicate (length entries) new_task) st)"

section \<open>Status\<close>

datatype TransferStatusEnum = WAITING | COMPLETED | FAILED

definition task_status :: "TransferTask \<Rightarrow> TransferStatusEnum \<times> TransferTask" where
  "task_status tk =
     (if tk_success_slice_count tk + tk_failed_slice_count tk = tk_slice_count tk
      then (if tk_failed_slice_count tk \<noteq> 0 then FAILED else COMPLETED, tk\<lparr>tk_is_finished := True\<rparr>)
      else (WAITING, tk))"

definition getTransferStatus_all ::
    "TransferTask list \<Rightarrow> (u64 \<times> TransferStatusEnum) list \<times> TransferTask list" where
  "getTransferStatus_all tks =
     (map (\<lambda>tk. (tk_transferred_bytes tk, fst (task_status tk))) tks, map (snd \<circ> task_status) tks)"

definition getTransferStatus ::
    "TransferTask list \<Rightarrow> nat \<Rightarrow> (Status + u64 \<times> TransferStatusEnum) \<times> TransferTask list" where
  "getTransferStatus tks task_id =
     (if task_id \<ge> length tks then (Inl Status_InvalidArgument, tks)
      else (Inr (tk_transferred_bytes (tks ! task_id), fst (task_status (tks ! task_id))),
            tks[task_id := snd (task_status (tks ! task_id))]))"

end
