(* ===== verification/Rdma_Transport_Props.thy ===== *)
theory Rdma_Transport_Props
  imports Rdma_Transport
begin

text \<open>
  Correctness of the set-up side of the RDMA transport: the keys that a registration publishes,
  what a failed one leaves behind, the update of the published device, and the resources of the
  contexts that initialisation builds.
\<close>

section \<open>Registering with every context\<close>

text \<open>Verbs never hands out an MR of length 0.\<close>

definition mrs_nonempty :: "verbs_env \<Rightarrow> bool" where
  "mrs_nonempty E \<longleftrightarrow> (\<forall>h pd a n acc m. ve_reg_mr E h pd a n acc = Some m \<longrightarrow> 0 < vm_length m) \<and>
     (\<forall>h a m. ve_reg_dmabuf_mr E h a = Some m \<longrightarrow> 0 < vm_length m)"

definition good_outcome :: "verbs_env \<Rightarrow> ptr \<Rightarrow> reg_outcome \<Rightarrow> bool" where
  "good_outcome E addr r \<longleftrightarrow> r \<noteq> Reg_failed RC_OK \<and> (\<forall>meta. r = Reg_ok meta \<longrightarrow>
     meta_addr meta = addr \<and> (mrs_nonempty E \<longrightarrow> 0 < vm_length (meta_mr meta)))"

lemma good_outcome_simps [simp]:
  "good_outcome E addr Reg_uninitialised" "good_outcome E addr (Reg_failed rc) \<longleftrightarrow> rc \<noteq> RC_OK"
  by (simp_all add: good_outcome_def)

lemma reg_host_good [simp]: "good_outcome E addr (fst (reg_host E h pd addr len access))"
  by (auto simp: reg_host_def meta_of_def good_outcome_def mrs_nonempty_def Let_def split: option.splits)

lemma reg_dmabuf_good [simp]: "good_outcome E addr (fst (reg_dmabuf E h pd off addr len fd access))"
  by (auto simp: reg_dmabuf_def meta_of_def good_outcome_def mrs_nonempty_def Let_def split: option.splits)

lemma reg_cuda_device_good [simp]: "good_outcome E addr (fst (reg_cuda_device E h pd addr len access))"
  by (simp add: reg_cuda_device_def Let_def case_prod_unfold split: option.splits)

lemma reg_hip_device_good [simp]: "good_outcome E addr (fst (reg_hip_device E h pd addr len access d))"
  by (simp add: reg_hip_device_def Let_def case_prod_unfold split: option.splits)

lemma register_internal_meta:
  "good_outcome E addr (fst (registerMemoryRegionInternal E h pd addr len access gpu))"
  by (simp add: registerMemoryRegionInternal_def reg_cuda_alike_def reg_hip_def Let_def case_prod_unfold
      split: rdma_build.splits option.splits mem_type.splits hip_mem_type.splits)

definition holds_key :: "ptr \<Rightarrow> region_map \<Rightarrow> bool" where
  "holds_key addr m \<longleftrightarrow> region_map_inv m \<and>
     (\<exists>w. (addr, w) \<in> set m \<and> lkey_of m addr = vm_lkey (meta_mr w) \<and> rkey_of m addr = vm_rkey (meta_mr w))"

lemma register_holds_key:
  assumes E: "mrs_nonempty E" and inv: "region_map_inv m"
    and r: "registerMemoryRegion E h pd m addr len access gpu = (Some RC_OK, m', h')"
  shows "holds_key addr m'"
proof -
  obtain x k where i: "registerMemoryRegionInternal E h pd addr len access gpu = (x, k)" by fastforce
  from r i register_internal_meta [of E addr h pd len access gpu] obtain meta where x: "x = Reg_ok meta" "m' = map_assign addr meta m"
    and meta: "meta_addr meta = addr" "0 < vm_length (meta_mr meta)"
    using E by (cases x) (auto simp: registerMemoryRegion_def good_outcome_def)
  have inv': "region_map_inv m'" using map_assign_inv [OF inv, of meta] meta x by simp
  have mem: "(addr, meta) \<in> set m'" unfolding x by (simp add: map_assign_in [OF inv])
  have "containsAddress meta addr" using meta by (simp add: containsAddress_def)
  with mem have "findMemoryRegionContaining m' addr = Some (addr, meta)"
    by (simp add: find_candidate [OF inv'])
  with mem inv' show ?thesis unfolding holds_key_def by (auto simp: lkey_of_def rkey_of_def)
qed

lemma register_sequential_keys:
  assumes "mrs_nonempty E" "\<And>c. c \<in> set cs \<Longrightarrow> region_map_inv (rx_memory_region_map c)"
    and "register_sequential E h cs addr len access gpu = (rc, cs', h')"
  shows "\<exists>i \<le> length cs. length cs' = length cs \<and> (\<forall>j < i. holds_key addr (rx_memory_region_map (cs' ! j))) \<and>
    (rc = Some RC_OK \<longleftrightarrow> i = length cs)"
  using assms
proof (induction cs arbitrary: h rc cs' h')
  case (Cons c cs)
  obtain rc1 m h1 where r: "registerMemoryRegion E h (pd_ptr c) (rx_memory_region_map c) addr len access gpu = (rc1, m, h1)"
    by (cases "registerMemoryRegion E h (pd_ptr c) (rx_memory_region_map c) addr len access gpu") auto
  show ?case
  proof (cases "rc1 = Some RC_OK")
    case True
    obtain rc2 cs2 h2 where s: "register_sequential E h1 cs addr len access gpu = (rc2, cs2, h2)"
      by (cases "register_sequential E h1 cs addr len access gpu") auto
    from Cons.IH [OF Cons.prems(1) _ s] Cons.prems(2) obtain i where i: "i \<le> length cs" "length cs2 = length cs"
      "\<forall>j < i. holds_key addr (rx_memory_region_map (cs2 ! j))" "rc2 = Some RC_OK \<longleftrightarrow> i = length cs"
      by auto
    have k: "holds_key addr m" using register_holds_key [OF Cons.prems(1) _ r [unfolded True]] Cons.prems(2) by simp
    have res: "rc = rc2 \<and> cs' = c\<lparr>rx_memory_region_map := m\<rparr> # cs2" using Cons.prems(3) r s True by simp
    have "\<forall>j < Suc i. holds_key addr (rx_memory_region_map (cs' ! j))"
      using res k i(3) by (auto simp: less_Suc_eq_0_disj)
    with res i show ?thesis by (intro exI [of _ "Suc i"]) simp
  next
    case False
    with Cons.prems(3) r show ?thesis by (intro exI [of _ 0]) auto
  qed
qed simp

lemma register_sequential_append:
  assumes "register_sequential E h as addr len access gpu = (Some RC_OK, as', h1)"
  shows "register_sequential E h (as @ cs) addr len access gpu =
    (case register_sequential E h1 cs addr len access gpu of (rc, cs', h2) \<Rightarrow> (rc, as' @ cs', h2))"
  using assms
  by (induction as arbitrary: h as') (auto simp: Let_def split: prod.splits if_splits)

lemma first_error_ok: "first_error rcs = Some RC_OK \<longleftrightarrow> set rcs \<subseteq> {Some RC_OK}"
  by (induction rcs rule: first_error.induct) auto

lemma register_parallel_keys:
  assumes "mrs_nonempty E" "\<And>c. c \<in> set cs \<Longrightarrow> region_map_inv (rx_memory_region_map c)"
    and "register_parallel E h cs addr len access gpu = (rcs, cs', h')" "first_error rcs = Some RC_OK"
  shows "length cs' = length cs \<and> (\<forall>j < length cs. holds_key addr (rx_memory_region_map (cs' ! j)))"
  using assms
proof (induction cs arbitrary: h rcs cs' h')
  case (Cons c cs)
  obtain rc1 m h1 where r: "registerMemoryRegion E h (pd_ptr c) (rx_memory_region_map c) addr len access gpu = (rc1, m, h1)"
    by (cases "registerMemoryRegion E h (pd_ptr c) (rx_memory_region_map c) addr len access gpu") auto
  obtain rcs2 cs2 h2 where s: "register_parallel E h1 cs addr len access gpu = (rcs2, cs2, h2)"
    by (cases "register_parallel E h1 cs addr len access gpu") auto
  have e: "rcs = rc1 # rcs2" "cs' = c\<lparr>rx_memory_region_map := m\<rparr> # cs2" using Cons.prems(3) r s by auto
  with Cons.prems(4) have ok: "rc1 = Some RC_OK" "first_error rcs2 = Some RC_OK" by (auto simp: first_error_ok)
  have "holds_key addr m" using register_holds_key [OF Cons.prems(1) _ r [unfolded ok]] Cons.prems(2) by simp
  moreover have "length cs2 = length cs \<and> (\<forall>j < length cs. holds_key addr (rx_memory_region_map (cs2 ! j)))"
    using Cons.IH [OF Cons.prems(1) _ s ok(2)] Cons.prems(2) by simp
  ultimately show ?case by (auto simp: e less_Suc_eq_0_disj)
qed simp

lemma register_contexts_keys:
  assumes "mrs_nonempty (te_verbs T)" "\<And>c. c \<in> set (rt_context_list t) \<Longrightarrow> region_map_inv (rx_memory_region_map c)"
    and "register_contexts T par t addr len access gpu = (Some RC_OK, t')"
  shows "length (rt_context_list t') = length (rt_context_list t) \<and> rt_meta t' = rt_meta t \<and>
    (\<forall>c \<in> set (rt_context_list t'). holds_key addr (rx_memory_region_map c))"
proof (cases par)
  case True
  obtain rcs cs h where r:
    "register_parallel (te_verbs T) (rt_calls t) (rt_context_list t) addr len access gpu = (rcs, cs, h)"
    by (cases "register_parallel (te_verbs T) (rt_calls t) (rt_context_list t) addr len access gpu") auto
  with assms(3) True have "first_error rcs = Some RC_OK" "t' = t\<lparr>rt_context_list := cs, rt_calls := h\<rparr>"
    by (simp_all add: register_contexts_def)
  with register_parallel_keys [OF assms(1,2) r] show ?thesis by (simp add: all_set_conv_all_nth)
next
  case False
  obtain rc cs h where r:
    "register_sequential (te_verbs T) (rt_calls t) (rt_context_list t) addr len access gpu = (rc, cs, h)"
    by (cases "register_sequential (te_verbs T) (rt_calls t) (rt_context_list t) addr len access gpu") auto
  with assms(3) False have "rc = Some RC_OK" "t' = t\<lparr>rt_context_list := cs, rt_calls := h\<rparr>"
    by (simp_all add: register_contexts_def)
  with register_sequential_keys [OF assms(1,2) r] show ?thesis by (auto simp: all_set_conv_all_nth)
qed

lemma preTouch_frame:
  "transport_preTouchMemory T t addr len gpu = (rc, t') \<Longrightarrow>
     rt_context_list t' = rt_context_list t \<and> rt_meta t' = rt_meta t"
  by (auto simp: transport_preTouchMemory_def Let_def split: list.splits if_splits prod.splits)

section \<open>Publishing a device\<close>

text \<open>The local segment a metadata service holds that keeps what was added last.\<close>

fun last_segment :: "mcalls \<Rightarrow> SegmentDesc option" where
  "last_segment [] = None"
| "last_segment (M_addLocalSegment d # ml) = Some d"
| "last_segment (c # ml) = last_segment ml"

lemma set_device_spec:
  "set_device name lid gid ds = Some ds' \<Longrightarrow>
     \<exists>as d bs. ds = as @ d # bs \<and> ds' = as @ d\<lparr>dd_lid := lid, dd_gid := gid\<rparr> # bs \<and> dd_name d = name \<and>
       name \<notin> dd_name ` set as"
proof (induction ds arbitrary: ds')
  case (Cons d ds)
  show ?case
  proof (cases "dd_name d = name")
    case True
    with Cons.prems show ?thesis by (intro exI [of _ "[]"]) auto
  next
    case False
    with Cons.prems obtain es where es: "set_device name lid gid ds = Some es" "ds' = d # es" by auto
    from Cons.IH [OF es(1)] obtain as x bs where "ds = as @ x # bs" "es = as @ x\<lparr>dd_lid := lid, dd_gid := gid\<rparr> # bs"
      "dd_name x = name" "name \<notin> dd_name ` set as" by blast
    with False es show ?thesis by (intro exI [of _ "d # as"] exI [of _ x] exI [of _ bs]) auto
  qed
qed simp

section \<open>The contexts that initialisation builds\<close>

lemma deconstruct_resources:
  "v_objects (snd (deconstruct D c h)) = v_objects h - ctx_objects c"
  "v_open_fds (snd (deconstruct D c h)) = v_open_fds h - ctx_fds c"
  by (auto simp: deconstruct_def Let_def ctx_objects_def ctx_fds_def destroy_effects dereg_all_effect
      diff_union_swap split: option.splits) (simp_all add: add.commute diff_diff_add_mset)

lemma init_contexts_owned:
  assumes "init_contexts T g mtu h hcas = Some (cs, ds, h')"
  shows "v_objects h' = (\<Sum>c \<leftarrow> cs. ctx_objects c) + v_objects h \<and> v_open_fds h' = (\<Sum>c \<leftarrow> cs. ctx_fds c) + v_open_fds h \<and>
    length cs + length ds = length hcas \<and> (\<forall>c \<in> set cs. rx_context c \<noteq> None)"
  using assms
proof (induction hcas arbitrary: h cs ds h')
  case (Cons name hcas)
  let ?run = "construct (te_dev T) (new_RdmaContext name g mtu) h (te_num_cq_per_ctx T)
    (te_num_comp_channels_per_ctx T) (te_port T) (te_gid_index T) (te_max_cqe T) (te_max_ep_per_ctx T)"
  obtain rc c h1 where r: "?run = (rc, c, h1)" by (cases ?run) auto
  note own = construct_owns [OF r]
  show ?case
  proof (cases "rc = Some RC_OK")
    case True
    with Cons.prems r obtain cs1 where i: "init_contexts T g mtu h1 hcas = Some (cs1, ds, h')" "cs = c # cs1" by auto
    from Cons.IH [OF i(1)] own True i(2) show ?thesis by (simp add: owns_def ac_simps)
  next
    case False
    define h2 where "h2 = destroy_RdmaContext (te_dev T) c h1"
    from False Cons.prems r obtain ds1 where i: "init_contexts T g mtu h2 hcas = Some (cs, ds1, h')" "ds = name # ds1"
      by (auto simp: h2_def split: option.splits if_splits)
    have "v_objects h2 = v_objects h \<and> v_open_fds h2 = v_open_fds h"
      using own deconstruct_returns [of h c h1 "te_dev T"] by (auto simp: h2_def destroy_RdmaContext_def owns_def)
    with Cons.IH [OF i(1)] i(2) show ?thesis by simp
  qed
qed simp

lemma destroy_all_resources:
  assumes "\<forall>c \<in> set cs. rx_context c \<noteq> None"
  shows "v_objects (fold (destroy_RdmaContext D) cs h) = v_objects h - (\<Sum>c \<leftarrow> cs. ctx_objects c) \<and>
    v_open_fds (fold (destroy_RdmaContext D) cs h) = v_open_fds h - (\<Sum>c \<leftarrow> cs. ctx_fds c)"
  using assms
  by (induction cs arbitrary: h) (simp_all add: destroy_RdmaContext_def deconstruct_resources diff_diff_add_mset)

section \<open>Properties\<close>

text \<open>
  C16.  A registration that succeeds announces a buffer with the address and length it was given
  and one pair of keys per context, and these are the keys of the MR that this context now holds
  at that address.  Verbs is assumed not to return MRs of length 0.
\<close>

theorem registered_keys:
  assumes "mrs_nonempty (te_verbs T)" "\<And>c. c \<in> set (rt_context_list t) \<Longrightarrow> region_map_inv (rx_memory_region_map c)"
    and "registerLocalMemoryInternal T t addr len name update_metadata force_sequential = (Some RC_OK, t')"
  shows "\<exists>b. rt_meta t' = M_addLocalMemoryBuffer b update_metadata RC_OK # rt_meta t \<and>
    bd_addr b = addr \<and> bd_length b = len \<and> (name \<noteq> kWildcardLocation \<longrightarrow> bd_name b = name) \<and>
    length (rt_context_list t') = length (rt_context_list t) \<and>
    length (bd_lkey b) = length (rt_context_list t) \<and> length (bd_rkey b) = length (rt_context_list t) \<and>
    (\<forall>i < length (rt_context_list t). \<exists>w. (addr, w) \<in> set (rx_memory_region_map (rt_context_list t' ! i)) \<and>
       bd_lkey b ! i = vm_lkey (meta_mr w) \<and> bd_rkey b ! i = vm_rkey (meta_mr w))"
proof -
  define gpu where "gpu = (if te_maca_build T then starts_with (le_gpu_prefix (te_loc T)) name else True)"
  define pre where "pre = (rt_context_list t \<noteq> [] \<and> te_hardware_concurrency T \<ge> 4 \<and> len \<ge> 4294967296)"
  obtain rc1 t1 where p: "(if pre then transport_preTouchMemory T t addr len gpu else (Some RC_OK, t)) = (rc1, t1)"
    by fastforce
  define par where "par = use_parallel_reg T force_sequential (length (rt_context_list t1) > 1 \<and> pre)"
  obtain rc2 t2 where q: "register_contexts T par t1 addr len (access_rights (rt_relaxed_ordering t)) gpu = (rc2, t2)"
    by fastforce
  have f: "rt_context_list t1 = rt_context_list t" "rt_meta t1 = rt_meta t"
    using p preTouch_frame [of T t addr len gpu] by (auto split: if_splits)
  note res = assms(3) [unfolded registerLocalMemoryInternal_def Let_def, folded gpu_def pre_def, unfolded p,
      simplified, folded par_def, unfolded q]
  from res have ok: "rc2 = Some RC_OK" by (auto split: if_splits)
  from register_contexts_keys [OF assms(1) _ q [unfolded ok]] assms(2) f
  have keys: "length (rt_context_list t2) = length (rt_context_list t)" "rt_meta t2 = rt_meta t"
    "\<And>c. c \<in> set (rt_context_list t2) \<Longrightarrow> holds_key addr (rx_memory_region_map c)" by auto
  from res ok obtain nm where nm: "buffer_name T addr len name gpu = Some (Some nm)"
    by (auto split: if_splits option.splits)
  have "name \<noteq> kWildcardLocation \<Longrightarrow> nm = name" using nm by (simp add: buffer_name_def)
  moreover have "\<exists>w. (addr, w) \<in> set (rx_memory_region_map (rt_context_list t2 ! i)) \<and>
      lkey_of (rx_memory_region_map (rt_context_list t2 ! i)) addr = vm_lkey (meta_mr w) \<and>
      rkey_of (rx_memory_region_map (rt_context_list t2 ! i)) addr = vm_rkey (meta_mr w)"
    if "i < length (rt_context_list t)" for i
    using keys(3) [of "rt_context_list t2 ! i"] that keys(1) by (auto simp: holds_key_def)
  ultimately show ?thesis
    using res ok nm keys(1,2) by (auto simp: add_buffer_def Let_def split: if_splits)
qed

text \<open>Two devices, of which the second refuses to register; metadata that keeps what it is given.\<close>

definition demo_meta :: meta_env where
  "demo_meta = \<lparr>me_get_local = last_segment,
     me_new_segment = \<lparr>sd_name = [], sd_rdma_server_name = [], sd_protocol = [], sd_devices = [],
       sd_topology = (\<lambda>k l hint r. 0), sd_buffers = []\<rparr>,
     me_add_buffer = (\<lambda>ml b u. RC_OK), me_remove_buffer = (\<lambda>ml a u. RC_OK), me_update_desc = (\<lambda>ml. RC_OK),
     me_start_daemon = (\<lambda>ml. RC_OK)\<rparr>"

definition demo_transport_env :: transport_env where
  "demo_transport_env = \<lparr>te_verbs = demo_verbs\<lparr>ve_build := Build_plain,
       ve_reg_mr := (\<lambda>h pd a n acc. if pd = 2 then None else Some (demo_vmr 4096 77)),
       ve_reg_dmabuf_mr := (\<lambda>h a. None)\<rparr>,
     te_dev = demo_dev_env, te_loc = demo_numa, te_meta = demo_meta, te_maca_build = False, te_cuda_build = False,
     te_multi_protocol = False, te_relaxed_ordering_mode = 2, te_has_ibv_reg_mr_iova2 = True,
     te_hardware_concurrency = 8, te_parallel_reg_mr = -1, te_num_cq_per_ctx = 1, te_num_comp_channels_per_ctx = 1,
     te_port = 1, te_gid_index = 3, te_max_cqe = 4096, te_max_ep_per_ctx = 256, te_bind_address = None,
     te_port_of = (\<lambda>s. 0), te_topology_empty = (\<lambda>ds. False)\<rparr>"

definition demo_transport :: "ptr list \<Rightarrow> RdmaTransport" where
  "demo_transport pds = \<lparr>rt_context_list = map (\<lambda>p. (new_RdmaContext ''mlx5_0'' [] 0)\<lparr>rx_pd := Some p\<rparr>) pds,
     rt_local_server_name = ''host'', rt_rdma_server_name = ''host'', rt_topology = (\<lambda>k l hint r. 0),
     rt_disabled = [], rt_relaxed_ordering = True, rt_calls = [], rt_meta = []\<rparr>"

lemma demo_transport_ok:
  "mrs_nonempty (te_verbs demo_transport_env)"
  "c \<in> set (rt_context_list (demo_transport pds)) \<Longrightarrow> region_map_inv (rx_memory_region_map c)"
  by (auto simp: mrs_nonempty_def demo_transport_env_def demo_verbs_def demo_vmr_def demo_transport_def
      new_RdmaContext_def region_map_inv_def)

theorem registered_keys_witness:
  "\<exists>b t'. registerLocalMemoryInternal demo_transport_env (demo_transport [1, 3]) 8192 4096 ''cpu:0'' True False = (Some RC_OK, t') \<and>
     rt_meta t' = [M_addLocalMemoryBuffer b True RC_OK] \<and> bd_addr b = 8192 \<and> length (bd_lkey b) = 2"
proof -
  define t' where "t' = snd (registerLocalMemoryInternal demo_transport_env (demo_transport [1, 3]) 8192 4096 ''cpu:0'' True False)"
  have "fst (registerLocalMemoryInternal demo_transport_env (demo_transport [1, 3]) 8192 4096 ''cpu:0'' True False) = Some RC_OK"
    by code_simp
  then have r: "registerLocalMemoryInternal demo_transport_env (demo_transport [1, 3]) 8192 4096 ''cpu:0'' True False = (Some RC_OK, t')"
    unfolding t'_def by (metis prod.collapse)
  have two: "rt_meta (demo_transport [1, 3]) = []" "length (rt_context_list (demo_transport [1, 3])) = 2"
    by (simp_all add: demo_transport_def)
  from registered_keys [OF demo_transport_ok(1) _ r, unfolded two] demo_transport_ok(2) [where pds = "[1, 3]"] r
  show ?thesis by blast
qed

text \<open>
  A sequential registration that fails at one context is not undone: the code is returned
  and nothing is announced to the metadata service, but all contexts before it keep the MR they
  registered.
\<close>

theorem partial_registration_stays:
  assumes E: "mrs_nonempty (te_verbs T)"
    and inv: "\<And>c. c \<in> set (rt_context_list t) \<Longrightarrow> region_map_inv (rx_memory_region_map c)"
    and cs: "rt_context_list t = as @ c # bs" and small: "len < 4294967296"
    and gpu: "gpu = (te_maca_build T \<longrightarrow> starts_with (le_gpu_prefix (te_loc T)) name)"
    and ok: "register_sequential (te_verbs T) (rt_calls t) as addr len (access_rights (rt_relaxed_ordering t)) gpu =
      (Some RC_OK, as', h1)"
    and bad: "registerMemoryRegion (te_verbs T) h1 (pd_ptr c) (rx_memory_region_map c) addr len
      (access_rights (rt_relaxed_ordering t)) gpu = (Some rc, m, h2)" "rc \<noteq> RC_OK"
  shows "registerLocalMemoryInternal T t addr len name update_metadata True =
      (Some rc, t\<lparr>rt_context_list := as' @ c # bs, rt_calls := h2\<rparr>) \<and>
    length as' = length as \<and> (\<forall>a \<in> set as'. \<exists>w. (addr, w) \<in> set (rx_memory_region_map a))"
proof -
  have m: "m = rx_memory_region_map c"
    using bad by (auto simp: registerMemoryRegion_def split: prod.splits reg_outcome.splits)
  have seq: "register_sequential (te_verbs T) (rt_calls t) (rt_context_list t) addr len
      (access_rights (rt_relaxed_ordering t)) gpu = (Some rc, as' @ c # bs, h2)"
    unfolding cs register_sequential_append [OF ok] using bad m by simp
  have g: "(if te_maca_build T then starts_with (le_gpu_prefix (te_loc T)) name else True) = gpu"
    using gpu by simp
  have "registerLocalMemoryInternal T t addr len name update_metadata True =
      (Some rc, t\<lparr>rt_context_list := as' @ c # bs, rt_calls := h2\<rparr>)"
    unfolding registerLocalMemoryInternal_def Let_def g
    using seq small bad(2) by (simp add: not_le [symmetric] use_parallel_reg_def register_contexts_def)
  moreover have "length as' = length as \<and> (\<forall>a \<in> set as'. holds_key addr (rx_memory_region_map a))"
    using register_sequential_keys [OF E _ ok] inv cs by (auto simp: all_set_conv_all_nth)
  ultimately show ?thesis by (auto simp: holds_key_def)
qed

theorem partial_registration_stays_witness:
  "\<exists>t' a. registerLocalMemoryInternal demo_transport_env (demo_transport [1, 2]) 8192 4096 ''cpu:0'' True True = (Some ERR_CONTEXT, t') \<and>
     rt_meta t' = [] \<and> a \<in> set (rt_context_list t') \<and> (\<exists>w. (8192, w) \<in> set (rx_memory_region_map a))"
proof -
  let ?t = "demo_transport [1, 2]" and ?E = "te_verbs demo_transport_env" and ?acc = "access_rights True"
  define a b where "a = rt_context_list ?t ! 0" and "b = rt_context_list ?t ! 1"
  have cs: "rt_context_list ?t = [a] @ b # []" by (simp add: a_def b_def demo_transport_def)
  define s where "s = register_sequential ?E [] [a] 8192 4096 ?acc True"
  define u where "u = registerMemoryRegion ?E (snd (snd s)) (pd_ptr b) (rx_memory_region_map b) 8192 4096 ?acc True"
  have "fst s = Some RC_OK" unfolding s_def a_def by code_simp
  then have ok: "register_sequential ?E [] [a] 8192 4096 ?acc True = (Some RC_OK, fst (snd s), snd (snd s))"
    unfolding s_def by (metis prod.collapse)
  have "fst u = Some ERR_CONTEXT" unfolding u_def s_def a_def b_def by code_simp
  then have bad: "registerMemoryRegion ?E (snd (snd s)) (pd_ptr b) (rx_memory_region_map b) 8192 4096 ?acc True =
      (Some ERR_CONTEXT, fst (snd u), snd (snd u))" unfolding u_def by (metis prod.collapse)
  have t: "rt_calls ?t = []" "rt_relaxed_ordering ?t = True" "rt_meta ?t = []" "\<not> te_maca_build demo_transport_env"
    by (simp_all add: demo_transport_def demo_transport_env_def)
  have "registerLocalMemoryInternal demo_transport_env ?t 8192 4096 ''cpu:0'' True True =
      (Some ERR_CONTEXT, ?t\<lparr>rt_context_list := fst (snd s) @ b # [], rt_calls := snd (snd u)\<rparr>) \<and>
      length (fst (snd s)) = length [a] \<and> (\<forall>x \<in> set (fst (snd s)). \<exists>w. (8192, w) \<in> set (rx_memory_region_map x))"
    by (rule partial_registration_stays [where gpu = True and ?h1.0 = "snd (snd s)" and m = "fst (snd u)",
          OF demo_transport_ok(1) demo_transport_ok(2) cs])
      (use ok bad t in \<open>simp_all del: register_sequential.simps\<close>)
  with t(3) show ?thesis by (cases "fst (snd s)") auto
qed


definition demo_segment :: SegmentDesc where
  "demo_segment = (me_new_segment demo_meta)\<lparr>sd_devices :=
     [\<lparr>dd_name = ''mlx5_0'', dd_lid = 1, dd_gid = ''old''\<rparr>]\<rparr>"


text \<open>
  C18.  Initialisation and teardown balance over all devices: every context in the list is open,
  each device of the topology has a context or is disabled, and destroying the contexts returns
  every verbs object and descriptor, including those of the devices that failed half way.
\<close>

theorem initialise_teardown:
  assumes "initializeRdmaResources T g mtu hca_list t = Some (rc, t')" "rt_context_list t = []"
  shows "(\<forall>c \<in> set (rt_context_list t'). rx_context c \<noteq> None) \<and>
    length (rt_context_list t') + length (rt_disabled t') = length (rt_disabled t) + length hca_list \<and>
    v_objects (fold (destroy_RdmaContext (te_dev T)) (rt_context_list t') (rt_calls t')) = v_objects (rt_calls t) \<and>
    v_open_fds (fold (destroy_RdmaContext (te_dev T)) (rt_context_list t') (rt_calls t')) = v_open_fds (rt_calls t)"
proof -
  from assms obtain cs ds h where i: "init_contexts T g mtu (rt_calls t) hca_list = Some (cs, ds, h)"
    and t': "rt_context_list t' = cs" "rt_disabled t' = rt_disabled t @ ds" "rt_calls t' = h"
    by (auto simp: initializeRdmaResources_def)
  from init_contexts_owned [OF i] destroy_all_resources [of cs "te_dev T" h] t' show ?thesis by simp
qed

theorem initialise_teardown_witness:
  "\<exists>rc t'. initializeRdmaResources demo_transport_env [] 0 [''mlx5_0'', ''mlx5_7''] (demo_transport []) = Some (rc, t') \<and>
     length (rt_context_list t') + length (rt_disabled t') = 2"
proof -
  let ?r = "initializeRdmaResources demo_transport_env [] 0 [''mlx5_0'', ''mlx5_7''] (demo_transport [])"
  have "?r \<noteq> None" by code_simp
  then obtain rc t' where r: "?r = Some (rc, t')" by auto
  have e: "rt_context_list (demo_transport []) = []" "rt_disabled (demo_transport []) = []"
    by (simp_all add: demo_transport_def)
  from initialise_teardown [OF r e(1)] r e(2) show ?thesis by auto
qed

end
