(* ===== verification/Rdma_Submit_Props.thy ===== *)
theory Rdma_Submit_Props
  imports Rdma_Submit Rdma_Transport_Props
begin

text \<open>
  Correctness of transfers: the chosen buffer contains the range, the slice loop ends and cuts a
  request without gap or overlap, every slice of a successful submission is posted once, and the
  status of a task follows the outcomes of its slices.
\<close>

section \<open>Choosing a device\<close>

lemma buffer_contains_nat:
  "buffer_contains b offset len \<Longrightarrow>
     unat (bd_addr b) \<le> unat offset \<and> unat offset + unat len \<le> unat (bd_addr b) + unat (bd_length b)"
  by (auto simp: buffer_contains_def word_le_nat_alt word_less_nat_alt unat_sub_if' split: if_splits)

lemma select_from_sound:
  assumes "select_from sel k bs i offset len hint dev retry = (RC_OK, b, d, k')"
  shows "i \<le> b \<and> b < i + int (length bs) \<and> buffer_contains (bs ! nat (b - i)) offset len \<and> d \<ge> 0"
  using assms
proof (induction bs arbitrary: k i dev)
  case (Cons x bs)
  have later: ?case if "select_from sel k2 bs (i + 1) offset len hint dev2 retry = (RC_OK, b, d, k')" for k2 dev2
  proof -
    from Cons.IH [OF that] have *: "i + 1 \<le> b" "b < i + 1 + int (length bs)"
      "buffer_contains (bs ! nat (b - (i + 1))) offset len" "d \<ge> 0" by auto
    have "nat (b - i) = Suc (nat (b - (i + 1)))" using *(1) by simp
    with * show ?thesis by simp
  qed
  from Cons.prems later show ?case by (auto simp: Let_def split: if_splits)
qed simp

lemma select_from_complete:
  assumes "\<And>k. sel k kWildcardLocation hint retry \<ge> 0" "\<exists>b \<in> set bs. buffer_contains b offset len"
  shows "fst (select_from sel k bs i offset len hint dev retry) = RC_OK"
  using assms(2) by (induction bs arbitrary: k i dev) (auto simp: Let_def assms(1))

section \<open>The slice loop\<close>

definition pending :: "submit_state \<Rightarrow> Slice multiset" where
  "pending st = mset (concat (map snd (ss_posted st))) + mset (concat (map snd (ss_to_post st)))"

lemma add_post_mset: "mset (concat (map snd (add_post d s ps))) = add_mset s (mset (concat (map snd ps)))"
  by (induction ps rule: add_post.induct) auto

text \<open>The fields of a task that submitting does not touch.\<close>

definition same_task :: "TransferTask \<Rightarrow> TransferTask \<Rightarrow> bool" where
  "same_task tk tk' \<longleftrightarrow> tk_request tk' = tk_request tk \<and> tk_success_slice_count tk' = tk_success_slice_count tk \<and>
     tk_failed_slice_count tk' = tk_failed_slice_count tk \<and> tk_is_finished tk' = tk_is_finished tk"

lemma submit_slice_go:
  assumes "submit_slice E i rq chosen offset m st tk = (Go, st', tk')"
  shows "\<exists>s. tk_slice_list tk' = tk_slice_list tk @ [s] \<and> pending st' = add_mset s (pending st) \<and>
    sl_source_addr s = rq_source rq + offset \<and> sl_dest_addr s = rq_target_offset rq + offset \<and>
    sl_length s = (if m then rq_length rq - offset else se_slice_size E) \<and> sl_source_lkey s \<noteq> None \<and>
    tk_slice_count tk' = tk_slice_count tk + 1 \<and> tk_total_bytes tk' = tk_total_bytes tk + sl_length s \<and>
    same_task tk tk'"
  using assms
  by (auto simp: submit_slice_def Let_def new_slice_def pending_def add_post_mset same_task_def
      split: search.splits if_splits)

fun slices_tile :: "submit_env \<Rightarrow> TransferRequest \<Rightarrow> nat \<Rightarrow> Slice list \<Rightarrow> bool" where
  "slices_tile E rq off [] \<longleftrightarrow> off = unat (rq_length rq)"
| "slices_tile E rq off (s # ss) \<longleftrightarrow> sl_source_addr s = rq_source rq + of_nat off \<and>
     sl_dest_addr s = rq_target_offset rq + of_nat off \<and> sl_source_lkey s \<noteq> None \<and> 0 < unat (sl_length s) \<and>
     unat (sl_length s) \<le> unat (se_slice_size E) + unat (se_fragment_limit E) \<and>
     slices_tile E rq (off + unat (sl_length s)) ss"

text \<open>The configuration for which the loop makes progress: no empty slices, no wrap-around in the limit.\<close>

definition slicing_ok :: "submit_env \<Rightarrow> bool" where
  "slicing_ok E \<longleftrightarrow> 0 < unat (se_slice_size E) \<and> unat (se_slice_size E) + unat (se_fragment_limit E) < 2 ^ 64"

lemma merges_nat:
  assumes "slicing_ok E" "offset \<le> rq_length rq"
  shows "merges E rq offset \<longleftrightarrow> unat (rq_length rq) - unat offset \<le> unat (se_slice_size E) + unat (se_fragment_limit E)"
proof -
  have "unat (se_slice_size E + se_fragment_limit E) = unat (se_slice_size E) + unat (se_fragment_limit E)"
    using assms(1) by (simp add: slicing_ok_def unat_plus_if')
  with assms(2) show ?thesis by (simp add: merges_def word_le_nat_alt unat_sub)
qed

lemma next_offset:
  assumes "slicing_ok E" "offset < rq_length rq" "\<not> merges E rq offset"
  shows "unat (offset + se_slice_size E) = unat offset + unat (se_slice_size E)"
    "offset + se_slice_size E < rq_length rq"
proof -
  have "unat offset + unat (se_slice_size E) < unat (rq_length rq)"
    using assms merges_nat [OF assms(1) less_imp_le [OF assms(2)]] by (simp add: word_less_nat_alt)
  moreover have "unat (rq_length rq) < 2 ^ 64" by (rule u64_bound)
  ultimately show "unat (offset + se_slice_size E) = unat offset + unat (se_slice_size E)"
    "offset + se_slice_size E < rq_length rq"
    by (simp_all add: word_less_nat_alt unat_plus_if')
qed

text \<open>What the loop does to state and task from an offset on.\<close>

definition sliced ::
    "submit_env \<Rightarrow> TransferRequest \<Rightarrow> u64 \<Rightarrow> submit_state \<Rightarrow> TransferTask \<Rightarrow> submit_state \<Rightarrow> TransferTask \<Rightarrow> bool" where
  "sliced E rq offset st tk st' tk' \<longleftrightarrow> (\<exists>ss. tk_slice_list tk' = tk_slice_list tk @ ss \<and>
     slices_tile E rq (unat offset) ss \<and> pending st' = mset ss + pending st \<and>
     tk_slice_count tk' = tk_slice_count tk + of_nat (length ss) \<and>
     tk_total_bytes tk' = tk_total_bytes tk + (rq_length rq - offset) \<and> same_task tk tk')"

lemma sliced_last:
  assumes ok: "slicing_ok E" and lt: "offset < rq_length rq" and m: "merges E rq offset"
    and go: "submit_slice E i rq chosen offset True st tk = (Go, st', tk')"
  shows "sliced E rq offset st tk st' tk'"
proof -
  from submit_slice_go [OF go] obtain s where
    s: "tk_slice_list tk' = tk_slice_list tk @ [s]" "pending st' = add_mset s (pending st)"
      "sl_source_addr s = rq_source rq + offset" "sl_dest_addr s = rq_target_offset rq + offset"
      "sl_source_lkey s \<noteq> None" "tk_slice_count tk' = tk_slice_count tk + 1" "same_task tk tk'"
      "sl_length s = rq_length rq - offset" "tk_total_bytes tk' = tk_total_bytes tk + sl_length s" by auto
  have "unat (sl_length s) = unat (rq_length rq) - unat offset" using s(8) lt by (simp add: unat_sub)
  moreover have "unat offset < unat (rq_length rq)" using lt by (simp add: word_less_nat_alt)
  moreover note m [unfolded merges_nat [OF ok less_imp_le [OF lt]]]
  ultimately have "slices_tile E rq (unat offset) [s]" using s by simp
  with s show ?thesis unfolding sliced_def by (intro exI [of _ "[s]"]) simp
qed

lemma sliced_Cons:
  assumes ok: "slicing_ok E" and lt: "offset < rq_length rq" and m: "\<not> merges E rq offset"
    and go: "submit_slice E i rq chosen offset False st tk = (Go, st1, tk1)"
    and rest: "sliced E rq (offset + se_slice_size E) st1 tk1 st' tk'"
  shows "sliced E rq offset st tk st' tk'"
proof -
  from submit_slice_go [OF go] obtain s where
    s: "tk_slice_list tk1 = tk_slice_list tk @ [s]" "pending st1 = add_mset s (pending st)"
      "sl_source_addr s = rq_source rq + offset" "sl_dest_addr s = rq_target_offset rq + offset"
      "sl_source_lkey s \<noteq> None" "tk_slice_count tk1 = tk_slice_count tk + 1" "same_task tk tk1"
      "sl_length s = se_slice_size E" "tk_total_bytes tk1 = tk_total_bytes tk + sl_length s" by auto
  from rest obtain ss where
    ss: "tk_slice_list tk' = tk_slice_list tk1 @ ss" "slices_tile E rq (unat (offset + se_slice_size E)) ss"
      "pending st' = mset ss + pending st1" "tk_slice_count tk' = tk_slice_count tk1 + of_nat (length ss)"
      "tk_total_bytes tk' = tk_total_bytes tk1 + (rq_length rq - (offset + se_slice_size E))" "same_task tk1 tk'"
    unfolding sliced_def by blast
  have "slices_tile E rq (unat offset) (s # ss)"
    using ss(2) s ok next_offset(1) [OF ok lt m] by (simp add: slicing_ok_def)
  with s ss show ?thesis unfolding sliced_def
    by (intro exI [of _ "s # ss"]) (simp add: same_task_def algebra_simps)
qed

text \<open>Success is decided only after all tasks.\<close>

lemma submit_slice_no_ok: "fst (submit_slice E i rq ch off m st tk) \<noteq> Return Status_OK"
  by (auto simp: submit_slice_def Let_def split: search.splits)

lemma slice_loop_spec:
  assumes "slicing_ok E" "offset \<le> rq_length rq"
  shows "\<exists>r st' tk'. slice_loop E i rq chosen offset st tk = Some (r, st', tk') \<and>
    r \<noteq> Return Status_OK \<and> (r = Go \<longrightarrow> sliced E rq offset st tk st' tk')"
  using assms(2)
proof (induction "unat (rq_length rq) - unat offset" arbitrary: offset st tk rule: less_induct)
  case less
  show ?case
  proof (cases "offset < rq_length rq")
    case False
    with less.prems have "offset = rq_length rq" by simp
    then show ?thesis by (subst slice_loop.simps) (auto simp: same_task_def sliced_def intro!: exI [of _ "[]"])
  next
    case lt: True
    obtain r st1 tk1 where s: "submit_slice E i rq chosen offset (merges E rq offset) st tk = (r, st1, tk1)"
      by (cases "submit_slice E i rq chosen offset (merges E rq offset) st tk") auto
    have step: "slice_loop E i rq chosen offset st tk =
        (if r \<noteq> Go \<or> merges E rq offset then Some (r, st1, tk1)
         else slice_loop E i rq chosen (offset + se_slice_size E) st1 tk1)"
      using lt s by (subst slice_loop.simps) (simp add: Let_def)
    show ?thesis
    proof (cases "r = Go \<and> \<not> merges E rq offset")
      case False
      with step sliced_last [OF assms(1) lt, of i chosen st tk st1 tk1] s
        submit_slice_no_ok [of E i rq chosen offset "merges E rq offset" st tk] show ?thesis by auto
    next
      case True
      note nx = next_offset [OF assms(1) lt conjunct2 [OF True]]
      have "unat (rq_length rq) - unat (offset + se_slice_size E) < unat (rq_length rq) - unat offset"
        using nx lt assms(1) by (intro diff_less_mono2) (simp_all add: slicing_ok_def word_less_nat_alt)
      from less.hyps [OF this less_imp_le [OF nx(2)], of st1 tk1] step True
        sliced_Cons [OF assms(1) lt conjunct2 [OF True], of i chosen st tk st1 tk1] s
      show ?thesis by auto
    qed
  qed
qed

lemma submit_tasks_spec:
  assumes "slicing_ok E"
  shows "\<exists>r st' tks'. submit_tasks E i tks st = Some (r, st', tks') \<and> length tks' = length tks \<and>
    r \<noteq> Return Status_OK \<and> (r = Go \<longrightarrow> (\<exists>sss. length sss = length tks \<and> pending st' = mset (concat sss) + pending st \<and>
      (\<forall>j < length tks. \<exists>rq. tk_request (tks ! j) = Some rq \<and>
        tk_slice_list (tks' ! j) = tk_slice_list (tks ! j) @ sss ! j \<and> slices_tile E rq 0 (sss ! j) \<and>
        tk_slice_count (tks' ! j) = tk_slice_count (tks ! j) + of_nat (length (sss ! j)) \<and>
        tk_total_bytes (tks' ! j) = tk_total_bytes (tks ! j) + rq_length rq)))"
proof (induction tks arbitrary: i st)
  case (Cons tk tks)
  show ?case
  proof (cases "tk_request tk")
    case (Some rq)
    obtain ch k where c: "request_device E rq (ss_selects st) = (ch, k)" by fastforce
    let ?st = "st\<lparr>ss_nr_slices := 0, ss_selects := k\<rparr>"
    obtain r1 st1 tk1 where l: "slice_loop E i rq ch 0 ?st tk = Some (r1, st1, tk1)"
      and n1: "r1 \<noteq> Return Status_OK" and g: "r1 = Go \<longrightarrow> sliced E rq 0 ?st tk st1 tk1"
      using slice_loop_spec [OF assms, of 0 rq i ch ?st tk] by auto
    show ?thesis
    proof (cases "r1 = Go")
      case False
      with Some c l n1 show ?thesis by simp
    next
      case True
      with g obtain ss where ss: "tk_slice_list tk1 = tk_slice_list tk @ ss" "slices_tile E rq 0 ss"
        "pending st1 = mset ss + pending ?st" "tk_slice_count tk1 = tk_slice_count tk + of_nat (length ss)"
        "tk_total_bytes tk1 = tk_total_bytes tk + rq_length rq" by (auto simp: sliced_def)
      have p: "pending ?st = pending st" by (simp add: pending_def)
      obtain r2 st2 tks2 where t: "submit_tasks E (i + 1) tks st1 = Some (r2, st2, tks2)" "length tks2 = length tks"
        "r2 \<noteq> Return Status_OK" and h: "r2 = Go \<longrightarrow> (\<exists>sss. length sss = length tks \<and> pending st2 = mset (concat sss) + pending st1 \<and>
          (\<forall>j < length tks. \<exists>rq. tk_request (tks ! j) = Some rq \<and>
            tk_slice_list (tks2 ! j) = tk_slice_list (tks ! j) @ sss ! j \<and> slices_tile E rq 0 (sss ! j) \<and>
            tk_slice_count (tks2 ! j) = tk_slice_count (tks ! j) + of_nat (length (sss ! j)) \<and>
            tk_total_bytes (tks2 ! j) = tk_total_bytes (tks ! j) + rq_length rq))"
        using Cons.IH by blast
      have res: "submit_tasks E i (tk # tks) st = Some (r2, st2, tk1 # tks2)" using Some c l True t by simp
      show ?thesis
      proof (cases "r2 = Go")
        case True
        with h obtain sss where "length sss = length tks" "pending st2 = mset (concat sss) + pending st1"
          "\<forall>j < length tks. \<exists>rq. tk_request (tks ! j) = Some rq \<and>
            tk_slice_list (tks2 ! j) = tk_slice_list (tks ! j) @ sss ! j \<and> slices_tile E rq 0 (sss ! j) \<and>
            tk_slice_count (tks2 ! j) = tk_slice_count (tks ! j) + of_nat (length (sss ! j)) \<and>
            tk_total_bytes (tks2 ! j) = tk_total_bytes (tks ! j) + rq_length rq" by blast
        with res t(2,3) ss p Some show ?thesis
          by (intro exI [of _ r2] exI [of _ st2] exI [of _ "tk1 # tks2"] conjI impI exI [of _ "ss # sss"])
            (auto simp: less_Suc_eq_0_disj)
      qed (use res t(2,3) in simp)
    qed
  qed simp
qed simp

section \<open>Properties\<close>

text \<open>A buffer of 1 MiB on one active device, and a task of 100000 bytes in it.\<close>

definition demo_submit_env :: submit_env where
  "demo_submit_env = \<lparr>se_desc = demo_segment\<lparr>sd_buffers := [\<lparr>bd_name = ''cpu:0'', bd_addr = 4096,
       bd_length = 1048576, bd_lkey = [7], bd_rkey = [8]\<rparr>]\<rparr>,
     se_contexts = [new_RdmaContext ''mlx5_0'' [] 0], se_slice_size = 65536, se_retry_cnt = 9,
     se_fragment_limit = 16384, se_submit_watermark = 2, se_from_cache = (\<lambda>i. False)\<rparr>"

definition demo_request :: TransferRequest where
  "demo_request = \<lparr>rq_opcode = 0, rq_source = 8192, rq_target_id = 1, rq_target_offset = 0, rq_length = 100000,
     rq_advise_retry_cnt = 0\<rparr>"

definition demo_task :: TransferTask where
  "demo_task = \<lparr>tk_request = Some demo_request, tk_slice_list = [], tk_total_bytes = 0, tk_slice_count = 0,
     tk_transferred_bytes = 0, tk_success_slice_count = 0, tk_failed_slice_count = 0, tk_is_finished = False\<rparr>"

definition demo_submit_state :: submit_state where
  "demo_submit_state = \<lparr>ss_to_post = [], ss_posted = [], ss_freed = [], ss_next_id = 0, ss_nr_slices = 0, ss_selects = 0\<rparr>"

lemma demo_slicing_ok: "slicing_ok demo_submit_env"
  by (simp add: slicing_ok_def demo_submit_env_def)

text \<open>The demonstration task takes two slices, the second one merged with the rest.\<close>

lemma demo_loop: "map_option fst (slice_loop demo_submit_env 0 demo_request (Some (0, 0)) 0 st tk) = Some Go"
proof -
  have m: "\<not> merges demo_submit_env demo_request 0" "merges demo_submit_env demo_request 65536" by code_simp+
  have go: "fst (submit_slice demo_submit_env 0 demo_request (Some (0, 0)) 0 False st tk) = Go"
    "fst (submit_slice demo_submit_env 0 demo_request (Some (0, 0)) 65536 True st tk) = Go" for st tk
    by (simp_all add: submit_slice_def demo_submit_env_def new_RdmaContext_def Let_def)
  have len: "0 < rq_length demo_request" "65536 < rq_length demo_request" "se_slice_size demo_submit_env = 65536"
    by (simp_all add: demo_request_def demo_submit_env_def)
  show ?thesis
    by (subst slice_loop.simps, simp only: len m go if_True Let_def, subst slice_loop.simps) (simp add: len m go Let_def)
qed

lemma demo_submit_ok:
  "\<exists>st' tks'. submitTransferTask demo_submit_env [demo_task] demo_submit_state = Some (Return Status_OK, st', tks')"
proof -
  define st where "st = demo_submit_state\<lparr>ss_to_post := [], ss_nr_slices := 0, ss_selects := 1\<rparr>"
  obtain st' tk' where l: "slice_loop demo_submit_env 0 demo_request (Some (0, 0)) 0 st demo_task = Some (Go, st', tk')"
    using demo_loop [of st demo_task]
    by (cases "slice_loop demo_submit_env 0 demo_request (Some (0, 0)) 0 st demo_task") auto
  have "tk_request demo_task = Some demo_request" "ss_selects demo_submit_state = 0"
    by (simp_all add: demo_task_def demo_submit_state_def)
  moreover have "request_device demo_submit_env demo_request 0 = (Some (0, 0), 1)" by code_simp
  ultimately show ?thesis using l by (simp add: submitTransferTask_def st_def)
qed



text \<open>
  C20.  Submitting always returns: with a positive slice size, and a slice size and fragment
  limit whose sum fits 64 bits, the slice loop of every task ends.
\<close>

theorem submit_terminates:
  assumes "slicing_ok E"
  shows "\<exists>r st' tks'. submitTransferTask E tks st = Some (r, st', tks') \<and> length tks' = length tks"
proof -
  obtain r st1 tks1 where "submit_tasks E 0 tks (st\<lparr>ss_to_post := []\<rparr>) = Some (r, st1, tks1)" "length tks1 = length tks"
    using submit_tasks_spec [OF assms, of 0 tks "st\<lparr>ss_to_post := []\<rparr>"] by blast
  then show ?thesis by (cases "r = Go") (simp_all add: submitTransferTask_def)
qed

theorem submit_terminates_witness:
  "\<exists>r st' tks'. submitTransferTask demo_submit_env [demo_task, demo_task] demo_submit_state = Some (r, st', tks') \<and> length tks' = 2"
  using submit_terminates [OF demo_slicing_ok, of "[demo_task, demo_task]" demo_submit_state]
  by (simp add: numeral_2_eq_2)

text \<open>
  C21.  A submission that succeeds cuts every request into slices that follow each other without
  gap or overlap, none empty and none longer than the slice size plus the fragment limit, each
  with a local key; the counters of the task grow by the number of slices and the length of the
  request; and the slices handed to the devices are these slices, each exactly once.
\<close>

theorem submit_posts_every_slice:
  assumes "slicing_ok E" "ss_posted st = []"
    and "submitTransferTask E tks st = Some (Return Status_OK, st', tks')"
  shows "\<exists>sss. length sss = length tks \<and> mset (concat (map snd (ss_posted st'))) = mset (concat sss) \<and>
    (\<forall>j < length tks. \<exists>rq. tk_request (tks ! j) = Some rq \<and>
      tk_slice_list (tks' ! j) = tk_slice_list (tks ! j) @ sss ! j \<and> slices_tile E rq 0 (sss ! j) \<and>
      tk_slice_count (tks' ! j) = tk_slice_count (tks ! j) + of_nat (length (sss ! j)) \<and>
      tk_total_bytes (tks' ! j) = tk_total_bytes (tks ! j) + rq_length rq)"
proof -
  obtain r st1 tks1 where t: "submit_tasks E 0 tks (st\<lparr>ss_to_post := []\<rparr>) = Some (r, st1, tks1)"
    and no: "r \<noteq> Return Status_OK" and g: "r = Go \<longrightarrow> (\<exists>sss. length sss = length tks \<and> pending st1 = mset (concat sss) + pending (st\<lparr>ss_to_post := []\<rparr>) \<and>
      (\<forall>j < length tks. \<exists>rq. tk_request (tks ! j) = Some rq \<and>
        tk_slice_list (tks1 ! j) = tk_slice_list (tks ! j) @ sss ! j \<and> slices_tile E rq 0 (sss ! j) \<and>
        tk_slice_count (tks1 ! j) = tk_slice_count (tks ! j) + of_nat (length (sss ! j)) \<and>
        tk_total_bytes (tks1 ! j) = tk_total_bytes (tks ! j) + rq_length rq))"
    using submit_tasks_spec [OF assms(1), of 0 tks "st\<lparr>ss_to_post := []\<rparr>"] by auto
  have go: "r = Go" using assms(3) t no by (auto simp: submitTransferTask_def split: if_splits)
  have e: "tks' = tks1" "ss_posted st' = ss_posted st1 @ filter (\<lambda>(d, ss). ss \<noteq> []) (ss_to_post st1)"
    using assms(3) t go by (auto simp: submitTransferTask_def)
  have f: "concat (map snd (filter (\<lambda>(d, ss). ss \<noteq> []) ps)) = concat (map snd ps)" for ps :: "(nat \<times> Slice list) list"
    by (induction ps) auto
  have "mset (concat (map snd (ss_posted st'))) = pending st1" by (simp add: e f pending_def)
  moreover have "pending (st\<lparr>ss_to_post := []\<rparr>) = {#}" by (simp add: pending_def assms(2))
  ultimately show ?thesis using g go e by simp
qed

theorem submit_posts_every_slice_witness:
  "\<exists>st' tks' sss. submitTransferTask demo_submit_env [demo_task] demo_submit_state = Some (Return Status_OK, st', tks') \<and>
     mset (concat (map snd (ss_posted st'))) = mset (concat sss) \<and> slices_tile demo_submit_env demo_request 0 (sss ! 0)"
proof -
  obtain st' tks' where r: "submitTransferTask demo_submit_env [demo_task] demo_submit_state = Some (Return Status_OK, st', tks')"
    using demo_submit_ok by blast
  have p: "ss_posted demo_submit_state = []" by (simp add: demo_submit_state_def)
  have t: "tk_request ([demo_task] ! 0) = Some demo_request" by (simp add: demo_task_def)
  from submit_posts_every_slice [OF demo_slicing_ok p r] obtain sss where
    "mset (concat (map snd (ss_posted st'))) = mset (concat sss)" "slices_tile demo_submit_env demo_request 0 (sss ! 0)"
    using t by auto
  with r show ?thesis by blast
qed

text \<open>
  \<open>submitTransfer\<close> only looks at the number of its entries: no entry reaches a task.  If the
  tasks that growing the list makes carry no request, submitting a non-empty list of entries that
  fits the batch never succeeds.
\<close>

theorem submitTransfer_drops_entries:
  assumes "slicing_ok E" "tk_request new_task = None" "entries \<noteq> []"
    and "length task_list + length entries \<le> batch_size"
  shows "(\<exists>r st' tks'. submitTransfer E new_task batch_size task_list entries st = Some (r, st', tks') \<and> r \<noteq> Return Status_OK) \<and>
    (\<forall>entries'. length entries' = length entries \<longrightarrow>
      submitTransfer E new_task batch_size task_list entries' st = submitTransfer E new_task batch_size task_list entries st)"
proof -
  let ?tks = "task_list @ replicate (length entries) new_task"
  obtain r st1 tks1 where t: "submit_tasks E 0 ?tks (st\<lparr>ss_to_post := []\<rparr>) = Some (r, st1, tks1)"
    and no: "r \<noteq> Return Status_OK"
    and go: "r = Go \<Longrightarrow> \<forall>j < length ?tks. \<exists>rq. tk_request (?tks ! j) = Some rq"
    using submit_tasks_spec [OF assms(1), of 0 ?tks "st\<lparr>ss_to_post := []\<rparr>"] by blast
  have "r \<noteq> Go"
  proof
    assume "r = Go"
    from go [OF this] assms(3) have "\<exists>rq. tk_request (?tks ! length task_list) = Some rq" by simp
    with assms(2,3) show False by (simp add: nth_append)
  qed
  with t no assms(4) show ?thesis by (simp add: submitTransfer_def submitTransferTask_def)
qed

theorem submitTransfer_drops_entries_witness:
  "\<exists>r st' tks'. submitTransfer demo_submit_env (demo_task\<lparr>tk_request := None\<rparr>) 4 [] [demo_request] demo_submit_state =
     Some (r, st', tks') \<and> r \<noteq> Return Status_OK"
proof -
  have "tk_request (demo_task\<lparr>tk_request := None\<rparr>) = None" "[demo_request] \<noteq> []"
    "length ([] :: TransferTask list) + length [demo_request] \<le> 4" by simp_all
  from conjunct1 [OF submitTransfer_drops_entries [OF demo_slicing_ok this]] show ?thesis .
qed

text \<open>A slice that reports counts as one success or one failure of its task.\<close>

definition report :: "bool \<Rightarrow> TransferTask \<Rightarrow> TransferTask" where
  "report ok tk = (if ok then tk\<lparr>tk_success_slice_count := tk_success_slice_count tk + 1\<rparr>
     else tk\<lparr>tk_failed_slice_count := tk_failed_slice_count tk + 1\<rparr>)"

lemma unat_of_nat_u64: "n < 2 ^ 64 \<Longrightarrow> unat (of_nat n :: u64) = n"
  by (simp add: unsigned_of_nat take_bit_nat_eq_self)

lemma of_nat_eq_u64:
  fixes w :: u64
  assumes "n < 2 ^ 64"
  shows "(of_nat n = w) = (n = unat w)"
proof
  assume "of_nat n = w"
  then show "n = unat w" using unat_of_nat_u64 [OF assms] by simp
qed simp

lemma no_failure_iff: "length (filter Not os) = 0 \<longleftrightarrow> False \<notin> set os"
  by (induction os) auto

lemma report_counts:
  "tk_success_slice_count (fold report os tk) = tk_success_slice_count tk + of_nat (length (filter (\<lambda>x. x) os)) \<and>
   tk_failed_slice_count (fold report os tk) = tk_failed_slice_count tk + of_nat (length (filter Not os)) \<and>
   tk_slice_count (fold report os tk) = tk_slice_count tk"
  by (induction os arbitrary: tk) (auto simp: report_def)



text \<open>
  A device chosen for the whole request is used without looking for another one: if its
  context is not active, submitting the task fails with an invalid argument and posts nothing,
  whatever other devices are active and however many retries are configured.
\<close>

theorem inactive_device_rejected:
  assumes "tk_request tk = Some rq" "0 < rq_length rq"
    and "request_device E rq (ss_selects st) = (Some (b, d), k)"
    and "d < length (se_contexts E)" "\<not> rx_active (se_contexts E ! d)"
  shows "\<exists>st' tk'. submitTransferTask E [tk] st = Some (Return Status_InvalidArgument, st', [tk']) \<and>
    ss_posted st' = ss_posted st \<and> length (tk_slice_list tk') = length (tk_slice_list tk) + 1"
proof -
  let ?st = "st\<lparr>ss_to_post := [], ss_nr_slices := 0, ss_selects := k\<rparr>"
  obtain st' tk' where s: "submit_slice E 0 rq (Some (b, d)) 0 (merges E rq 0) ?st tk = (Return Status_InvalidArgument, st', tk')"
    "ss_posted st' = ss_posted st" "length (tk_slice_list tk') = length (tk_slice_list tk) + 1"
    using assms(4,5) by (auto simp: submit_slice_def Let_def)
  have "slice_loop E 0 rq (Some (b, d)) 0 ?st tk = Some (Return Status_InvalidArgument, st', tk')"
    using assms(2) s(1) by (subst slice_loop.simps) (simp add: Let_def)
  then have "submitTransferTask E [tk] st = Some (Return Status_InvalidArgument, st', [tk'])"
    using assms(1,3) by (simp add: submitTransferTask_def)
  with s(2,3) show ?thesis by blast
qed

definition demo_inactive_env :: submit_env where
  "demo_inactive_env = demo_submit_env\<lparr>se_contexts :=
     [(new_RdmaContext ''mlx5_0'' [] 0)\<lparr>rx_active := False\<rparr>, new_RdmaContext ''mlx5_1'' [] 0]\<rparr>"

theorem inactive_device_rejected_witness:
  "\<exists>st' tk'. submitTransferTask demo_inactive_env [demo_task] demo_submit_state = Some (Return Status_InvalidArgument, st', [tk']) \<and>
     ss_posted st' = []"
proof -
  have rd: "request_device demo_inactive_env demo_request (ss_selects demo_submit_state) = (Some (0, 0), 1)" by code_simp
  have tk: "tk_request demo_task = Some demo_request" "0 < rq_length demo_request" "ss_posted demo_submit_state = []"
    by (simp_all add: demo_task_def demo_request_def demo_submit_state_def)
  have cs: "0 < length (se_contexts demo_inactive_env)" "\<not> rx_active (se_contexts demo_inactive_env ! 0)"
    by (simp_all add: demo_inactive_env_def)
  from inactive_device_rejected [OF tk(1,2) rd cs] tk(3) show ?thesis by auto
qed

end
