(* ===== verification/Client_Base.thy ===== *)
theory Client_Base
  imports Decimal
begin

text \<open>Error codes, results and the reading of numbers from the environment, for the whole store client.\<close>

datatype ErrorCode =
    EC_OK | INVALID_PARAMS | INTERNAL_ERROR | RPC_FAIL | TRANSFER_FAIL | NO_AVAILABLE_HANDLE
  | OBJECT_ALREADY_EXISTS | INVALID_REPLICA | LEASE_EXPIRED | REPLICA_NOT_IN_LOCAL_MEMORY
  | SEGMENT_NOT_FOUND | UNAVAILABLE_IN_CURRENT_STATUS | EC_OTHER int

type_synonym 'a expected = "ErrorCode + 'a"

abbreviation ok :: "unit expected" where
  "ok \<equiv> Inr ()"

text \<open>\<open>strtoull\<close> on the whole value: no digits, a rest after them and an overflow are refused.\<close>

definition number_rest :: "string \<Rightarrow> string" where
  "number_rest s =
     (let s = dropWhile is_space s;
          s = (if s \<noteq> [] \<and> (hd s = CHR ''-'' \<or> hd s = CHR ''+'') then tl s else s)
      in dropWhile is_digit s)"

definition ParseEnvSize :: "string option \<Rightarrow> u64 option" where
  "ParseEnvSize value =
     (case value of
        None \<Rightarrow> None
      | Some v \<Rightarrow> if v = [] then None else if number_rest v \<noteq> [] then None else stoull v)"

end
