(* ===== verification/Client_Types.thy ===== *)
theory Client_Types
  imports Client_Base
begin

text \<open>
  Data and environment of the store client (\<open>client_service.cpp\<close>).

  The master, the transfer submitter, the hot cache, the storage backend and the transfer engine
  are not part of the repository.  Calls to them that have an effect go to one log (newest first);
  the answers are fields of \<open>client_env\<close> and may depend on the log.  Metrics and log messages are
  left out.
\<close>

section \<open>Values\<close>

datatype ReplicaType = MEMORY | NOF_SSD | DISK | ALL_REPLICAS

datatype ReplicaKind = Kind_memory | Kind_nof | Kind_disk | Kind_local_disk

text \<open>
  A replica descriptor.  Endpoint, address and size are those of the buffer of a memory or NoF
  replica; a disk replica has its size and a file path.
\<close>

record Replica =
  rep_kind :: ReplicaKind
  rep_complete :: bool
  rep_endpoint :: string
  rep_address :: u64
  rep_size :: u64
  rep_file_path :: string

definition is_memory_replica :: "Replica \<Rightarrow> bool" where
  "is_memory_replica r = (rep_kind r = Kind_memory)"

definition is_nof_replica :: "Replica \<Rightarrow> bool" where
  "is_nof_replica r = (rep_kind r = Kind_nof)"

definition is_disk_replica :: "Replica \<Rightarrow> bool" where
  "is_disk_replica r = (rep_kind r = Kind_disk)"

text \<open>The type under which a replica is transferred; the other replicas are skipped.\<close>

definition transfer_type :: "Replica \<Rightarrow> ReplicaType option" where
  "transfer_type r =
     (if is_memory_replica r \<or> is_nof_replica r
      then Some (if is_memory_replica r then MEMORY else NOF_SSD) else None)"

datatype ReplicaWriteMode = FLEXIBLE_DUAL_REPLICA | Other_mode nat

record ReplicateConfig =
  replica_num :: nat
  nof_replica_num :: nat
  prefer_alloc_in_same_node :: bool
  preferred_segment :: string

text \<open>A slice is its address and its size.\<close>

type_synonym slice = "ptr \<times> u64"

section \<open>Calls\<close>

datatype ccall =
    C_RemoveHotKeys "string list"
  | C_GetHotKey string bool
  | C_ReleaseHotKey string
  | C_SubmitPutTask string slice
  | C_PutStart string
  | C_PutEnd string ReplicaType
  | C_PutRevoke string ReplicaType
  | C_UpsertStart string
  | C_UpsertEnd string ReplicaType
  | C_UpsertRevoke string ReplicaType
  | C_BatchPutStart "string list"
  | C_BatchPutEnd "string list" ReplicaType
  | C_BatchPutRevoke "string list" ReplicaType
  | C_BatchUpsertStart "string list"
  | C_BatchUpsertEnd "string list"
  | C_BatchUpsertRevoke "string list"
  | C_BatchEvictDiskReplica "string list"
  | C_submit bool "Replica list"
  | C_wait nat
  | C_Acquire u64
  | C_Release u64
  | C_enqueue_store string string
  | C_StoreObject string string
  | C_CopyEnd string
  | C_CopyRevoke string
  | C_MoveEnd string
  | C_MoveRevoke string
  | C_start string
  | C_GetReplicaList "string list"
  | C_submit_range Replica u64
  | C_sketch_increment string
  | C_MarkTask nat bool

type_synonym ccalls = "ccall list"

text \<open>
  A submission, whose flag says whether it writes, gives the number of a future; \<open>ce_future\<close> is what
  waiting for it returns.  \<open>ce_nof_build\<close> is the preprocessor condition \<open>USE_NOF\<close>.
\<close>

record client_env =
  ce_hot_cache :: bool
  ce_storage_backend :: bool
  ce_transfer_submitter :: bool
  ce_cxl :: bool
  ce_p2p_handshake :: bool
  ce_local_hostname :: string
  ce_transport_endpoint :: string
  ce_toString :: "ErrorCode \<Rightarrow> string"
  ce_write_mode :: "ReplicateConfig \<Rightarrow> ReplicaWriteMode"
  ce_new_config :: ReplicateConfig
  ce_nof_build :: bool
  ce_getenv :: "string \<Rightarrow> string option"
  ce_start :: "ccalls \<Rightarrow> string \<Rightarrow> u64 list \<Rightarrow> ReplicateConfig \<Rightarrow> Replica list expected"
  ce_start_batch :: "ccalls \<Rightarrow> string list \<Rightarrow> u64 list list \<Rightarrow> ReplicateConfig \<Rightarrow> Replica list expected list"
  ce_settle :: "ccalls \<Rightarrow> string \<Rightarrow> ReplicaType \<Rightarrow> unit expected"
  ce_settle_batch :: "ccalls \<Rightarrow> string list \<Rightarrow> ReplicaType \<Rightarrow> unit expected list"
  ce_submit :: "ccalls \<Rightarrow> bool \<Rightarrow> Replica list \<Rightarrow> slice list list \<Rightarrow> nat option"
  ce_future :: "ccalls \<Rightarrow> nat \<Rightarrow> ErrorCode"
  ce_device_pointer :: "ptr \<Rightarrow> bool"
  ce_copy_to_host :: "ccalls \<Rightarrow> slice \<Rightarrow> bool"
  ce_store_object :: "ccalls \<Rightarrow> string \<Rightarrow> string \<Rightarrow> string list expected"
  ce_hot_block :: "ccalls \<Rightarrow> string \<Rightarrow> (ptr \<times> u64) option"
  ce_hot_shm :: bool
  ce_submit_put_task :: "ccalls \<Rightarrow> string \<Rightarrow> slice \<Rightarrow> bool"
  ce_admission_sketch :: bool
  ce_sketch_increment :: "ccalls \<Rightarrow> string \<Rightarrow> nat"
  ce_admission_threshold :: nat
  ce_slice_size :: "slice list \<Rightarrow> u64"
  ce_now :: "ccalls \<Rightarrow> nat"
  ce_query :: "ccalls \<Rightarrow> string \<Rightarrow> (Replica list \<times> nat) expected"
  ce_query_batch :: "ccalls \<Rightarrow> string list \<Rightarrow> (Replica list \<times> nat) expected list"
  ce_submit_range :: "ccalls \<Rightarrow> Replica \<Rightarrow> slice list \<Rightarrow> u64 \<Rightarrow> nat option"

text \<open>
  A query answers with replicas and the time to live of the lease; \<open>ce_now\<close> is the clock, in
  milliseconds.  \<open>ce_slice_size\<close> is \<open>CalculateSliceSize\<close>, which is not in the repository.  The answers of the settling calls depend on the log, in which the call itself is the newest
  entry; so one field serves ending and revoking.
\<close>

section \<open>Transfers\<close>

definition TransferData :: "client_env \<Rightarrow> bool \<Rightarrow> Replica \<Rightarrow> slice list \<Rightarrow> ccalls \<Rightarrow> ErrorCode \<times> ccalls" where
  "TransferData E writes replica slices h =
     (if \<not> ce_transfer_submitter E then (INVALID_PARAMS, h)
      else let future = ce_submit E h writes [replica] [slices]; h = C_submit writes [replica] # h
      in case future of
           None \<Rightarrow> (TRANSFER_FAIL, h)
         | Some f \<Rightarrow> (ce_future E h f, C_wait f # h))"

definition TransferWrite :: "client_env \<Rightarrow> Replica \<Rightarrow> slice list \<Rightarrow> ccalls \<Rightarrow> ErrorCode \<times> ccalls" where
  "TransferWrite E replica slices h = TransferData E True replica slices h"

definition TransferRead :: "client_env \<Rightarrow> Replica \<Rightarrow> slice list \<Rightarrow> ccalls \<Rightarrow> ErrorCode \<times> ccalls" where
  "TransferRead E replica slices h =
     (if ce_slice_size E slices < rep_size replica then (INVALID_PARAMS, h)
      else TransferData E False replica slices h)"

definition IsReplicaOnLocalMemory :: "client_env \<Rightarrow> Replica \<Rightarrow> bool" where
  "IsReplicaOnLocalMemory E replica =
     (if \<not> is_memory_replica replica then False
      else if ce_p2p_handshake E then rep_endpoint replica = ce_transport_endpoint E
      else ce_local_hostname E = rep_endpoint replica)"

definition TransferReadRange :: "client_env \<Rightarrow> Replica \<Rightarrow> slice list \<Rightarrow> u64 \<Rightarrow> ccalls \<Rightarrow> ErrorCode \<times> ccalls" where
  "TransferReadRange E replica slices src_offset h =
     (if \<not> ce_transfer_submitter E then (INVALID_PARAMS, h)
      else let future = ce_submit_range E h replica slices src_offset; h = C_submit_range replica src_offset # h
      in case future of
           None \<Rightarrow> (TRANSFER_FAIL, h)
         | Some f \<Rightarrow> (ce_future E h f, C_wait f # h))"

section \<open>An environment for examples\<close>

definition demo_replica :: "ReplicaKind \<Rightarrow> string \<Rightarrow> Replica" where
  "demo_replica k node = \<lparr>rep_kind = k, rep_complete = True, rep_endpoint = node, rep_address = 4096, rep_size = 8,
     rep_file_path = []\<rparr>"

text \<open>
  Every put gets a memory and a NoF replica, the transfer of the latter fails, and the master
  accepts everything.
\<close>

definition demo_client :: client_env where
  "demo_client = \<lparr>ce_hot_cache = True, ce_storage_backend = False, ce_transfer_submitter = True, ce_cxl = False,
     ce_p2p_handshake = False, ce_local_hostname = ''here'', ce_transport_endpoint = ''here:1'',
     ce_toString = (\<lambda>e. ''error''), ce_write_mode = (\<lambda>c. FLEXIBLE_DUAL_REPLICA),
     ce_new_config = \<lparr>replica_num = 1, nof_replica_num = 0, prefer_alloc_in_same_node = False, preferred_segment = []\<rparr>,
     ce_nof_build = False, ce_getenv = (\<lambda>x. None),
     ce_start = (\<lambda>h k ls c. Inr [demo_replica Kind_memory ''a'', demo_replica Kind_nof ''b'']),
     ce_start_batch = (\<lambda>h ks ls c. map (\<lambda>k. Inr [demo_replica Kind_memory ''a'', demo_replica Kind_nof ''b'']) ks),
     ce_settle = (\<lambda>h k t. ok), ce_settle_batch = (\<lambda>h ks t. map (\<lambda>k. ok) ks),
     ce_submit = (\<lambda>h w rs ss. Some (if is_nof_replica (hd rs) then 1 else 0)),
     ce_future = (\<lambda>h n. if n = 0 then EC_OK else TRANSFER_FAIL), ce_device_pointer = (\<lambda>p. False),
     ce_copy_to_host = (\<lambda>h s. True), ce_store_object = (\<lambda>h p k. Inr []), ce_hot_block = (\<lambda>h k. Some (8192, 8)),
     ce_hot_shm = False, ce_submit_put_task = (\<lambda>h k s. True), ce_admission_sketch = True,
     ce_sketch_increment = (\<lambda>h k. 2), ce_admission_threshold = 2, ce_slice_size = (\<lambda>ss. sum_list (map snd ss)),
     ce_now = (\<lambda>h. length h),
     ce_query = (\<lambda>h k. Inr ([demo_replica Kind_memory ''a''], 100)),
     ce_query_batch = (\<lambda>h ks. map (\<lambda>k. Inr ([demo_replica Kind_memory ''a''], 100)) ks),
     ce_submit_range = (\<lambda>h r ss off. Some 0)\<rparr>"

end
