(* ===== verification/Client_Put.thy ===== *)
theory Client_Put
  imports Client_Types
begin

text \<open>
  Writing one object (\<open>client_service.cpp\<close>): the summary of its transfers, the decision which
  replicas to commit, the copy to the local file, and \<open>Put\<close> and \<open>Upsert\<close>.
  \<open>DetermineReplicaWriteMode\<close> is not in the repository; its answer is a field of the environment.
\<close>

section \<open>Overrides from the environment\<close>

definition ApplyStoreReplicaOverrideFromEnv :: "(string \<Rightarrow> string option) \<Rightarrow> ReplicateConfig \<Rightarrow> ReplicateConfig" where
  "ApplyStoreReplicaOverrideFromEnv getenv config =
     (if replica_num config \<noteq> 1 \<or> nof_replica_num config \<noteq> 0 then config
      else let r = ParseEnvSize (getenv ''MC_STORE_REPLICA_NUM'');
               n = ParseEnvSize (getenv ''MC_STORE_NOF_REPLICA_NUM'');
               rn = (case r of None \<Rightarrow> replica_num config | Some v \<Rightarrow> unat v);
               nn = (case n of None \<Rightarrow> nof_replica_num config | Some v \<Rightarrow> unat v)
      in if r = None \<and> n = None then config
         else if rn = 0 \<and> nn = 0 then config
         else config\<lparr>replica_num := rn, nof_replica_num := nn\<rparr>)"

section \<open>The summary of an object's transfers\<close>

record ReplicaTransferSummary =
  allocated_memory_replicas :: nat
  allocated_nof_replicas :: nat
  successful_memory_transfers :: nat
  successful_nof_transfers :: nat
  failed_memory_transfers :: nat
  failed_nof_transfers :: nat
  first_error_code :: ErrorCode

definition new_summary :: ReplicaTransferSummary where
  "new_summary = \<lparr>allocated_memory_replicas = 0, allocated_nof_replicas = 0, successful_memory_transfers = 0,
     successful_nof_transfers = 0, failed_memory_transfers = 0, failed_nof_transfers = 0, first_error_code = EC_OK\<rparr>"

definition RecordAllocatedReplica :: "Replica \<Rightarrow> ReplicaTransferSummary \<Rightarrow> ReplicaTransferSummary" where
  "RecordAllocatedReplica r s =
     (if is_memory_replica r then s\<lparr>allocated_memory_replicas := allocated_memory_replicas s + 1\<rparr>
      else if is_nof_replica r then s\<lparr>allocated_nof_replicas := allocated_nof_replicas s + 1\<rparr>
      else s)"

definition RecordSuccess :: "ReplicaType \<Rightarrow> ReplicaTransferSummary \<Rightarrow> ReplicaTransferSummary" where
  "RecordSuccess t s =
     (if t = MEMORY then s\<lparr>successful_memory_transfers := successful_memory_transfers s + 1\<rparr>
      else if t = NOF_SSD then s\<lparr>successful_nof_transfers := successful_nof_transfers s + 1\<rparr>
      else s)"

definition RecordFailure :: "ReplicaType \<Rightarrow> ErrorCode \<Rightarrow> ReplicaTransferSummary \<Rightarrow> ReplicaTransferSummary" where
  "RecordFailure t e s =
     (let s = (if t = MEMORY then s\<lparr>failed_memory_transfers := failed_memory_transfers s + 1\<rparr>
               else if t = NOF_SSD then s\<lparr>failed_nof_transfers := failed_nof_transfers s + 1\<rparr>
               else s)
      in if first_error_code s = EC_OK then s\<lparr>first_error_code := e\<rparr> else s)"

section \<open>What to commit\<close>

definition HasExpectedReplicaAllocation ::
    "ReplicaWriteMode \<Rightarrow> ReplicateConfig \<Rightarrow> ReplicaTransferSummary \<Rightarrow> bool" where
  "HasExpectedReplicaAllocation mode config s =
     (if nof_replica_num config = 0 then allocated_memory_replicas s > 0
      else if mode = FLEXIBLE_DUAL_REPLICA then allocated_memory_replicas s + allocated_nof_replicas s > 0
      else allocated_memory_replicas s = replica_num config \<and> allocated_nof_replicas s = nof_replica_num config)"

record FinalizeDecision =
  end_type :: "ReplicaType option"
  revoke_type :: "ReplicaType option"
  fd_success :: bool
  fd_error :: ErrorCode

definition DetermineFinalizeDecision ::
    "ReplicaWriteMode \<Rightarrow> ReplicateConfig \<Rightarrow> ReplicaTransferSummary \<Rightarrow> FinalizeDecision" where
  "DetermineFinalizeDecision write_mode config s =
     (let allocation_satisfied = HasExpectedReplicaAllocation write_mode config s
      in if write_mode \<noteq> FLEXIBLE_DUAL_REPLICA
      then let all_transfers_succeeded =
                 (successful_memory_transfers s = allocated_memory_replicas s \<and>
                  successful_nof_transfers s = allocated_nof_replicas s \<and>
                  failed_memory_transfers s = 0 \<and> failed_nof_transfers s = 0)
           in if allocation_satisfied \<and> all_transfers_succeeded
              then \<lparr>end_type = Some ALL_REPLICAS, revoke_type = None, fd_success = True, fd_error = EC_OK\<rparr>
              else \<lparr>end_type = None, revoke_type = Some ALL_REPLICAS, fd_success = False,
                    fd_error = (if allocation_satisfied
                                then (if first_error_code s = EC_OK then TRANSFER_FAIL else first_error_code s)
                                else NO_AVAILABLE_HANDLE)\<rparr>
      else let memory_succeeded = successful_memory_transfers s > 0; nof_succeeded = successful_nof_transfers s > 0
      in if memory_succeeded \<and> nof_succeeded
         then \<lparr>end_type = Some ALL_REPLICAS, revoke_type = None, fd_success = True, fd_error = EC_OK\<rparr>
         else if memory_succeeded
         then \<lparr>end_type = Some MEMORY, revoke_type = Some NOF_SSD, fd_success = True, fd_error = EC_OK\<rparr>
         else if nof_succeeded
         then \<lparr>end_type = Some NOF_SSD, revoke_type = Some MEMORY, fd_success = True, fd_error = EC_OK\<rparr>
         else \<lparr>end_type = None, revoke_type = Some ALL_REPLICAS, fd_success = False,
               fd_error = (if first_error_code s = EC_OK then NO_AVAILABLE_HANDLE else first_error_code s)\<rparr>)"

section \<open>The copy to the local file\<close>

text \<open>
  Staging the slices: device memory goes through a pinned buffer, and a failed copy revokes the
  disk replica and stops.  The flag says whether all slices were staged.
\<close>

fun stage_slices :: "client_env \<Rightarrow> string \<Rightarrow> slice list \<Rightarrow> ccalls \<Rightarrow> bool \<times> ccalls" where
  "stage_slices E key [] h = (True, h)"
| "stage_slices E key (s # ss) h =
     (if ce_device_pointer E (fst s)
      then let h = C_Acquire (snd s) # h
           in if \<not> ce_copy_to_host E h s then (False, C_PutRevoke key DISK # C_Release (snd s) # h)
              else stage_slices E key ss (C_Release (snd s) # h)
      else stage_slices E key ss h)"

definition PutToLocalFile :: "client_env \<Rightarrow> string \<Rightarrow> slice list \<Rightarrow> string \<Rightarrow> ccalls \<Rightarrow> ccalls" where
  "PutToLocalFile E key slices path h =
     (if \<not> ce_storage_backend E then h
      else let (staged, h) = stage_slices E key slices h
           in if staged then C_enqueue_store key path # h else h)"

text \<open>The job that the thread pool runs later.\<close>

definition store_job :: "client_env \<Rightarrow> string \<Rightarrow> string \<Rightarrow> ccalls \<Rightarrow> ccalls" where
  "store_job E key path h =
     (let store_result = ce_store_object E h path key; h = C_StoreObject path key # h
      in case store_result of
           Inl e \<Rightarrow> C_PutRevoke key DISK # h
         | Inr evicted_keys \<Rightarrow>
             C_PutEnd key DISK # (if evicted_keys \<noteq> [] then C_BatchEvictDiskReplica evicted_keys # h else h))"

text \<open>The last disk replica is the one that is written.\<close>

definition put_disk_replica :: "client_env \<Rightarrow> string \<Rightarrow> slice list \<Rightarrow> Replica list \<Rightarrow> ccalls \<Rightarrow> ccalls" where
  "put_disk_replica E key slices replicas h =
     (if ce_storage_backend E
      then (case find is_disk_replica (rev replicas) of
              Some r \<Rightarrow> PutToLocalFile E key slices (rep_file_path r) h
            | None \<Rightarrow> h)
      else h)"

section \<open>Put and Upsert\<close>

definition client_config :: "client_env \<Rightarrow> ReplicateConfig \<Rightarrow> ReplicateConfig" where
  "client_config E config = (if ce_cxl E then config\<lparr>preferred_segment := ce_local_hostname E\<rparr> else config)"

definition put_config :: "client_env \<Rightarrow> ReplicateConfig \<Rightarrow> ReplicateConfig" where
  "put_config E config =
     client_config E (if ce_nof_build E then ApplyStoreReplicaOverrideFromEnv (ce_getenv E) config else config)"

definition remove_hot :: "client_env \<Rightarrow> string list \<Rightarrow> ccalls \<Rightarrow> ccalls" where
  "remove_hot E keys h = (if ce_hot_cache E then C_RemoveHotKeys keys # h else h)"

text \<open>The transfers of a put: every replica is tried.\<close>

fun write_replicas ::
    "client_env \<Rightarrow> slice list \<Rightarrow> Replica list \<Rightarrow> ReplicaTransferSummary \<Rightarrow> ccalls \<Rightarrow> ReplicaTransferSummary \<times> ccalls" where
  "write_replicas E slices [] s h = (s, h)"
| "write_replicas E slices (r # rs) s h =
     (case transfer_type r of
        None \<Rightarrow> write_replicas E slices rs s h
      | Some t \<Rightarrow>
          (let (transfer_err, h) = TransferWrite E r slices h
           in write_replicas E slices rs
                (if transfer_err \<noteq> EC_OK then RecordFailure t transfer_err s else RecordSuccess t s) h))"

definition settle_put :: "client_env \<Rightarrow> string \<Rightarrow> FinalizeDecision \<Rightarrow> ccalls \<Rightarrow> unit expected \<times> ccalls" where
  "settle_put E key d h =
     (let (end_result, h) = (case end_type d of
            None \<Rightarrow> (ok, h)
          | Some t \<Rightarrow> (let h = C_PutEnd key t # h in (ce_settle E h key t, h)))
      in case end_result of
           Inl e \<Rightarrow> (Inl e, h)
         | Inr u \<Rightarrow>
             (let (revoke_result, h) = (case revoke_type d of
                    None \<Rightarrow> (ok, h)
                  | Some t \<Rightarrow> (let h = C_PutRevoke key t # h in (ce_settle E h key t, h)))
              in case revoke_result of
                   Inl e \<Rightarrow> (Inl e, h)
                 | Inr u \<Rightarrow> (if \<not> fd_success d then Inl (fd_error d) else ok, h)))"

definition Put :: "client_env \<Rightarrow> string \<Rightarrow> slice list \<Rightarrow> ReplicateConfig \<Rightarrow> ccalls \<Rightarrow> unit expected \<times> ccalls" where
  "Put E key slices config h =
     (let client_cfg = put_config E config;
          h = C_PutStart key # remove_hot E [key] h
      in case ce_start E h key (map snd slices) client_cfg of
           Inl err \<Rightarrow> (if err = OBJECT_ALREADY_EXISTS then ok else Inl err, h)
         | Inr replicas \<Rightarrow>
             (let s = fold RecordAllocatedReplica replicas new_summary;
                  h = put_disk_replica E key slices replicas h;
                  (s, h) = write_replicas E slices replicas s h
              in settle_put E key (DetermineFinalizeDecision (ce_write_mode E client_cfg) client_cfg s) h))"

text \<open>The transfers of an upsert: memory replicas only, up to the first failure.\<close>

fun upsert_replicas :: "client_env \<Rightarrow> slice list \<Rightarrow> Replica list \<Rightarrow> ccalls \<Rightarrow> ErrorCode \<times> ccalls" where
  "upsert_replicas E slices [] h = (EC_OK, h)"
| "upsert_replicas E slices (r # rs) h =
     (if is_memory_replica r
      then let (transfer_err, h) = TransferWrite E r slices h
           in if transfer_err \<noteq> EC_OK then (transfer_err, h) else upsert_replicas E slices rs h
      else upsert_replicas E slices rs h)"

definition Upsert :: "client_env \<Rightarrow> string \<Rightarrow> slice list \<Rightarrow> ReplicateConfig \<Rightarrow> ccalls \<Rightarrow> unit expected \<times> ccalls" where
  "Upsert E key slices config h =
     (let client_cfg = client_config E config;
          h = C_UpsertStart key # remove_hot E [key] h
      in case ce_start E h key (map snd slices) client_cfg of
           Inl err \<Rightarrow> (Inl err, h)
         | Inr replicas \<Rightarrow>
             (let h = put_disk_replica E key slices replicas h;
                  (transfer_err, h) = upsert_replicas E slices replicas h
              in if transfer_err \<noteq> EC_OK
                 then let h = C_UpsertRevoke key MEMORY # h
                      in (case ce_settle E h key MEMORY of Inl e \<Rightarrow> Inl e | Inr u \<Rightarrow> Inl transfer_err, h)
                 else let h = C_UpsertEnd key MEMORY # h
                      in case ce_settle E h key MEMORY of
                           Inl e \<Rightarrow> (Inl e, h)
                         | Inr u \<Rightarrow> (ok, remove_hot E [key] h)))"

end
