(* ===== verification/Client_Batch.thy ===== *)
theory Client_Batch
  imports Client_Put
begin

text \<open>
  Writing several objects (\<open>client_service.cpp\<close>): \<open>PutOperation\<close>, the stages of a batch, and
  \<open>BatchPut\<close> and \<open>BatchUpsert\<close>.  Every key has a list of slices; reading beyond the lists is not
  modelled.
\<close>

section \<open>The operation on one object\<close>

datatype PutOperationState = PENDING | MASTER_FAILED | TRANSFER_FAILED | FINALIZE_FAILED | SUCCESS

text \<open>A pending transfer is the type of its replica and the number of its future.\<close>

record PutOperation =
  op_key :: string
  op_slices :: "slice list"
  op_state :: PutOperationState
  op_result :: "unit expected"
  op_replicas :: "Replica list"
  op_pending_transfers :: "(ReplicaType \<times> nat) list"
  op_requested_memory_replicas :: nat
  op_requested_nof_replicas :: nat
  op_transfer_summary :: ReplicaTransferSummary
  op_failure_context :: "string option"

definition new_PutOperation :: "string \<Rightarrow> slice list \<Rightarrow> PutOperation" where
  "new_PutOperation k s = \<lparr>op_key = k, op_slices = s, op_state = PENDING, op_result = Inl INTERNAL_ERROR,
     op_replicas = [], op_pending_transfers = [], op_requested_memory_replicas = 0, op_requested_nof_replicas = 0,
     op_transfer_summary = new_summary, op_failure_context = None\<rparr>"

definition SetSuccess :: "PutOperation \<Rightarrow> PutOperation" where
  "SetSuccess op = op\<lparr>op_state := SUCCESS, op_result := ok, op_failure_context := None\<rparr>"

definition SetTerminalError :: "ErrorCode \<Rightarrow> PutOperationState \<Rightarrow> string \<Rightarrow> PutOperation \<Rightarrow> PutOperation" where
  "SetTerminalError error terminal_state context op =
     (let op = op\<lparr>op_state := terminal_state, op_result := Inl error\<rparr>
      in if context \<noteq> [] then op\<lparr>op_failure_context := Some context\<rparr> else op)"

definition SetError :: "(ErrorCode \<Rightarrow> string) \<Rightarrow> ErrorCode \<Rightarrow> string \<Rightarrow> PutOperation \<Rightarrow> PutOperation" where
  "SetError toString error context op =
     (let op = op\<lparr>op_result := Inl error\<rparr>;
          op = (if context \<noteq> []
                then op\<lparr>op_failure_context := Some (toString error @ '': '' @ context @ ''; '' @
                       (case op_failure_context op of None \<Rightarrow> [] | Some c \<Rightarrow> c))\<rparr>
                else op)
      in op\<lparr>op_state := (if op_replicas op = [] then MASTER_FAILED
                         else if op_pending_transfers op = [] then TRANSFER_FAILED
                         else FINALIZE_FAILED)\<rparr>)"

definition AppendFailureContext :: "string \<Rightarrow> PutOperation \<Rightarrow> PutOperation" where
  "AppendFailureContext context op =
     (if context = [] then op
      else op\<lparr>op_failure_context := Some (case op_failure_context op of
               None \<Rightarrow> context | Some c \<Rightarrow> c @ ''; '' @ context)\<rparr>)"

definition InitializeRequestedReplicas :: "ReplicateConfig \<Rightarrow> PutOperation \<Rightarrow> PutOperation" where
  "InitializeRequestedReplicas config op =
     op\<lparr>op_requested_memory_replicas := replica_num config, op_requested_nof_replicas := nof_replica_num config\<rparr>"

definition ToReplicateConfig :: "client_env \<Rightarrow> PutOperation \<Rightarrow> ReplicateConfig" where
  "ToReplicateConfig E op = (ce_new_config E)\<lparr>replica_num := op_requested_memory_replicas op,
     nof_replica_num := op_requested_nof_replicas op\<rparr>"

definition RecordAllocatedReplicas :: "PutOperation \<Rightarrow> PutOperation" where
  "RecordAllocatedReplicas op =
     op\<lparr>op_transfer_summary := fold RecordAllocatedReplica (op_replicas op) new_summary\<rparr>"

definition IsResolved :: "PutOperation \<Rightarrow> bool" where
  "IsResolved op = (op_state op \<noteq> PENDING)"

definition IsSuccessful :: "PutOperation \<Rightarrow> bool" where
  "IsSuccessful op = (op_state op = SUCCESS \<and> op_result op = ok)"

definition CreatePutOperations :: "string list \<Rightarrow> slice list list \<Rightarrow> PutOperation list" where
  "CreatePutOperations keys batched_slices = map (\<lambda>(k, s). new_PutOperation k s) (zip keys batched_slices)"

section \<open>Starting\<close>

definition start_put_response ::
    "client_env \<Rightarrow> ReplicateConfig \<Rightarrow> Replica list expected \<Rightarrow> PutOperation \<Rightarrow> PutOperation" where
  "start_put_response E config r op =
     (let op = InitializeRequestedReplicas config op
      in case r of
           Inl e \<Rightarrow> SetTerminalError e MASTER_FAILED ''Master failed to start put operation'' op
         | Inr rs \<Rightarrow>
             (let op = RecordAllocatedReplicas (op\<lparr>op_replicas := rs\<rparr>)
              in if \<not> HasExpectedReplicaAllocation (ce_write_mode E config) config (op_transfer_summary op)
                 then SetTerminalError NO_AVAILABLE_HANDLE MASTER_FAILED
                        ''Allocated replicas do not satisfy requested replica policy'' op
                 else op))"

definition start_upsert_response :: "client_env \<Rightarrow> Replica list expected \<Rightarrow> PutOperation \<Rightarrow> PutOperation" where
  "start_upsert_response E r op =
     (case r of
        Inl e \<Rightarrow> SetError (ce_toString E) e ''Master failed to start upsert operation'' op
      | Inr rs \<Rightarrow> op\<lparr>op_replicas := rs\<rparr>)"

definition start_batch ::
    "client_env \<Rightarrow> (string list \<Rightarrow> ccall) \<Rightarrow> string \<Rightarrow> (Replica list expected \<Rightarrow> PutOperation \<Rightarrow> PutOperation) \<Rightarrow>
     ReplicateConfig \<Rightarrow> PutOperation list \<Rightarrow> ccalls \<Rightarrow> PutOperation list \<times> ccalls" where
  "start_batch E call mismatch respond config ops h =
     (let keys = map op_key ops;
          h = call keys # remove_hot E keys h;
          responses = ce_start_batch E h keys (map (map snd \<circ> op_slices) ops) config
      in (if length responses \<noteq> length ops then map (SetError (ce_toString E) RPC_FAIL mismatch) ops
          else map2 respond responses ops, h))"

definition StartBatchPut :: "client_env \<Rightarrow> ReplicateConfig \<Rightarrow> PutOperation list \<Rightarrow> ccalls \<Rightarrow> PutOperation list \<times> ccalls" where
  "StartBatchPut E config =
     start_batch E C_BatchPutStart ''BatchPutStart response size mismatch'' (start_put_response E config) config"

definition StartBatchUpsert :: "client_env \<Rightarrow> ReplicateConfig \<Rightarrow> PutOperation list \<Rightarrow> ccalls \<Rightarrow> PutOperation list \<times> ccalls" where
  "StartBatchUpsert E config =
     start_batch E C_BatchUpsertStart ''BatchUpsertStart response size mismatch'' (start_upsert_response E) config"

section \<open>Transferring\<close>

text \<open>A loop over the operations that threads the log.\<close>

fun for_ops :: "('a \<Rightarrow> ccalls \<Rightarrow> 'b \<times> ccalls) \<Rightarrow> 'a list \<Rightarrow> ccalls \<Rightarrow> 'b list \<times> ccalls" where
  "for_ops f [] h = ([], h)"
| "for_ops f (op # ops) h = (let (op, h) = f op h; (ops, h) = for_ops f ops h in (op # ops, h))"

text \<open>The replicas from number \<open>i\<close> on.\<close>

fun submit_replicas :: "client_env \<Rightarrow> nat \<Rightarrow> Replica list \<Rightarrow> PutOperation \<Rightarrow> ccalls \<Rightarrow> PutOperation \<times> ccalls" where
  "submit_replicas E i [] op h = (op, h)"
| "submit_replicas E i (r # rs) op h =
     (case transfer_type r of
        None \<Rightarrow> submit_replicas E (i + 1) rs op h
      | Some t \<Rightarrow>
          (let res = ce_submit E h True [r] [op_slices op]; h = C_submit True [r] # h
           in case res of
                None \<Rightarrow>
                  submit_replicas E (i + 1) rs
                    (AppendFailureContext (''Failed to submit transfer for replica '' @ show_nat i)
                      (op\<lparr>op_transfer_summary := RecordFailure t TRANSFER_FAIL (op_transfer_summary op)\<rparr>)) h
              | Some f \<Rightarrow>
                  submit_replicas E (i + 1) rs
                    (op\<lparr>op_pending_transfers := op_pending_transfers op @ [(t, f)]\<rparr>) h))"

definition submit_op :: "client_env \<Rightarrow> PutOperation \<Rightarrow> ccalls \<Rightarrow> PutOperation \<times> ccalls" where
  "submit_op E op h =
     (if IsResolved op then (op, h)
      else if op_replicas op = []
      then (SetTerminalError INTERNAL_ERROR MASTER_FAILED ''No replicas available for transfer'' op, h)
      else submit_replicas E 0 (op_replicas op) op
             (put_disk_replica E (op_key op) (op_slices op) (op_replicas op) h))"

definition SubmitTransfers :: "client_env \<Rightarrow> PutOperation list \<Rightarrow> ccalls \<Rightarrow> PutOperation list \<times> ccalls" where
  "SubmitTransfers E ops h =
     (if \<not> ce_transfer_submitter E
      then (map (SetTerminalError INVALID_PARAMS TRANSFER_FAILED ''TransferSubmitter not initialized'') ops, h)
      else for_ops (submit_op E) ops h)"

fun wait_transfers :: "client_env \<Rightarrow> nat \<Rightarrow> (ReplicaType \<times> nat) list \<Rightarrow> PutOperation \<Rightarrow> ccalls \<Rightarrow> PutOperation \<times> ccalls" where
  "wait_transfers E i [] op h = (op, h)"
| "wait_transfers E i ((t, f) # ts) op h =
     (let transfer_result = ce_future E h f; h = C_wait f # h
      in wait_transfers E (i + 1) ts
           (if transfer_result \<noteq> EC_OK
            then AppendFailureContext (''Transfer '' @ show_nat i @ '' failed'')
                   (op\<lparr>op_transfer_summary := RecordFailure t transfer_result (op_transfer_summary op)\<rparr>)
            else op\<lparr>op_transfer_summary := RecordSuccess t (op_transfer_summary op)\<rparr>) h)"

definition wait_op :: "client_env \<Rightarrow> PutOperation \<Rightarrow> ccalls \<Rightarrow> PutOperation \<times> ccalls" where
  "wait_op E op h = (if IsResolved op then (op, h) else wait_transfers E 0 (op_pending_transfers op) op h)"

definition WaitForTransfers :: "client_env \<Rightarrow> PutOperation list \<Rightarrow> ccalls \<Rightarrow> PutOperation list \<times> ccalls" where
  "WaitForTransfers E ops h = for_ops (wait_op E) ops h"

section \<open>Finalising a batch of puts\<close>

text \<open>
  What the first loop notes for an operation: the operation, its finalize actions (whether to end,
  and the replica type), whether it should succeed, its error, and the error of an action of a
  type that has no group.
\<close>

record finalize_entry =
  fe_op :: PutOperation
  fe_actions :: "(bool \<times> ReplicaType) list"
  fe_should_succeed :: bool
  fe_terminal_error :: ErrorCode
  fe_rpc_error :: "ErrorCode option"

definition add_finalize_action :: "ReplicaType option \<Rightarrow> bool \<Rightarrow> finalize_entry \<Rightarrow> finalize_entry" where
  "add_finalize_action replica_type is_end e =
     (case replica_type of
        None \<Rightarrow> e
      | Some t \<Rightarrow> if t = DISK then e\<lparr>fe_rpc_error := Some INVALID_PARAMS\<rparr>
                  else e\<lparr>fe_actions := fe_actions e @ [(is_end, t)]\<rparr>)"

definition finalize_entry_of :: "client_env \<Rightarrow> PutOperation \<Rightarrow> finalize_entry" where
  "finalize_entry_of E op =
     (let e = \<lparr>fe_op = op, fe_actions = [], fe_should_succeed = False, fe_terminal_error = EC_OK, fe_rpc_error = None\<rparr>
      in if IsResolved op
      then (if \<not> IsSuccessful op \<and> op_replicas op \<noteq> []
            then add_finalize_action (Some ALL_REPLICAS) False
                   (e\<lparr>fe_terminal_error := (case op_result op of Inr u \<Rightarrow> INTERNAL_ERROR | Inl x \<Rightarrow> x)\<rparr>)
            else e)
      else if op_replicas op = []
      then e\<lparr>fe_op := SetTerminalError INTERNAL_ERROR MASTER_FAILED ''Operation has no replicas to finalize'' op\<rparr>
      else let config = ToReplicateConfig E op;
               d = DetermineFinalizeDecision (ce_write_mode E config) config (op_transfer_summary op)
           in add_finalize_action (revoke_type d) False (add_finalize_action (end_type d) True
                (e\<lparr>fe_should_succeed := fd_success d, fe_terminal_error := fd_error d\<rparr>)))"

text \<open>The counts of open actions and the errors of the calls, by the index of the operation.\<close>

record finalize_state =
  fs_pending :: "nat list"
  fs_rpc_errors :: "ErrorCode option list"
  fs_calls :: ccalls

definition complete_finalize_action :: "nat \<Rightarrow> finalize_state \<Rightarrow> finalize_state" where
  "complete_finalize_action i s =
     (if fs_pending s ! i > 0 then s\<lparr>fs_pending := (fs_pending s)[i := fs_pending s ! i - 1]\<rparr> else s)"

definition finalize_response :: "nat \<times> unit expected \<Rightarrow> finalize_state \<Rightarrow> finalize_state" where
  "finalize_response = (\<lambda>(i, r) s.
     complete_finalize_action i
       (case r of Inl e \<Rightarrow> s\<lparr>fs_rpc_errors := (fs_rpc_errors s)[i := Some e]\<rparr> | Inr u \<Rightarrow> s))"

text \<open>The indices of a group, in the order in which the first loop filled it.\<close>

definition finalize_group :: "bool \<times> ReplicaType \<Rightarrow> finalize_entry list \<Rightarrow> nat list" where
  "finalize_group g es = filter (\<lambda>i. g \<in> set (fe_actions (es ! i))) [0..<length es]"

definition process_group :: "client_env \<Rightarrow> finalize_entry list \<Rightarrow> bool \<times> ReplicaType \<Rightarrow> finalize_state \<Rightarrow> finalize_state" where
  "process_group E es g s =
     (let indices = finalize_group g es; keys = map (\<lambda>i. op_key (fe_op (es ! i))) indices
      in if keys = [] then s
      else let h = (if fst g then C_BatchPutEnd keys (snd g) else C_BatchPutRevoke keys (snd g)) # fs_calls s;
               responses = ce_settle_batch E h keys (snd g);
               s = s\<lparr>fs_calls := h\<rparr>
      in if length responses \<noteq> length keys
         then fold (\<lambda>i. finalize_response (i, Inl RPC_FAIL)) indices s
         else fold finalize_response (zip indices responses) s)"

definition finalize_groups :: "(bool \<times> ReplicaType) list" where
  "finalize_groups = [(True, ALL_REPLICAS), (True, MEMORY), (True, NOF_SSD),
     (False, ALL_REPLICAS), (False, MEMORY), (False, NOF_SSD)]"

definition append_finalize_error_context ::
    "client_env \<Rightarrow> ErrorCode option \<Rightarrow> nat \<Rightarrow> PutOperation \<Rightarrow> PutOperation" where
  "append_finalize_error_context E rpc_error pending op =
     (let op = (case rpc_error of
                  None \<Rightarrow> op
                | Some e \<Rightarrow> AppendFailureContext (''Batch finalization RPC failed: '' @ ce_toString E e) op)
      in if pending \<noteq> 0 then AppendFailureContext ''Operation has unfinished finalize actions'' op else op)"

definition context_or :: "string \<Rightarrow> PutOperation \<Rightarrow> string" where
  "context_or d op = (case op_failure_context op of None \<Rightarrow> d | Some c \<Rightarrow> c)"

definition finish_put :: "client_env \<Rightarrow> finalize_entry \<Rightarrow> ErrorCode option \<Rightarrow> nat \<Rightarrow> PutOperation" where
  "finish_put E e rpc_error pending =
     (let op = fe_op e
      in if IsResolved op
      then (if \<not> IsSuccessful op then append_finalize_error_context E rpc_error pending op else op)
      else if rpc_error \<noteq> None \<or> pending \<noteq> 0
      then (if \<not> fe_should_succeed e \<and> fe_terminal_error e \<noteq> EC_OK
            then let op = append_finalize_error_context E rpc_error pending op
                 in SetTerminalError (fe_terminal_error e) TRANSFER_FAILED
                      (context_or ''Replica transfer failed before finalize'' op) op
            else case rpc_error of
              Some x \<Rightarrow> SetTerminalError x FINALIZE_FAILED ''Batch finalization RPC failed'' op
            | None \<Rightarrow> SetTerminalError INTERNAL_ERROR FINALIZE_FAILED ''Operation has unfinished finalize actions'' op)
      else if fe_should_succeed e then SetSuccess op
      else SetTerminalError (fe_terminal_error e) TRANSFER_FAILED
             (context_or ''Replica transfer failed before finalize'' op) op)"

definition run_groups :: "client_env \<Rightarrow> finalize_entry list \<Rightarrow> ccalls \<Rightarrow> finalize_state" where
  "run_groups E es h =
     fold (process_group E es) finalize_groups
       \<lparr>fs_pending = map (length \<circ> fe_actions) es, fs_rpc_errors = map fe_rpc_error es, fs_calls = h\<rparr>"

definition FinalizeBatchPut :: "client_env \<Rightarrow> PutOperation list \<Rightarrow> ccalls \<Rightarrow> PutOperation list \<times> ccalls" where
  "FinalizeBatchPut E ops h =
     (let es = map (finalize_entry_of E) ops; s = run_groups E es h
      in (map (\<lambda>i. finish_put E (es ! i) (fs_rpc_errors s ! i) (fs_pending s ! i)) [0..<length es], fs_calls s))"

definition CollectResults :: "PutOperation list \<Rightarrow> unit expected list" where
  "CollectResults ops = map (\<lambda>op. if op_result op = Inl OBJECT_ALREADY_EXISTS then ok else op_result op) ops"

section \<open>Finalising a batch of upserts\<close>

definition to_end :: "PutOperation \<Rightarrow> bool" where
  "to_end op = (\<not> IsResolved op \<and> op_replicas op \<noteq> [] \<and> op_pending_transfers op \<noteq> [])"

definition to_revoke :: "PutOperation \<Rightarrow> bool" where
  "to_revoke op = (\<not> to_end op \<and> op_state op \<noteq> PENDING \<and> op_replicas op \<noteq> [])"

definition indices :: "(PutOperation \<Rightarrow> bool) \<Rightarrow> PutOperation list \<Rightarrow> nat list" where
  "indices P ops = filter (\<lambda>i. P (ops ! i)) [0..<length ops]"

definition apply_at :: "('r \<Rightarrow> PutOperation \<Rightarrow> PutOperation) \<Rightarrow> nat \<times> 'r \<Rightarrow> PutOperation list \<Rightarrow> PutOperation list" where
  "apply_at f = (\<lambda>(i, r) ops. ops[i := f r (ops ! i)])"

definition end_response :: "client_env \<Rightarrow> unit expected \<Rightarrow> PutOperation \<Rightarrow> PutOperation" where
  "end_response E r op =
     (case r of Inl e \<Rightarrow> SetError (ce_toString E) e ''BatchUpsertEnd failed'' op | Inr u \<Rightarrow> SetSuccess op)"

definition revoke_response :: "unit expected \<Rightarrow> PutOperation \<Rightarrow> PutOperation" where
  "revoke_response r op =
     (case r of
        Inl e \<Rightarrow> op\<lparr>op_failure_context :=
                    Some ((case op_failure_context op of None \<Rightarrow> ''unknown error'' | Some c \<Rightarrow> c) @ ''; revoke also failed'')\<rparr>
      | Inr u \<Rightarrow> op)"

text \<open>
  Either call of the finalisation: the keys at the indices \<open>is\<close>, and what becomes of the operations
  there.  The second result has the keys whose answer was good.
\<close>

definition settle_upserts ::
    "client_env \<Rightarrow> (string list \<Rightarrow> ccall) \<Rightarrow> string \<Rightarrow> (unit expected \<Rightarrow> PutOperation \<Rightarrow> PutOperation) \<Rightarrow> nat list \<Rightarrow>
     PutOperation list \<Rightarrow> ccalls \<Rightarrow> PutOperation list \<times> string list \<times> ccalls" where
  "settle_upserts E call mismatch respond is ops h =
     (let keys = map (\<lambda>i. op_key (ops ! i)) is
      in if keys = [] then (ops, [], h)
      else let h = call keys # h; responses = ce_settle_batch E h keys ALL_REPLICAS
      in if length responses \<noteq> length keys
         then (fold (apply_at (\<lambda>u. SetError (ce_toString E) RPC_FAIL mismatch)) (map (\<lambda>i. (i, ())) is) ops, [], h)
         else (fold (apply_at respond) (zip is responses) ops,
               map fst (filter (\<lambda>(k, r). r = ok) (zip keys responses)), h))"

definition resolve_rest :: "client_env \<Rightarrow> PutOperation \<Rightarrow> PutOperation" where
  "resolve_rest E op =
     (if \<not> IsResolved op then SetError (ce_toString E) INTERNAL_ERROR ''Operation not resolved after finalization'' op
      else op)"

definition FinalizeBatchUpsert :: "client_env \<Rightarrow> PutOperation list \<Rightarrow> ccalls \<Rightarrow> PutOperation list \<times> ccalls" where
  "FinalizeBatchUpsert E ops h =
     (let successful = indices to_end ops; failed = indices to_revoke ops;
          (ops, finalized_keys, h) =
            settle_upserts E C_BatchUpsertEnd ''BatchUpsertEnd response size mismatch'' (end_response E) successful ops h;
          h = (if finalized_keys \<noteq> [] then remove_hot E finalized_keys h else h);
          (ops, revoked_keys, h) =
            settle_upserts E C_BatchUpsertRevoke ''BatchUpsertRevoke response size mismatch'' revoke_response failed ops h
      in (map (resolve_rest E) ops, h))"

definition BatchUpsert ::
    "client_env \<Rightarrow> ReplicateConfig \<Rightarrow> string list \<Rightarrow> slice list list \<Rightarrow> ccalls \<Rightarrow> unit expected list \<times> ccalls" where
  "BatchUpsert E config keys batched_slices h =
     (let client_cfg = client_config E config
      in if prefer_alloc_in_same_node client_cfg then (replicate (length keys) (Inl INVALID_PARAMS), h)
      else let ops = CreatePutOperations keys batched_slices;
               (ops, h) = StartBatchUpsert E client_cfg ops h;
               (ops, h) = SubmitTransfers E ops h;
               (ops, h) = WaitForTransfers E ops h;
               (ops, h) = FinalizeBatchUpsert E ops h
           in (CollectResults ops, h))"

section \<open>Batches on one node\<close>

text \<open>
  The operations are grouped by the endpoint of their first replica, in the order of first use;
  the code iterates over an unordered map.  A group has the key and slices of its first member, and
  the replicas and slices of all its members.
\<close>

record seg_group =
  sg_key :: string
  sg_slices :: "slice list"
  sg_replicas :: "Replica list"
  sg_batched_slices :: "slice list list"

fun add_to_group :: "string \<Rightarrow> Replica \<Rightarrow> PutOperation \<Rightarrow> (string \<times> seg_group) list \<Rightarrow> (string \<times> seg_group) list" where
  "add_to_group seg r op [] = [(seg, \<lparr>sg_key = op_key op, sg_slices = op_slices op,
     sg_replicas = [r], sg_batched_slices = [op_slices op]\<rparr>)]"
| "add_to_group seg r op ((s, g) # gs) =
     (if s = seg
      then (s, g\<lparr>sg_replicas := sg_replicas g @ [r], sg_batched_slices := sg_batched_slices g @ [op_slices op]\<rparr>) # gs
      else (s, g) # add_to_group seg r op gs)"

fun group_ops :: "client_env \<Rightarrow> PutOperation list \<Rightarrow> (string \<times> seg_group) list \<Rightarrow> PutOperation list \<times> (string \<times> seg_group) list" where
  "group_ops E [] gs = ([], gs)"
| "group_ops E (op # ops) gs =
     (let skip = (\<lambda>op. let (ops, gs) = group_ops E ops gs in (op # ops, gs))
      in if IsResolved op then skip op
      else case op_replicas op of
        [] \<Rightarrow> skip (SetError (ce_toString E) INTERNAL_ERROR ''No replicas available for transfer'' op)
      | r # rs \<Rightarrow>
          if \<not> is_memory_replica r then skip (SetError (ce_toString E) INVALID_PARAMS ''only memory is supported.'' op)
          else if rep_size r = 0 then skip (SetError (ce_toString E) INVALID_PARAMS ''buffer size is 0.'' op)
          else let (ops, gs) = group_ops E ops (add_to_group (rep_endpoint r) r op gs) in (op # ops, gs))"

text \<open>The merged operation of a group, as far as the transfers are concerned.\<close>

definition submit_group :: "client_env \<Rightarrow> string \<times> seg_group \<Rightarrow> ccalls \<Rightarrow> (string \<times> PutOperation) \<times> ccalls" where
  "submit_group E = (\<lambda>(seg, g) h.
     let m = (new_PutOperation (sg_key g) (sg_slices g))\<lparr>op_replicas := sg_replicas g,
               op_transfer_summary := new_summary\<lparr>allocated_memory_replicas := 1\<rparr>\<rparr>;
         res = ce_submit E h True (sg_replicas g) (sg_batched_slices g);
         h = C_submit True (sg_replicas g) # h
     in case res of
          None \<Rightarrow> ((seg, m\<lparr>op_transfer_summary := RecordFailure MEMORY TRANSFER_FAIL (op_transfer_summary m),
                       op_failure_context := Some ''Failed to submit batch transfer''\<rparr>), h)
        | Some f \<Rightarrow> ((seg, m\<lparr>op_pending_transfers := [(MEMORY, f)]\<rparr>), h))"

definition wait_group :: "client_env \<Rightarrow> string \<times> PutOperation \<Rightarrow> ccalls \<Rightarrow> (string \<times> PutOperation) \<times> ccalls" where
  "wait_group E = (\<lambda>(seg, m) h. let (m, h) = wait_op E m h in ((seg, m), h))"

definition take_group_result :: "(string \<times> PutOperation) list \<Rightarrow> PutOperation \<Rightarrow> PutOperation" where
  "take_group_result ms op =
     (if IsResolved op then op
      else case map_of ms (rep_endpoint (hd (op_replicas op))) of
        None \<Rightarrow> op
      | Some m \<Rightarrow>
          (let s = op_transfer_summary m
           in op\<lparr>op_transfer_summary := (op_transfer_summary op)\<lparr>
                   successful_memory_transfers := (if successful_memory_transfers s > 0 then 1 else 0),
                   failed_memory_transfers := (if failed_memory_transfers s > 0 then 1 else 0),
                   first_error_code := first_error_code s\<rparr>,
                 op_failure_context := op_failure_context m\<rparr>))"

text \<open>The submitter is used without a test; a missing one is \<open>None\<close>.\<close>

definition BatchPutWhenPreferSameNode ::
    "client_env \<Rightarrow> PutOperation list \<Rightarrow> ccalls \<Rightarrow> (unit expected list \<times> ccalls) option" where
  "BatchPutWhenPreferSameNode E ops h =
     (let (ops, gs) = group_ops E ops []
      in if gs \<noteq> [] \<and> \<not> ce_transfer_submitter E then None
      else let (ms, h) = for_ops (submit_group E) gs h;
               (ms, h) = for_ops (wait_group E) ms h;
               (ops, h) = FinalizeBatchPut E (map (take_group_result ms) ops) h
           in Some (CollectResults ops, h))"

definition BatchPut ::
    "client_env \<Rightarrow> ReplicateConfig \<Rightarrow> string list \<Rightarrow> slice list list \<Rightarrow> ccalls \<Rightarrow> (unit expected list \<times> ccalls) option" where
  "BatchPut E config keys batched_slices h =
     (let client_cfg = put_config E config; ops = CreatePutOperations keys batched_slices
      in if prefer_alloc_in_same_node client_cfg
      then (if nof_replica_num client_cfg > 0 \<or> replica_num client_cfg \<noteq> 1
            then Some (replicate (length keys) (Inl INVALID_PARAMS), h)
            else let (ops, h) = StartBatchPut E client_cfg ops h in BatchPutWhenPreferSameNode E ops h)
      else let (ops, h) = StartBatchPut E client_cfg ops h;
               (ops, h) = SubmitTransfers E ops h;
               (ops, h) = WaitForTransfers E ops h;
               (ops, h) = FinalizeBatchPut E ops h
           in Some (CollectResults ops, h))"

end
