(* ===== verification/Client_Put_Props.thy ===== *)
theory Client_Put_Props
  imports Client_Batch
begin

text \<open>
  Correctness of writing objects: the commit decision follows the outcomes of the transfers, and
  what the outcome of a batch of upserts depends on.
\<close>

section \<open>The summary counts the outcomes\<close>

definition record_outcome :: "ReplicaType \<times> ErrorCode \<Rightarrow> ReplicaTransferSummary \<Rightarrow> ReplicaTransferSummary" where
  "record_outcome = (\<lambda>(t, e) s. if e \<noteq> EC_OK then RecordFailure t e s else RecordSuccess t s)"

definition summarise :: "Replica list \<Rightarrow> (ReplicaType \<times> ErrorCode) list \<Rightarrow> ReplicaTransferSummary" where
  "summarise reps outcomes = fold record_outcome outcomes (fold RecordAllocatedReplica reps new_summary)"

definition outcomes_of :: "ReplicaType \<Rightarrow> bool \<Rightarrow> (ReplicaType \<times> ErrorCode) list \<Rightarrow> nat" where
  "outcomes_of t good os = length (filter (\<lambda>(u, e). u = t \<and> (e = EC_OK) = good) os)"

lemma record_outcome_fields:
  "allocated_memory_replicas (record_outcome (t, e) s) = allocated_memory_replicas s"
  "allocated_nof_replicas (record_outcome (t, e) s) = allocated_nof_replicas s"
  "successful_memory_transfers (record_outcome (t, e) s) =
     successful_memory_transfers s + (if t = MEMORY \<and> e = EC_OK then 1 else 0)"
  "successful_nof_transfers (record_outcome (t, e) s) =
     successful_nof_transfers s + (if t = NOF_SSD \<and> e = EC_OK then 1 else 0)"
  "failed_memory_transfers (record_outcome (t, e) s) =
     failed_memory_transfers s + (if t = MEMORY \<and> e \<noteq> EC_OK then 1 else 0)"
  "failed_nof_transfers (record_outcome (t, e) s) =
     failed_nof_transfers s + (if t = NOF_SSD \<and> e \<noteq> EC_OK then 1 else 0)"
  by (cases t; simp add: record_outcome_def RecordFailure_def RecordSuccess_def Let_def)+

lemma record_outcomes_counts:
  "allocated_memory_replicas (fold record_outcome os s) = allocated_memory_replicas s \<and>
   allocated_nof_replicas (fold record_outcome os s) = allocated_nof_replicas s \<and>
   successful_memory_transfers (fold record_outcome os s) = successful_memory_transfers s + outcomes_of MEMORY True os \<and>
   successful_nof_transfers (fold record_outcome os s) = successful_nof_transfers s + outcomes_of NOF_SSD True os \<and>
   failed_memory_transfers (fold record_outcome os s) = failed_memory_transfers s + outcomes_of MEMORY False os \<and>
   failed_nof_transfers (fold record_outcome os s) = failed_nof_transfers s + outcomes_of NOF_SSD False os"
proof (induction os arbitrary: s)
  case (Cons p os)
  obtain t e where p: "p = (t, e)" by (cases p)
  show ?case unfolding p fold_simps comp_apply by (auto simp: Cons.IH record_outcome_fields outcomes_of_def)
qed (simp add: outcomes_of_def)

lemma allocated_simps:
  "rep_kind r = Kind_memory \<Longrightarrow>
     RecordAllocatedReplica r s = s\<lparr>allocated_memory_replicas := allocated_memory_replicas s + 1\<rparr> \<and> transfer_type r = Some MEMORY"
  "rep_kind r = Kind_nof \<Longrightarrow>
     RecordAllocatedReplica r s = s\<lparr>allocated_nof_replicas := allocated_nof_replicas s + 1\<rparr> \<and> transfer_type r = Some NOF_SSD"
  "rep_kind r \<in> {Kind_disk, Kind_local_disk} \<Longrightarrow> RecordAllocatedReplica r s = s \<and> transfer_type r = None"
  by (auto simp: RecordAllocatedReplica_def transfer_type_def is_memory_replica_def is_nof_replica_def)

lemma record_allocated_counts:
  "allocated_memory_replicas (fold RecordAllocatedReplica rs s) =
     allocated_memory_replicas s + length (filter (\<lambda>t. t = MEMORY) (List.map_filter transfer_type rs)) \<and>
   allocated_nof_replicas (fold RecordAllocatedReplica rs s) =
     allocated_nof_replicas s + length (filter (\<lambda>t. t = NOF_SSD) (List.map_filter transfer_type rs)) \<and>
   successful_memory_transfers (fold RecordAllocatedReplica rs s) = successful_memory_transfers s \<and>
   successful_nof_transfers (fold RecordAllocatedReplica rs s) = successful_nof_transfers s \<and>
   failed_memory_transfers (fold RecordAllocatedReplica rs s) = failed_memory_transfers s \<and>
   failed_nof_transfers (fold RecordAllocatedReplica rs s) = failed_nof_transfers s"
proof (induction rs arbitrary: s)
  case (Cons r rs)
  show ?case
    by (cases "rep_kind r") (simp_all add: Cons.IH allocated_simps map_filter_simps)
qed (simp add: map_filter_simps)

lemma outcomes_split: "length (filter ((\<lambda>u. u = t) \<circ> fst) os) = outcomes_of t True os + outcomes_of t False os"
  by (induction os) (auto simp: outcomes_of_def)

lemma outcomes_of_zero: "outcomes_of t good os = 0 \<longleftrightarrow> (\<forall>(u, e) \<in> set os. u = t \<longrightarrow> (e = EC_OK) \<noteq> good)"
  by (auto simp: outcomes_of_def filter_empty_conv)

text \<open>The counters of a summary whose outcomes belong to the allocated replicas.\<close>

lemma summarise_counts:
  assumes "map fst os = List.map_filter transfer_type reps"
  shows "allocated_memory_replicas (summarise reps os) = outcomes_of MEMORY True os + outcomes_of MEMORY False os"
    "allocated_nof_replicas (summarise reps os) = outcomes_of NOF_SSD True os + outcomes_of NOF_SSD False os"
    "successful_memory_transfers (summarise reps os) = outcomes_of MEMORY True os"
    "successful_nof_transfers (summarise reps os) = outcomes_of NOF_SSD True os"
    "failed_memory_transfers (summarise reps os) = outcomes_of MEMORY False os"
    "failed_nof_transfers (summarise reps os) = outcomes_of NOF_SSD False os"
  by (simp_all add: summarise_def record_outcomes_counts record_allocated_counts new_summary_def
      assms [symmetric] outcomes_split)

lemma transfer_types: "t \<in> set (List.map_filter transfer_type reps) \<Longrightarrow> t \<in> {MEMORY, NOF_SSD}"
  by (auto simp: List.map_filter_def transfer_type_def split: if_splits)

section \<open>The commit policy\<close>

text \<open>
  The types that a put is to commit, from the outcomes of its transfers: in the flexible mode those
  with a successful transfer; otherwise both or none, depending on whether the allocation is the
  requested one and every transfer succeeded.
\<close>

definition allocation_met :: "ReplicateConfig \<Rightarrow> (ReplicaType \<times> ErrorCode) list \<Rightarrow> bool" where
  "allocation_met config os =
     (let n = (\<lambda>t. length (filter (\<lambda>u. u = t) (map fst os)))
      in if nof_replica_num config = 0 then n MEMORY > 0
         else n MEMORY = replica_num config \<and> n NOF_SSD = nof_replica_num config)"

definition commit_policy :: "ReplicaWriteMode \<Rightarrow> ReplicateConfig \<Rightarrow> (ReplicaType \<times> ErrorCode) list \<Rightarrow> ReplicaType set" where
  "commit_policy mode config os =
     (if mode = FLEXIBLE_DUAL_REPLICA then set (map fst (filter (\<lambda>(t, e). e = EC_OK) os))
      else if allocation_met config os \<and> list_all (\<lambda>(t, e). e = EC_OK) os then {MEMORY, NOF_SSD} else {})"

text \<open>The types that a settling call for a type is about.\<close>

definition parts :: "ReplicaType option \<Rightarrow> ReplicaType set" where
  "parts t = (case t of None \<Rightarrow> {} | Some u \<Rightarrow> if u = ALL_REPLICAS then {MEMORY, NOF_SSD} else {u})"

lemma outcomes_pos: "0 < outcomes_of t True os \<longleftrightarrow> (t, EC_OK) \<in> set os"
  by (auto simp: outcomes_of_def filter_empty_conv simp flip: length_greater_0_conv)

lemma flexible_policy:
  assumes "set (map fst os) \<subseteq> {MEMORY, NOF_SSD}"
  shows "commit_policy FLEXIBLE_DUAL_REPLICA config os =
    (if (MEMORY, EC_OK) \<in> set os then {MEMORY} else {}) \<union> (if (NOF_SSD, EC_OK) \<in> set os then {NOF_SSD} else {})"
  using assms by (force simp: commit_policy_def)

lemma all_succeeded:
  assumes "set (map fst os) \<subseteq> {MEMORY, NOF_SSD}"
  shows "list_all (\<lambda>(t, e). e = EC_OK) os \<longleftrightarrow> outcomes_of MEMORY False os = 0 \<and> outcomes_of NOF_SSD False os = 0"
  using assms by (force simp: outcomes_of_zero list_all_iff)

lemma allocation_met_counts:
  "allocation_met config os = (if nof_replica_num config = 0
     then outcomes_of MEMORY True os + outcomes_of MEMORY False os > 0
     else outcomes_of MEMORY True os + outcomes_of MEMORY False os = replica_num config \<and>
          outcomes_of NOF_SSD True os + outcomes_of NOF_SSD False os = nof_replica_num config)"
  by (simp only: allocation_met_def Let_def filter_map length_map outcomes_split)

text \<open>The decision on the counters implements the policy on the outcomes.\<close>

lemma decision_refines_policy:
  fixes mode config
  assumes os: "map fst os = List.map_filter transfer_type reps"
  defines "d \<equiv> DetermineFinalizeDecision mode config (summarise reps os)"
  shows "parts (end_type d) = commit_policy mode config os \<and>
    parts (revoke_type d) = {MEMORY, NOF_SSD} - commit_policy mode config os \<and>
    (fd_success d \<longleftrightarrow> commit_policy mode config os \<noteq> {}) \<and> (fd_error d = EC_OK \<longleftrightarrow> fd_success d)"
proof -
  have types: "set (map fst os) \<subseteq> {MEMORY, NOF_SSD}" using transfer_types unfolding os by blast
  note counts = summarise_counts [OF os]
  show ?thesis
  proof (cases "mode = FLEXIBLE_DUAL_REPLICA")
    case True
    then show ?thesis
      unfolding d_def True flexible_policy [OF types]
      by (simp add: DetermineFinalizeDecision_def Let_def counts outcomes_pos parts_def insert_Diff_if)
  next
    case False
    then show ?thesis
      unfolding d_def commit_policy_def all_succeeded [OF types] allocation_met_counts
      by (auto simp: DetermineFinalizeDecision_def HasExpectedReplicaAllocation_def Let_def counts parts_def)
  qed
qed

text \<open>The outcomes of the transfers of a put.\<close>

fun write_outcomes :: "client_env \<Rightarrow> slice list \<Rightarrow> Replica list \<Rightarrow> ccalls \<Rightarrow> (ReplicaType \<times> ErrorCode) list \<times> ccalls" where
  "write_outcomes E slices [] h = ([], h)"
| "write_outcomes E slices (r # rs) h =
     (case transfer_type r of
        None \<Rightarrow> write_outcomes E slices rs h
      | Some t \<Rightarrow> (let (e, h) = TransferWrite E r slices h; (os, h) = write_outcomes E slices rs h in ((t, e) # os, h)))"

lemma write_outcomes_types: "map fst (fst (write_outcomes E slices reps h)) = List.map_filter transfer_type reps"
  by (induction reps arbitrary: h) (simp_all add: map_filter_simps case_prod_unfold Let_def split: option.split)

lemma write_replicas_outcomes:
  "write_replicas E slices reps s h =
     (fold record_outcome (fst (write_outcomes E slices reps h)) s, snd (write_outcomes E slices reps h))"
  by (induction reps arbitrary: s h)
    (simp_all add: case_prod_unfold Let_def record_outcome_def split: option.split)

text \<open>The calls of a put once the policy is known, as an abstract specification.\<close>

definition settles :: "client_env \<Rightarrow> string \<Rightarrow> ReplicaType set \<Rightarrow> ccalls \<Rightarrow> unit expected \<times> ccalls \<Rightarrow> bool" where
  "settles E key C h out \<longleftrightarrow>
     (if C = {} then snd out = C_PutRevoke key ALL_REPLICAS # h \<and> fst out \<noteq> ok
      else \<exists>t. parts (Some t) = C \<and>
        (let h1 = C_PutEnd key t # h
         in case ce_settle E h1 key t of
              Inl e \<Rightarrow> out = (Inl e, h1)
            | Inr u \<Rightarrow>
                if C = {MEMORY, NOF_SSD} then out = (ok, h1)
                else \<exists>v. parts (Some v) = {MEMORY, NOF_SSD} - C \<and> snd out = C_PutRevoke key v # h1 \<and>
                       fst out = ce_settle E (snd out) key v))"

lemma parts_eq: "parts t = {} \<longleftrightarrow> t = None" "parts t = {MEMORY, NOF_SSD} \<longleftrightarrow> t = Some ALL_REPLICAS"
  by (auto simp: parts_def doubleton_eq_iff split: option.splits if_splits)

lemma settle_put_settles:
  assumes e: "parts (end_type d) = C" and r: "parts (revoke_type d) = {MEMORY, NOF_SSD} - C"
    and f: "fd_success d \<longleftrightarrow> C \<noteq> {}"
  shows "settles E key C h (settle_put E key d h)"
proof (cases "end_type d")
  case None
  with e have C: "C = {}" by (simp add: parts_def)
  with r have "revoke_type d = Some ALL_REPLICAS" by (simp add: parts_eq)
  with None C f show ?thesis by (simp add: settles_def settle_put_def Let_def split: sum.split)
next
  case (Some t)
  have C: "C \<noteq> {}" "parts (Some t) = C" using e Some parts_eq(1) [of "Some t"] by auto
  let ?h = "C_PutEnd key t # h"
  have "settle_put E key d h = (Inl x, ?h)" if "ce_settle E ?h key t = Inl x" for x
    using Some that by (simp add: settle_put_def Let_def)
  moreover have "settle_put E key d h = (ok, ?h)" if "ce_settle E ?h key t = ok" "C = {MEMORY, NOF_SSD}"
  proof -
    have "revoke_type d = None" using r that(2) by (simp add: parts_eq)
    with Some that f C(1) show ?thesis by (simp add: settle_put_def Let_def)
  qed
  moreover have "\<exists>v. parts (Some v) = {MEMORY, NOF_SSD} - C \<and> snd (settle_put E key d h) = C_PutRevoke key v # ?h \<and>
      fst (settle_put E key d h) = ce_settle E (snd (settle_put E key d h)) key v"
    if "ce_settle E ?h key t = ok" "C \<noteq> {MEMORY, NOF_SSD}"
  proof -
    have "{MEMORY, NOF_SSD} - C \<noteq> {}" using that(2) C(2) by (auto simp: parts_def split: if_splits)
    then obtain v where v: "revoke_type d = Some v" using r by (cases "revoke_type d") (auto simp: parts_def)
    with Some that f C(1) r show ?thesis
      by (cases "ce_settle E (C_PutRevoke key v # ?h) key v") (simp_all add: settle_put_def Let_def)
  qed
  ultimately show ?thesis
    unfolding settles_def if_not_P [OF C(1)]
    by (intro exI [of _ t], cases "ce_settle E ?h key t"; cases "C = {MEMORY, NOF_SSD}") (simp_all add: C(2) Let_def)
qed

section \<open>What the end of a batch depends on\<close>

text \<open>An operation without the record of its transfers.\<close>

definition erase :: "PutOperation \<Rightarrow> PutOperation" where
  "erase op = op\<lparr>op_transfer_summary := new_summary, op_failure_context := None\<rparr>"

lemma erase_eq: "erase a = erase b \<longleftrightarrow> op_key a = op_key b \<and> op_slices a = op_slices b \<and> op_state a = op_state b \<and>
    op_result a = op_result b \<and> op_replicas a = op_replicas b \<and> op_pending_transfers a = op_pending_transfers b \<and>
    op_requested_memory_replicas a = op_requested_memory_replicas b \<and>
    op_requested_nof_replicas a = op_requested_nof_replicas b"
  by (cases a; cases b) (auto simp: erase_def)

lemma erase_nth:
  assumes "map erase xs = map erase ys" "i < length xs"
  shows "erase (xs ! i) = erase (ys ! i)"
  using arg_cong [OF assms(1), of "\<lambda>zs. zs ! i"] map_eq_imp_length_eq [OF assms(1)] assms(2) by simp

definition blind :: "('r \<Rightarrow> PutOperation \<Rightarrow> PutOperation) \<Rightarrow> bool" where
  "blind f \<longleftrightarrow> (\<forall>r a b. erase a = erase b \<longrightarrow> erase (f r a) = erase (f r b))"

lemma responses_blind:
  "blind (\<lambda>u. SetError ts e c)" "blind (end_response E)" "blind revoke_response"
  by (auto simp: blind_def erase_eq SetError_def SetSuccess_def end_response_def revoke_response_def Let_def
      split: sum.splits)

lemma apply_at_erase:
  assumes f: "blind f" and e: "map erase xs = map erase ys"
  shows "map erase (apply_at f p xs) = map erase (apply_at f p ys)"
proof -
  obtain i r where p: "p = (i, r)" by (cases p)
  have len: "length xs = length ys" using e by (rule map_eq_imp_length_eq)
  show ?thesis
  proof (cases "i < length xs")
    case True
    with erase_nth [OF e] f have "erase (f r (xs ! i)) = erase (f r (ys ! i))" unfolding blind_def by blast
    with e show ?thesis by (simp add: p apply_at_def map_update)
  next
    case False
    with len e show ?thesis by (simp add: p apply_at_def list_update_beyond)
  qed
qed

lemma fold_apply_at_erase:
  assumes f: "blind f"
  shows "map erase xs = map erase ys \<Longrightarrow> map erase (fold (apply_at f) ps xs) = map erase (fold (apply_at f) ps ys)"
proof (induction ps arbitrary: xs ys)
  case (Cons p ps)
  from Cons.IH [OF apply_at_erase [OF f Cons.prems]] show ?case by simp
qed simp

lemma indices_erase:
  assumes "map erase xs = map erase ys" "\<And>a b. erase a = erase b \<Longrightarrow> P a = P b"
  shows "indices P xs = indices P ys"
proof -
  have len: "length xs = length ys" using assms(1) by (rule map_eq_imp_length_eq)
  have "P (xs ! i) = P (ys ! i)" if "i < length xs" for i
    using assms(2) [OF erase_nth [OF assms(1) that]] .
  with len show ?thesis unfolding indices_def by (intro filter_cong) auto
qed

lemma settle_upserts_erase:
  assumes e: "map erase xs = map erase ys" and f: "blind f" and i: "set is \<subseteq> {..<length xs}"
  shows "map erase (fst (settle_upserts E c m f is xs h)) = map erase (fst (settle_upserts E c m f is ys h)) \<and>
    snd (settle_upserts E c m f is xs h) = snd (settle_upserts E c m f is ys h)"
proof -
  have keys: "map (\<lambda>i. op_key (ys ! i)) is = map (\<lambda>i. op_key (xs ! i)) is"
    using erase_nth [OF e] i by (force simp: erase_eq)
  show ?thesis
    unfolding settle_upserts_def Let_def keys
    using e by (simp add: fold_apply_at_erase [OF f e] fold_apply_at_erase [OF responses_blind(1) e])
qed

lemma wait_transfers_erase: "erase (fst (wait_transfers E i ts op h)) = erase op"
  by (induction ts arbitrary: i op h)
    (auto simp: erase_eq AppendFailureContext_def Let_def)

lemma wait_transfers_calls: "snd (wait_transfers E i ts op h) = rev (map (C_wait \<circ> snd) ts) @ h"
  by (induction ts arbitrary: i op h) (auto simp: Let_def)

lemma WaitForTransfers_erase:
  "map erase (fst (WaitForTransfers E ops h)) = map erase ops \<and>
   snd (WaitForTransfers E ops h) =
     concat (rev (map (\<lambda>op. if IsResolved op then [] else rev (map (C_wait \<circ> snd) (op_pending_transfers op))) ops)) @ h"
  unfolding WaitForTransfers_def
proof (induction ops arbitrary: h)
  case (Cons op ops)
  have op: "erase (fst (wait_op E op h)) = erase op"
    "snd (wait_op E op h) = (if IsResolved op then [] else rev (map (C_wait \<circ> snd) (op_pending_transfers op))) @ h"
    by (simp_all add: wait_op_def wait_transfers_erase wait_transfers_calls)
  show ?case using op Cons.IH [of "snd (wait_op E op h)"] by (simp add: case_prod_unfold Let_def)
qed simp

lemma resolve_erase:
  assumes "map erase xs = map erase ys"
  shows "map erase (map (resolve_rest E) xs) = map erase (map (resolve_rest E) ys)"
proof (rule nth_equalityI)
  show len: "length (map erase (map (resolve_rest E) xs)) = length (map erase (map (resolve_rest E) ys))"
    using map_eq_imp_length_eq [OF assms] by simp
  fix i assume i: "i < length (map erase (map (resolve_rest E) xs))"
  have "erase (resolve_rest E x) = erase (resolve_rest E y)" if "erase x = erase y" for x y
    using that unfolding erase_eq by (simp add: resolve_rest_def SetError_def IsResolved_def Let_def)
  from this [OF erase_nth [OF assms, of i]] i len
  show "map erase (map (resolve_rest E) xs) ! i = map erase (map (resolve_rest E) ys) ! i" by simp
qed

lemma fold_apply_at_length [simp]: "length (fold (apply_at f) ps xs) = length xs"
  by (induction ps arbitrary: xs) (auto simp: apply_at_def)

lemma settle_upserts_length [simp]: "length (fst (settle_upserts E c m f is xs h)) = length xs"
  unfolding settle_upserts_def Let_def by simp

lemma finalize_erase:
  assumes e: "map erase xs = map erase ys"
  shows "map erase (fst (FinalizeBatchUpsert E xs h)) = map erase (fst (FinalizeBatchUpsert E ys h)) \<and>
    snd (FinalizeBatchUpsert E xs h) = snd (FinalizeBatchUpsert E ys h)"
proof -
  let ?good = "indices to_end xs" and ?bad = "indices to_revoke xs"
  let ?fin = "\<lambda>zs. settle_upserts E C_BatchUpsertEnd ''BatchUpsertEnd response size mismatch'' (end_response E) ?good zs h"
  let ?hot = "\<lambda>p. if fst p \<noteq> [] then remove_hot E (fst p) (snd p) else snd p"
  let ?rev = "\<lambda>zs. settle_upserts E C_BatchUpsertRevoke ''BatchUpsertRevoke response size mismatch'' revoke_response
    ?bad (fst (?fin zs)) (?hot (snd (?fin zs)))"
  have ix: "indices to_end ys = ?good" "indices to_revoke ys = ?bad"
    by (rule indices_erase [OF e [symmetric]]; simp add: erase_eq to_end_def to_revoke_def IsResolved_def)+
  have split: "FinalizeBatchUpsert E xs h = (map (resolve_rest E) (fst (?rev xs)), snd (snd (?rev xs)))"
    "FinalizeBatchUpsert E ys h = (map (resolve_rest E) (fst (?rev ys)), snd (snd (?rev ys)))"
    unfolding FinalizeBatchUpsert_def ix by (simp_all add: Let_def case_prod_unfold)
  have "set ?good \<subseteq> {..<length xs}" "set ?bad \<subseteq> {..<length (fst (?fin xs))}"
    by (auto simp: indices_def)
  note settled = settle_upserts_erase [OF e responses_blind(2) this(1)]
    settle_upserts_erase [OF _ responses_blind(3) this(2)]
  have ends: "map erase (fst (?fin xs)) = map erase (fst (?fin ys))" "snd (?fin xs) = snd (?fin ys)"
    using settled(1) by blast+
  have "map erase (fst (?rev xs)) = map erase (fst (?rev ys)) \<and> snd (?rev xs) = snd (?rev ys)"
    unfolding ends(2) by (rule settled(2) [OF ends(1)])
  then have "map erase (fst (?rev xs)) = map erase (fst (?rev ys))" "snd (snd (?rev xs)) = snd (snd (?rev ys))"
    by (rule conjunct1, elim conjE arg_cong)
  then show ?thesis unfolding split fst_conv snd_conv by (intro conjI resolve_erase)
qed

lemma collect_erase:
  assumes "map erase xs = map erase ys"
  shows "CollectResults xs = CollectResults ys"
proof -
  have "CollectResults zs = CollectResults (map erase zs)" for zs
    by (simp add: CollectResults_def comp_def erase_def)
  with assms show ?thesis by metis
qed

text \<open>The stages of a batch that do not look at the results of transfers.\<close>

lemma stage_slices_future: "stage_slices (E\<lparr>ce_future := f\<rparr>) k ss h = stage_slices E k ss h"
  by (induction ss arbitrary: h) (simp_all add: Let_def)

lemma put_disk_future: "put_disk_replica (E\<lparr>ce_future := f\<rparr>) k ss rs h = put_disk_replica E k ss rs h"
  by (simp add: put_disk_replica_def PutToLocalFile_def stage_slices_future split: option.split)

lemma submit_replicas_future: "submit_replicas (E\<lparr>ce_future := f\<rparr>) i rs op h = submit_replicas E i rs op h"
  by (induction rs arbitrary: i op h) (simp_all add: Let_def split: option.split)

lemma SubmitTransfers_future: "SubmitTransfers (E\<lparr>ce_future := f\<rparr>) ops h = SubmitTransfers E ops h"
proof -
  have "submit_op (E\<lparr>ce_future := f\<rparr>) = submit_op E"
    by (intro ext) (simp add: submit_op_def put_disk_future submit_replicas_future)
  then show ?thesis by (simp add: SubmitTransfers_def)
qed

lemma StartBatchUpsert_future: "StartBatchUpsert (E\<lparr>ce_future := f\<rparr>) c ops h = StartBatchUpsert E c ops h"
proof -
  have "start_upsert_response (E\<lparr>ce_future := f\<rparr>) = start_upsert_response E"
    by (intro ext) (simp add: start_upsert_response_def split: sum.split)
  then show ?thesis by (simp add: StartBatchUpsert_def start_batch_def remove_hot_def Let_def)
qed

lemma FinalizeBatchUpsert_future: "FinalizeBatchUpsert (E\<lparr>ce_future := f\<rparr>) ops h = FinalizeBatchUpsert E ops h"
proof -
  have "end_response (E\<lparr>ce_future := f\<rparr>) = end_response E" "resolve_rest (E\<lparr>ce_future := f\<rparr>) = resolve_rest E"
    "settle_upserts (E\<lparr>ce_future := f\<rparr>) = settle_upserts E" "remove_hot (E\<lparr>ce_future := f\<rparr>) = remove_hot E"
    by (intro ext, simp add: end_response_def resolve_rest_def settle_upserts_def remove_hot_def Let_def split: sum.split)+
  then show ?thesis by (simp add: FinalizeBatchUpsert_def Let_def case_prod_unfold)
qed

section \<open>Properties\<close>

text \<open>
  C23.  The results of a batch of upserts, and every call it makes, are the same whatever its
  transfers return: an object whose transfers all fail is committed and reported exactly like one
  whose transfers all succeed.
\<close>

theorem upsert_ignores_transfer_results:
  "BatchUpsert (E\<lparr>ce_future := f\<rparr>) config keys batched_slices h =
   BatchUpsert (E\<lparr>ce_future := g\<rparr>) config keys batched_slices h"
proof -
  let ?F = "E\<lparr>ce_future := f\<rparr>" and ?G = "E\<lparr>ce_future := g\<rparr>"
  have wait: "map erase (fst (WaitForTransfers ?F ops h)) = map erase (fst (WaitForTransfers ?G ops h))"
    "snd (WaitForTransfers ?F ops h) = snd (WaitForTransfers ?G ops h)" for ops h
    by (simp_all add: WaitForTransfers_erase)
  have final: "CollectResults (fst (FinalizeBatchUpsert E (fst (WaitForTransfers ?F ops h)) h')) =
      CollectResults (fst (FinalizeBatchUpsert E (fst (WaitForTransfers ?G ops h)) h'))"
    "snd (FinalizeBatchUpsert E (fst (WaitForTransfers ?F ops h)) h') =
      snd (FinalizeBatchUpsert E (fst (WaitForTransfers ?G ops h)) h')" for ops h h'
    using finalize_erase [OF wait(1), of E ops h h'] collect_erase by blast+
  show ?thesis
    unfolding BatchUpsert_def
    by (simp add: client_config_def StartBatchUpsert_future SubmitTransfers_future FinalizeBatchUpsert_future
        case_prod_unfold Let_def wait(2) final)
qed

text \<open>
  C24.  Once the master has allocated replicas, a put does what the commit policy says for the
  outcomes of its transfers, and nothing else: with nothing to commit it revokes everything and
  fails; otherwise it ends exactly the types of the policy, reports a refused end without a
  revocation, and revokes exactly the other types; the result is then that of the last call.
\<close>

theorem put_refines_policy:
  assumes "h0 = C_PutStart key # remove_hot E [key] h"
    and "ce_start E h0 key (map snd slices) (put_config E config) = Inr reps"
    and "write_outcomes E slices reps (put_disk_replica E key slices reps h0) = (os, h1)"
  shows "settles E key (commit_policy (ce_write_mode E (put_config E config)) (put_config E config) os) h1
    (Put E key slices config h)"
proof -
  let ?c = "put_config E config"
  let ?d = "DetermineFinalizeDecision (ce_write_mode E ?c) ?c (summarise reps os)"
  have os: "map fst os = List.map_filter transfer_type reps"
    using write_outcomes_types [of E slices reps] assms(3) by (metis fst_conv)
  have "Put E key slices config h = settle_put E key ?d h1"
    using assms by (simp add: Put_def Let_def write_replicas_outcomes summarise_def)
  then show ?thesis
    using decision_refines_policy [OF os, of "ce_write_mode E ?c" ?c] settle_put_settles by simp
qed

theorem put_refines_policy_witness:
  "settles demo_client ''k'' {MEMORY} [C_wait 1, C_submit True [demo_replica Kind_nof ''b''],
      C_wait 0, C_submit True [demo_replica Kind_memory ''a''], C_PutStart ''k'', C_RemoveHotKeys [''k'']]
    (Put demo_client ''k'' [(64, 8)] (ce_new_config demo_client) [])"
proof -
  let ?c = "put_config demo_client (ce_new_config demo_client)"
  let ?reps = "[demo_replica Kind_memory ''a'', demo_replica Kind_nof ''b'']"
  let ?h0 = "[C_PutStart ''k'', C_RemoveHotKeys [''k'']]"
  have start: "?h0 = C_PutStart ''k'' # remove_hot demo_client [''k''] []"
    "ce_start demo_client ?h0 ''k'' (map snd [(64, 8)]) ?c = Inr ?reps" by code_simp+
  have writes: "write_outcomes demo_client [(64, 8)] ?reps (put_disk_replica demo_client ''k'' [(64, 8)] ?reps ?h0) =
      ([(MEMORY, EC_OK), (NOF_SSD, TRANSFER_FAIL)], [C_wait 1, C_submit True [demo_replica Kind_nof ''b''],
       C_wait 0, C_submit True [demo_replica Kind_memory ''a''], C_PutStart ''k'', C_RemoveHotKeys [''k'']])" by code_simp
  have "commit_policy (ce_write_mode demo_client ?c) ?c [(MEMORY, EC_OK), (NOF_SSD, TRANSFER_FAIL)] = {MEMORY}"
    by code_simp
  then show ?thesis using put_refines_policy [OF start writes] by (simp only:)
qed

end
