(* ===== verification/Client_Batch_Props.thy ===== *)
theory Client_Batch_Props
  imports Client_Put_Props "HOL-Library.Sublist"
begin

text \<open>
  Correctness of a batch of puts: every operation ends in a state that agrees with its result, and
  success stands for calls that the master has acknowledged.
\<close>

section \<open>The calls of the finalisation\<close>

definition group_call :: "bool \<Rightarrow> ReplicaType \<Rightarrow> string list \<Rightarrow> ccall" where
  "group_call is_end t keys = (if is_end then C_BatchPutEnd keys t else C_BatchPutRevoke keys t)"

text \<open>The log has a settling call for the type that the master accepted for the key.\<close>

definition acked :: "client_env \<Rightarrow> bool \<times> ReplicaType \<Rightarrow> string \<Rightarrow> ccalls \<Rightarrow> bool" where
  "acked E = (\<lambda>(is_end, t) key h'. \<exists>keys h j. let g = group_call is_end t keys # h; responses = ce_settle_batch E g keys t
     in suffix g h' \<and> length responses = length keys \<and> j < length keys \<and> keys ! j = key \<and> responses ! j = ok)"

lemma acked_mono: "acked E g key h \<Longrightarrow> suffix h h' \<Longrightarrow> acked E g key h'"
  unfolding acked_def Let_def by (cases g) (fastforce intro: suffix_order.trans)

lemma fold_finalize_response:
  assumes "distinct (map fst ps)" "fst ` set ps \<subseteq> {..<length (fs_pending s)}"
    "length (fs_rpc_errors s) = length (fs_pending s)"
  shows "length (fs_pending (fold finalize_response ps s)) = length (fs_pending s) \<and>
    length (fs_rpc_errors (fold finalize_response ps s)) = length (fs_pending s) \<and>
    fs_calls (fold finalize_response ps s) = fs_calls s \<and>
    fs_pending (fold finalize_response ps s) ! i = fs_pending s ! i - (if i \<in> fst ` set ps then 1 else 0) \<and>
    fs_rpc_errors (fold finalize_response ps s) ! i =
      (case map_of ps i of Some (Inl e) \<Rightarrow> Some e | _ \<Rightarrow> fs_rpc_errors s ! i)"
  using assms
proof (induction ps arbitrary: s)
  case (Cons p ps)
  obtain j r where p: "p = (j, r)" by (cases p)
  let ?s = "finalize_response p s"
  have step: "length (fs_pending ?s) = length (fs_pending s)" "length (fs_rpc_errors ?s) = length (fs_pending s)"
    "fs_calls ?s = fs_calls s" "fs_pending ?s ! i = fs_pending s ! i - (if i = j then 1 else 0)"
    "fs_rpc_errors ?s ! i = (if i = j then (case r of Inl e \<Rightarrow> Some e | Inr u \<Rightarrow> fs_rpc_errors s ! i) else fs_rpc_errors s ! i)"
    using Cons.prems
    by (auto simp: p finalize_response_def complete_finalize_action_def nth_list_update split: sum.split)
  have "j \<notin> fst ` set ps" using Cons.prems(1) p by simp
  then have none: "map_of ps j = None" by (simp add: map_of_eq_None_iff)
  have "fst ` set ps \<subseteq> {..<length (fs_pending ?s)}" using Cons.prems(2) step(1) by simp
  from Cons.IH [OF _ this] Cons.prems(1) step \<open>j \<notin> fst ` set ps\<close> show ?case
    by (auto simp: p none split: option.split sum.split)
qed simp

text \<open>The state of the finalisation has the length of the entries.\<close>

definition fs_sized :: "finalize_entry list \<Rightarrow> finalize_state \<Rightarrow> bool" where
  "fs_sized es s \<longleftrightarrow> length (fs_pending s) = length es \<and> length (fs_rpc_errors s) = length es"

lemma finalize_group_simps:
  "distinct (finalize_group g es)" "set (finalize_group g es) = {i. i < length es \<and> g \<in> set (fe_actions (es ! i))}"
  by (auto simp: finalize_group_def)

lemma map_of_zip_index:
  assumes "length is = length rs" "distinct is" "j < length is"
  shows "map_of (zip is rs) (is ! j) = Some (rs ! j)"
  using assms by (metis map_of_zip_nth)

text \<open>The effect of a group on the operation with number \<open>i\<close>.\<close>

lemma process_group_effect:
  assumes "fs_sized es s" "i < length es"
  shows "fs_sized es (process_group E es g s) \<and> suffix (fs_calls s) (fs_calls (process_group E es g s)) \<and>
    fs_pending (process_group E es g s) ! i = fs_pending s ! i - (if g \<in> set (fe_actions (es ! i)) then 1 else 0) \<and>
    (fs_rpc_errors (process_group E es g s) ! i = None \<longrightarrow> fs_rpc_errors s ! i = None \<and>
       (g \<in> set (fe_actions (es ! i)) \<longrightarrow> acked E g (op_key (fe_op (es ! i))) (fs_calls (process_group E es g s))))"
proof -
  obtain is_end t where g: "g = (is_end, t)" by (cases g)
  define js where "js = finalize_group g es"
  define keys where "keys = map (\<lambda>i. op_key (fe_op (es ! i))) js"
  define h where "h = group_call is_end t keys # fs_calls s"
  define rs where "rs = ce_settle_batch E h keys t"
  define ps where "ps = (if length rs \<noteq> length keys then map (\<lambda>i. (i, Inl RPC_FAIL)) js else zip js rs)"
  have run: "process_group E es g s = (if js = [] then s else fold finalize_response ps (s\<lparr>fs_calls := h\<rparr>))"
    by (simp add: process_group_def g js_def keys_def h_def rs_def ps_def group_call_def Let_def fold_map comp_def)
  have js: "distinct js" "set js = {i. i < length es \<and> g \<in> set (fe_actions (es ! i))}"
    unfolding js_def by (rule finalize_group_simps)+
  have fst_ps: "map fst ps = js" by (simp add: ps_def keys_def comp_def)
  then have ps: "distinct (map fst ps)" "fst ` set ps \<subseteq> {..<length (fs_pending (s\<lparr>fs_calls := h\<rparr>))}" "fst ` set ps = set js"
    "length (fs_rpc_errors (s\<lparr>fs_calls := h\<rparr>)) = length (fs_pending (s\<lparr>fs_calls := h\<rparr>))"
    using js assms(1) by (auto simp: fs_sized_def simp flip: fst_ps)
  note effect = fold_finalize_response [OF ps(1,2,4), of i]
  have ack: "acked E g (op_key (fe_op (es ! i))) h" if i_in: "i \<in> set js" and no: "\<nexists>e. map_of ps i = Some (Inl e)"
  proof -
    obtain j where j: "j < length js" "js ! j = i" using i_in by (auto simp: in_set_conv_nth)
    have "map_of (map (\<lambda>i. (i, Inl RPC_FAIL)) js) i = Some (Inl RPC_FAIL)" using i_in by (simp add: map_of_map_restrict)
    then have len: "length rs = length keys" using no by (auto simp: ps_def split: if_splits)
    then have "map_of ps i = Some (rs ! j)"
      using map_of_zip_index [of js rs j] j js(1) by (simp add: ps_def keys_def)
    then have "rs ! j = ok" using no by (cases "rs ! j") auto
    then show ?thesis
      unfolding acked_def g prod.case Let_def using j len
      by (intro exI [of _ keys] exI [of _ "fs_calls s"] exI [of _ j]) (simp add: keys_def h_def [unfolded keys_def] rs_def)
  qed
  show ?thesis
  proof (cases "js = []")
    case True
    with js(2) assms show ?thesis by (auto simp: run)
  next
    case False
    moreover have "suffix (fs_calls s) h" by (simp add: h_def suffix_ConsI)
    ultimately show ?thesis
      using effect ack js(2) ps(3) assms by (auto simp: run fs_sized_def split: option.splits sum.splits)
  qed
qed

lemma process_groups_effect:
  assumes "fs_sized es s" "i < length es"
  shows "fs_sized es (fold (process_group E es) gs s) \<and> suffix (fs_calls s) (fs_calls (fold (process_group E es) gs s)) \<and>
    fs_pending (fold (process_group E es) gs s) ! i =
      fs_pending s ! i - length (filter (\<lambda>g. g \<in> set (fe_actions (es ! i))) gs) \<and>
    (fs_rpc_errors (fold (process_group E es) gs s) ! i = None \<longrightarrow> fs_rpc_errors s ! i = None \<and>
       (\<forall>g \<in> set gs. g \<in> set (fe_actions (es ! i)) \<longrightarrow>
          acked E g (op_key (fe_op (es ! i))) (fs_calls (fold (process_group E es) gs s))))"
  using assms(1)
proof (induction gs arbitrary: s)
  case (Cons g gs)
  note step = process_group_effect [OF Cons.prems assms(2), of E g]
  note rest = Cons.IH [OF conjunct1 [OF step]]
  have "suffix (fs_calls s) (fs_calls (fold (process_group E es) gs (process_group E es g s)))"
    using step rest suffix_order.trans by blast
  moreover have "acked E g (op_key (fe_op (es ! i))) (fs_calls (fold (process_group E es) gs (process_group E es g s)))"
    if "acked E g (op_key (fe_op (es ! i))) (fs_calls (process_group E es g s))"
    using rest acked_mono [OF that] by blast
  ultimately show ?case using step rest by auto
qed simp

lemma finalize_entry_actions:
  "fe_rpc_error (finalize_entry_of E op) = None \<and> distinct (fe_actions (finalize_entry_of E op)) \<and>
   set (fe_actions (finalize_entry_of E op)) \<subseteq> set finalize_groups"
  by (auto simp: finalize_entry_of_def add_finalize_action_def DetermineFinalizeDecision_def finalize_groups_def Let_def
      split: option.splits)

text \<open>After the groups no action is open, and without an error every action is acknowledged.\<close>

lemma run_groups_effect:
  fixes E
  assumes "i < length ops"
  defines "es \<equiv> map (finalize_entry_of E) ops"
  shows "fs_pending (run_groups E es h) ! i = 0 \<and> suffix h (fs_calls (run_groups E es h)) \<and>
    (fs_rpc_errors (run_groups E es h) ! i = None \<longrightarrow>
       (\<forall>g \<in> set (fe_actions (es ! i)). acked E g (op_key (fe_op (es ! i))) (fs_calls (run_groups E es h))))"
proof -
  let ?s = "\<lparr>fs_pending = map (length \<circ> fe_actions) es, fs_rpc_errors = map fe_rpc_error es, fs_calls = h\<rparr>"
  have "fs_sized es ?s" "i < length es" using assms by (simp_all add: fs_sized_def)
  note effect = process_groups_effect [OF this, of E finalize_groups]
  have acts: "distinct (fe_actions (es ! i))" "set (fe_actions (es ! i)) \<subseteq> set finalize_groups"
    using finalize_entry_actions assms by auto
  have "set (filter (\<lambda>g. g \<in> set (fe_actions (es ! i))) finalize_groups) = set (fe_actions (es ! i))" using acts(2) by auto
  moreover have "distinct (filter (\<lambda>g. g \<in> set (fe_actions (es ! i))) finalize_groups)"
    by (rule distinct_filter) (simp add: finalize_groups_def)
  ultimately have "length (filter (\<lambda>g. g \<in> set (fe_actions (es ! i))) finalize_groups) = length (fe_actions (es ! i))"
    using acts(1) by (metis distinct_card)
  with effect acts(2) \<open>i < length es\<close> show ?thesis unfolding run_groups_def by auto
qed

section \<open>The type of an operation\<close>

text \<open>The state says success exactly when the result does.\<close>

definition op_typed :: "PutOperation \<Rightarrow> bool" where
  "op_typed op \<longleftrightarrow> (op_state op = SUCCESS \<longleftrightarrow> op_result op = ok)"

named_theorems op_defs
lemmas [op_defs] = op_typed_def SetTerminalError_def SetSuccess_def SetError_def AppendFailureContext_def IsResolved_def Let_def

lemma set_typed [simp]:
  "t \<noteq> SUCCESS \<Longrightarrow> op_typed (SetTerminalError e t c op)" "op_typed (SetError f e c op)" "op_typed (SetSuccess op)"
  "op_typed (new_PutOperation k ss)"
  by (auto simp: op_defs new_PutOperation_def)

lemma typed_fields [simp]:
  "op_typed (AppendFailureContext c op) = op_typed op" "op_typed (op\<lparr>op_transfer_summary := s\<rparr>) = op_typed op"
  "op_typed (op\<lparr>op_pending_transfers := p\<rparr>) = op_typed op" "op_typed (op\<lparr>op_replicas := r\<rparr>) = op_typed op"
  "op_typed (InitializeRequestedReplicas cf op) = op_typed op" "op_typed (RecordAllocatedReplicas op) = op_typed op"
  "op_typed (op\<lparr>op_failure_context := fc\<rparr>) = op_typed op"
  by (auto simp: op_defs InitializeRequestedReplicas_def RecordAllocatedReplicas_def)

lemma for_ops_all:
  assumes "\<And>x h. P x \<Longrightarrow> Q (fst (f x h))"
  shows "list_all P xs \<Longrightarrow> list_all Q (fst (for_ops f xs h))"
  by (induction xs arbitrary: h) (auto simp: assms Let_def case_prod_unfold)

lemma StartBatchPut_typed: "list_all op_typed ops \<Longrightarrow> list_all op_typed (fst (StartBatchPut E c ops h))"
proof -
  assume "list_all op_typed ops"
  then have "list_all op_typed (map2 (start_put_response E c) rs ops)" for rs
    by (auto simp: list_all_length start_put_response_def Let_def split: sum.split)
  then show ?thesis by (simp add: StartBatchPut_def start_batch_def Let_def list_all_length)
qed

lemma submit_replicas_typed: "op_typed (fst (submit_replicas E i rs op h)) = op_typed op"
  by (induction rs arbitrary: i op h) (simp_all add: Let_def split: option.split)

lemma wait_transfers_typed: "op_typed (fst (wait_transfers E i ts op h)) = op_typed op"
  by (induction ts arbitrary: i op h) (auto simp: Let_def split: if_splits)

lemma SubmitTransfers_typed: "list_all op_typed ops \<Longrightarrow> list_all op_typed (fst (SubmitTransfers E ops h))"
  using for_ops_all [of op_typed op_typed "submit_op E"]
  by (auto simp: SubmitTransfers_def list_all_length submit_op_def submit_replicas_typed)

lemma WaitForTransfers_typed: "list_all op_typed ops \<Longrightarrow> list_all op_typed (fst (WaitForTransfers E ops h))"
  using for_ops_all [of op_typed op_typed "wait_op E"]
  by (auto simp: WaitForTransfers_def wait_op_def wait_transfers_typed)

lemma finish_put_typed:
  assumes "op_typed (fe_op e)"
  shows "op_typed (finish_put E e r p) \<and> IsResolved (finish_put E e r p)"
  using assms
  by (auto simp: finish_put_def append_finalize_error_context_def op_defs split: option.split)

lemma finalize_entry_typed: "op_typed op \<Longrightarrow> op_typed (fe_op (finalize_entry_of E op))"
  by (auto simp: finalize_entry_of_def add_finalize_action_def Let_def split: option.splits)

lemma stage_lengths:
  "length (fst (StartBatchPut E c ops h)) = length ops" "length (fst (SubmitTransfers E ops h)) = length ops"
  "length (fst (WaitForTransfers E ops h)) = length ops" "length (fst (FinalizeBatchPut E ops h)) = length ops"
proof -
  have "length (fst (for_ops f xs h)) = length xs" for f :: "PutOperation \<Rightarrow> ccalls \<Rightarrow> PutOperation \<times> ccalls" and xs h
    by (induction xs arbitrary: h) (simp_all add: Let_def case_prod_unfold)
  then show "length (fst (SubmitTransfers E ops h)) = length ops" "length (fst (WaitForTransfers E ops h)) = length ops"
    by (simp_all add: SubmitTransfers_def WaitForTransfers_def)
qed (simp_all add: StartBatchPut_def start_batch_def FinalizeBatchPut_def Let_def)

lemma finish_put_outcome:
  fixes E op
  defines "d \<equiv> DetermineFinalizeDecision (ce_write_mode E (ToReplicateConfig E op)) (ToReplicateConfig E op) (op_transfer_summary op)"
  assumes "\<not> IsResolved op" "op_replicas op \<noteq> []"
  shows "fe_op (finalize_entry_of E op) = op"
    "\<not> fd_success d \<Longrightarrow> op_state (finish_put E (finalize_entry_of E op) r 0) = TRANSFER_FAILED \<and>
       op_result (finish_put E (finalize_entry_of E op) r 0) = Inl (fd_error d)"
    "fd_success d \<Longrightarrow> finish_put E (finalize_entry_of E op) None 0 = SetSuccess op"
    "fd_success d \<Longrightarrow> finish_put E (finalize_entry_of E op) (Some e) 0 =
       SetTerminalError e FINALIZE_FAILED ''Batch finalization RPC failed'' op"
    "end_type d = Some t \<Longrightarrow> (True, t) \<in> set (fe_actions (finalize_entry_of E op))"
    "revoke_type d = Some t \<Longrightarrow> (False, t) \<in> set (fe_actions (finalize_entry_of E op))"
proof -
  have err: "fd_error d \<noteq> EC_OK" if "\<not> fd_success d"
    using that by (auto simp: d_def DetermineFinalizeDecision_def Let_def split: if_splits)
  have disk: "end_type d \<noteq> Some DISK" "revoke_type d \<noteq> Some DISK"
    by (auto simp: d_def DetermineFinalizeDecision_def Let_def)
  have e: "finalize_entry_of E op = add_finalize_action (revoke_type d) False (add_finalize_action (end_type d) True
      \<lparr>fe_op = op, fe_actions = [], fe_should_succeed = fd_success d, fe_terminal_error = fd_error d, fe_rpc_error = None\<rparr>)"
    using assms(2,3) by (simp add: finalize_entry_of_def d_def Let_def)
  show "fe_op (finalize_entry_of E op) = op" unfolding e by (simp add: add_finalize_action_def split: option.split)
  have flags: "fe_should_succeed (finalize_entry_of E op) = fd_success d" "fe_terminal_error (finalize_entry_of E op) = fd_error d"
    "fe_op (finalize_entry_of E op) = op"
    unfolding e by (simp_all add: add_finalize_action_def split: option.split)
  show "op_state (finish_put E (finalize_entry_of E op) r 0) = TRANSFER_FAILED \<and>
       op_result (finish_put E (finalize_entry_of E op) r 0) = Inl (fd_error d)" if "\<not> fd_success d"
    using that err assms(2) by (simp add: finish_put_def flags SetTerminalError_def Let_def)
  show "fd_success d \<Longrightarrow> finish_put E (finalize_entry_of E op) None 0 = SetSuccess op"
    "fd_success d \<Longrightarrow> finish_put E (finalize_entry_of E op) (Some e) 0 =
       SetTerminalError e FINALIZE_FAILED ''Batch finalization RPC failed'' op"
    using assms(2) by (simp_all add: finish_put_def flags Let_def)
  show "end_type d = Some t \<Longrightarrow> (True, t) \<in> set (fe_actions (finalize_entry_of E op))"
    "revoke_type d = Some t \<Longrightarrow> (False, t) \<in> set (fe_actions (finalize_entry_of E op))"
    unfolding e using disk by (auto simp: add_finalize_action_def split: option.split)
qed

section \<open>Properties\<close>

text \<open>
  C26.  After the four stages of a batch of puts every operation is resolved, with a state that says
  success exactly when its result does, and there are as many operations as were created.
\<close>

theorem batch_put_typed:
  assumes "StartBatchPut E config (CreatePutOperations keys batched_slices) h = (ops1, h1)"
    and "SubmitTransfers E ops1 h1 = (ops2, h2)" and "WaitForTransfers E ops2 h2 = (ops3, h3)"
    and "FinalizeBatchPut E ops3 h3 = (ops4, h4)"
  shows "length ops4 = length (CreatePutOperations keys batched_slices) \<and>
    list_all (\<lambda>op. op_typed op \<and> IsResolved op) ops4"
proof -
  have "list_all op_typed (CreatePutOperations keys batched_slices)"
    by (auto simp: CreatePutOperations_def list_all_length)
  with assms(1-3) have typed: "list_all op_typed ops3"
    by (metis StartBatchPut_typed SubmitTransfers_typed WaitForTransfers_typed fst_conv)
  have "op_typed (fe_op (finalize_entry_of E (ops3 ! i)))" if "i < length ops3" for i
    using typed that by (intro finalize_entry_typed) (simp add: list_all_length)
  with assms(4) have "list_all (\<lambda>op. op_typed op \<and> IsResolved op) ops4"
    by (auto simp: FinalizeBatchPut_def Let_def list_all_length finish_put_typed)
  moreover have "length ops4 = length (CreatePutOperations keys batched_slices)"
    using assms by (metis fst_conv stage_lengths)
  ultimately show ?thesis by blast
qed

theorem batch_put_typed_witness:
  "\<exists>ops1 h1 ops2 h2 ops3 h3 ops4 h4.
    StartBatchPut demo_client (ce_new_config demo_client) (CreatePutOperations [''k''] [[(64, 8)]]) [] = (ops1, h1) \<and>
    SubmitTransfers demo_client ops1 h1 = (ops2, h2) \<and> WaitForTransfers demo_client ops2 h2 = (ops3, h3) \<and>
    FinalizeBatchPut demo_client ops3 h3 = (ops4, h4) \<and> length ops4 = 1 \<and> list_all (\<lambda>op. op_typed op \<and> IsResolved op) ops4"
proof -
  obtain ops1 h1 where 1: "StartBatchPut demo_client (ce_new_config demo_client)
      (CreatePutOperations [''k''] [[(64, 8)]]) [] = (ops1, h1)" by (metis prod.exhaust)
  obtain ops2 h2 where 2: "SubmitTransfers demo_client ops1 h1 = (ops2, h2)" by (metis prod.exhaust)
  obtain ops3 h3 where 3: "WaitForTransfers demo_client ops2 h2 = (ops3, h3)" by (metis prod.exhaust)
  obtain ops4 h4 where 4: "FinalizeBatchPut demo_client ops3 h3 = (ops4, h4)" by (metis prod.exhaust)
  have "length (CreatePutOperations [''k''] [[(64, 8)]]) = 1" by (simp add: CreatePutOperations_def)
  with 1 2 3 4 batch_put_typed [OF 1 2 3 4] show ?thesis by auto
qed

text \<open>
  C25.  What the finalisation makes of an unresolved put: if its transfers do not satisfy the policy
  it fails with the error of the decision, whatever the master answers; otherwise it is reported
  as successful only if the master has acknowledged the end of what is to be committed and the
  revocation of the rest, and fails in finalisation if not.
\<close>

theorem finalize_put_outcome:
  assumes "FinalizeBatchPut E ops h = (ops', h')" "i < length ops" "\<not> IsResolved (ops ! i)" "op_replicas (ops ! i) \<noteq> []"
    and "d = DetermineFinalizeDecision (ce_write_mode E (ToReplicateConfig E (ops ! i)))
               (ToReplicateConfig E (ops ! i)) (op_transfer_summary (ops ! i))"
  shows "if fd_success d
    then op_state (ops' ! i) = SUCCESS \<and> op_result (ops' ! i) = ok \<and>
           (\<forall>t. end_type d = Some t \<longrightarrow> acked E (True, t) (op_key (ops ! i)) h') \<and>
           (\<forall>t. revoke_type d = Some t \<longrightarrow> acked E (False, t) (op_key (ops ! i)) h')
         \<or> op_state (ops' ! i) = FINALIZE_FAILED \<and> (\<exists>e. op_result (ops' ! i) = Inl e)
    else op_state (ops' ! i) = TRANSFER_FAILED \<and> op_result (ops' ! i) = Inl (fd_error d)"
proof -
  let ?es = "map (finalize_entry_of E) ops"
  let ?s = "run_groups E ?es h"
  note out = finish_put_outcome [OF assms(3,4), of E, folded assms(5)]
  have at: "?es ! i = finalize_entry_of E (ops ! i)" using assms(2) by simp
  note run = run_groups_effect [OF assms(2), of E h, unfolded at out(1)]
  have res: "ops' ! i = finish_put E (finalize_entry_of E (ops ! i)) (fs_rpc_errors ?s ! i) 0" "h' = fs_calls ?s"
    using assms(1,2) run by (auto simp: FinalizeBatchPut_def Let_def)
  show ?thesis
  proof (cases "fd_success d")
    case True
    show ?thesis
    proof (cases "fs_rpc_errors ?s ! i")
      case None
      with True run out(3,5,6) show ?thesis by (simp add: res SetSuccess_def)
    next
      case (Some e)
      with True out(4) show ?thesis by (simp add: res SetTerminalError_def Let_def)
    qed
  next
    case False
    with out(2) show ?thesis by (simp add: res)
  qed
qed

theorem finalize_put_outcome_witness:
  "\<exists>h'. acked demo_client (True, MEMORY) ''k'' h' \<and> acked demo_client (False, NOF_SSD) ''k'' h' \<and>
    snd (FinalizeBatchPut demo_client [(new_PutOperation ''k'' [(64, 8)])\<lparr>op_replicas := [demo_replica Kind_memory ''a''],
      op_transfer_summary := new_summary\<lparr>allocated_memory_replicas := 1, successful_memory_transfers := 1\<rparr>\<rparr>] []) = h'"
proof -
  let ?op = "(new_PutOperation ''k'' [(64, 8)])\<lparr>op_replicas := [demo_replica Kind_memory ''a''],
      op_transfer_summary := new_summary\<lparr>allocated_memory_replicas := 1, successful_memory_transfers := 1\<rparr>\<rparr>"
  let ?out = "FinalizeBatchPut demo_client [?op] []"
  let ?d = "DetermineFinalizeDecision (ce_write_mode demo_client (ToReplicateConfig demo_client ([?op] ! 0)))
      (ToReplicateConfig demo_client ([?op] ! 0)) (op_transfer_summary ([?op] ! 0))"
  have run: "op_state (fst ?out ! 0) = SUCCESS" "\<not> IsResolved ([?op] ! 0)" "op_replicas ([?op] ! 0) \<noteq> []"
    "fd_success ?d" "end_type ?d = Some MEMORY" "revoke_type ?d = Some NOF_SSD" "op_key ([?op] ! 0) = ''k''" by code_simp+
  have "?out = (fst ?out, snd ?out)" "0 < length [?op]" by simp_all
  from finalize_put_outcome [OF this run(2,3) refl] run(1,4-7) show ?thesis by simp
qed

end
