(* ===== verification/Client_Get.thy ===== *)
theory Client_Get
  imports Client_Batch
begin

text \<open>
  Reading objects (\<open>client_service.cpp\<close>): the choice of a replica, the redirection to the hot cache,
  and the single, ranged and batched reads.
\<close>

section \<open>Queries\<close>

text \<open>The replicas of an object and the end of its lease.\<close>

record QueryResult =
  qr_replicas :: "Replica list"
  qr_lease_timeout :: nat

definition IsLeaseExpired :: "QueryResult \<Rightarrow> nat \<Rightarrow> bool" where
  "IsLeaseExpired q now \<longleftrightarrow> now \<ge> qr_lease_timeout q"

definition Query :: "client_env \<Rightarrow> string \<Rightarrow> ccalls \<Rightarrow> QueryResult expected \<times> ccalls" where
  "Query E object_key h =
     (let start_time = ce_now E h; h = C_GetReplicaList [object_key] # h
      in (case ce_query E h object_key of
            Inl e \<Rightarrow> Inl e
          | Inr (replicas, ttl) \<Rightarrow> Inr \<lparr>qr_replicas = replicas, qr_lease_timeout = start_time + ttl\<rparr>, h))"

definition query_response :: "nat \<Rightarrow> (Replica list \<times> nat) expected \<Rightarrow> QueryResult expected" where
  "query_response start_time r =
     (case r of
        Inl e \<Rightarrow> Inl e
      | Inr (replicas, ttl) \<Rightarrow> Inr \<lparr>qr_replicas = replicas, qr_lease_timeout = start_time + ttl\<rparr>)"

definition BatchQuery :: "client_env \<Rightarrow> string list \<Rightarrow> ccalls \<Rightarrow> QueryResult expected list \<times> ccalls" where
  "BatchQuery E object_keys h =
     (let start_time = ce_now E h; h = C_GetReplicaList object_keys # h; response = ce_query_batch E h object_keys
      in (if length response \<noteq> length object_keys then replicate (length object_keys) (Inl RPC_FAIL)
          else map (query_response start_time) response, h))"

section \<open>Choosing a replica\<close>

fun FindFirstCompleteReplica :: "Replica list \<Rightarrow> Replica expected" where
  "FindFirstCompleteReplica [] = Inl INVALID_REPLICA"
| "FindFirstCompleteReplica (r # rs) = (if rep_complete r then Inr r else FindFirstCompleteReplica rs)"

text \<open>\<open>local_endpoints\<close> has the endpoints of the mounted segments.\<close>

definition GetPreferredReplica :: "string list \<Rightarrow> Replica list \<Rightarrow> Replica expected" where
  "GetPreferredReplica local_endpoints replica_list =
     (if replica_list = [] then Inl INVALID_PARAMS
      else if local_endpoints = [] \<or> length replica_list = 1 then Inr (hd replica_list)
      else case find (\<lambda>rep. is_memory_replica rep \<and> rep_endpoint rep \<in> set local_endpoints) replica_list of
        Some rep \<Rightarrow> Inr rep
      | None \<Rightarrow>
          (case find (\<lambda>rep. is_nof_replica rep \<and> rep_endpoint rep \<in> set local_endpoints) replica_list of
             Some rep \<Rightarrow> Inr rep
           | None \<Rightarrow> Inr (hd replica_list)))"

section \<open>The hot cache\<close>

text \<open>
  A hit of \<open>GetHotKey\<close> pins the block until \<open>ReleaseHotKey\<close>; the log has whether the call hit.
\<close>

definition RedirectToHotCache :: "client_env \<Rightarrow> string \<Rightarrow> Replica \<Rightarrow> ccalls \<Rightarrow> bool \<times> Replica \<times> ccalls" where
  "RedirectToHotCache E key replica h =
     (if \<not> is_memory_replica replica \<or> \<not> ce_hot_cache E then (False, replica, h)
      else case ce_hot_block E h key of
        None \<Rightarrow> (False, replica, C_GetHotKey key False # h)
      | Some (addr, blk_size) \<Rightarrow>
          (let h = C_GetHotKey key True # h
           in if rep_size replica \<noteq> blk_size then (False, replica, h)
              else (True, replica\<lparr>rep_endpoint := (if ce_p2p_handshake E then ce_transport_endpoint E else ce_local_hostname E),
                      rep_address := addr\<rparr>, h)))"

definition redirect :: "client_env \<Rightarrow> string \<Rightarrow> Replica \<Rightarrow> ccalls \<Rightarrow> bool \<times> Replica \<times> ccalls" where
  "redirect E key replica h =
     (if ce_hot_cache E \<and> is_memory_replica replica then RedirectToHotCache E key replica h else (False, replica, h))"

definition release_hot :: "client_env \<Rightarrow> bool \<Rightarrow> string \<Rightarrow> ccalls \<Rightarrow> ccalls" where
  "release_hot E cache_used key h = (if ce_hot_cache E \<and> cache_used then C_ReleaseHotKey key # h else h)"

fun put_tasks :: "client_env \<Rightarrow> string \<Rightarrow> slice list \<Rightarrow> ccalls \<Rightarrow> ccalls" where
  "put_tasks E key [] h = h"
| "put_tasks E key (s # ss) h =
     (let submitted = ce_submit_put_task E h key s; h = C_SubmitPutTask key s # h
      in if \<not> submitted then h else put_tasks E key ss h)"

definition ProcessSlicesAsync :: "client_env \<Rightarrow> string \<Rightarrow> slice list \<Rightarrow> Replica \<Rightarrow> ccalls \<Rightarrow> ccalls" where
  "ProcessSlicesAsync E key slices replica h =
     (if \<not> (ce_hot_cache E \<and> is_memory_replica replica) then h
      else if \<not> ce_hot_shm E \<and> IsReplicaOnLocalMemory E replica then h
      else put_tasks E key slices h)"

definition ShouldAdmitToHotCache :: "client_env \<Rightarrow> string \<Rightarrow> bool \<Rightarrow> ccalls \<Rightarrow> bool \<times> ccalls" where
  "ShouldAdmitToHotCache E key cache_used h =
     (if \<not> (ce_hot_cache E \<and> \<not> cache_used) then (False, h)
      else if \<not> ce_admission_sketch E then (True, h)
      else let h = C_sketch_increment key # h in (ce_sketch_increment E h key \<ge> ce_admission_threshold E, h))"

definition admit :: "client_env \<Rightarrow> string \<Rightarrow> bool \<Rightarrow> slice list \<Rightarrow> Replica \<Rightarrow> ccalls \<Rightarrow> ccalls" where
  "admit E key cache_used slices replica h =
     (let (admitted, h) = ShouldAdmitToHotCache E key cache_used h
      in if admitted then ProcessSlicesAsync E key slices replica h else h)"

section \<open>One object\<close>

definition Get_query :: "client_env \<Rightarrow> string \<Rightarrow> QueryResult \<Rightarrow> slice list \<Rightarrow> ccalls \<Rightarrow> unit expected \<times> ccalls" where
  "Get_query E object_key query_result slices h =
     (case FindFirstCompleteReplica (qr_replicas query_result) of
        Inl err \<Rightarrow> (Inl err, h)
      | Inr replica \<Rightarrow>
          (let (cache_used, replica, h) = redirect E object_key replica h;
               (err, h) = TransferRead E replica slices h;
               h = release_hot E cache_used object_key h
           in if err \<noteq> EC_OK then (Inl err, h)
              else let h = admit E object_key cache_used slices replica h
              in (if IsLeaseExpired query_result (ce_now E h) then Inl LEASE_EXPIRED else ok, h)))"

definition Get :: "client_env \<Rightarrow> string \<Rightarrow> slice list \<Rightarrow> ccalls \<Rightarrow> unit expected \<times> ccalls" where
  "Get E object_key slices h =
     (let (query_result, h) = Query E object_key h
      in case query_result of Inl e \<Rightarrow> (Inl e, h) | Inr q \<Rightarrow> Get_query E object_key q slices h)"

definition Get_range :: "client_env \<Rightarrow> string \<Rightarrow> QueryResult \<Rightarrow> slice list \<Rightarrow> u64 \<Rightarrow> ccalls \<Rightarrow> unit expected \<times> ccalls" where
  "Get_range E object_key query_result slices src_offset h =
     (case FindFirstCompleteReplica (qr_replicas query_result) of
        Inl err \<Rightarrow> (Inl err, h)
      | Inr replica \<Rightarrow>
          if \<not> is_memory_replica replica then (Inl INVALID_REPLICA, h)
          else let (err, h) = TransferReadRange E replica slices src_offset h
          in (if err \<noteq> EC_OK then Inl err
              else if IsLeaseExpired query_result (ce_now E h) then Inl LEASE_EXPIRED else ok, h))"

section \<open>Several objects\<close>

text \<open>
  What the first loop leaves for a key: a result, or a transfer to wait for with its replica and
  whether the cache is used.  The pending transfers are in the order of the keys.
\<close>

datatype get_entry = Settled "unit expected" | Waiting nat Replica bool

definition submit_get ::
    "client_env \<Rightarrow> (string \<Rightarrow> slice list option) \<Rightarrow> string \<times> QueryResult \<Rightarrow> ccalls \<Rightarrow> (string \<times> get_entry) \<times> ccalls" where
  "submit_get E slices = (\<lambda>(key, query_result) h.
     case slices key of
       None \<Rightarrow> ((key, Settled (Inl INVALID_PARAMS)), h)
     | Some ss \<Rightarrow>
         (case FindFirstCompleteReplica (qr_replicas query_result) of
            Inl err \<Rightarrow> ((key, Settled (Inl err)), h)
          | Inr replica \<Rightarrow>
              (let (cache_used, replica, h) = redirect E key replica h;
                   future = ce_submit E h False [replica] [ss];
                   h = C_submit False [replica] # h
               in case future of
                    None \<Rightarrow> ((key, Settled (Inl TRANSFER_FAIL)), release_hot E cache_used key h)
                  | Some f \<Rightarrow> ((key, Waiting f replica cache_used), h))))"

definition finish_get ::
    "client_env \<Rightarrow> (string \<Rightarrow> slice list option) \<Rightarrow> string \<times> get_entry \<Rightarrow> ccalls \<Rightarrow> unit expected \<times> ccalls" where
  "finish_get E slices = (\<lambda>(key, entry) h.
     case entry of
       Settled r \<Rightarrow> (r, h)
     | Waiting f replica cache_used \<Rightarrow>
         (let result = ce_future E h f; h = release_hot E cache_used key (C_wait f # h)
          in if result \<noteq> EC_OK then (Inl result, h)
             else (ok, if ce_hot_cache E
                       then (case slices key of Some ss \<Rightarrow> admit E key cache_used ss replica h | None \<Rightarrow> h)
                       else h)))"

definition check_lease :: "client_env \<Rightarrow> ccalls \<Rightarrow> QueryResult \<Rightarrow> unit expected \<Rightarrow> unit expected" where
  "check_lease E h query_result r =
     (if r = ok \<and> IsLeaseExpired query_result (ce_now E h) then Inl LEASE_EXPIRED else r)"

section \<open>Several objects on one node\<close>

text \<open>A key of a group: its index, replica, slices and whether the cache is used.\<close>

record get_member =
  gm_index :: nat
  gm_key :: string
  gm_replica :: Replica
  gm_slices :: "slice list"
  gm_cache_used :: bool

fun add_member :: "string \<Rightarrow> get_member \<Rightarrow> (string \<times> get_member list) list \<Rightarrow> (string \<times> get_member list) list" where
  "add_member seg m [] = [(seg, [m])]"
| "add_member seg m ((s, ms) # gs) = (if s = seg then (s, ms @ [m]) # gs else (s, ms) # add_member seg m gs)"

text \<open>The keys from number \<open>i\<close> on; a key that is settled gets its result.\<close>

fun group_gets ::
    "client_env \<Rightarrow> (string \<Rightarrow> slice list option) \<Rightarrow> nat \<Rightarrow> (string \<times> QueryResult) list \<Rightarrow> unit expected list \<Rightarrow>
     (string \<times> get_member list) list \<Rightarrow> ccalls \<Rightarrow> unit expected list \<times> (string \<times> get_member list) list \<times> ccalls" where
  "group_gets E slices i [] results gs h = (results, gs, h)"
| "group_gets E slices i ((key, query_result) # kqs) results gs h =
     (case slices key of
        None \<Rightarrow> group_gets E slices (i + 1) kqs (results[i := Inl INVALID_PARAMS]) gs h
      | Some ss \<Rightarrow>
          (case FindFirstCompleteReplica (qr_replicas query_result) of
             Inl err \<Rightarrow> group_gets E slices (i + 1) kqs (results[i := Inl err]) gs h
           | Inr replica \<Rightarrow>
               if \<not> is_memory_replica replica
               then group_gets E slices (i + 1) kqs (results[i := Inl INVALID_REPLICA]) gs h
               else let (cache_used, replica, h) = redirect E key replica h
               in if rep_size replica = 0
                  then group_gets E slices (i + 1) kqs (results[i := Inl INVALID_REPLICA]) gs h
                  else group_gets E slices (i + 1) kqs results
                         (add_member (rep_endpoint replica)
                            \<lparr>gm_index = i, gm_key = key, gm_replica = replica, gm_slices = ss, gm_cache_used = cache_used\<rparr> gs) h))"

fun fail_members :: "client_env \<Rightarrow> get_member list \<Rightarrow> unit expected list \<Rightarrow> ccalls \<Rightarrow> unit expected list \<times> ccalls" where
  "fail_members E [] results h = (results, h)"
| "fail_members E (m # ms) results h =
     fail_members E ms (results[gm_index m := Inl TRANSFER_FAIL]) (release_hot E (gm_cache_used m) (gm_key m) h)"

fun pass_members :: "client_env \<Rightarrow> get_member list \<Rightarrow> unit expected list \<Rightarrow> ccalls \<Rightarrow> unit expected list \<times> ccalls" where
  "pass_members E [] results h = (results, h)"
| "pass_members E (m # ms) results h =
     pass_members E ms (results[gm_index m := ok])
       (admit E (gm_key m) (gm_cache_used m) (gm_slices m) (gm_replica m)
          (release_hot E (gm_cache_used m) (gm_key m) h))"

text \<open>The groups that were submitted keep their future.\<close>

fun submit_get_groups ::
    "client_env \<Rightarrow> (string \<times> get_member list) list \<Rightarrow> unit expected list \<Rightarrow> ccalls \<Rightarrow>
     (nat \<times> get_member list) list \<times> unit expected list \<times> ccalls" where
  "submit_get_groups E [] results h = ([], results, h)"
| "submit_get_groups E ((seg, ms) # gs) results h =
     (let future = ce_submit E h False (map gm_replica ms) (map gm_slices ms);
          h = C_submit False (map gm_replica ms) # h
      in case future of
           None \<Rightarrow> (let (results, h) = fail_members E ms results h in submit_get_groups E gs results h)
         | Some f \<Rightarrow> (let (fs, results, h) = submit_get_groups E gs results h in ((f, ms) # fs, results, h)))"

fun wait_get_groups ::
    "client_env \<Rightarrow> (nat \<times> get_member list) list \<Rightarrow> unit expected list \<Rightarrow> ccalls \<Rightarrow> unit expected list \<times> ccalls" where
  "wait_get_groups E [] results h = (results, h)"
| "wait_get_groups E ((f, ms) # fs) results h =
     (let result = ce_future E h f; h = C_wait f # h;
          (results, h) = (if result \<noteq> EC_OK then fail_members E ms results h else pass_members E ms results h)
      in wait_get_groups E fs results h)"

definition BatchGetWhenPreferSameNode ::
    "client_env \<Rightarrow> string list \<Rightarrow> QueryResult list \<Rightarrow> (string \<Rightarrow> slice list option) \<Rightarrow> ccalls \<Rightarrow>
     unit expected list \<times> ccalls" where
  "BatchGetWhenPreferSameNode E object_keys query_results slices h =
     (let (results, gs, h) =
            group_gets E slices 0 (zip object_keys query_results) (replicate (length object_keys) ok) [] h;
          (fs, results, h) = submit_get_groups E gs results h
      in wait_get_groups E fs results h)"

definition BatchGet_query ::
    "client_env \<Rightarrow> string list \<Rightarrow> QueryResult list \<Rightarrow> (string \<Rightarrow> slice list option) \<Rightarrow> bool \<Rightarrow> ccalls \<Rightarrow>
     unit expected list \<times> ccalls" where
  "BatchGet_query E object_keys query_results slices same_node h =
     (if \<not> ce_transfer_submitter E then (replicate (length object_keys) (Inl INVALID_PARAMS), h)
      else if length query_results \<noteq> length object_keys then (replicate (length object_keys) (Inl INVALID_PARAMS), h)
      else if same_node then BatchGetWhenPreferSameNode E object_keys query_results slices h
      else let (entries, h) = for_ops (submit_get E slices) (zip object_keys query_results) h;
               (results, h) = for_ops (finish_get E slices) entries h
           in (map2 (check_lease E h) query_results results, h))"

definition BatchGet ::
    "client_env \<Rightarrow> string list \<Rightarrow> (string \<Rightarrow> slice list option) \<Rightarrow> ccalls \<Rightarrow> unit expected list \<times> ccalls" where
  "BatchGet E object_keys slices h =
     (let (queries, h) = BatchQuery E object_keys h;
          results = map (\<lambda>q. case q of Inl e \<Rightarrow> Inl e | Inr u \<Rightarrow> ok) queries;
          valid_indices = filter (\<lambda>i. \<not> isl (queries ! i)) [0..<length queries];
          valid_keys = map (\<lambda>i. object_keys ! i) valid_indices
      in if valid_keys = [] then (results, h)
      else let valid_slices = (\<lambda>k. if k \<in> set valid_keys then slices k else None);
               (valid_results, h) =
                 BatchGet_query E valid_keys (map (\<lambda>i. projr (queries ! i)) valid_indices) valid_slices
                   False h
           in (fold (\<lambda>(i, r) rs. rs[i := r]) (zip valid_indices valid_results) results, h))"

end
