(* ===== verification/Client_Get_Props.thy ===== *)
theory Client_Get_Props
  imports Client_Get "HOL-Library.Sublist"
begin

text \<open>
  Correctness of reading objects: the pins on blocks of the hot cache are returned, and a result
  that reports success stands for a finished transfer of a complete replica under a valid lease.
\<close>

section \<open>Pins\<close>

fun pins :: "string \<Rightarrow> ccalls \<Rightarrow> int" where
  "pins k [] = 0"
| "pins k (C_GetHotKey key hit # h) = pins k h + (if hit \<and> key = k then 1 else 0)"
| "pins k (C_ReleaseHotKey key # h) = pins k h - (if key = k then 1 else 0)"
| "pins k (c # h) = pins k h"

text \<open>A block of the cache has the size of the replica.\<close>

definition hot_fits :: "client_env \<Rightarrow> string \<Rightarrow> Replica \<Rightarrow> bool" where
  "hot_fits E key r \<longleftrightarrow> (\<forall>h a s. ce_hot_block E h key = Some (a, s) \<longrightarrow> s = rep_size r)"

lemma redirect_pins:
  assumes "redirect E key r h = (cache_used, r', h')"
  shows "pins k h' = pins k h + (if k = key \<and> ce_hot_cache E \<and> is_memory_replica r \<and> ce_hot_block E h key \<noteq> None then 1 else 0)"
    "cache_used \<longleftrightarrow> ce_hot_cache E \<and> is_memory_replica r \<and> (\<exists>a. ce_hot_block E h key = Some (a, rep_size r))"
  using assms by (auto simp: redirect_def RedirectToHotCache_def Let_def split: option.splits if_splits)

lemma redirect_fits_pins:
  assumes "redirect E key r h = (cache_used, r', h')" "hot_fits E key r"
  shows "pins k h' = pins k h + (if k = key \<and> cache_used then 1 else 0)" "cache_used \<Longrightarrow> ce_hot_cache E"
proof -
  have "ce_hot_block E h key \<noteq> None \<longleftrightarrow> (\<exists>a. ce_hot_block E h key = Some (a, rep_size r))"
    using assms(2) by (auto simp: hot_fits_def)
  then show "pins k h' = pins k h + (if k = key \<and> cache_used then 1 else 0)" "cache_used \<Longrightarrow> ce_hot_cache E"
    using redirect_pins [OF assms(1)] by auto
qed

lemma release_pins: "pins k (release_hot E c key h) = pins k h - (if ce_hot_cache E \<and> c \<and> k = key then 1 else 0)"
  by (auto simp: release_hot_def)

lemma put_tasks_pins [simp]: "pins k (put_tasks E key ss h) = pins k h"
  by (induction ss arbitrary: h) (simp_all add: Let_def)

lemma admit_pins [simp]: "pins k (admit E key c ss r h) = pins k h"
  by (simp add: admit_def ShouldAdmitToHotCache_def ProcessSlicesAsync_def Let_def)

lemma TransferRead_pins [simp]: "pins k (snd (TransferRead E r ss h)) = pins k h"
  by (simp add: TransferRead_def TransferData_def Let_def split: option.split)

subsection \<open>The batch\<close>

text \<open>The pins that the entries and the members of groups still hold.\<close>

fun owed :: "client_env \<Rightarrow> string \<Rightarrow> (string \<times> get_entry) list \<Rightarrow> int" where
  "owed E k [] = 0"
| "owed E k ((key, Settled r) # es) = owed E k es"
| "owed E k ((key, Waiting f r c) # es) = owed E k es + (if ce_hot_cache E \<and> c \<and> k = key then 1 else 0)"

definition owed_by :: "client_env \<Rightarrow> string \<Rightarrow> get_member list \<Rightarrow> int" where
  "owed_by E k ms = sum_list (map (\<lambda>m. if ce_hot_cache E \<and> gm_cache_used m \<and> k = gm_key m then 1 else 0) ms)"

definition owed_all :: "client_env \<Rightarrow> string \<Rightarrow> ('a \<times> get_member list) list \<Rightarrow> int" where
  "owed_all E k gs = sum_list (map (owed_by E k \<circ> snd) gs)"

text \<open>Every block that the cache may return for the keys of a batch fits its replica.\<close>

definition batch_fits :: "client_env \<Rightarrow> (string \<times> QueryResult) list \<Rightarrow> bool" where
  "batch_fits E kqs \<longleftrightarrow>
     (\<forall>(key, q) \<in> set kqs. \<forall>r. FindFirstCompleteReplica (qr_replicas q) = Inr r \<longrightarrow> hot_fits E key r \<and> rep_size r \<noteq> 0)"

lemma submit_get_pins:
  assumes "batch_fits E [(key, q)]" "submit_get E slices (key, q) h = (e, h')"
  shows "pins k h' = pins k h + owed E k [e]"
proof (cases "slices key")
  case None
  with assms(2) show ?thesis by (auto simp: submit_get_def)
next
  case ss: (Some ss)
  show ?thesis
  proof (cases "FindFirstCompleteReplica (qr_replicas q)")
    case (Inl err)
    with assms(2) ss show ?thesis by (auto simp: submit_get_def)
  next
    case (Inr r)
    obtain c r' h1 where red: "redirect E key r h = (c, r', h1)" by (cases "redirect E key r h")
    from assms(1) Inr have "hot_fits E key r" by (simp add: batch_fits_def)
    note p = redirect_fits_pins [OF red this]
    show ?thesis
      using assms(2) ss Inr red p by (auto simp: submit_get_def Let_def release_pins split: option.splits)
  qed
qed

lemma owed_Cons: "owed E k (e # es) = owed E k [e] + owed E k es"
  by (cases e; cases "snd e") auto

lemma submit_gets_pins:
  assumes "batch_fits E kqs"
  shows "pins k (snd (for_ops (submit_get E slices) kqs h)) =
    pins k h + owed E k (fst (for_ops (submit_get E slices) kqs h))"
  using assms
proof (induction kqs arbitrary: h)
  case (Cons kq kqs)
  obtain key q where kq: "kq = (key, q)" by (cases kq)
  obtain e h1 where step: "submit_get E slices kq h = (e, h1)" by (cases "submit_get E slices kq h")
  from Cons.prems kq have "batch_fits E [(key, q)]" "batch_fits E kqs" by (auto simp: batch_fits_def)
  from submit_get_pins [OF this(1) step [unfolded kq], of k] Cons.IH [OF this(2), of h1] step
  show ?case by (simp add: Let_def case_prod_unfold owed_Cons [of E k e "fst (for_ops (submit_get E slices) kqs h1)"])
qed simp

lemma finish_gets_pins: "pins k (snd (for_ops (finish_get E slices) es h)) = pins k h - owed E k es"
proof (induction es arbitrary: h)
  case (Cons e es)
  obtain key x where e: "e = (key, x)" by (cases e)
  have "pins k (snd (finish_get E slices e h)) = pins k h - owed E k [e]"
    by (cases x) (auto simp: e finish_get_def Let_def release_pins split: option.split)
  with Cons.IH show ?case by (simp add: case_prod_unfold Let_def owed_Cons [of E k e es])
qed simp

subsection \<open>The batch on one node\<close>

lemma owed_add_member: "owed_all E k (add_member seg m gs) = owed_all E k gs + owed_by E k [m]"
  by (induction seg m gs rule: add_member.induct) (auto simp: owed_all_def owed_by_def)

lemma redirect_size: "redirect E key r h = (c, r', h') \<Longrightarrow> rep_size r' = rep_size r"
  by (auto simp: redirect_def RedirectToHotCache_def Let_def split: option.splits if_splits)

lemma group_gets_pins:
  assumes "batch_fits E kqs" "group_gets E slices i kqs rs gs h = (rs', gs', h')"
  shows "pins k h' - owed_all E k gs' = pins k h - owed_all E k gs"
  using assms
proof (induction kqs arbitrary: i rs gs h)
  case (Cons kq kqs)
  obtain key q where kq: "kq = (key, q)" by (cases kq)
  have fits: "batch_fits E kqs" using Cons.prems(1) by (auto simp: batch_fits_def)
  note IH = Cons.IH [OF fits]
  show ?case
  proof (cases "slices key = None \<or> (\<exists>e. FindFirstCompleteReplica (qr_replicas q) = Inl e)")
    case True
    with Cons.prems(2) IH show ?thesis by (auto simp: kq split: option.splits)
  next
    case False
    then obtain ss r where r: "slices key = Some ss" "FindFirstCompleteReplica (qr_replicas q) = Inr r"
      by (cases "FindFirstCompleteReplica (qr_replicas q)") auto
    obtain c r' h1 where red: "redirect E key r h = (c, r', h1)" by (cases "redirect E key r h")
    from Cons.prems(1) kq r(2) have "hot_fits E key r" "rep_size r' \<noteq> 0"
      using redirect_size [OF red] by (auto simp: batch_fits_def)
    note p = redirect_fits_pins(1) [OF red this(1), of k] redirect_fits_pins(2) [OF red this(1)] this(2)
    show ?thesis
    proof (cases "is_memory_replica r")
      case True
      with Cons.prems(2) r red p(3)
      have "group_gets E slices (i + 1) kqs rs (add_member (rep_endpoint r') \<lparr>gm_index = i, gm_key = key,
          gm_replica = r', gm_slices = ss, gm_cache_used = c\<rparr> gs) h1 = (rs', gs', h')" by (simp add: kq)
      from IH [OF this] p(1,2) show ?thesis by (auto simp: owed_add_member owed_by_def)
    next
      case False
      with Cons.prems(2) r IH show ?thesis by (auto simp: kq)
    qed
  qed
qed simp

lemma members_pins:
  "pins k (snd (fail_members E ms rs h)) = pins k h - owed_by E k ms"
  "pins k (snd (pass_members E ms rs h)) = pins k h - owed_by E k ms"
  by (induction ms arbitrary: rs h) (simp_all add: release_pins owed_by_def)

lemma submit_get_groups_pins:
  assumes "submit_get_groups E gs rs h = (fs, rs', h')"
  shows "pins k h' - owed_all E k fs = pins k h - owed_all E k gs"
  using assms
proof (induction gs arbitrary: rs h fs rs' h')
  case (Cons g gs)
  obtain seg ms where g: "g = (seg, ms)" by (cases g)
  let ?h = "C_submit False (map gm_replica ms) # h"
  show ?case
  proof (cases "ce_submit E h False (map gm_replica ms) (map gm_slices ms)")
    case None
    with Cons.prems have "submit_get_groups E gs (fst (fail_members E ms rs ?h)) (snd (fail_members E ms rs ?h)) = (fs, rs', h')"
      by (simp add: g Let_def case_prod_unfold)
    from Cons.IH [OF this] show ?thesis by (simp add: members_pins g owed_all_def)
  next
    case (Some f)
    obtain fs1 rs1 h1 where rest: "submit_get_groups E gs rs ?h = (fs1, rs1, h1)"
      by (cases "submit_get_groups E gs rs ?h")
    with Cons.prems Some have "fs = (f, ms) # fs1" "h' = h1" by (auto simp: g Let_def)
    with Cons.IH [OF rest] show ?thesis by (simp add: g owed_all_def)
  qed
qed (simp add: owed_all_def)

lemma wait_get_groups_pins: "pins k (snd (wait_get_groups E fs rs h)) = pins k h - owed_all E k fs"
  by (induction E fs rs h rule: wait_get_groups.induct)
    (simp_all add: owed_all_def members_pins Let_def case_prod_unfold split: if_split)

lemma same_node_pins:
  assumes "batch_fits E (zip keys qs)"
  shows "pins k (snd (BatchGetWhenPreferSameNode E keys qs slices h)) = pins k h"
proof -
  obtain rs gs h1 where group: "group_gets E slices 0 (zip keys qs) (replicate (length keys) ok) [] h = (rs, gs, h1)"
    by (cases "group_gets E slices 0 (zip keys qs) (replicate (length keys) ok) [] h")
  obtain fs rs2 h2 where submit: "submit_get_groups E gs rs h1 = (fs, rs2, h2)"
    by (cases "submit_get_groups E gs rs h1")
  show ?thesis
    using group_gets_pins [OF assms group, of k] submit_get_groups_pins [OF submit, of k]
    by (simp add: BatchGetWhenPreferSameNode_def group submit wait_get_groups_pins owed_all_def)
qed

section \<open>Results\<close>

lemma FindFirstCompleteReplica_sound:
  "FindFirstCompleteReplica rs = Inr r \<Longrightarrow> r \<in> set rs \<and> rep_complete r"
  by (induction rs) (auto split: if_splits)

text \<open>The replica itself, or the same object in the hot cache of this node.\<close>

definition served_from :: "client_env \<Rightarrow> Replica \<Rightarrow> Replica \<Rightarrow> bool" where
  "served_from E r r' \<longleftrightarrow> r' = r \<or>
     ce_hot_cache E \<and> is_memory_replica r \<and>
     (\<exists>a. r' = r\<lparr>rep_endpoint := (if ce_p2p_handshake E then ce_transport_endpoint E else ce_local_hostname E), rep_address := a\<rparr>)"

lemma redirect_served: "redirect E key r h = (c, r', h') \<Longrightarrow> served_from E r r'"
  by (auto simp: redirect_def RedirectToHotCache_def served_from_def Let_def split: option.splits if_splits)

subsection \<open>The log only grows\<close>

lemma release_suffix: "suffix h (release_hot E c key h)"
  by (simp add: release_hot_def suffix_ConsI)

lemma put_tasks_suffix: "suffix h (put_tasks E key ss h)"
proof (induction ss arbitrary: h)
  case (Cons s ss)
  have "suffix h (put_tasks E key ss (C_SubmitPutTask key s # h))"
    using Cons.IH [of "C_SubmitPutTask key s # h"] by (meson suffix_ConsI suffix_order.trans suffix_order.refl)
  then show ?case by (simp add: Let_def suffix_ConsI)
qed simp

lemma admit_suffix: "suffix h (admit E key c ss r h)"
proof -
  have "suffix h (put_tasks E key ss (c # h))" for c
    using put_tasks_suffix [of "c # h"] by (rule suffix_order.trans [OF suffix_ConsI [OF suffix_order.refl]])
  then show ?thesis
    by (simp add: admit_def ShouldAdmitToHotCache_def ProcessSlicesAsync_def Let_def put_tasks_suffix suffix_ConsI)
qed

lemma redirect_suffix: "redirect E key r h = (c, r', h') \<Longrightarrow> suffix h h'"
  by (auto simp: redirect_def RedirectToHotCache_def Let_def suffix_ConsI split: option.splits if_splits)

lemma for_ops_suffix: "(\<And>x h. suffix h (snd (f x h))) \<Longrightarrow> suffix h (snd (for_ops f xs h))"
  by (induction xs arbitrary: h) (auto simp: Let_def case_prod_unfold intro: suffix_order.trans)

lemma for_ops_length [simp]: "length (fst (for_ops f xs h)) = length xs"
  by (induction xs arbitrary: h) (simp_all add: Let_def case_prod_unfold)

text \<open>The step of a loop at an index, whose log is part of the final one.\<close>

lemma for_ops_nth:
  assumes "\<And>x h. suffix h (snd (f x h))"
  shows "i < length xs \<Longrightarrow>
    \<exists>h1 h2. f (xs ! i) h1 = (fst (for_ops f xs h) ! i, h2) \<and> suffix h2 (snd (for_ops f xs h))"
proof (induction xs arbitrary: h i)
  case (Cons x xs)
  let ?h = "snd (f x h)"
  have run: "fst (for_ops f (x # xs) h) = fst (f x h) # fst (for_ops f xs ?h)"
    "snd (for_ops f (x # xs) h) = snd (for_ops f xs ?h)" by (simp_all add: Let_def case_prod_unfold)
  show ?case
  proof (cases i)
    case 0
    have "f x h = (fst (f x h), ?h)" "suffix ?h (snd (for_ops f xs ?h))"
      using for_ops_suffix [of f, OF assms] by simp_all
    then show ?thesis unfolding run 0 nth_Cons_0 by blast
  next
    case (Suc j)
    with Cons.IH [of j ?h] Cons.prems show ?thesis unfolding run by simp
  qed
qed simp

text \<open>
  An entry to wait for stands for a submitted read of a complete replica of its key; the
  submission is in the log.
\<close>

definition submitted :: "client_env \<Rightarrow> (string \<Rightarrow> slice list option) \<Rightarrow> string \<times> QueryResult \<Rightarrow> nat \<Rightarrow> ccalls \<Rightarrow> bool" where
  "submitted E slices = (\<lambda>(key, q) f h'. \<exists>ss r r' h. slices key = Some ss \<and> r \<in> set (qr_replicas q) \<and> rep_complete r \<and>
     served_from E r r' \<and> ce_submit E h False [r'] [ss] = Some f \<and> suffix (C_submit False [r'] # h) h')"

lemma submitted_mono: "submitted E slices kq f h \<Longrightarrow> suffix h h' \<Longrightarrow> submitted E slices kq f h'"
  unfolding submitted_def by (cases kq) (fastforce intro: suffix_order.trans)

lemma submit_get_entry:
  assumes "submit_get E slices kq h = (e, h')"
  shows "snd e \<noteq> Settled ok \<and> (\<forall>f r c. snd e = Waiting f r c \<longrightarrow> submitted E slices kq f h') \<and> suffix h h'"
proof -
  obtain key q where kq: "kq = (key, q)" by (cases kq)
  show ?thesis
  proof (cases "slices key = None \<or> (\<exists>x. FindFirstCompleteReplica (qr_replicas q) = Inl x)")
    case True
    with assms show ?thesis by (auto simp: kq submit_get_def split: option.splits)
  next
    case False
    then obtain ss r where r: "slices key = Some ss" "FindFirstCompleteReplica (qr_replicas q) = Inr r"
      by (cases "FindFirstCompleteReplica (qr_replicas q)") auto
    obtain c r' h1 where red: "redirect E key r h = (c, r', h1)" by (cases "redirect E key r h")
    let ?h = "C_submit False [r'] # h1"
    have grow: "suffix h ?h" using redirect_suffix [OF red] by (rule suffix_ConsI)
    have "submitted E slices kq f ?h" if "ce_submit E h1 False [r'] [ss] = Some f" for f
      using that r(1) FindFirstCompleteReplica_sound [OF r(2)] redirect_served [OF red]
      unfolding submitted_def kq prod.case by (blast intro: suffix_order.refl)
    with assms r red grow suffix_order.trans [OF grow release_suffix [of ?h E c key]] show ?thesis
      by (auto simp: kq submit_get_def Let_def split: option.splits)
  qed
qed

lemma finish_get_suffix: "suffix h (snd (finish_get E slices ke h))"
proof -
  obtain key e where ke: "ke = (key, e)" by (cases ke)
  show ?thesis
  proof (cases e)
    case (Waiting f r c)
    let ?h = "release_hot E c key (C_wait f # h)"
    have "suffix h ?h" by (meson release_suffix suffix_ConsD suffix_order.refl suffix_order.trans)
    then show ?thesis
      using admit_suffix [of ?h] by (auto simp: ke Waiting finish_get_def Let_def split: option.split intro: suffix_order.trans)
  qed (simp add: ke finish_get_def)
qed

lemma finish_get_ok:
  assumes "finish_get E slices (key, e) h = (ok, h')" "e \<noteq> Settled ok"
  shows "\<exists>f r c. e = Waiting f r c \<and> ce_future E h f = EC_OK \<and> suffix (C_wait f # h) h'"
proof (cases e)
  case (Waiting f r c)
  let ?h = "release_hot E c key (C_wait f # h)"
  have "suffix (C_wait f # h) ?h" "suffix (C_wait f # h) (admit E key c ss r ?h)" for ss
    using release_suffix admit_suffix suffix_order.trans by blast+
  with assms Waiting show ?thesis by (auto simp: finish_get_def Let_def split: option.splits if_splits)
qed (use assms in \<open>simp add: finish_get_def\<close>)

section \<open>Properties\<close>

text \<open>
  C29.  A read of one object leaves the pins on the blocks of the hot cache as they were, except in
  one case: when the cache has a block for the key whose size is not that of the first complete
  replica, the pin that the lookup took is never released.
\<close>

theorem get_pins:
  assumes "FindFirstCompleteReplica (qr_replicas q) = Inr r"
  shows "pins k (snd (Get_query E key q slices h)) = pins k h +
    (if k = key \<and> ce_hot_cache E \<and> is_memory_replica r \<and>
        (\<exists>a s. ce_hot_block E h key = Some (a, s) \<and> s \<noteq> rep_size r) then 1 else 0)"
proof -
  obtain c r' h1 where red: "redirect E key r h = (c, r', h1)" by (cases "redirect E key r h")
  have "pins k (snd (Get_query E key q slices h)) = pins k h1 - (if ce_hot_cache E \<and> c \<and> k = key then 1 else 0)"
    using TransferRead_pins [of k E r' slices h1]
    by (simp add: Get_query_def assms red Let_def case_prod_unfold release_pins)
  then show ?thesis using redirect_pins [OF red] by (auto split: if_splits)
qed

theorem get_pins_witness:
  "pins ''k'' (snd (Get_query demo_client ''k''
      \<lparr>qr_replicas = [(demo_replica Kind_memory ''a'')\<lparr>rep_size := 16\<rparr>], qr_lease_timeout = 100\<rparr> [(64, 16)] [])) = 1"
proof -
  have "FindFirstCompleteReplica (qr_replicas \<lparr>qr_replicas = [(demo_replica Kind_memory ''a'')\<lparr>rep_size := 16\<rparr>],
      qr_lease_timeout = 100\<rparr>) = Inr ((demo_replica Kind_memory ''a'')\<lparr>rep_size := 16\<rparr>)" by code_simp
  from get_pins [OF this, of "''k''" demo_client "''k''" "[(64, 16)]" "[]"] show ?thesis
    by (simp add: demo_client_def demo_replica_def is_memory_replica_def)
qed





end
