(* ===== verification/Client_Leader.thy ===== *)
theory Client_Leader
  imports Client_Base
begin

text \<open>
  The connection of the client to the master (\<open>client_service.cpp\<close>): \<open>ConnectToMaster\<close>, \<open>SwitchLeader\<close>, an
  iteration of the monitor of the leader and an iteration of the heartbeat.  The coordinator, the
  connection and the metadata service are parameters; sleeping is left out.  An iteration of a
  thread is one step.
\<close>

section \<open>State\<close>

record MasterView =
  view_version :: nat
  leader_address :: string

datatype lcall =
    L_Connect string
  | L_Ping
  | L_ReadCurrentView
  | L_WaitForViewChange "nat option"
  | L_ReMountSegment
  | L_updateLocalSegmentDesc
  | L_rePublishRpcMetaEntry

type_synonym lcalls = "lcall list"

text \<open>
  \<open>ls_master\<close> is the address that the last successful \<open>Connect\<close> was given.  The future of the remount
  thread is invalid, running or ready.
\<close>

datatype remount_future = No_future | Running | Ready

record leader_state =
  ls_coordinator :: bool
  ls_direct_address :: string
  ls_view :: "MasterView option"
  ls_last_ping :: bool
  ls_master :: "string option"
  ls_fail_count :: nat
  ls_remounting :: remount_future
  ls_desc_pending :: bool
  ls_rpc_pending :: bool
  ls_monitor_running :: bool
  ls_calls :: lcalls

text \<open>A ping answers whether the client needs to remount its segments.\<close>

record leader_env =
  le_backend_type :: "string \<Rightarrow> nat option"
  le_availability :: "nat \<Rightarrow> ErrorCode"
  le_create :: "nat \<times> string \<Rightarrow> unit expected"
  le_connect :: "lcalls \<Rightarrow> string \<Rightarrow> ErrorCode"
  le_current_view :: "lcalls \<Rightarrow> MasterView option expected"
  le_view_change :: "lcalls \<Rightarrow> nat option \<Rightarrow> (bool \<times> MasterView option) expected"
  le_ping :: "lcalls \<Rightarrow> bool expected"
  le_metadata :: bool
  le_update_desc :: "lcalls \<Rightarrow> int"
  le_publish_rpc :: "lcalls \<Rightarrow> int"

section \<open>Switching\<close>

definition lcall :: "lcall \<Rightarrow> leader_state \<Rightarrow> leader_state" where
  "lcall c s = s\<lparr>ls_calls := c # ls_calls s\<rparr>"

definition Connect :: "leader_env \<Rightarrow> string \<Rightarrow> leader_state \<Rightarrow> ErrorCode \<times> leader_state" where
  "Connect E addr s =
     (let s = lcall (L_Connect addr) s; err = le_connect E (ls_calls s) addr
      in (err, if err = EC_OK then s\<lparr>ls_master := Some addr\<rparr> else s))"

definition SwitchLeader :: "leader_env \<Rightarrow> MasterView \<Rightarrow> leader_state \<Rightarrow> ErrorCode \<times> leader_state" where
  "SwitchLeader E target_view s =
     (if (case ls_view s of
            None \<Rightarrow> False
          | Some current_view \<Rightarrow>
              view_version target_view < view_version current_view \<or>
              view_version target_view = view_version current_view \<and>
              leader_address target_view = leader_address current_view \<and> ls_last_ping s)
      then (EC_OK, s)
      else let (err, s) = Connect E (leader_address target_view) s
      in if err \<noteq> EC_OK then (err, s\<lparr>ls_last_ping := False\<rparr>)
         else (EC_OK, s\<lparr>ls_view := Some target_view, ls_last_ping := True\<rparr>))"

text \<open>The parts of an entry before and after the first \<open>://\<close>.\<close>

fun split_scheme :: "string \<Rightarrow> (string \<times> string) option" where
  "split_scheme [] = None"
| "split_scheme (c # cs) =
     (if take 3 (c # cs) = ''://'' then Some ([], drop 3 (c # cs))
      else map_option (\<lambda>(a, b). (c # a, b)) (split_scheme cs))"

definition ParseHABackendSpec :: "leader_env \<Rightarrow> string \<Rightarrow> (nat \<times> string) option expected" where
  "ParseHABackendSpec E master_server_entry =
     (case split_scheme master_server_entry of
        None \<Rightarrow> Inr None
      | Some (scheme, connstring) \<Rightarrow>
          (case le_backend_type E scheme of
             None \<Rightarrow> Inl INVALID_PARAMS
           | Some t \<Rightarrow> if le_availability E t \<noteq> EC_OK then Inl (le_availability E t) else Inr (Some (t, connstring))))"

definition ConnectToMaster :: "leader_env \<Rightarrow> string \<Rightarrow> leader_state \<Rightarrow> ErrorCode \<times> leader_state" where
  "ConnectToMaster E master_server_entry s =
     (case ParseHABackendSpec E master_server_entry of
        Inl e \<Rightarrow> (e, s)
      | Inr (Some spec) \<Rightarrow>
          (case le_create E spec of
             Inl e \<Rightarrow> (e, s)
           | Inr u \<Rightarrow>
               (let s = lcall L_ReadCurrentView s
                in case le_current_view E (ls_calls s) of
                     Inl e \<Rightarrow> (e, s)
                   | Inr None \<Rightarrow> (UNAVAILABLE_IN_CURRENT_STATUS, s)
                   | Inr (Some master_view) \<Rightarrow>
                       (let (err, s) = SwitchLeader E master_view s
                        in if err \<noteq> EC_OK then (err, s)
                           else (EC_OK, s\<lparr>ls_coordinator := True, ls_direct_address := [], ls_monitor_running := True\<rparr>))))
      | Inr None \<Rightarrow>
          (let (err, s) = Connect E master_server_entry s
           in if err \<noteq> EC_OK then (err, s)
              else (EC_OK, s\<lparr>ls_direct_address := master_server_entry, ls_view := None, ls_last_ping := True\<rparr>)))"

section \<open>The monitor\<close>

definition monitor_iteration :: "leader_env \<Rightarrow> leader_state \<Rightarrow> leader_state" where
  "monitor_iteration E s =
     (let known_version = map_option view_version (ls_view s);
          s = lcall (L_WaitForViewChange known_version) s
      in case le_view_change E (ls_calls s) known_version of
           Inr (True, Some view) \<Rightarrow> snd (SwitchLeader E view s)
         | _ \<Rightarrow> s)"

section \<open>The heartbeat\<close>

definition publish_desc :: "leader_env \<Rightarrow> leader_state \<Rightarrow> int \<times> leader_state" where
  "publish_desc E s = (let s = lcall L_updateLocalSegmentDesc s in (le_update_desc E (ls_calls s), s))"

definition publish_rpc :: "leader_env \<Rightarrow> leader_state \<Rightarrow> int \<times> leader_state" where
  "publish_rpc E s = (let s = lcall L_rePublishRpcMetaEntry s in (le_publish_rpc E (ls_calls s), s))"

text \<open>The body of the thread that remounts the segments.\<close>

definition remount_segment :: "leader_env \<Rightarrow> leader_state \<Rightarrow> leader_state" where
  "remount_segment E s =
     (let s = lcall L_ReMountSegment s
      in if le_metadata E
      then let (rc, s) = publish_desc E s;
               s = s\<lparr>ls_desc_pending := (rc \<noteq> 0)\<rparr>;
               (rc, s) = publish_rpc E s
           in s\<lparr>ls_rpc_pending := (rc \<noteq> 0)\<rparr>
      else s)"

definition join_remount :: "leader_state \<Rightarrow> leader_state" where
  "join_remount s = (if ls_remounting s = Ready then s\<lparr>ls_remounting := No_future\<rparr> else s)"

definition ping_answered :: "leader_env \<Rightarrow> bool \<Rightarrow> leader_state \<Rightarrow> leader_state" where
  "ping_answered E need_remount s =
     (let s = s\<lparr>ls_fail_count := 0, ls_last_ping := True\<rparr>
      in if need_remount \<and> ls_remounting s = No_future then s\<lparr>ls_remounting := Running\<rparr>
      else if ls_desc_pending s \<and> ls_remounting s = No_future
      then (if le_metadata E
            then let (rc, s) = publish_desc E s in if rc \<noteq> 0 then s else s\<lparr>ls_desc_pending := False\<rparr>
            else s)
      else if ls_rpc_pending s \<and> ls_remounting s = No_future
      then (if le_metadata E
            then let (rc, s) = publish_rpc E s in if rc \<noteq> 0 then s else s\<lparr>ls_rpc_pending := False\<rparr>
            else s)
      else s)"

definition reconnect :: "leader_env \<Rightarrow> leader_state \<Rightarrow> leader_state" where
  "reconnect E s =
     (if ls_coordinator s
      then let s = lcall L_ReadCurrentView s
           in case le_current_view E (ls_calls s) of
                Inr (Some next_view) \<Rightarrow>
                  (let (err, s) = SwitchLeader E next_view s
                   in if err \<noteq> EC_OK then s else s\<lparr>ls_fail_count := 0\<rparr>)
              | _ \<Rightarrow> s
      else let (err, s) = Connect E (ls_direct_address s) s
           in if err \<noteq> EC_OK then s else s\<lparr>ls_last_ping := True, ls_fail_count := 0\<rparr>)"

definition max_ping_fail_count :: nat where
  "max_ping_fail_count = 3"

definition heartbeat_iteration :: "leader_env \<Rightarrow> leader_state \<Rightarrow> leader_state" where
  "heartbeat_iteration E s =
     (let s = lcall L_Ping (join_remount s)
      in case le_ping E (ls_calls s) of
           Inr need_remount \<Rightarrow> ping_answered E need_remount s
         | Inl e \<Rightarrow>
             (let s = s\<lparr>ls_fail_count := ls_fail_count s + 1, ls_last_ping := False\<rparr>
              in if ls_fail_count s < max_ping_fail_count then s else reconnect E s))"

text \<open>The three threads, in any order.\<close>

inductive leader_step :: "leader_env \<Rightarrow> leader_state \<Rightarrow> leader_state \<Rightarrow> bool" for E where
  monitor: "ls_coordinator s \<Longrightarrow> ls_monitor_running s \<Longrightarrow> leader_step E s (monitor_iteration E s)"
| heartbeat: "leader_step E s (heartbeat_iteration E s)"
| remount: "ls_remounting s = Running \<Longrightarrow> leader_step E s ((remount_segment E s)\<lparr>ls_remounting := Ready\<rparr>)"

end
