(* ===== verification/Client_Leader_Props.thy ===== *)
theory Client_Leader_Props
  imports Client_Leader
begin

text \<open>
  Correctness of the connection to the master: the view of a client never goes back, and the client
  is connected to the leader of its view.
\<close>

definition view_le :: "MasterView option \<Rightarrow> MasterView option \<Rightarrow> bool" where
  "view_le a b = (case a of None \<Rightarrow> True
     | Some v \<Rightarrow> (case b of None \<Rightarrow> False | Some w \<Rightarrow> view_version v \<le> view_version w))"

lemma view_le_refl [simp]: "view_le a a"
  by (simp add: view_le_def split: option.split)

lemma view_le_trans: "view_le a b \<Longrightarrow> view_le b c \<Longrightarrow> view_le a c"
  by (auto simp: view_le_def split: option.splits)

text \<open>A client of a backend has a view and is connected to its leader.\<close>

definition linked :: "leader_state \<Rightarrow> bool" where
  "linked s \<longleftrightarrow> ls_coordinator s \<and> ls_view s \<noteq> None \<and> ls_master s = map_option leader_address (ls_view s)"

text \<open>What a step keeps: it advances, and stays linked.\<close>

definition advances :: "leader_state \<Rightarrow> leader_state \<Rightarrow> bool" where
  "advances s s' \<longleftrightarrow> view_le (ls_view s) (ls_view s') \<and> (linked s \<longrightarrow> linked s')"

lemma advances_trans: "advances a b \<Longrightarrow> advances b c \<Longrightarrow> advances a c"
  unfolding advances_def using view_le_trans by blast

lemma advances_same:
  "ls_view s' = ls_view s \<Longrightarrow> ls_master s' = ls_master s \<Longrightarrow> ls_coordinator s' = ls_coordinator s \<Longrightarrow> advances s s'"
  by (simp add: advances_def linked_def)

lemma SwitchLeader_advances: "advances s (snd (SwitchLeader E v s))"
  by (auto simp: SwitchLeader_def Connect_def lcall_def Let_def advances_def linked_def view_le_def
      split: option.split)

lemma call_advances [simp]: "advances s (lcall c s)"
  by (simp add: advances_same lcall_def)

lemma SwitchLeader_call_advances:
  "advances s (snd (SwitchLeader E v (lcall c s)))" "advances s ((snd (SwitchLeader E v (lcall c s)))\<lparr>ls_fail_count := n\<rparr>)"
proof -
  show step: "advances s (snd (SwitchLeader E v (lcall c s)))"
    by (rule advances_trans [OF call_advances SwitchLeader_advances])
  show "advances s ((snd (SwitchLeader E v (lcall c s)))\<lparr>ls_fail_count := n\<rparr>)"
    by (rule advances_trans [OF step]) (simp add: advances_same)
qed

lemma monitor_advances: "advances s (monitor_iteration E s)"
  by (auto simp: monitor_iteration_def Let_def SwitchLeader_call_advances split: sum.split option.split bool.split)

lemma ping_answered_same:
  "ls_view (ping_answered E n s) = ls_view s" "ls_master (ping_answered E n s) = ls_master s"
  "ls_coordinator (ping_answered E n s) = ls_coordinator s"
  by (auto simp: ping_answered_def publish_desc_def publish_rpc_def lcall_def Let_def)

lemma reconnect_advances:
  assumes "ls_coordinator s"
  shows "advances s (reconnect E s)"
  using assms
  by (auto simp: reconnect_def Let_def case_prod_unfold SwitchLeader_call_advances split: sum.split option.split)

lemma heartbeat_advances:
  assumes "linked s"
  shows "advances s (heartbeat_iteration E s)"
proof -
  let ?s = "lcall L_Ping (join_remount s)"
  let ?t = "?s\<lparr>ls_fail_count := ls_fail_count ?s + 1, ls_last_ping := False\<rparr>"
  have "advances s ?s" and "advances s ?t" by (simp_all add: advances_same lcall_def join_remount_def)
  moreover have "ls_coordinator ?t" using assms by (simp add: linked_def lcall_def join_remount_def)
  moreover have "advances ?s (ping_answered E n ?s)" for n by (simp add: advances_same ping_answered_same)
  ultimately have "advances s (ping_answered E n ?s)" "advances s (reconnect E ?t)" for n
    using advances_trans [of s ?s] advances_trans [of s ?t] reconnect_advances [of ?t E] by blast+
  with \<open>advances s ?t\<close> show ?thesis
    unfolding heartbeat_iteration_def Let_def by (simp split: sum.split)
qed

lemma leader_step_advances: "leader_step E s s' \<Longrightarrow> linked s \<Longrightarrow> advances s s'"
proof (induction rule: leader_step.induct)
  case (remount s)
  show ?case
    by (rule advances_same)
      (simp_all add: remount_segment_def publish_desc_def publish_rpc_def lcall_def Let_def)
qed (simp_all add: monitor_advances heartbeat_advances)

lemma leader_run_advances: "(leader_step E)\<^sup>*\<^sup>* s s' \<Longrightarrow> linked s \<Longrightarrow> advances s s' \<and> linked s'"
proof (induction rule: rtranclp_induct)
  case (step t u)
  then have "advances s t" "linked t" by auto
  moreover have "advances t u" using step.hyps(2) \<open>linked t\<close> by (rule leader_step_advances)
  ultimately show ?case using advances_trans [of s t u] by (simp add: advances_def)
qed (simp add: advances_def)

section \<open>An example\<close>

definition demo_leader_env :: leader_env where
  "demo_leader_env = \<lparr>le_backend_type = (\<lambda>t. if t = ''etcd'' then Some 0 else None), le_availability = (\<lambda>t. EC_OK),
     le_create = (\<lambda>x. ok), le_connect = (\<lambda>h a. EC_OK),
     le_current_view = (\<lambda>h. Inr (Some \<lparr>view_version = 3, leader_address = ''m3''\<rparr>)),
     le_view_change = (\<lambda>h v. Inr (True, Some \<lparr>view_version = 4, leader_address = ''m4''\<rparr>)),
     le_ping = (\<lambda>h. Inl RPC_FAIL), le_metadata = False, le_update_desc = (\<lambda>h. 0), le_publish_rpc = (\<lambda>h. 0)\<rparr>"

definition fresh_leader :: leader_state where
  "fresh_leader = \<lparr>ls_coordinator = False, ls_direct_address = [], ls_view = None, ls_last_ping = False, ls_master = None,
     ls_fail_count = 0, ls_remounting = No_future, ls_desc_pending = False, ls_rpc_pending = False,
     ls_monitor_running = False, ls_calls = []\<rparr>"

section \<open>Properties\<close>

text \<open>
  C30.  Once a fresh client has connected through a backend, whatever the monitor, the heartbeat and
  the remount thread do in any order: it stays connected to the leader of its current view, and
  the version of that view never decreases.
\<close>

theorem leader_view_monotone:
  assumes "ConnectToMaster E entry s0 = (EC_OK, s)" "ls_coordinator s" "ls_view s0 = None" "\<not> ls_coordinator s0"
    and "(leader_step E)\<^sup>*\<^sup>* s s1" "(leader_step E)\<^sup>*\<^sup>* s1 s2"
  shows "ls_view s1 \<noteq> None \<and> view_le (ls_view s1) (ls_view s2) \<and> ls_master s2 = map_option leader_address (ls_view s2)"
proof -
  have "linked s"
    using assms(1-4)
    by (auto simp: ConnectToMaster_def SwitchLeader_def Connect_def lcall_def Let_def linked_def
        split: sum.splits option.splits if_splits)
  from leader_run_advances [OF assms(5) this] leader_run_advances [OF assms(6)]
  show ?thesis by (auto simp: advances_def linked_def)
qed

theorem leader_view_monotone_witness:
  "\<exists>s. ConnectToMaster demo_leader_env ''etcd://c'' fresh_leader = (EC_OK, s) \<and>
     view_le (ls_view s) (ls_view (monitor_iteration demo_leader_env s)) \<and>
     ls_master (monitor_iteration demo_leader_env s) = Some ''m4''"
proof -
  let ?out = "ConnectToMaster demo_leader_env ''etcd://c'' fresh_leader"
  have run: "fst ?out = EC_OK" "ls_coordinator (snd ?out)" "ls_monitor_running (snd ?out)" "ls_view fresh_leader = None"
    "\<not> ls_coordinator fresh_leader"
    "ls_view (monitor_iteration demo_leader_env (snd ?out)) = Some \<lparr>view_version = 4, leader_address = ''m4''\<rparr>" by code_simp+
  have conn: "?out = (EC_OK, snd ?out)" using run(1) by (metis prod.collapse)
  have "(leader_step demo_leader_env)\<^sup>*\<^sup>* (snd ?out) (monitor_iteration demo_leader_env (snd ?out))"
    using leader_step.monitor [OF run(2,3)] by blast
  from leader_view_monotone [OF conn run(2,4,5) rtranclp.rtrancl_refl this] conn run(6) show ?thesis
    by (intro exI [of _ "snd ?out"]) simp
qed

text \<open>
  When the third ping in a row has failed and the backend publishes an older view than the
  client has, the heartbeat makes no attempt to connect and forgets the failures: the client stays
  with its master, and the next attempt comes after three more failed pings.
\<close>

theorem stale_view_no_reconnect:
  assumes "ls_coordinator s" "ls_view s = Some current" "ls_fail_count s + 1 \<ge> max_ping_fail_count"
    and "le_ping E (L_Ping # ls_calls s) = Inl e"
    and "le_current_view E (L_ReadCurrentView # L_Ping # ls_calls s) = Inr (Some stale)"
    and "view_version stale < view_version current"
  shows "ls_calls (heartbeat_iteration E s) = L_ReadCurrentView # L_Ping # ls_calls s \<and>
    ls_master (heartbeat_iteration E s) = ls_master s \<and> ls_fail_count (heartbeat_iteration E s) = 0 \<and>
    \<not> ls_last_ping (heartbeat_iteration E s)"
  using assms
  by (simp add: heartbeat_iteration_def reconnect_def SwitchLeader_def join_remount_def lcall_def Let_def)

end
