(* ===== verification/Client_Segments.thy ===== *)
theory Client_Segments
  imports Client_Base
begin

text \<open>
  The memory that the client offers to the store (\<open>client_service.cpp\<close>): mounting and unmounting
  segments, at once or gracefully, and the registration of local memory.  Transfer engine, master
  and SPDK wrapper are parameters; their calls go to one log.  The tables are lists in the order
  of insertion, for maps that the code iterates in no particular order.  An operation is one step:
  it holds the lock of the segments to its end, except for the graceful timer, which takes it twice.
\<close>

section \<open>State\<close>

record Segment =
  seg_id :: nat
  seg_name :: string
  seg_base :: u64
  seg_size :: u64
  seg_protocol :: string
  seg_te_endpoint :: string

datatype scall =
    S_register u64 u64
  | S_unregister u64
  | S_MountSegment nat
  | S_UnmountSegment nat
  | S_GracefulUnmount nat
  | S_QueryStatus nat
  | S_callback nat
  | S_InitializeEnv
  | S_RegisterGpu u64 u64
  | S_UnregisterGpu u64

type_synonym scalls = "scall list"

text \<open>A status that the master knows is undefined or not; \<open>se_uuid\<close> generates the identifiers.\<close>

record seg_env =
  se_max_mr_size :: u64
  se_register :: "scalls \<Rightarrow> u64 \<Rightarrow> u64 \<Rightarrow> int"
  se_unregister :: "scalls \<Rightarrow> u64 \<Rightarrow> int"
  se_uuid :: "scalls \<Rightarrow> nat"
  se_mount :: "scalls \<Rightarrow> nat \<Rightarrow> unit expected"
  se_unmount :: "scalls \<Rightarrow> nat \<Rightarrow> unit expected"
  se_graceful :: "scalls \<Rightarrow> nat \<Rightarrow> unit expected"
  se_undefined_status :: "scalls \<Rightarrow> nat \<Rightarrow> bool expected"
  se_stopping :: "scalls \<Rightarrow> bool"
  se_enqueue :: "scalls \<Rightarrow> bool"
  se_local_hostname :: string
  se_p2p_handshake :: bool
  se_local_ip_and_port :: string
  se_address_not_registered :: int
  se_nof_build :: bool
  se_gpu_prefix :: string
  se_dmabuf_value :: "string option"
  se_init_env :: "scalls \<Rightarrow> bool"
  se_dmabuf_enabled :: bool
  se_register_gpu :: "scalls \<Rightarrow> u64 \<Rightarrow> u64 \<Rightarrow> int"

text \<open>\<open>sg_timers\<close> has the queued runs of the graceful timer, with the retries left; \<open>sg_control_plane\<close>
  says that the threads of the storage control plane were started.\<close>

record seg_state =
  sg_mounted :: "Segment list"
  sg_unmounting :: "Segment list"
  sg_callbacks :: "nat list"
  sg_timers :: "(nat \<times> nat) list"
  sg_control_plane :: bool
  sg_calls :: scalls

definition scall :: "scall \<Rightarrow> seg_state \<Rightarrow> seg_state" where
  "scall c s = s\<lparr>sg_calls := c # sg_calls s\<rparr>"

definition find_segment :: "nat \<Rightarrow> Segment list \<Rightarrow> Segment option" where
  "find_segment i segs = find (\<lambda>g. seg_id g = i) segs"

definition erase_segment :: "nat \<Rightarrow> Segment list \<Rightarrow> Segment list" where
  "erase_segment i segs = filter (\<lambda>g. seg_id g \<noteq> i) segs"

section \<open>Mounting\<close>

definition CheckRegisterMemoryParams :: "seg_env \<Rightarrow> u64 \<Rightarrow> u64 \<Rightarrow> unit expected" where
  "CheckRegisterMemoryParams E addr len =
     (if addr = 0 then Inl INVALID_PARAMS
      else if len = 0 then Inl INVALID_PARAMS
      else if len > se_max_mr_size E then Inl INVALID_PARAMS
      else ok)"

definition segment_overlaps :: "u64 \<Rightarrow> u64 \<Rightarrow> Segment \<Rightarrow> bool" where
  "segment_overlaps buffer size' mtseg =
     (let l1 = seg_base mtseg; r1 = seg_size mtseg + l1; l2 = buffer; r2 = size' + l2
      in max l1 l2 < min r1 r2)"

definition MountSegmentAndGetId ::
    "seg_env \<Rightarrow> u64 \<Rightarrow> u64 \<Rightarrow> string \<Rightarrow> seg_state \<Rightarrow> nat expected \<times> seg_state" where
  "MountSegmentAndGetId E buffer size' protocol s =
     (case CheckRegisterMemoryParams E buffer size' of
        Inl e \<Rightarrow> (Inl e, s)
      | Inr u \<Rightarrow>
          if list_ex (segment_overlaps buffer size') (sg_mounted s) then (Inl INVALID_PARAMS, s)
          else let s = scall (S_register buffer size') s
          in if se_register E (sg_calls s) buffer size' \<noteq> 0 then (Inl INVALID_PARAMS, s)
          else let i = se_uuid E (sg_calls s);
                   segment = \<lparr>seg_id = i, seg_name = se_local_hostname E, seg_base = buffer, seg_size = size',
                     seg_protocol = protocol,
                     seg_te_endpoint = (if se_p2p_handshake E then se_local_ip_and_port E else se_local_hostname E)\<rparr>;
                   s = scall (S_MountSegment i) s
          in case se_mount E (sg_calls s) i of
               Inl e \<Rightarrow> (Inl e, s)
             | Inr u \<Rightarrow> (Inr i, s\<lparr>sg_mounted := erase_segment i (sg_mounted s) @ [segment], sg_control_plane := True\<rparr>))"

definition MountSegment :: "seg_env \<Rightarrow> u64 \<Rightarrow> u64 \<Rightarrow> string \<Rightarrow> seg_state \<Rightarrow> unit expected \<times> seg_state" where
  "MountSegment E buffer size' protocol s =
     (let (result, s) = MountSegmentAndGetId E buffer size' protocol s
      in (case result of Inl e \<Rightarrow> Inl e | Inr i \<Rightarrow> ok, s))"

section \<open>Unmounting\<close>

definition UnmountSegmentImpl :: "seg_env \<Rightarrow> Segment \<Rightarrow> seg_state \<Rightarrow> unit expected \<times> seg_state" where
  "UnmountSegmentImpl E g s =
     (let s = scall (S_UnmountSegment (seg_id g)) s
      in case se_unmount E (sg_calls s) (seg_id g) of
           Inl e \<Rightarrow> (Inl e, s)
         | Inr u \<Rightarrow>
             (let s = scall (S_unregister (seg_base g)) s; rc = se_unregister E (sg_calls s) (seg_base g)
              in if rc \<noteq> 0 \<and> rc \<noteq> se_address_not_registered E then (Inl INTERNAL_ERROR, s)
                 else (ok, s\<lparr>sg_mounted := erase_segment (seg_id g) (sg_mounted s)\<rparr>)))"

definition UnmountSegment :: "seg_env \<Rightarrow> u64 \<Rightarrow> u64 \<Rightarrow> seg_state \<Rightarrow> unit expected \<times> seg_state" where
  "UnmountSegment E buffer size' s =
     (case find (\<lambda>g. seg_base g = buffer \<and> seg_size g = size') (sg_mounted s) of
        None \<Rightarrow> (Inl INVALID_PARAMS, s)
      | Some g \<Rightarrow> UnmountSegmentImpl E g s)"

definition UnmountSegmentById :: "seg_env \<Rightarrow> nat \<Rightarrow> nat \<Rightarrow> bool \<Rightarrow> seg_state \<Rightarrow> unit expected \<times> seg_state" where
  "UnmountSegmentById E segment_id grace_period_ms callback s =
     (case find_segment segment_id (sg_mounted s) of
        None \<Rightarrow> (Inl INVALID_PARAMS, s)
      | Some g \<Rightarrow>
          if grace_period_ms = 0 then UnmountSegmentImpl E g s
          else let s = scall (S_GracefulUnmount segment_id) s
          in case se_graceful E (sg_calls s) segment_id of
               Inl e \<Rightarrow> (Inl e, s)
             | Inr u \<Rightarrow>
                 (ok, s\<lparr>sg_unmounting := (if find_segment segment_id (sg_unmounting s) = None
                                         then sg_unmounting s @ [g] else sg_unmounting s),
                        sg_callbacks := (if callback then List.insert segment_id (sg_callbacks s) else sg_callbacks s),
                        sg_mounted := erase_segment segment_id (sg_mounted s),
                        sg_timers := sg_timers s @ [(segment_id, 3)]\<rparr>))"

definition segment_removed :: "seg_env \<Rightarrow> nat \<Rightarrow> seg_state \<Rightarrow> bool" where
  "segment_removed E segment_id s =
     (case se_undefined_status E (sg_calls s) segment_id of
        Inl e \<Rightarrow> e = SEGMENT_NOT_FOUND
      | Inr undefined_status \<Rightarrow> undefined_status)"

definition cleanup_segment :: "seg_env \<Rightarrow> nat \<Rightarrow> seg_state \<Rightarrow> seg_state" where
  "cleanup_segment E segment_id s =
     (let s = (case find_segment segment_id (sg_unmounting s) of
                 None \<Rightarrow> s
               | Some g \<Rightarrow> (scall (S_unregister (seg_base g)) s)
                             \<lparr>sg_unmounting := erase_segment segment_id (sg_unmounting s)\<rparr>)
      in if segment_id \<in> set (sg_callbacks s)
         then scall (S_callback segment_id) (s\<lparr>sg_callbacks := removeAll segment_id (sg_callbacks s)\<rparr>)
         else s)"

definition OnGracefulUnmountTimer :: "seg_env \<Rightarrow> nat \<Rightarrow> nat \<Rightarrow> seg_state \<Rightarrow> seg_state" where
  "OnGracefulUnmountTimer E segment_id retry_left s =
     (if find_segment segment_id (sg_unmounting s) = None then s
      else let s = scall (S_QueryStatus segment_id) s
      in if segment_removed E segment_id s then cleanup_segment E segment_id s
      else if retry_left > 0 \<and> se_enqueue E (sg_calls s)
      then s\<lparr>sg_timers := sg_timers s @ [(segment_id, retry_left - 1)]\<rparr>
      else s)"

text \<open>A queued run: the wait is interrupted when the client stops.\<close>

definition run_timer :: "seg_env \<Rightarrow> nat \<times> nat \<Rightarrow> seg_state \<Rightarrow> seg_state" where
  "run_timer E t s =
     (let s = s\<lparr>sg_timers := remove1 t (sg_timers s)\<rparr>
      in if se_stopping E (sg_calls s) then s else OnGracefulUnmountTimer E (fst t) (snd t) s)"

section \<open>Steps\<close>

text \<open>
  The operations in any order.  A buffer that is mounted does not reach beyond the address space.
  With the flag set, buffers that overlap a segment which is being unmounted are not mounted; the
  code does not require that.
\<close>

inductive seg_step :: "seg_env \<Rightarrow> bool \<Rightarrow> seg_state \<Rightarrow> seg_state \<Rightarrow> bool" for E careful where
  mount: "no_wrap b n \<Longrightarrow> careful \<longrightarrow> \<not> list_ex (segment_overlaps b n) (sg_unmounting s) \<Longrightarrow>
    seg_step E careful s (snd (MountSegmentAndGetId E b n protocol s))"
| unmount: "seg_step E careful s (snd (UnmountSegment E b n s))"
| unmount_by_id: "seg_step E careful s (snd (UnmountSegmentById E i grace callback s))"
| timer: "t \<in> set (sg_timers s) \<Longrightarrow> seg_step E careful s (run_timer E t s)"

definition no_segments :: seg_state where
  "no_segments = \<lparr>sg_mounted = [], sg_unmounting = [], sg_callbacks = [], sg_timers = [], sg_control_plane = False,
     sg_calls = []\<rparr>"

section \<open>Registering memory\<close>

definition IsGpuLocationForSpdk :: "seg_env \<Rightarrow> string \<Rightarrow> bool" where
  "IsGpuLocationForSpdk E location = (take (length (se_gpu_prefix E)) location = se_gpu_prefix E)"

text \<open>The value is read like that of \<open>ParseEnvSize\<close>.\<close>

definition IsSpdkGpuDmabufRequested :: "seg_env \<Rightarrow> bool" where
  "IsSpdkGpuDmabufRequested E = (case ParseEnvSize (se_dmabuf_value E) of None \<Rightarrow> False | Some parsed \<Rightarrow> parsed \<noteq> 0)"

definition RegisterLocalMemory :: "seg_env \<Rightarrow> u64 \<Rightarrow> u64 \<Rightarrow> string \<Rightarrow> seg_state \<Rightarrow> unit expected \<times> seg_state" where
  "RegisterLocalMemory E addr len location s =
     (case CheckRegisterMemoryParams E addr len of
        Inl e \<Rightarrow> (Inl e, s)
      | Inr u \<Rightarrow>
          (let s = scall (S_register addr len) s
           in if se_register E (sg_calls s) addr len \<noteq> 0 then (Inl INVALID_PARAMS, s)
           else if se_nof_build E \<and> IsGpuLocationForSpdk E location \<and> IsSpdkGpuDmabufRequested E
           then let s = scall S_InitializeEnv s
                in if \<not> se_init_env E (sg_calls s) then (Inl INVALID_PARAMS, scall (S_unregister addr) s)
                else let s = scall (S_RegisterGpu addr len) s
                in if se_register_gpu E (sg_calls s) addr len \<noteq> 0
                   then (Inl INVALID_PARAMS, scall (S_unregister addr) (scall (S_UnregisterGpu addr) s))
                   else (ok, s)
           else (ok, s)))"

definition unregisterLocalMemory_client :: "seg_env \<Rightarrow> u64 \<Rightarrow> seg_state \<Rightarrow> unit expected \<times> seg_state" where
  "unregisterLocalMemory_client E addr s =
     (let s = scall (S_unregister addr) s
      in if se_unregister E (sg_calls s) addr \<noteq> 0 then (Inl INVALID_PARAMS, s)
         else (ok, if se_nof_build E then scall (S_UnregisterGpu addr) s else s))"

definition RegisterSpdkGpuMemory :: "seg_env \<Rightarrow> u64 \<Rightarrow> u64 \<Rightarrow> seg_state \<Rightarrow> unit expected \<times> seg_state" where
  "RegisterSpdkGpuMemory E addr len s =
     (if addr = 0 \<or> len = 0 then (Inl INVALID_PARAMS, s)
      else if \<not> se_nof_build E then (Inl INVALID_PARAMS, s)
      else if \<not> IsSpdkGpuDmabufRequested E then (Inl INVALID_PARAMS, s)
      else let s = scall S_InitializeEnv s
      in if \<not> se_init_env E (sg_calls s) then (Inl INVALID_PARAMS, s)
         else if \<not> se_dmabuf_enabled E then (Inl INVALID_PARAMS, s)
         else let s = scall (S_RegisterGpu addr len) s
         in if se_register_gpu E (sg_calls s) addr len \<noteq> 0 then (Inl INVALID_PARAMS, s) else (ok, s))"

definition UnregisterSpdkGpuMemory :: "seg_env \<Rightarrow> u64 \<Rightarrow> seg_state \<Rightarrow> unit expected \<times> seg_state" where
  "UnregisterSpdkGpuMemory E addr s =
     (if addr = 0 then (Inl INVALID_PARAMS, s)
      else if se_nof_build E then (ok, scall (S_UnregisterGpu addr) s)
      else (Inl INVALID_PARAMS, s))"

end
