(* ===== verification/Client_Segments_Props.thy ===== *)
theory Client_Segments_Props
  imports Client_Segments
begin

text \<open>
  Correctness of the mounted segments: they are disjoint and registered with the transfer engine,
  and a graceful unmount asks the master a bounded number of times.
\<close>

section \<open>Ranges\<close>

definition seg_span :: "Segment \<Rightarrow> nat set" where
  "seg_span g = span (seg_base g) (seg_size g)"

definition seg_ok :: "Segment \<Rightarrow> bool" where
  "seg_ok g \<longleftrightarrow> no_wrap (seg_base g) (seg_size g) \<and> seg_size g \<noteq> 0"

definition seg_disjoint :: "Segment list \<Rightarrow> bool" where
  "seg_disjoint gs \<longleftrightarrow> (\<forall>g \<in> set gs. \<forall>g' \<in> set gs. g \<noteq> g' \<longrightarrow> seg_span g \<inter> seg_span g' = {})"

lemma unat_max_min: "unat (max a b) = max (unat a) (unat b)" "unat (min a b) = min (unat a) (unat b)" for a b :: u64
  by (auto simp: max_def min_def word_le_nat_alt)

lemma segment_overlaps_span:
  assumes "no_wrap b n" "seg_ok g"
  shows "segment_overlaps b n g \<longleftrightarrow> span b n \<inter> seg_span g \<noteq> {}"
proof -
  have ends: "unat (n + b) = unat b + unat n" "unat (seg_size g + seg_base g) = unat (seg_base g) + unat (seg_size g)"
    using assms by (simp_all add: seg_ok_def no_wrap_def unat_word_ariths)
  show ?thesis
    unfolding segment_overlaps_def Let_def word_less_nat_alt unat_max_min ends
    by (auto simp: seg_span_def span_def disjoint_iff not_less)
qed

lemma spans_base: "seg_ok g \<Longrightarrow> seg_ok g' \<Longrightarrow> seg_span g \<inter> seg_span g' = {} \<Longrightarrow> seg_base g \<noteq> seg_base g'"
  by (auto simp: seg_span_def span_def seg_ok_def disjoint_iff unat_gt_0)

section \<open>What the engine has\<close>

text \<open>Whether an address is registered with the transfer engine after the calls of a log.\<close>

fun engine_has :: "seg_env \<Rightarrow> u64 \<Rightarrow> scalls \<Rightarrow> bool" where
  "engine_has E a [] = False"
| "engine_has E a (S_register b n # h) = ((a = b \<and> se_register E (S_register b n # h) b n = 0) \<or> engine_has E a h)"
| "engine_has E a (S_unregister b # h) = (engine_has E a h \<and> \<not> (a = b \<and> se_unregister E (S_unregister b # h) b = 0))"
| "engine_has E a (c # h) = engine_has E a h"

text \<open>Identifiers are not generated twice.\<close>

definition fresh_ids :: "seg_env \<Rightarrow> bool" where
  "fresh_ids E \<longleftrightarrow> (\<forall>h i. S_MountSegment i \<in> set h \<longrightarrow> se_uuid E h \<noteq> i)"

section \<open>The invariant\<close>

text \<open>The segments that count for disjointness.\<close>

definition live_segments :: "bool \<Rightarrow> seg_state \<Rightarrow> Segment list" where
  "live_segments careful s = sg_mounted s @ (if careful then sg_unmounting s else [])"

definition seg_inv :: "seg_env \<Rightarrow> bool \<Rightarrow> seg_state \<Rightarrow> bool" where
  "seg_inv E careful s \<longleftrightarrow>
     distinct (map seg_id (sg_mounted s @ sg_unmounting s)) \<and>
     (\<forall>g \<in> set (sg_mounted s @ sg_unmounting s). seg_ok g \<and> S_MountSegment (seg_id g) \<in> set (sg_calls s)) \<and>
     seg_disjoint (live_segments careful s) \<and>
     (careful \<longrightarrow> (\<forall>g \<in> set (sg_mounted s). engine_has E (seg_base g) (sg_calls s)))"

lemma seg_disjoint_mono: "seg_disjoint gs \<Longrightarrow> set gs' \<subseteq> set gs \<Longrightarrow> seg_disjoint gs'"
  unfolding seg_disjoint_def by blast

lemma erase_segment_simps [simp]: "set (erase_segment i gs) = {g \<in> set gs. seg_id g \<noteq> i}"
  by (auto simp: erase_segment_def)

lemma erase_distinct: "distinct (map seg_id gs) \<Longrightarrow> distinct (map seg_id (erase_segment i gs))"
  by (induction gs) (auto simp: erase_segment_def)

lemma erase_fresh: "i \<notin> seg_id ` set gs \<Longrightarrow> erase_segment i gs = gs"
  by (auto simp: erase_segment_def filter_id_conv)

lemma find_segment_in: "find_segment i gs = Some g \<Longrightarrow> g \<in> set gs \<and> seg_id g = i"
  by (auto simp: find_segment_def find_Some_iff)

lemma find_segment_None: "find_segment i gs = None \<longleftrightarrow> i \<notin> seg_id ` set gs"
  by (auto simp: find_segment_def find_None_iff)

text \<open>A call that neither registers nor unregisters keeps the invariant.\<close>

lemma seg_inv_call:
  assumes "seg_inv E careful s" "\<And>a. engine_has E a (c # sg_calls s) = engine_has E a (sg_calls s)"
  shows "seg_inv E careful (scall c s)"
  using assms by (auto simp: seg_inv_def scall_def live_segments_def)

text \<open>Dropping the segment \<open>i\<close> from either table, after unregistering its base, keeps the invariant.\<close>

lemma seg_inv_drop:
  assumes inv: "seg_inv E careful s" and g: "g \<in> set (live_segments True s)"
  shows "careful \<Longrightarrow> g' \<in> set (sg_mounted s) \<Longrightarrow> seg_id g' \<noteq> seg_id g \<Longrightarrow> seg_base g' \<noteq> seg_base g"
    "seg_inv E careful (s\<lparr>sg_mounted := erase_segment i (sg_mounted s)\<rparr>)"
    "seg_inv E careful (s\<lparr>sg_unmounting := erase_segment i (sg_unmounting s)\<rparr>)"
proof -
  show "seg_base g' \<noteq> seg_base g" if "careful" "g' \<in> set (sg_mounted s)" "seg_id g' \<noteq> seg_id g"
  proof (rule spans_base)
    show "seg_ok g'" "seg_ok g" using inv g that by (auto simp: seg_inv_def live_segments_def)
    have "g' \<in> set (live_segments careful s)" "g \<in> set (live_segments careful s)" "g' \<noteq> g"
      using g that by (auto simp: live_segments_def)
    moreover have "seg_disjoint (live_segments careful s)" using inv unfolding seg_inv_def by blast
    ultimately show "seg_span g' \<inter> seg_span g = {}" unfolding seg_disjoint_def by blast
  qed
  show "seg_inv E careful (s\<lparr>sg_mounted := erase_segment i (sg_mounted s)\<rparr>)"
    "seg_inv E careful (s\<lparr>sg_unmounting := erase_segment i (sg_unmounting s)\<rparr>)"
    using inv by (auto simp: seg_inv_def live_segments_def erase_distinct elim: seg_disjoint_mono)
qed

lemma seg_inv_other_fields:
  "seg_inv E careful (s\<lparr>sg_timers := ts\<rparr>) = seg_inv E careful s"
  "seg_inv E careful (s\<lparr>sg_callbacks := cs\<rparr>) = seg_inv E careful s"
  "seg_inv E careful (s\<lparr>sg_control_plane := b\<rparr>) = seg_inv E careful s"
  by (simp_all add: seg_inv_def live_segments_def)

lemma UnmountSegmentImpl_inv:
  assumes "seg_inv E careful s" "g \<in> set (sg_mounted s)"
  shows "seg_inv E careful (snd (UnmountSegmentImpl E g s))"
proof -
  let ?s = "scall (S_UnmountSegment (seg_id g)) s"
  let ?u = "scall (S_unregister (seg_base g)) ?s"
  have s: "seg_inv E careful ?s" by (rule seg_inv_call [OF assms(1)]) simp
  have g: "g \<in> set (live_segments True ?s)" using assms(2) by (simp add: live_segments_def scall_def)
  have kept: "seg_inv E careful ?u" if "se_unregister E (sg_calls ?u) (seg_base g) \<noteq> 0"
    using that s by (auto simp: scall_def seg_inv_def live_segments_def)
  have "seg_inv E careful (?u\<lparr>sg_mounted := erase_segment (seg_id g) (sg_mounted ?u)\<rparr>)"
    using seg_inv_drop(2) [OF s g, of "seg_id g"] seg_inv_drop(1) [OF s g]
    by (auto simp: seg_inv_def live_segments_def scall_def)
  with s kept show ?thesis by (auto simp: UnmountSegmentImpl_def Let_def split: sum.split)
qed

lemma UnmountSegment_inv:
  assumes "seg_inv E careful s"
  shows "seg_inv E careful (snd (UnmountSegment E b n s))"
  using assms UnmountSegmentImpl_inv
  by (auto simp: UnmountSegment_def find_Some_iff split: option.split)

lemma graceful_inv:
  assumes inv: "seg_inv E careful s" and g: "find_segment i (sg_mounted s) = Some g"
  shows "seg_inv E careful (s\<lparr>sg_unmounting := sg_unmounting s @ [g], sg_mounted := erase_segment i (sg_mounted s)\<rparr>)"
proof -
  have g': "g \<in> set (sg_mounted s)" "seg_id g = i" using find_segment_in [OF g] by auto
  have "distinct (map seg_id (erase_segment i (sg_mounted s) @ sg_unmounting s @ [g]))"
    using inv g' by (auto simp: seg_inv_def erase_distinct)
  moreover have "seg_disjoint (erase_segment i (sg_mounted s) @ (if careful then sg_unmounting s @ [g] else []))"
    using inv g'(1) unfolding seg_inv_def live_segments_def by (auto elim!: seg_disjoint_mono)
  ultimately show ?thesis
    using inv g' unfolding seg_inv_def live_segments_def by auto
qed

lemma UnmountSegmentById_inv:
  assumes inv: "seg_inv E careful s"
  shows "seg_inv E careful (snd (UnmountSegmentById E i grace callback s))"
proof (cases "find_segment i (sg_mounted s)")
  case None
  with inv show ?thesis by (simp add: UnmountSegmentById_def)
next
  case (Some g)
  let ?s = "scall (S_GracefulUnmount i) s"
  have s: "seg_inv E careful ?s" by (rule seg_inv_call [OF inv]) simp
  have g: "find_segment i (sg_mounted ?s) = Some g" using Some by (simp add: scall_def)
  have "find_segment i (sg_unmounting ?s) = None"
    using s find_segment_in [OF g] by (auto simp: find_segment_None seg_inv_def)
  with Some s graceful_inv [OF s g] UnmountSegmentImpl_inv [OF inv] find_segment_in [OF Some] show ?thesis
    by (auto simp: UnmountSegmentById_def Let_def seg_inv_def live_segments_def split: sum.split)
qed

lemma run_timer_inv:
  assumes inv: "seg_inv E careful s"
  shows "seg_inv E careful (run_timer E t s)"
proof -
  have clean: "seg_inv E careful (cleanup_segment E i u)" if u: "seg_inv E careful u" for i u
  proof -
    have call: "seg_inv E careful (scall (S_callback i) v)" if "seg_inv E careful v" for v
      by (rule seg_inv_call [OF that]) simp
    show ?thesis
    proof (cases "find_segment i (sg_unmounting u)")
      case None
      with u call show ?thesis by (simp add: cleanup_segment_def Let_def seg_inv_other_fields)
    next
      case (Some g)
      have g: "g \<in> set (live_segments True u)" "seg_id g = i" using find_segment_in [OF Some] by (auto simp: live_segments_def)
      have ne: "seg_id g' \<noteq> i" if "g' \<in> set (sg_mounted u)" for g'
        using u that find_segment_in [OF Some] by (auto simp: seg_inv_def)
      have "seg_inv E careful ((scall (S_unregister (seg_base g)) u)\<lparr>sg_unmounting := erase_segment i (sg_unmounting u)\<rparr>)"
        using seg_inv_drop(3) [OF u g(1), of i] seg_inv_drop(1) [OF u g(1)] ne g(2)
        by (auto simp: seg_inv_def live_segments_def scall_def)
      with Some call show ?thesis by (simp add: cleanup_segment_def Let_def seg_inv_other_fields)
    qed
  qed
  have query: "seg_inv E careful (scall (S_QueryStatus i) u)" if "seg_inv E careful u" for i u
    by (rule seg_inv_call [OF that]) simp
  show ?thesis
    using inv clean query
    by (simp add: run_timer_def OnGracefulUnmountTimer_def Let_def seg_inv_other_fields)
qed

lemma Mount_inv:
  assumes inv: "seg_inv E careful s" and "no_wrap b n" and "fresh_ids E"
    and avoid: "careful \<longrightarrow> \<not> list_ex (segment_overlaps b n) (sg_unmounting s)"
  shows "seg_inv E careful (snd (MountSegmentAndGetId E b n protocol s))"
proof -
  let ?r = "scall (S_register b n) s"
  let ?i = "se_uuid E (sg_calls ?r)"
  let ?m = "scall (S_MountSegment ?i) ?r"
  have r: "seg_inv E careful ?r" using inv by (auto simp: seg_inv_def live_segments_def scall_def)
  have m: "seg_inv E careful ?m" by (rule seg_inv_call [OF r]) simp
  have fresh: "?i \<notin> seg_id ` set (sg_mounted ?m @ sg_unmounting ?m)"
    using assms(3) r unfolding fresh_ids_def seg_inv_def by (auto simp: scall_def)
  have "seg_inv E careful (?m\<lparr>sg_mounted := sg_mounted ?m @ [g], sg_control_plane := True\<rparr>)"
    if g: "seg_id g = ?i" "seg_base g = b" "seg_size g = n" and n: "n \<noteq> 0"
      and reg: "se_register E (sg_calls ?r) b n = 0" and free: "\<not> list_ex (segment_overlaps b n) (sg_mounted s)" for g
  proof -
    have ok: "seg_ok g" using g n assms(2) by (simp add: seg_ok_def)
    have "seg_span g \<inter> seg_span g' = {}" if "g' \<in> set (live_segments careful s)" for g'
    proof -
      have "seg_ok g'" "\<not> segment_overlaps b n g'"
        using inv that avoid free by (auto simp: seg_inv_def live_segments_def list_ex_iff split: if_splits)
      with segment_overlaps_span [OF assms(2)] g show ?thesis by (simp add: seg_span_def)
    qed
    then have "seg_disjoint (sg_mounted s @ [g] @ (if careful then sg_unmounting s else []))"
      using inv unfolding seg_inv_def seg_disjoint_def live_segments_def by (auto simp: Int_commute)
    with m fresh ok g reg show ?thesis
      by (auto simp: seg_inv_def live_segments_def scall_def)
  qed
  moreover have "erase_segment ?i (sg_mounted ?m) = sg_mounted ?m" using fresh by (intro erase_fresh) auto
  ultimately show ?thesis
    using inv r m by (auto simp: MountSegmentAndGetId_def CheckRegisterMemoryParams_def Let_def split: sum.split)
qed

lemma seg_step_inv: "seg_step E careful s s' \<Longrightarrow> fresh_ids E \<Longrightarrow> seg_inv E careful s \<Longrightarrow> seg_inv E careful s'"
  by (induction rule: seg_step.induct)
    (simp_all add: Mount_inv UnmountSegment_inv UnmountSegmentById_inv run_timer_inv)

section \<open>The graceful timer\<close>

definition status_queries :: "nat \<Rightarrow> scalls \<Rightarrow> nat" where
  "status_queries i h = length (filter (\<lambda>c. c = S_QueryStatus i) h)"

text \<open>The queries that the queued runs for a segment may still make.\<close>

definition timer_budget :: "nat \<Rightarrow> (nat \<times> nat) list \<Rightarrow> nat" where
  "timer_budget i ts = sum_list (map (\<lambda>(j, r). if j = i then r + 1 else 0) ts)"

lemma timer_budget_simps [simp]:
  "timer_budget i [] = 0" "timer_budget i (ts @ us) = timer_budget i ts + timer_budget i us"
  "timer_budget i [(j, r)] = (if j = i then r + 1 else 0)"
  by (simp_all add: timer_budget_def)

lemma timer_budget_remove:
  "(j, r) \<in> set ts \<Longrightarrow> timer_budget i ts = timer_budget i (remove1 (j, r) ts) + (if j = i then r + 1 else 0)"
  by (induction ts) (auto simp: timer_budget_def)

text \<open>
  A segment that is mounted, or has not been, was not asked for and has no timer; every other one
  has a budget of four queries.
\<close>

definition asked :: "nat \<Rightarrow> scalls \<Rightarrow> (nat \<times> nat) list \<Rightarrow> nat" where
  "asked i h ts = status_queries i h + timer_budget i ts"

definition budget_ok :: "Segment list \<Rightarrow> scalls \<Rightarrow> (nat \<times> nat) list \<Rightarrow> bool" where
  "budget_ok gs h ts \<longleftrightarrow> (\<forall>i. asked i h ts \<le> 4 \<and>
     (i \<in> seg_id ` set gs \<or> S_MountSegment i \<notin> set h \<longrightarrow> asked i h ts = 0))"

definition budget_inv :: "seg_state \<Rightarrow> bool" where
  "budget_inv s \<longleftrightarrow> budget_ok (sg_mounted s) (sg_calls s) (sg_timers s)"

lemma asked_call [simp]: "c \<noteq> S_QueryStatus i \<Longrightarrow> asked i (c # h) ts = asked i h ts"
  by (simp add: asked_def status_queries_def)

lemma budget_okI:
  assumes "\<And>i. asked i h ts \<le> 4" "\<And>i. i \<in> seg_id ` set gs \<or> S_MountSegment i \<notin> set h \<Longrightarrow> asked i h ts = 0"
  shows "budget_ok gs h ts"
  unfolding budget_ok_def by (intro allI conjI impI) (erule assms(2) | rule assms(1))+

lemma budget_okD:
  assumes "budget_ok gs h ts"
  shows "asked i h ts \<le> 4" "i \<in> seg_id ` set gs \<or> S_MountSegment i \<notin> set h \<Longrightarrow> asked i h ts = 0"
  by (rule conjunct1 [OF spec [OF assms [unfolded budget_ok_def]]],
      erule mp [OF conjunct2 [OF spec [OF assms [unfolded budget_ok_def]]]])

lemma budget_mono:
  assumes ok: "budget_ok gs h ts" and le: "\<And>i. asked i h' ts' \<le> asked i h ts"
    and gs: "seg_id ` set gs' \<subseteq> seg_id ` set gs" and h: "\<And>i. S_MountSegment i \<in> set h \<Longrightarrow> S_MountSegment i \<in> set h'"
  shows "budget_ok gs' h' ts'"
proof (rule budget_okI)
  show "asked i h' ts' \<le> 4" for i using le [of i] budget_okD(1) [OF ok, of i] by simp
  show "asked i h' ts' = 0" if "i \<in> seg_id ` set gs' \<or> S_MountSegment i \<notin> set h'" for i
  proof -
    have "asked i h ts = 0" using that gs h by (intro budget_okD(2) [OF ok]) blast
    with le [of i] show ?thesis by simp
  qed
qed

lemma budget_call: "budget_ok gs h ts \<Longrightarrow> (\<And>i. c \<noteq> S_QueryStatus i) \<Longrightarrow> budget_ok gs (c # h) ts"
  by (erule budget_mono) simp_all

lemma budget_erase: "budget_ok gs h ts \<Longrightarrow> budget_ok (erase_segment i gs) h ts"
  by (erule budget_mono) auto

lemma UnmountSegmentImpl_budget: "budget_inv s \<Longrightarrow> budget_inv (snd (UnmountSegmentImpl E g s))"
  by (auto simp: UnmountSegmentImpl_def budget_inv_def scall_def Let_def budget_call budget_erase split: sum.split)

lemma Mount_budget:
  assumes "budget_inv s" "fresh_ids E"
  shows "budget_inv (snd (MountSegmentAndGetId E b n protocol s))"
proof -
  let ?h = "S_register b n # sg_calls s"
  let ?i = "se_uuid E ?h"
  have r: "budget_ok (sg_mounted s) ?h (sg_timers s)" using assms(1) by (simp add: budget_inv_def budget_call)
  have "S_MountSegment ?i \<notin> set ?h" using assms(2) unfolding fresh_ids_def by blast
  then have none: "asked ?i ?h (sg_timers s) = 0" by (intro budget_okD(2) [OF r]) blast
  have "budget_ok (erase_segment ?i (sg_mounted s) @ [g]) (S_MountSegment ?i # ?h) (sg_timers s)" if "seg_id g = ?i" for g
  proof (rule budget_okI)
    show "asked j (S_MountSegment ?i # ?h) (sg_timers s) \<le> 4" for j using budget_okD(1) [OF r, of j] by simp
    show "asked j (S_MountSegment ?i # ?h) (sg_timers s) = 0"
      if "j \<in> seg_id ` set (erase_segment ?i (sg_mounted s) @ [g]) \<or> S_MountSegment j \<notin> set (S_MountSegment ?i # ?h)" for j
    proof (cases "j = ?i")
      case False
      with that \<open>seg_id g = ?i\<close> have "asked j ?h (sg_timers s) = 0" by (intro budget_okD(2) [OF r]) auto
      then show ?thesis by simp
    qed (use none in simp)
  qed
  with assms(1) r show ?thesis
    by (auto simp: MountSegmentAndGetId_def CheckRegisterMemoryParams_def budget_inv_def scall_def Let_def budget_call
        split: sum.split)
qed

lemma UnmountSegmentById_budget:
  assumes "budget_inv s" "seg_inv E careful s"
  shows "budget_inv (snd (UnmountSegmentById E i grace callback s))"
proof (cases "find_segment i (sg_mounted s)")
  case None
  with assms show ?thesis by (simp add: UnmountSegmentById_def)
next
  case (Some g)
  let ?h = "S_GracefulUnmount i # sg_calls s"
  have s: "budget_ok (sg_mounted s) ?h (sg_timers s)" using assms(1) by (simp add: budget_inv_def budget_call)
  have i: "i \<in> seg_id ` set (sg_mounted s)" "S_MountSegment i \<in> set ?h"
    using find_segment_in [OF Some] assms(2) by (auto simp: seg_inv_def)
  have none: "asked i ?h (sg_timers s) = 0" using i(1) by (intro budget_okD(2) [OF s]) blast
  have more: "asked j ?h (sg_timers s @ [(i, 3)]) = asked j ?h (sg_timers s) + (if i = j then 4 else 0)" for j
    by (simp add: asked_def)
  have "budget_ok (erase_segment i (sg_mounted s)) ?h (sg_timers s @ [(i, 3)])"
  proof (rule budget_okI)
    show "asked j ?h (sg_timers s @ [(i, 3)]) \<le> 4" for j
      unfolding more using none budget_okD(1) [OF s, of j] by (cases "i = j") simp_all
    show "asked j ?h (sg_timers s @ [(i, 3)]) = 0"
      if "j \<in> seg_id ` set (erase_segment i (sg_mounted s)) \<or> S_MountSegment j \<notin> set ?h" for j
    proof -
      have "j \<noteq> i" using that i(2) by auto
      moreover have "asked j ?h (sg_timers s) = 0" using that by (intro budget_okD(2) [OF s]) auto
      ultimately show ?thesis unfolding more by simp
    qed
  qed
  with Some s UnmountSegmentImpl_budget [OF assms(1)] show ?thesis
    by (auto simp: UnmountSegmentById_def budget_inv_def scall_def Let_def split: sum.split)
qed

lemma cleanup_budget: "budget_inv s \<Longrightarrow> budget_inv (cleanup_segment E i s)"
  by (auto simp: cleanup_segment_def budget_inv_def scall_def Let_def budget_call split: option.split)

lemma timer_budgets:
  assumes "budget_ok gs h ts" "(i, r) \<in> set ts"
  defines "us \<equiv> remove1 (i, r) ts"
  shows "budget_ok gs h us" "budget_ok gs (S_QueryStatus i # h) us"
    "0 < r \<Longrightarrow> budget_ok gs (S_QueryStatus i # h) (us @ [(i, r - 1)])"
proof -
  have split: "asked j h ts = asked j h us + (if i = j then r + 1 else 0)" for j
    using timer_budget_remove [OF assms(2), of j] by (simp add: asked_def us_def)
  have query: "asked j (S_QueryStatus i # h) vs = asked j h vs + (if i = j then 1 else 0)" for j vs
    by (simp add: asked_def status_queries_def)
  have again: "asked j h (us @ [(i, r - 1)]) = asked j h us + (if i = j then r - 1 + 1 else 0)" for j
    by (simp add: asked_def)
  show "budget_ok gs h us" "budget_ok gs (S_QueryStatus i # h) us"
    by (rule budget_mono [OF assms(1)]; simp add: split query)+
  show "budget_ok gs (S_QueryStatus i # h) (us @ [(i, r - 1)])" if "0 < r"
    by (rule budget_mono [OF assms(1)]) (use that in \<open>simp_all add: split query again del: One_nat_def\<close>)
qed

lemma run_timer_budget:
  assumes "budget_inv s" "t \<in> set (sg_timers s)"
  shows "budget_inv (run_timer E t s)"
proof -
  obtain i r where t: "t = (i, r)" by (cases t)
  let ?s = "s\<lparr>sg_timers := remove1 (i, r) (sg_timers s)\<rparr>"
  note budgets = timer_budgets [OF assms(1) [unfolded budget_inv_def] assms(2) [unfolded t]]
  have "budget_inv (cleanup_segment E i (scall (S_QueryStatus i) ?s))"
    by (rule cleanup_budget) (simp add: budget_inv_def scall_def budgets)
  with budgets show ?thesis
    by (simp add: run_timer_def OnGracefulUnmountTimer_def budget_inv_def scall_def Let_def t)
qed

lemma seg_step_budget:
  "seg_step E careful s s' \<Longrightarrow> fresh_ids E \<Longrightarrow> seg_inv E careful s \<Longrightarrow> budget_inv s \<Longrightarrow> budget_inv s'"
proof (induction rule: seg_step.induct)
  case (unmount s b n)
  then show ?case by (simp add: UnmountSegment_def UnmountSegmentImpl_budget split: option.split)
qed (blast intro: Mount_budget UnmountSegmentById_budget run_timer_budget)+

lemma seg_run_inv:
  "(seg_step E careful)\<^sup>*\<^sup>* no_segments s \<Longrightarrow> fresh_ids E \<Longrightarrow> seg_inv E careful s \<and> budget_inv s"
proof (induction rule: rtranclp_induct)
  case base
  show ?case
    by (simp add: no_segments_def seg_inv_def live_segments_def seg_disjoint_def budget_inv_def budget_ok_def
        asked_def status_queries_def)
qed (blast intro: seg_step_inv seg_step_budget)

section \<open>An example\<close>

definition demo_seg_env :: seg_env where
  "demo_seg_env = \<lparr>se_max_mr_size = 1048576, se_register = (\<lambda>h a n. 0), se_unregister = (\<lambda>h a. 0),
     se_uuid = (\<lambda>h. Suc (sum_list (map (\<lambda>c. case c of S_MountSegment i \<Rightarrow> i | _ \<Rightarrow> 0) h))),
     se_mount = (\<lambda>h i. ok), se_unmount = (\<lambda>h i. ok), se_graceful = (\<lambda>h i. ok),
     se_undefined_status = (\<lambda>h i. Inl SEGMENT_NOT_FOUND), se_stopping = (\<lambda>h. False), se_enqueue = (\<lambda>h. True),
     se_local_hostname = ''here'', se_p2p_handshake = False, se_local_ip_and_port = ''here:1'',
     se_address_not_registered = -200, se_nof_build = False, se_gpu_prefix = ''gpu'', se_dmabuf_value = None,
     se_init_env = (\<lambda>h. True), se_dmabuf_enabled = False, se_register_gpu = (\<lambda>h a n. 0)\<rparr>"

lemma demo_fresh: "fresh_ids demo_seg_env"
proof -
  have "i \<le> sum_list (map (\<lambda>c. case c of S_MountSegment i \<Rightarrow> i | _ \<Rightarrow> 0) h)" if "S_MountSegment i \<in> set h" for i h
    using that by (induction h) auto
  then show ?thesis unfolding fresh_ids_def demo_seg_env_def by (auto simp: not_less_eq_eq dest: leD)
qed

definition demo_mounted :: seg_state where
  "demo_mounted = snd (MountSegmentAndGetId demo_seg_env 4096 4096 ''rdma'' no_segments)"

definition demo_unmounting :: seg_state where
  "demo_unmounting = snd (UnmountSegmentById demo_seg_env 1 1000 False demo_mounted)"

definition demo_remounted :: seg_state where
  "demo_remounted = snd (MountSegmentAndGetId demo_seg_env 4096 4096 ''rdma'' demo_unmounting)"

lemma demo_mount_step: "seg_step demo_seg_env careful no_segments demo_mounted"
  unfolding demo_mounted_def by (rule seg_step.mount) (simp_all add: no_wrap_def no_segments_def)

lemma demo_unmount_run: "(seg_step demo_seg_env careful)\<^sup>*\<^sup>* no_segments demo_unmounting"
proof -
  have "seg_step demo_seg_env careful demo_mounted demo_unmounting"
    unfolding demo_unmounting_def by (rule seg_step.unmount_by_id)
  with demo_mount_step show ?thesis by (meson converse_rtranclp_into_rtranclp rtranclp.rtrancl_refl)
qed

section \<open>Properties\<close>



text \<open>
  C32.  However the operations and the timers are interleaved, the client asks the master at most four
  times for the status of one segment, so the retries of a graceful unmount end.
\<close>

theorem graceful_unmount_bounded:
  assumes "(seg_step E careful)\<^sup>*\<^sup>* no_segments s" "fresh_ids E"
  shows "status_queries i (sg_calls s) + timer_budget i (sg_timers s) \<le> 4"
  using seg_run_inv [OF assms] budget_okD(1) [of "sg_mounted s" "sg_calls s" "sg_timers s" i]
  by (simp add: budget_inv_def asked_def)

theorem graceful_unmount_bounded_witness:
  "sg_timers demo_unmounting = [(1, 3)] \<and>
   status_queries 1 (sg_calls demo_unmounting) + timer_budget 1 (sg_timers demo_unmounting) \<le> 4"
proof -
  have "sg_timers demo_unmounting = [(1, 3)]" by code_simp
  with graceful_unmount_bounded [OF demo_unmount_run demo_fresh, of 1] show ?thesis by blast
qed

text \<open>
  Without that condition the registration of a mounted segment can be lost: a buffer that is
  mounted again during its graceful unmount is unregistered when the timer of the old segment
  runs.
\<close>

theorem remount_loses_registration:
  "\<exists>s. (seg_step demo_seg_env False)\<^sup>*\<^sup>* no_segments s \<and> sg_mounted s \<noteq> [] \<and>
     list_all (\<lambda>g. \<not> engine_has demo_seg_env (seg_base g) (sg_calls s)) (sg_mounted s)"
proof -
  let ?s = "run_timer demo_seg_env (1, 3) demo_remounted"
  have "seg_step demo_seg_env False demo_unmounting demo_remounted"
    unfolding demo_remounted_def by (rule seg_step.mount) (simp_all add: no_wrap_def)
  moreover have "(1, 3) \<in> set (sg_timers demo_remounted)" by code_simp
  then have "seg_step demo_seg_env False demo_remounted ?s" by (rule seg_step.timer)
  ultimately have "(seg_step demo_seg_env False)\<^sup>*\<^sup>* no_segments ?s"
    using demo_unmount_run [of False] by (meson rtranclp.rtrancl_into_rtrancl)
  moreover have "sg_mounted ?s \<noteq> []" "list_all (\<lambda>g. \<not> engine_has demo_seg_env (seg_base g) (sg_calls ?s)) (sg_mounted ?s)"
    by code_simp+
  ultimately show ?thesis by blast
qed

end
