(* ===== verification/Client_Tasks.thy ===== *)
theory Client_Tasks
  imports Client_Types
begin

text \<open>
  Copying and moving replicas, and the tasks that the master assigns (\<open>client_service.cpp\<close>):
  \<open>ExecuteReplicaTransfer\<close>, \<open>Copy\<close>, \<open>Move\<close>, \<open>ExecuteTask\<close> and its retries.  The calls use the log and the
  transfers of \<open>client_env\<close>; what else the tasks need of the master is in \<open>task_env\<close>.  Waiting between
  retries is left out.
\<close>

section \<open>Data\<close>

text \<open>Decoding a payload may throw, which is \<open>None\<close>; a payload is the key, the source and the targets.\<close>

datatype TaskType = REPLICA_COPY | REPLICA_MOVE | Other_task

record TaskAssignment =
  ta_id :: nat
  ta_type :: TaskType
  ta_payload :: string
  ta_max_retry_attempts :: "32 word"

record ClientTask =
  ct_assignment :: TaskAssignment
  ct_retry_count :: "32 word"

definition increment_retry :: "ClientTask \<Rightarrow> ClientTask" where
  "increment_retry t = t\<lparr>ct_retry_count := ct_retry_count t + 1\<rparr>"

text \<open>
  \<open>te_copy_start\<close> and \<open>te_move_start\<close> answer with the source and the targets to be written, \<open>te_settle\<close> answers
  the end and revoke calls, whose call is the newest in the log.
\<close>

record task_env =
  te_copy_start :: "ccalls \<Rightarrow> string \<Rightarrow> string \<Rightarrow> string list \<Rightarrow> (Replica \<times> Replica list) expected"
  te_move_start :: "ccalls \<Rightarrow> string \<Rightarrow> string \<Rightarrow> string \<Rightarrow> (Replica \<times> Replica option) expected"
  te_settle :: "ccalls \<Rightarrow> string \<Rightarrow> unit expected"
  te_split_into_slices :: "u64 \<Rightarrow> u64 \<Rightarrow> slice list"
  te_copy_payload :: "string \<Rightarrow> (string \<times> string \<times> string list) option"
  te_move_payload :: "string \<Rightarrow> (string \<times> string \<times> string) option"
  te_fetch :: "ccalls \<Rightarrow> TaskAssignment list expected"

section \<open>Transferring a replica\<close>

fun write_targets :: "client_env \<Rightarrow> slice list \<Rightarrow> Replica list \<Rightarrow> ccalls \<Rightarrow> bool \<times> ccalls" where
  "write_targets E slices [] h = (True, h)"
| "write_targets E slices (t # ts) h =
     (let (err, h) = TransferWrite E t slices h
      in if err \<noteq> EC_OK then (False, h) else write_targets E slices ts h)"

definition ExecuteReplicaTransfer ::
    "client_env \<Rightarrow> task_env \<Rightarrow> string \<Rightarrow> ccall \<Rightarrow> ccall \<Rightarrow> Replica \<Rightarrow> Replica list \<Rightarrow> ccalls \<Rightarrow> unit expected \<times> ccalls" where
  "ExecuteReplicaTransfer E T key end_fn revoke_fn source targets h =
     (if \<not> is_memory_replica source then (Inl INVALID_PARAMS, revoke_fn # h)
      else if \<not> IsReplicaOnLocalMemory E source then (Inl REPLICA_NOT_IN_LOCAL_MEMORY, revoke_fn # h)
      else let slices = te_split_into_slices T (rep_address source) (rep_size source);
               (written, h) = write_targets E slices targets h
      in if \<not> written then (Inl TRANSFER_FAIL, revoke_fn # h)
      else let h = end_fn # h
      in case te_settle T h key of
           Inl e \<Rightarrow> (Inl e, revoke_fn # h)
         | Inr u \<Rightarrow> (ok, h))"

definition Copy ::
    "client_env \<Rightarrow> task_env \<Rightarrow> string \<Rightarrow> string \<Rightarrow> string list \<Rightarrow> ccalls \<Rightarrow> unit expected \<times> ccalls" where
  "Copy E T key source targets h =
     (let h = C_start key # h
      in case te_copy_start T h key source targets of
           Inl error \<Rightarrow> (Inl error, h)
         | Inr (src, tgts) \<Rightarrow>
             if tgts = []
             then let h = C_CopyEnd key # h
                  in (case te_settle T h key of Inl error \<Rightarrow> Inl error | Inr u \<Rightarrow> ok, h)
             else ExecuteReplicaTransfer E T key (C_CopyEnd key) (C_CopyRevoke key) src tgts h)"

definition Move ::
    "client_env \<Rightarrow> task_env \<Rightarrow> string \<Rightarrow> string \<Rightarrow> string \<Rightarrow> ccalls \<Rightarrow> unit expected \<times> ccalls" where
  "Move E T key source target h =
     (let h = C_start key # h
      in case te_move_start T h key source target of
           Inl error \<Rightarrow> (Inl error, h)
         | Inr (src, None) \<Rightarrow>
             (let h = C_MoveEnd key # h
              in (case te_settle T h key of Inl error \<Rightarrow> Inl error | Inr u \<Rightarrow> ok, h))
         | Inr (src, Some tgt) \<Rightarrow>
             ExecuteReplicaTransfer E T key (C_MoveEnd key) (C_MoveRevoke key) src [tgt] h)"

section \<open>Tasks\<close>

definition error_of :: "unit expected \<Rightarrow> ErrorCode" where
  "error_of r = (case r of Inl e \<Rightarrow> e | Inr u \<Rightarrow> EC_OK)"

definition perform :: "client_env \<Rightarrow> task_env \<Rightarrow> TaskAssignment \<Rightarrow> ccalls \<Rightarrow> ErrorCode \<times> ccalls" where
  "perform E T a h =
     (case ta_type a of
        REPLICA_COPY \<Rightarrow>
          (case te_copy_payload T (ta_payload a) of
             None \<Rightarrow> (INTERNAL_ERROR, h)
           | Some (key, source, targets) \<Rightarrow> (let (r, h) = Copy E T key source targets h in (error_of r, h)))
      | REPLICA_MOVE \<Rightarrow>
          (case te_move_payload T (ta_payload a) of
             None \<Rightarrow> (INTERNAL_ERROR, h)
           | Some (key, source, target) \<Rightarrow> (let (r, h) = Move E T key source target h in (error_of r, h)))
      | Other_task \<Rightarrow> (INVALID_PARAMS, h))"

text \<open>The second result is the task that is queued again.\<close>

definition ExecuteTask :: "client_env \<Rightarrow> task_env \<Rightarrow> ClientTask \<Rightarrow> ccalls \<Rightarrow> ccalls \<times> ClientTask option" where
  "ExecuteTask E T client_task h =
     (let assignment = ct_assignment client_task; (result, h) = perform E T assignment h
      in if result = EC_OK then (C_MarkTask (ta_id assignment) True # h, None)
      else let should_retry = (result = NO_AVAILABLE_HANDLE \<and>
                 ct_retry_count client_task < ta_max_retry_attempts assignment)
      in if should_retry then (h, Some (increment_retry client_task))
         else (C_MarkTask (ta_id assignment) False # h, None))"

text \<open>The task with its retries, which the thread pool runs one after the other.\<close>

function run_task :: "client_env \<Rightarrow> task_env \<Rightarrow> ClientTask \<Rightarrow> ccalls \<Rightarrow> ccalls" where
  "run_task E T t h =
     (case ExecuteTask E T t h of (h, None) \<Rightarrow> h | (h, Some t') \<Rightarrow> run_task E T t' h)"
  by pat_completeness auto

lemma ExecuteTask_retry:
  assumes "ExecuteTask E T t h = (h', Some t')"
  shows "t' = increment_retry t \<and> ct_retry_count t < ta_max_retry_attempts (ct_assignment t)"
  using assms by (auto simp: ExecuteTask_def Let_def split: prod.splits if_splits)

lemma unat_increment:
  assumes "ct_retry_count t < ta_max_retry_attempts (ct_assignment t)"
  shows "unat (ct_retry_count (increment_retry t)) = Suc (unat (ct_retry_count t))"
proof -
  let ?m = "ta_max_retry_attempts (ct_assignment t)"
  have "unat (ct_retry_count t) + 1 < 2 ^ 32" using assms unsigned_less [where 'a = nat, of ?m] by (simp add: word_less_nat_alt)
  then show ?thesis by (simp add: increment_retry_def unat_word_ariths)
qed

lemma retry_decreases:
  assumes "ExecuteTask E T t h = (h', Some t')"
  shows "unat (ta_max_retry_attempts (ct_assignment t')) - unat (ct_retry_count t') <
    unat (ta_max_retry_attempts (ct_assignment t)) - unat (ct_retry_count t)"
proof -
  have t': "t' = increment_retry t" and less: "ct_retry_count t < ta_max_retry_attempts (ct_assignment t)"
    using ExecuteTask_retry [OF assms] by auto
  have "ct_assignment t' = ct_assignment t" by (simp add: t' increment_retry_def)
  with unat_increment [OF less] less show ?thesis by (simp add: t' word_less_nat_alt)
qed

termination run_task
  by (relation "measure (\<lambda>(E, T, t, h). unat (ta_max_retry_attempts (ct_assignment t)) - unat (ct_retry_count t))")
    (simp, use retry_decreases in \<open>simp, metis\<close>)

declare run_task.simps [simp del]

text \<open>A poll submits every task it fetched, with no retry counted yet.\<close>

definition SubmitTask :: "bool \<Rightarrow> TaskAssignment \<Rightarrow> ClientTask list \<Rightarrow> ClientTask list" where
  "SubmitTask task_running assignment queue =
     (if \<not> task_running then queue else queue @ [\<lparr>ct_assignment = assignment, ct_retry_count = 0\<rparr>])"

definition PollAndDispatchTasks :: "task_env \<Rightarrow> bool \<Rightarrow> ccalls \<Rightarrow> ClientTask list \<Rightarrow> ClientTask list" where
  "PollAndDispatchTasks T task_running h queue =
     (if \<not> task_running then queue
      else case te_fetch T h of
        Inl error \<Rightarrow> queue
      | Inr tasks \<Rightarrow> fold (SubmitTask task_running) tasks queue)"

end
