(* ===== verification/Client_Tasks_Props.thy ===== *)
theory Client_Tasks_Props
  imports Client_Tasks
begin

text \<open>
  Correctness of copies, moves and tasks: a transfer that was started is ended or revoked, and a
  task is reported once, after a bounded number of attempts.
\<close>

section \<open>Settling a transfer\<close>

text \<open>What the writes to the targets return.\<close>

fun target_outcomes :: "client_env \<Rightarrow> slice list \<Rightarrow> Replica list \<Rightarrow> ccalls \<Rightarrow> ErrorCode list" where
  "target_outcomes E slices [] h = []"
| "target_outcomes E slices (t # ts) h =
     (let (err, h) = TransferWrite E t slices h in err # target_outcomes E slices ts h)"

lemma write_targets_ok: "fst (write_targets E slices ts h) \<longleftrightarrow> set (target_outcomes E slices ts h) \<subseteq> {EC_OK}"
  by (induction ts arbitrary: h) (auto simp: Let_def case_prod_unfold)

text \<open>
  The result of a started transfer from \<open>src\<close> to \<open>tgts\<close>: on success the end call is the last one and was
  accepted, and the data of the source, which is in local memory, went to every target; on failure
  the last call revokes.
\<close>

definition transfer_settled ::
    "client_env \<Rightarrow> task_env \<Rightarrow> string \<Rightarrow> ccall \<Rightarrow> ccall \<Rightarrow> Replica \<Rightarrow> Replica list \<Rightarrow> ccalls \<Rightarrow> unit expected \<times> ccalls \<Rightarrow> bool" where
  "transfer_settled E T key end_fn revoke_fn src tgts h out \<longleftrightarrow>
     (case fst out of
        Inr u \<Rightarrow> hd (snd out) = end_fn \<and> te_settle T (snd out) key = ok \<and> IsReplicaOnLocalMemory E src \<and>
          set (target_outcomes E (te_split_into_slices T (rep_address src) (rep_size src)) tgts h) \<subseteq> {EC_OK}
      | Inl e \<Rightarrow> hd (snd out) = revoke_fn)"

lemma ExecuteReplicaTransfer_settled:
  "transfer_settled E T key end_fn revoke_fn src tgts h (ExecuteReplicaTransfer E T key end_fn revoke_fn src tgts h)"
  by (auto simp: transfer_settled_def ExecuteReplicaTransfer_def Let_def case_prod_unfold write_targets_ok [symmetric]
      split: sum.split)

section \<open>Counting the calls of a task\<close>

definition marks :: "nat \<Rightarrow> ccalls \<Rightarrow> nat" where
  "marks i h = length (filter (\<lambda>c. \<exists>b. c = C_MarkTask i b) h)"

definition starts :: "ccalls \<Rightarrow> nat" where
  "starts h = length (filter (\<lambda>c. \<exists>k. c = C_start k) h)"

lemma count_simps [simp]:
  "marks i (C_MarkTask j b # h) = (if i = j then Suc (marks i h) else marks i h)"
  "marks i (C_start k # h) = marks i h" "marks i (C_CopyEnd k # h) = marks i h" "marks i (C_CopyRevoke k # h) = marks i h"
  "marks i (C_MoveEnd k # h) = marks i h" "marks i (C_MoveRevoke k # h) = marks i h"
  "marks i (C_submit w rs # h) = marks i h" "marks i (C_wait f # h) = marks i h"
  "starts (C_MarkTask j b # h) = starts h"
  "starts (C_start k # h) = Suc (starts h)" "starts (C_CopyEnd k # h) = starts h" "starts (C_CopyRevoke k # h) = starts h"
  "starts (C_MoveEnd k # h) = starts h" "starts (C_MoveRevoke k # h) = starts h"
  "starts (C_submit w rs # h) = starts h" "starts (C_wait f # h) = starts h"
  by (auto simp: marks_def starts_def)

lemma TransferWrite_counts [simp]:
  "marks i (snd (TransferWrite E r ss h)) = marks i h" "starts (snd (TransferWrite E r ss h)) = starts h"
  by (simp_all add: TransferWrite_def TransferData_def Let_def split: option.split)

lemma write_targets_counts [simp]:
  "marks i (snd (write_targets E ss ts h)) = marks i h" "starts (snd (write_targets E ss ts h)) = starts h"
  by (induction ts arbitrary: h) (simp_all add: Let_def case_prod_unfold)

lemma Copy_counts:
  "marks i (snd (Copy E T key src tgts h)) = marks i h" "starts (snd (Copy E T key src tgts h)) = Suc (starts h)"
  by (auto simp: Copy_def ExecuteReplicaTransfer_def Let_def case_prod_unfold split: sum.split)

lemma Move_counts:
  "marks i (snd (Move E T key src tgt h)) = marks i h" "starts (snd (Move E T key src tgt h)) = Suc (starts h)"
  by (auto simp: Move_def ExecuteReplicaTransfer_def Let_def case_prod_unfold split: sum.split option.split)

lemma perform_counts:
  "marks i (snd (perform E T a h)) = marks i h" "starts (snd (perform E T a h)) \<le> Suc (starts h)"
  by (auto simp: perform_def case_prod_unfold Let_def Copy_counts Move_counts split: TaskType.split option.split)

lemma ExecuteTask_counts:
  assumes "ExecuteTask E T t h = (h', r)"
  shows "marks i h' = marks i h + (if r = None \<and> i = ta_id (ct_assignment t) then 1 else 0)"
    "starts h' \<le> Suc (starts h)"
  using assms perform_counts [where a = "ct_assignment t" and h = h and E = E and T = T]
  by (auto simp: ExecuteTask_def Let_def case_prod_unfold split: if_splits)

section \<open>An example\<close>

definition demo_tasks :: task_env where
  "demo_tasks = \<lparr>te_copy_start = (\<lambda>h k s ts. Inr (demo_replica Kind_memory s, map (demo_replica Kind_memory) ts)),
     te_move_start = (\<lambda>h k s t. Inr (demo_replica Kind_memory s, Some (demo_replica Kind_memory t))),
     te_settle = (\<lambda>h k. ok), te_split_into_slices = (\<lambda>a n. [(a, n)]), te_copy_payload = (\<lambda>p. Some (p, ''here'', [''b''])),
     te_move_payload = (\<lambda>p. None), te_fetch = (\<lambda>h. Inr [])\<rparr>"

section \<open>Properties\<close>



text \<open>
  C34.  A task, with all its retries, is reported to the master exactly once and under no other
  name, after at most one attempt more than the retries it has left.
\<close>

theorem task_reported_once:
  "marks i (run_task E T t h) = marks i h + (if i = ta_id (ct_assignment t) then 1 else 0) \<and>
   starts (run_task E T t h) \<le> starts h + 1 + (unat (ta_max_retry_attempts (ct_assignment t)) - unat (ct_retry_count t))"
proof (induction E T t h rule: run_task.induct)
  case (1 E T t h)
  obtain h' r where run: "ExecuteTask E T t h = (h', r)" by (cases "ExecuteTask E T t h")
  note counts = ExecuteTask_counts(1) [OF run, of i] ExecuteTask_counts(2) [OF run]
  show ?case
  proof (cases r)
    case None
    with run counts show ?thesis by (simp add: run_task.simps [of E T t h])
  next
    case (Some t')
    have "ct_assignment t' = ct_assignment t"
      using ExecuteTask_retry [OF run [unfolded Some]] by (simp add: increment_retry_def)
    with run Some counts "1.IH" [OF run [symmetric] Some] retry_decreases [OF run [unfolded Some]]
    show ?thesis by (simp add: run_task.simps [of E T t h]) linarith
  qed
qed

end
