(* ===== verification/Metadata_Server.thy ===== *)
theory Metadata_Server
  imports Mooncake_Prelude
begin

text \<open>
  The HTTP metadata servers: \<open>HttpMetadataServer\<close> of \<open>http_metadata_server.cpp\<close> and
  \<open>KVBootstrapServer\<close> of \<open>http_metadata_server.py\<close>.  A handler takes the key and the body of a
  request and the store, and gives the response and the store.  Each handler holds the lock of the
  server for its access to the store, so concurrent requests act one after the other.  What the
  HTTP library answers for a method without a handler is a parameter.
\<close>

section \<open>Requests and responses\<close>

type_synonym kv_store = "string \<rightharpoonup> string"

record http_response =
  status :: nat
  content :: string
  content_type :: "string option"

definition respond :: "nat \<Rightarrow> string \<Rightarrow> http_response" where
  "respond code text' = \<lparr>status = code, content = text', content_type = None\<rparr>"

definition json :: "http_response \<Rightarrow> http_response" where
  "json r = r\<lparr>content_type := Some ''application/json''\<rparr>"

section \<open>The C++ server\<close>

definition get_handler :: "string \<Rightarrow> kv_store \<Rightarrow> http_response" where
  "get_handler key store =
     (if key = [] then respond 400 ''Missing key parameter''
      else case store key of
        None \<Rightarrow> respond 404 ''metadata not found''
      | Some v \<Rightarrow> json (respond 200 v))"

definition put_handler :: "string \<Rightarrow> string \<Rightarrow> kv_store \<Rightarrow> http_response \<times> kv_store" where
  "put_handler key body store =
     (if key = [] then (respond 400 ''Missing key parameter'', store)
      else case (if contains_str ''rpc_meta'' key then store key else None) of
        Some v \<Rightarrow>
          (if v = body then (respond 200 ''metadata unchanged'', store)
           else (respond 400 ''Duplicate rpc_meta key not allowed'', store))
      | None \<Rightarrow> (respond 200 ''metadata updated'', store(key \<mapsto> body)))"

definition del_handler :: "string \<Rightarrow> kv_store \<Rightarrow> http_response \<times> kv_store" where
  "del_handler key store =
     (if key = [] then (respond 400 ''Missing key parameter'', store)
      else case store key of
        None \<Rightarrow> (respond 404 ''metadata not found'', store)
      | Some v \<Rightarrow> (respond 200 ''metadata deleted'', store(key := None)))"

definition health_handler :: http_response where
  "health_handler = respond 200 ''OK''"

definition init_server ::
    "http_response \<Rightarrow> string \<Rightarrow> string \<Rightarrow> string \<Rightarrow> kv_store \<Rightarrow> http_response \<times> kv_store" where
  "init_server unhandled http_method key body store =
     (if http_method = ''GET'' then (get_handler key store, store)
      else if http_method = ''PUT'' then put_handler key body store
      else if http_method = ''DELETE'' then del_handler key store
      else (unhandled, store))"

text \<open>Starting and stopping; the calls of the HTTP library are logged, newest first.\<close>

datatype server_call = Async_start | Server_stop

record http_server =
  hs_running :: bool
  hs_calls :: "server_call list"

datatype KVPoll = Failed | Bootstrapping | WaitingForInput | Transferring | Success

definition server_start :: "http_server \<Rightarrow> bool \<times> http_server" where
  "server_start s =
     (if hs_running s then (True, s) else (True, \<lparr>hs_running = True, hs_calls = Async_start # hs_calls s\<rparr>))"

definition server_stop :: "http_server \<Rightarrow> http_server" where
  "server_stop s =
     (if \<not> hs_running s then s else \<lparr>hs_running = False, hs_calls = Server_stop # hs_calls s\<rparr>)"

definition server_poll :: "http_server \<Rightarrow> KVPoll" where
  "server_poll s = (if \<not> hs_running s then Failed else Success)"

section \<open>The Python server\<close>

definition handle_get :: "string \<Rightarrow> kv_store \<Rightarrow> http_response" where
  "handle_get key store =
     (case store key of
        None \<Rightarrow> json (respond 404 ''metadata not found'')
      | Some value \<Rightarrow> json (respond 200 value))"

definition handle_put :: "string \<Rightarrow> string \<Rightarrow> kv_store \<Rightarrow> http_response \<times> kv_store" where
  "handle_put key data store =
     (if contains_str ''rpc_meta'' key \<and> key \<in> dom store
      then if store key = Some data then (json (respond 200 ''metadata unchanged''), store)
           else (json (respond 400 ''Duplicate rpc_meta key not allowed''), store)
      else (json (respond 200 ''metadata updated''), store(key \<mapsto> data)))"

definition handle_delete :: "string \<Rightarrow> kv_store \<Rightarrow> http_response \<times> kv_store" where
  "handle_delete key store =
     (if key \<notin> dom store then (json (respond 404 ''metadata not found''), store)
      else (json (respond 200 ''metadata deleted''), store(key := None)))"

definition handle_metadata ::
    "string \<Rightarrow> string option \<Rightarrow> string \<Rightarrow> kv_store \<Rightarrow> http_response \<times> kv_store" where
  "handle_metadata http_method query data store =
     (let key = (case query of None \<Rightarrow> [] | Some k \<Rightarrow> k)
      in if http_method = ''GET'' then (handle_get key store, store)
         else if http_method = ''PUT'' then handle_put key data store
         else if http_method = ''DELETE'' then handle_delete key store
         else (json (respond 405 ''Method not allowed''), store))"

text \<open>The argument says whether there is a thread and whether it is alive.\<close>

definition bootstrap_poll :: "bool option \<Rightarrow> KVPoll" where
  "bootstrap_poll thread = (case thread of None \<Rightarrow> Failed | Some alive \<Rightarrow> if \<not> alive then Failed else Success)"

end
