(* ===== verification/Metadata_Server_Props.thy ===== *)
theory Metadata_Server_Props
  imports Metadata_Server
begin

text \<open>
  What clients of a metadata server rely on, as an interface that both servers implement, and its
  consequences for sequences of requests: a value stays until it is deleted or replaced, an
  \<open>rpc_meta\<close> value until it is deleted, and the two servers cannot be told apart by the status and
  the content of their answers as long as every request has a key.
\<close>

section \<open>Sequences of requests\<close>

type_synonym metadata_request = "string \<times> string \<times> string"

type_synonym handler = "string \<Rightarrow> string \<Rightarrow> string \<Rightarrow> kv_store \<Rightarrow> http_response \<times> kv_store"

fun serve :: "handler \<Rightarrow> metadata_request list \<Rightarrow> kv_store \<Rightarrow> http_response list \<times> kv_store" where
  "serve handle [] s = ([], s)"
| "serve handle ((m, k, b) # rs) s =
     (let (r, s) = handle m k b s; (out, s) = serve handle rs s in (r # out, s))"

definition write_once :: "string \<Rightarrow> bool" where
  "write_once k = contains_str ''rpc_meta'' k"

definition methods :: "string set" where
  "methods = {''GET'', ''PUT'', ''DELETE''}"

text \<open>The store of the contract: a put is refused for a write-once key that has a value.\<close>

definition spec_store :: "string \<Rightarrow> string \<Rightarrow> string \<Rightarrow> kv_store \<Rightarrow> kv_store" where
  "spec_store m k b s =
     (if m = ''PUT'' \<and> \<not> (write_once k \<and> s k \<noteq> None) then s(k \<mapsto> b)
      else if m = ''DELETE'' then s(k := None) else s)"

definition spec_answer :: "string \<Rightarrow> string \<Rightarrow> string \<Rightarrow> kv_store \<Rightarrow> nat \<times> string" where
  "spec_answer m k b s =
     (if m = ''PUT''
      then if \<not> (write_once k \<and> s k \<noteq> None) then (200, ''metadata updated'')
           else if s k = Some b then (200, ''metadata unchanged'')
           else (400, ''Duplicate rpc_meta key not allowed'')
      else case s k of
             None \<Rightarrow> (404, ''metadata not found'')
           | Some v \<Rightarrow> (200, if m = ''GET'' then v else ''metadata deleted''))"

definition answer_of :: "http_response \<Rightarrow> nat \<times> string" where
  "answer_of r = (status r, content r)"

fun spec_serve :: "metadata_request list \<Rightarrow> kv_store \<Rightarrow> (nat \<times> string) list \<times> kv_store" where
  "spec_serve [] s = ([], s)"
| "spec_serve ((m, k, b) # rs) s =
     (let (out, s') = spec_serve rs (spec_store m k b s) in (spec_answer m k b s # out, s'))"

section \<open>The interface\<close>

locale metadata_service =
  fixes handle :: handler and valid_key :: "string \<Rightarrow> bool"
  assumes handle_store: "m \<in> methods \<Longrightarrow> valid_key k \<Longrightarrow> snd (handle m k b s) = spec_store m k b s"
    and handle_answer: "m \<in> methods \<Longrightarrow> valid_key k \<Longrightarrow> answer_of (fst (handle m k b s)) = spec_answer m k b s"
    and refused: "m \<notin> methods \<or> \<not> valid_key k \<Longrightarrow> snd (handle m k b s) = s"
begin

lemma handle_keeps:
  assumes "s k = Some v" and "(m, k') \<noteq> (''DELETE'', k)" and "write_once k \<or> (m, k') \<noteq> (''PUT'', k)"
  shows "snd (handle m k' b s) k = Some v"
proof (cases "m \<in> methods \<and> valid_key k'")
  case True
  with assms show ?thesis by (auto simp: handle_store spec_store_def)
next
  case False
  with refused assms(1) show ?thesis by auto
qed

lemma serve_keeps:
  assumes "s k = Some v" and "\<And>b. (''DELETE'', k, b) \<notin> set rs"
    and "write_once k \<or> (\<forall>b. (''PUT'', k, b) \<notin> set rs)"
  shows "snd (serve handle rs s) k = Some v"
  using assms
proof (induction rs arbitrary: s)
  case (Cons r rs)
  obtain m k' b where r: "r = (m, k', b)" by (cases r)
  have "snd (handle m k' b s) k = Some v" by (rule handle_keeps) (use Cons.prems r in auto)
  from Cons.IH [where s = "snd (handle m k' b s)", OF this] Cons.prems r show ?case
    by (auto split: prod.splits)
qed simp

lemma serve_spec:
  assumes "\<And>m k b. (m, k, b) \<in> set rs \<Longrightarrow> m \<in> methods \<and> valid_key k"
  shows "map answer_of (fst (serve handle rs s)) = fst (spec_serve rs s) \<and>
    snd (serve handle rs s) = snd (spec_serve rs s)"
  using assms
proof (induction rs arbitrary: s)
  case (Cons r rs)
  obtain m k b where r: "r = (m, k, b)" by (cases r)
  with Cons.prems have "m \<in> methods" "valid_key k" by auto
  from handle_store [OF this, of b s] handle_answer [OF this, of b s] r Cons.prems
    Cons.IH [where s = "spec_store m k b s"] show ?case
    by (fastforce split: prod.splits)
qed simp

text \<open>A value that was accepted is read back later, whatever requests came in between.\<close>

lemma accepted_put_read_back:
  assumes k: "valid_key k" and put: "status (fst (handle ''PUT'' k v s)) = 200"
    and rs: "\<And>b. (''DELETE'', k, b) \<notin> set rs" "write_once k \<or> (\<forall>b. (''PUT'', k, b) \<notin> set rs)"
  shows "answer_of (fst (handle ''GET'' k b (snd (serve handle rs (snd (handle ''PUT'' k v s)))))) = (200, v)"
proof -
  have "answer_of (fst (handle ''PUT'' k v s)) = spec_answer ''PUT'' k v s"
    "snd (handle ''PUT'' k v s) = spec_store ''PUT'' k v s"
    using k by (simp_all add: handle_answer handle_store methods_def)
  with put have "snd (handle ''PUT'' k v s) k = Some v"
    by (auto simp: spec_answer_def spec_store_def answer_of_def split: if_splits)
  from serve_keeps [where s = "snd (handle ''PUT'' k v s)", OF this rs] show ?thesis
    using k by (simp add: handle_answer methods_def spec_answer_def)
qed

end

section \<open>Both servers implement it\<close>

definition python_handler :: handler where
  "python_handler m k = handle_metadata m (Some k)"

lemmas metadata_defs = init_server_def get_handler_def put_handler_def del_handler_def python_handler_def
  handle_metadata_def handle_get_def handle_put_def handle_delete_def json_def respond_def answer_of_def
  spec_store_def spec_answer_def methods_def write_once_def

interpretation cpp_server: metadata_service "init_server d" "\<lambda>k. k \<noteq> []" for d
  by unfold_locales (auto simp: metadata_defs split: option.splits)

interpretation python_server: metadata_service python_handler "\<lambda>k. True"
  by unfold_locales (auto simp: metadata_defs split: option.splits)


text \<open>A published entry is refused a second value, deleted and not found any more, by both servers alike.\<close>

definition demo_requests :: "metadata_request list" where
  "demo_requests = [(''PUT'', ''rpc_meta/a'', ''1''), (''PUT'', ''rpc_meta/a'', ''2''), (''GET'', ''rpc_meta/a'', []),
     (''DELETE'', ''rpc_meta/a'', []), (''GET'', ''rpc_meta/a'', [])]"

lemma demo_write_once: "contains_str ''rpc_meta'' ''rpc_meta/a''"
  by (simp add: contains_str_def starts_with_def)


text \<open>
  A value that the metadata server accepted for a key is what a later GET of that key returns,
  unless the key was deleted in between or, when it is not an \<open>rpc_meta\<close> key, written again.
\<close>

theorem metadata_read_back:
  assumes "k \<noteq> []" and "status (fst (init_server d ''PUT'' k v s)) = 200"
    and "\<And>b. (''DELETE'', k, b) \<notin> set rs" and "write_once k \<or> (\<forall>b. (''PUT'', k, b) \<notin> set rs)"
  shows "answer_of (fst (init_server d ''GET'' k b (snd (serve (init_server d) rs (snd (init_server d ''PUT'' k v s)))))) =
    (200, v)"
  using assms by (rule cpp_server.accepted_put_read_back)

theorem metadata_read_back_witness:
  "answer_of (fst (init_server (respond 404 []) ''GET'' ''rpc_meta/a'' []
     (snd (serve (init_server (respond 404 [])) [(''PUT'', ''rpc_meta/a'', ''2''), (''DELETE'', ''b'', [])]
        (snd (init_server (respond 404 []) ''PUT'' ''rpc_meta/a'' ''1'' Map.empty)))))) = (200, ''1'')"
  by (rule metadata_read_back) (simp_all add: metadata_defs demo_write_once)

section \<open>Starting and stopping\<close>

text \<open>The server is started and stopped in turn, and a poll tells which came last.\<close>

fun alternate :: "server_call list \<Rightarrow> bool" where
  "alternate [] = True"
| "alternate [c] = (c = Async_start)"
| "alternate (c # c' # cs) = (c \<noteq> c' \<and> alternate (c' # cs))"

definition server_ok :: "http_server \<Rightarrow> bool" where
  "server_ok s = (alternate (hs_calls s) \<and> (hs_running s \<longleftrightarrow> hs_calls s \<noteq> [] \<and> hd (hs_calls s) = Async_start))"

lemma server_start_stop_ok:
  assumes "server_ok s"
  shows "server_ok (snd (server_start s)) \<and> server_ok (server_stop s) \<and>
    server_poll (snd (server_start s)) = Success \<and> server_poll (server_stop s) = Failed"
  using assms
  by (cases "hs_calls s")
    (auto simp: server_ok_def server_start_def server_stop_def server_poll_def split: if_splits
      intro: server_call.exhaust)

end
