(* ===== verification/Vllm_Connector.thy ===== *)
theory Vllm_Connector
  imports Decimal
begin

text \<open>
  The vLLM connector (\<open>mooncake_store_connector.py\<close>): its helpers, the metadata it builds for a
  step of the scheduler, the keys, both data paths and the registration of GPU memory.

  The store, the hash, \<open>safetensors\<close> and the tensors of torch are not part of this file; they are
  the fields of \<open>conn_env\<close> and of \<open>kv_tensor\<close>.  Calls of the store go to a log, newest first.  An
  exception is a value of \<open>py_error\<close> without its message; log messages are left out.
\<close>

section \<open>Helpers\<close>

datatype py_error = RuntimeError | AssertionError | ZeroDivisionError | KeyError | IndexError | Other_error

type_synonym 'a py = "py_error + 'a"

text \<open>The code points below 256 that \<open>str.strip\<close> removes, and their lower case.\<close>

definition py_space :: "char \<Rightarrow> bool" where
  "py_space c \<longleftrightarrow> is_space c \<or> (of_char c :: nat) \<in> {28, 29, 30, 31, 133, 160}"

definition py_strip :: "string \<Rightarrow> string" where
  "py_strip s = rev (dropWhile py_space (rev (dropWhile py_space s)))"

definition py_lower :: "string \<Rightarrow> string" where
  "py_lower s = map (\<lambda>c. let n = of_char c :: nat
     in if 65 \<le> n \<and> n \<le> 90 \<or> 192 \<le> n \<and> n \<le> 222 \<and> n \<noteq> 215 then char_of (n + 32) else c) s"

definition truthy :: "string option \<Rightarrow> bool" where
  "truthy value = (case value of None \<Rightarrow> False
     | Some v \<Rightarrow> py_lower (py_strip v) \<in> {''1'', ''true'', ''yes'', ''on''})"

text \<open>\<open>int\<close> of a string: white space around it, a sign, digits with single underscores between them.\<close>

fun py_digits :: "string \<Rightarrow> bool" where
  "py_digits [] = False"
| "py_digits [c] = is_digit c"
| "py_digits (c # d # cs) = (is_digit c \<and> py_digits (if d = CHR ''_'' then cs else d # cs))"

definition py_int :: "string \<Rightarrow> int option" where
  "py_int s =
     (let s = py_strip s;
          neg = (s \<noteq> [] \<and> hd s = CHR ''-'');
          s = (if s \<noteq> [] \<and> (hd s = CHR ''-'' \<or> hd s = CHR ''+'') then tl s else s);
          n = int (read_digits (filter is_digit s))
      in if py_digits s then Some (if neg then - n else n) else None)"

definition env_int :: "string option \<Rightarrow> int \<Rightarrow> int" where
  "env_int value default_value =
     (case value of
        None \<Rightarrow> default_value
      | Some v \<Rightarrow> if v = [] then default_value
          else (case py_int v of None \<Rightarrow> default_value | Some i \<Rightarrow> i))"

definition align_to_block_size :: "int \<Rightarrow> int \<Rightarrow> int py" where
  "align_to_block_size num_tokens block_size =
     (if num_tokens \<le> 0 then Inr 0
      else if block_size = 0 then Inl ZeroDivisionError
      else Inr ((num_tokens - 1) div block_size * block_size))"

text \<open>\<open>groups[-1]\<close> is kept apart from the groups before it.\<close>

fun extend_groups :: "nat list list \<Rightarrow> nat list \<Rightarrow> nat list \<Rightarrow> nat list list" where
  "extend_groups groups final [] = groups @ [final]"
| "extend_groups groups final (index # indices) =
     (if index = last final + 1 then extend_groups groups (final @ [index]) indices
      else extend_groups (groups @ [final]) [index] indices)"

definition group_contiguous :: "nat list \<Rightarrow> nat list list" where
  "group_contiguous indices = (case indices of [] \<Rightarrow> [] | i # is \<Rightarrow> extend_groups [] [i] is)"

section \<open>Metadata of a request\<close>

record ReqMeta =
  rm_token_ids :: "int list"
  rm_slot_mapping :: "nat list"
  rm_block_ids :: "nat list"
  rm_is_store :: bool
  rm_mm_hashes :: "string list"

definition make_meta ::
    "int list \<Rightarrow> nat list \<Rightarrow> nat \<Rightarrow> bool \<Rightarrow> string list \<Rightarrow> ReqMeta py" where
  "make_meta token_ids block_ids block_size is_store mm_hashes =
     (case align_to_block_size (int (length token_ids)) (int block_size) of
        Inl e \<Rightarrow> Inl e
      | Inr valid_num_tokens \<Rightarrow>
          (let slot_mapping = concat (map (\<lambda>b. map (\<lambda>off. off + b * block_size) [0..<block_size]) block_ids)
           in Inr \<lparr>rm_token_ids = take (nat valid_num_tokens) token_ids,
                rm_slot_mapping = take (nat valid_num_tokens) slot_mapping, rm_block_ids = block_ids,
                rm_is_store = is_store, rm_mm_hashes = mm_hashes\<rparr>))"

section \<open>The store and the connector\<close>

datatype store_call =
    K_register int int
  | K_unregister int
  | K_put string string
  | K_get string
  | K_is_exist string
  | K_batch_put string "int list" "int list"
  | K_batch_get string "int list" "int list"

type_synonym store_calls = "store_call list"

text \<open>
  \<open>None\<close> for \<open>cn_is_exist\<close> or \<open>cn_unregister\<close> means that the store has no such method.  The answer of
  a method that raised is \<open>None\<close> too; \<open>cn_get\<close> distinguishes it from the answer \<open>None\<close> of Python.
  \<open>cn_put_config\<close> says whether \<open>put\<close> takes a configuration (otherwise it raises \<open>TypeError\<close>).
\<close>

record 'r conn_env =
  cn_tobytes :: "int list \<Rightarrow> string"
  cn_hexdigest :: "string \<Rightarrow> string"
  cn_save :: "'r list list \<Rightarrow> string"
  cn_load :: "string \<Rightarrow> 'r list list option"
  cn_has_register :: bool
  cn_has_batch :: bool
  cn_register :: "store_calls \<Rightarrow> int \<Rightarrow> int \<Rightarrow> int"
  cn_unregister :: "(store_calls \<Rightarrow> int \<Rightarrow> int option) option"
  cn_is_exist :: "(store_calls \<Rightarrow> string \<Rightarrow> int option) option"
  cn_get :: "store_calls \<Rightarrow> string \<Rightarrow> string option option"
  cn_put_config :: bool
  cn_put :: "store_calls \<Rightarrow> string \<Rightarrow> string \<Rightarrow> (int \<times> int) option \<Rightarrow> int"
  cn_batch_put :: "store_calls \<Rightarrow> string list \<Rightarrow> int list list \<Rightarrow> int list list \<Rightarrow> (int \<times> int) option \<Rightarrow> int list"
  cn_batch_get :: "store_calls \<Rightarrow> string list \<Rightarrow> int list list \<Rightarrow> int list list \<Rightarrow> bool \<Rightarrow> int list"

record Request =
  rq_id :: string
  rq_prompt_token_ids :: "int list option"
  rq_all_token_ids :: "int list"
  rq_mm_hashes :: "string list"

record connector =
  cx_block_size :: nat
  cx_cache_prefix :: string
  cx_nof_replica_num :: int
  cx_spdk_gpu_dmabuf :: bool
  cx_gpu_direct_enabled :: bool
  cx_replicate_config :: "(int \<times> int) option"
  cx_requests_need_load :: "(string \<times> Request) list"
  cx_registered_spdk_buffers :: "(int \<times> int) list"
  cx_known_gpu_storages :: "(int \<times> int) list"
  cx_calls :: store_calls

definition kcall :: "store_call \<Rightarrow> connector \<Rightarrow> connector" where
  "kcall c x = x\<lparr>cx_calls := c # cx_calls x\<rparr>"

text \<open>Assignment to a dict keeps the place of a key that is there.\<close>

fun dict_set :: "'k \<Rightarrow> 'v \<Rightarrow> ('k \<times> 'v) list \<Rightarrow> ('k \<times> 'v) list" where
  "dict_set k v [] = [(k, v)]"
| "dict_set k v ((k', v') # d) = (if k' = k then (k, v) # d else (k', v') # dict_set k v d)"

definition resolve_gpu_direct :: "int \<Rightarrow> bool \<Rightarrow> string \<Rightarrow> bool" where
  "resolve_gpu_direct nof_replicas spdk_gpu_dmabuf direct_mode =
     (if direct_mode \<in> {''1'', ''true'', ''yes'', ''on''} then True
      else if direct_mode \<in> {''0'', ''false'', ''no'', ''off''} then False
      else nof_replicas > 0 \<and> spdk_gpu_dmabuf)"

text \<open>The first argument says whether the class \<open>ReplicateConfig\<close> could be imported.\<close>

definition make_replicate_config :: "bool \<Rightarrow> int \<Rightarrow> int \<Rightarrow> (int \<times> int) option py" where
  "make_replicate_config available replicas nof_replicas =
     (if \<not> available then (if nof_replicas > 0 then Inl RuntimeError else Inr None)
      else Inr (Some (replicas, nof_replicas)))"

text \<open>
  Construction.  \<open>cfg_int key d\<close> and \<open>cfg_str key d\<close> are \<open>int\<close> and \<open>str\<close> of the value that the extra
  configuration of vLLM has for the key, with its default; \<open>setup_rc\<close> is what \<open>setup\<close> of the store
  returns.
\<close>

definition init_connector ::
    "(string \<Rightarrow> int \<Rightarrow> int py) \<Rightarrow> (string \<Rightarrow> string option \<Rightarrow> string option) \<Rightarrow> (string \<Rightarrow> string option) \<Rightarrow>
     bool \<Rightarrow> int \<Rightarrow> nat \<Rightarrow> connector py" where
  "init_connector cfg_int cfg_str getenv available setup_rc block_size =
     (case cfg_int ''replica_num'' (env_int (getenv ''MC_STORE_REPLICA_NUM'') 1) of
        Inl e \<Rightarrow> Inl e
      | Inr replicas \<Rightarrow>
          (case cfg_int ''nof_replica_num'' (env_int (getenv ''MC_STORE_NOF_REPLICA_NUM'') 0) of
             Inl e \<Rightarrow> Inl e
           | Inr nof_replicas \<Rightarrow>
               (let spdk = truthy (cfg_str ''spdk_gpu_dmabuf'' (getenv ''MC_SPDK_GPU_DMABUF''));
                    mode = cfg_str ''gpu_direct''
                      (Some (case getenv ''VLLM_MOONCAKE_GPU_DIRECT'' of None \<Rightarrow> ''auto'' | Some v \<Rightarrow> v));
                    direct_mode = py_lower (case mode of None \<Rightarrow> ''None'' | Some m \<Rightarrow> m)
                in case make_replicate_config available replicas nof_replicas of
                     Inl e \<Rightarrow> Inl e
                   | Inr config \<Rightarrow>
                       if setup_rc \<noteq> 0 then Inl RuntimeError
                       else Inr \<lparr>cx_block_size = block_size,
                         cx_cache_prefix = (case cfg_str ''cache_prefix'' (Some ''vllm015'') of None \<Rightarrow> ''None'' | Some p \<Rightarrow> p),
                         cx_nof_replica_num = nof_replicas, cx_spdk_gpu_dmabuf = spdk,
                         cx_gpu_direct_enabled = resolve_gpu_direct nof_replicas spdk direct_mode,
                         cx_replicate_config = config, cx_requests_need_load = [],
                         cx_registered_spdk_buffers = [], cx_known_gpu_storages = [], cx_calls = []\<rparr>)))"

section \<open>Keys\<close>

fun join :: "string \<Rightarrow> string list \<Rightarrow> string" where
  "join sep [] = []"
| "join sep [x] = x"
| "join sep (x # y # xs) = x @ sep @ join sep (y # xs)"

definition object_key :: "'r conn_env \<Rightarrow> connector \<Rightarrow> string \<Rightarrow> int list \<Rightarrow> string list \<Rightarrow> string" where
  "object_key E x layer_name token_ids mm_hashes =
     (let token_bytes = cn_tobytes E token_ids;
          token_bytes = (if mm_hashes \<noteq> [] then token_bytes @ join ''-'' mm_hashes else token_bytes);
          digest = cn_hexdigest E token_bytes;
          data_format = (if cx_gpu_direct_enabled x then ''raw-gpu-blocks'' else ''safetensors'')
      in cx_cache_prefix x @ '':'' @ data_format @ '':'' @ digest @ '':'' @ layer_name)"

definition marker_key :: "'r conn_env \<Rightarrow> connector \<Rightarrow> int list \<Rightarrow> string list \<Rightarrow> string" where
  "marker_key E x token_ids mm_hashes = object_key E x ''__marker__'' token_ids mm_hashes"

section \<open>Scheduler side\<close>

definition found_match_for_prompt ::
    "'r conn_env \<Rightarrow> int list \<Rightarrow> string list \<Rightarrow> connector \<Rightarrow> bool py \<times> connector" where
  "found_match_for_prompt E prompt_token_ids mm_hashes x =
     (case align_to_block_size (int (length prompt_token_ids) - 1) (int (cx_block_size x)) of
        Inl e \<Rightarrow> (Inl e, x)
      | Inr num_tokens_to_check \<Rightarrow>
          (let key = marker_key E x (take (nat num_tokens_to_check) prompt_token_ids) mm_hashes;
               (answer, x) = (case cn_is_exist E of
                   None \<Rightarrow> (None, x)
                 | Some is_exist \<Rightarrow> (is_exist (cx_calls x) key, kcall (K_is_exist key) x))
           in case answer of
                Some i \<Rightarrow> (Inr (i = 1), x)
              | None \<Rightarrow>
                  (case cn_get E (cx_calls x) key of
                     None \<Rightarrow> (Inr False, kcall (K_get key) x)
                   | Some v \<Rightarrow> (Inr (v \<noteq> None), kcall (K_get key) x))))"

definition found_match_for_request :: "'r conn_env \<Rightarrow> Request \<Rightarrow> connector \<Rightarrow> bool py \<times> connector" where
  "found_match_for_request E request x =
     found_match_for_prompt E (case rq_prompt_token_ids request of None \<Rightarrow> [] | Some ts \<Rightarrow> ts) (rq_mm_hashes request) x"

definition get_num_new_matched_tokens ::
    "'r conn_env \<Rightarrow> Request \<Rightarrow> int \<Rightarrow> connector \<Rightarrow> (int \<times> bool) py \<times> connector" where
  "get_num_new_matched_tokens E request num_computed_tokens x =
     (let (found, x) = found_match_for_request E request x
      in case found of
           Inl e \<Rightarrow> (Inl e, x)
         | Inr False \<Rightarrow> (Inr (0, False), x)
         | Inr True \<Rightarrow>
             (let token_ids = (case rq_prompt_token_ids request of None \<Rightarrow> [] | Some ts \<Rightarrow> ts)
              in case align_to_block_size (int (length token_ids) - 1) (int (cx_block_size x)) of
                   Inl e \<Rightarrow> (Inl e, x)
                 | Inr n \<Rightarrow> (Inr (n - num_computed_tokens, False), x)))"

definition update_state_after_alloc :: "Request \<Rightarrow> int \<Rightarrow> connector \<Rightarrow> connector" where
  "update_state_after_alloc request num_external_tokens x =
     (if num_external_tokens > 0
      then x\<lparr>cx_requests_need_load := dict_set (rq_id request) request (cx_requests_need_load x)\<rparr> else x)"

text \<open>
  The output of the scheduler.  A cached request is one index of the parallel lists of the source:
  its id, whether it was resumed, its computed tokens, its scheduled tokens (absent from the dict:
  \<open>None\<close>) and its new blocks.
\<close>

record new_req =
  nr_id :: string
  nr_prompt_token_ids :: "int list option"
  nr_mm_hashes :: "string list"
  nr_block_ids :: "nat list list"

record cached_req =
  cr_id :: string
  cr_resumed :: bool
  cr_num_computed_tokens :: int
  cr_num_scheduled_tokens :: "int option"
  cr_new_block_ids :: "nat list list option"

text \<open>Slicing a list up to an index counts a negative index from the end.\<close>

definition py_take :: "int \<Rightarrow> 'a list \<Rightarrow> 'a list" where
  "py_take n xs = take (nat (if n < 0 then n + int (length xs) else n)) xs"

definition add_request ::
    "int list \<Rightarrow> nat list list \<Rightarrow> nat \<Rightarrow> bool \<Rightarrow> string list \<Rightarrow> ReqMeta list \<Rightarrow> ReqMeta list py" where
  "add_request token_ids block_ids block_size is_store mm_hashes requests =
     (case block_ids of
        [] \<Rightarrow> Inl IndexError
      | bs # _ \<Rightarrow>
          (case make_meta token_ids bs block_size is_store mm_hashes of
             Inl e \<Rightarrow> Inl e
           | Inr m \<Rightarrow> Inr (requests @ [m])))"

fun add_new_reqs ::
    "'r conn_env \<Rightarrow> new_req list \<Rightarrow> ReqMeta list \<times> nat \<Rightarrow> connector \<Rightarrow> (ReqMeta list \<times> nat) py \<times> connector" where
  "add_new_reqs E [] (meta, n) x = (Inr (meta, n), x)"
| "add_new_reqs E (r # rs) (meta, n) x =
     (let token_ids = (case nr_prompt_token_ids r of None \<Rightarrow> [] | Some ts \<Rightarrow> ts)
      in if nr_id r \<in> fst ` set (cx_requests_need_load x)
         then (case add_request token_ids (nr_block_ids r) (cx_block_size x) False (nr_mm_hashes r) meta of
                 Inl e \<Rightarrow> (Inl e, x)
               | Inr meta \<Rightarrow> add_new_reqs E rs (meta, n + 1) x)
         else (let (found, x) = found_match_for_prompt E token_ids (nr_mm_hashes r) x
               in case found of
                    Inl e \<Rightarrow> (Inl e, x)
                  | Inr True \<Rightarrow> add_new_reqs E rs (meta, n) x
                  | Inr False \<Rightarrow>
                      (case add_request token_ids (nr_block_ids r) (cx_block_size x) True (nr_mm_hashes r) meta of
                         Inl e \<Rightarrow> (Inl e, x)
                       | Inr meta \<Rightarrow> add_new_reqs E rs (meta, n) x)))"

fun add_cached_reqs ::
    "(string \<times> Request) list \<Rightarrow> nat \<Rightarrow> cached_req list \<Rightarrow> ReqMeta list \<times> nat \<Rightarrow> (ReqMeta list \<times> nat) py" where
  "add_cached_reqs need_load block_size [] (meta, n) = Inr (meta, n)"
| "add_cached_reqs need_load block_size (r # rs) (meta, n) =
     (case (if cr_resumed r then map_of need_load (cr_id r) else None) of
        None \<Rightarrow> add_cached_reqs need_load block_size rs (meta, n)
      | Some request \<Rightarrow>
          (case cr_num_scheduled_tokens r of
             None \<Rightarrow> Inl KeyError
           | Some num_new_tokens \<Rightarrow>
               (let total_tokens = cr_num_computed_tokens r + num_new_tokens;
                    token_ids = py_take total_tokens (rq_all_token_ids request)
                in case cr_new_block_ids r of
                     None \<Rightarrow> Inl AssertionError
                   | Some block_ids \<Rightarrow>
                       (case add_request token_ids block_ids block_size False (rq_mm_hashes request) meta of
                          Inl e \<Rightarrow> Inl e
                        | Inr meta \<Rightarrow> add_cached_reqs need_load block_size rs (meta, n + 1)))))"

definition build_connector_meta ::
    "'r conn_env \<Rightarrow> new_req list \<Rightarrow> cached_req list \<Rightarrow> connector \<Rightarrow> ReqMeta list py \<times> connector" where
  "build_connector_meta E new_reqs cached_reqs x =
     (let (result, x) = add_new_reqs E new_reqs ([], 0) x
      in case result of
           Inl e \<Rightarrow> (Inl e, x)
         | Inr acc \<Rightarrow>
             (case add_cached_reqs (cx_requests_need_load x) (cx_block_size x) cached_reqs acc of
                Inl e \<Rightarrow> (Inl e, x)
              | Inr (meta, total_need_load) \<Rightarrow>
                  if total_need_load \<noteq> length (cx_requests_need_load x) then (Inl AssertionError, x)
                  else (Inr meta, x\<lparr>cx_requests_need_load := []\<rparr>)))"

end
