(* ===== verification/Vllm_Worker.thy ===== *)
theory Vllm_Worker
  imports Vllm_Connector
begin

text \<open>
  The worker side of the vLLM connector: registration of the KV cache, saving and loading of layers
  on the direct path and on the CPU path, and shutdown.

  A KV-cache tensor has one plane of blocks (MLA) or two (keys and values).  Its rows are given per
  plane in the order of the slots, which is the shape \<open>(num_pages * page_size, -1)\<close> that the code
  gives it.  \<open>kt_viewable\<close> says whether \<open>reshape\<close> gives a view; torch makes a copy otherwise.
\<close>

section \<open>Tensors\<close>

record 'r kv_tensor =
  kt_is_cuda :: bool
  kt_storage_ptr :: int
  kt_storage_bytes :: int
  kt_num_blocks :: nat
  kt_block_ptr :: "nat \<Rightarrow> nat \<Rightarrow> int"
  kt_block_bytes :: int
  kt_rows :: "'r list list"
  kt_viewable :: bool

definition block_buffer_vectors :: "bool \<Rightarrow> 'r kv_tensor \<Rightarrow> nat list \<Rightarrow> (int list \<times> int list) py" where
  "block_buffer_vectors mla kv_layer block_ids =
     (if block_ids = [] then Inr ([], [])
      else let groups = group_contiguous block_ids;
               planes = (if mla then [0] else [0, 1]);
               block_bytes = kt_block_bytes kv_layer
      in if kt_num_blocks kv_layer = 0 \<or> list_ex (\<lambda>group. hd group \<ge> kt_num_blocks kv_layer) groups
         then Inl IndexError
         else Inr (concat (map (\<lambda>kv_index. map (\<lambda>group. kt_block_ptr kv_layer kv_index (hd group)) groups) planes),
                   concat (map (\<lambda>kv_index. map (\<lambda>group. block_bytes * int (length group)) groups) planes)))"

definition extract_kv_from_layer :: "'r kv_tensor \<Rightarrow> nat list \<Rightarrow> 'r list list py" where
  "extract_kv_from_layer layer slot_mapping =
     (if list_ex (\<lambda>rows. list_ex (\<lambda>slot. slot \<ge> length rows) slot_mapping) (kt_rows layer) then Inl IndexError
      else Inr (map (\<lambda>rows. map (\<lambda>slot. rows ! slot) slot_mapping) (kt_rows layer)))"

text \<open>A source with one entry in a dimension is repeated there; any other mismatch is an error.\<close>

definition broadcast :: "nat \<Rightarrow> 'a list \<Rightarrow> 'a list option" where
  "broadcast n xs =
     (if length xs = n then Some xs else if length xs = 1 then Some (replicate n (hd xs)) else None)"

definition write_rows :: "nat list \<Rightarrow> 'r list \<Rightarrow> 'r list \<Rightarrow> 'r list" where
  "write_rows slot_mapping src rows = fold (\<lambda>(slot, r) rows. rows[slot := r]) (zip slot_mapping src) rows"

fun inject_planes :: "nat list \<Rightarrow> 'r list list \<Rightarrow> 'r list list \<Rightarrow> 'r list list option" where
  "inject_planes slots (src # srcs) (rows # planes) =
     (case (broadcast (length slots) src, inject_planes slots srcs planes) of
        (Some src, Some planes) \<Rightarrow> Some (write_rows slots src rows # planes)
      | _ \<Rightarrow> None)"
| "inject_planes slots _ _ = Some []"

definition inject_kv_into_layer :: "'r kv_tensor \<Rightarrow> 'r list list \<Rightarrow> nat list \<Rightarrow> 'r kv_tensor py" where
  "inject_kv_into_layer dst src slot_mapping =
     (if list_ex (\<lambda>rows. list_ex (\<lambda>slot. slot \<ge> length rows) slot_mapping) (kt_rows dst) then Inl IndexError
      else case broadcast (length (kt_rows dst)) src of
             None \<Rightarrow> Inl RuntimeError
           | Some src \<Rightarrow>
               (case inject_planes slot_mapping src (kt_rows dst) of
                  None \<Rightarrow> Inl RuntimeError
                | Some rows \<Rightarrow> Inr (if kt_viewable dst then dst\<lparr>kt_rows := rows\<rparr> else dst)))"

section \<open>Registration\<close>

definition record_tensor_storage :: "'r conn_env \<Rightarrow> 'r kv_tensor \<Rightarrow> connector \<Rightarrow> unit py \<times> connector" where
  "record_tensor_storage E tensor x =
     (if \<not> kt_is_cuda tensor then (Inl RuntimeError, x)
      else let base_ptr = kt_storage_ptr tensor; sz = kt_storage_bytes tensor
      in if base_ptr \<in> fst ` set (cx_known_gpu_storages x) then (Inr (), x)
         else let rc = cn_register E (cx_calls x) base_ptr sz; x = kcall (K_register base_ptr sz) x
         in if rc \<noteq> 0 then (Inl RuntimeError, x)
            else (Inr (), x\<lparr>cx_known_gpu_storages := dict_set base_ptr sz (cx_known_gpu_storages x),
                     cx_registered_spdk_buffers := dict_set base_ptr sz (cx_registered_spdk_buffers x)\<rparr>))"

fun record_caches :: "'r conn_env \<Rightarrow> 'r kv_tensor option list \<Rightarrow> connector \<Rightarrow> unit py \<times> connector" where
  "record_caches E [] x = (Inr (), x)"
| "record_caches E (None # cs) x = record_caches E cs x"
| "record_caches E (Some cache # cs) x =
     (case record_tensor_storage E cache x of
        (Inl e, x) \<Rightarrow> (Inl e, x)
      | (Inr u, x) \<Rightarrow> record_caches E cs x)"

text \<open>The caches of all layers in order; \<open>None\<close> stands for an entry that is not a tensor.\<close>

definition register_kv_caches :: "'r conn_env \<Rightarrow> 'r kv_tensor option list \<Rightarrow> connector \<Rightarrow> unit py \<times> connector" where
  "register_kv_caches E kv_caches x =
     (if \<not> cx_gpu_direct_enabled x then (Inr (), x)
      else if \<not> (cn_has_batch E \<and> cn_has_register E) then (Inl RuntimeError, x)
      else record_caches E kv_caches x)"

definition maybe_register_for_direct_read :: "'r conn_env \<Rightarrow> 'r kv_tensor \<Rightarrow> connector \<Rightarrow> connector" where
  "maybe_register_for_direct_read E tensor x =
     (if \<not> cn_has_register E then x
      else if \<not> kt_is_cuda tensor then x
      else let base_ptr = kt_storage_ptr tensor; sz = kt_storage_bytes tensor
      in if base_ptr \<in> fst ` set (cx_registered_spdk_buffers x) then x
         else let rc = cn_register E (cx_calls x) base_ptr sz; x = kcall (K_register base_ptr sz) x
         in if rc \<noteq> 0 then x
            else x\<lparr>cx_registered_spdk_buffers := dict_set base_ptr sz (cx_registered_spdk_buffers x)\<rparr>)"

text \<open>An exception of \<open>unregister\<close> is caught for each buffer.\<close>

definition shutdown :: "'r conn_env \<Rightarrow> connector \<Rightarrow> connector" where
  "shutdown E x =
     (let x = (case cn_unregister E of
          None \<Rightarrow> x
        | Some unregister \<Rightarrow> fold (\<lambda>(p, sz). kcall (K_unregister p)) (cx_registered_spdk_buffers x) x)
      in x\<lparr>cx_registered_spdk_buffers := [], cx_known_gpu_storages := []\<rparr>)"

section \<open>Saving\<close>

definition conn_put :: "'r conn_env \<Rightarrow> string \<Rightarrow> string \<Rightarrow> connector \<Rightarrow> int \<times> connector" where
  "conn_put E key value x =
     (case cx_replicate_config x of
        None \<Rightarrow> (cn_put E (cx_calls x) key value None, kcall (K_put key value) x)
      | Some config \<Rightarrow>
          if cn_put_config E then (cn_put E (cx_calls x) key value (Some config), kcall (K_put key value) x)
          else (cn_put E (cx_calls x) key value None, kcall (K_put key value) x))"

definition put_marker :: "'r conn_env \<Rightarrow> int list \<Rightarrow> string list \<Rightarrow> connector \<Rightarrow> connector" where
  "put_marker E token_ids mm_hashes x = snd (conn_put E (marker_key E x token_ids mm_hashes) ''1'' x)"

definition save_direct ::
    "'r conn_env \<Rightarrow> bool \<Rightarrow> string \<Rightarrow> 'r kv_tensor \<Rightarrow> ReqMeta \<Rightarrow> connector \<Rightarrow> unit py \<times> connector" where
  "save_direct E mla key kv_layer request x =
     (case block_buffer_vectors mla kv_layer (rm_block_ids request) of
        Inl e \<Rightarrow> (Inl e, x)
      | Inr (ptrs, sizes) \<Rightarrow>
          if ptrs = [] then (Inr (), x)
          else let results = cn_batch_put E (cx_calls x) [key] [ptrs] [sizes] (cx_replicate_config x);
                   x = kcall (K_batch_put key ptrs sizes) x
          in if length results \<noteq> 1 \<or> hd results \<noteq> 0 then (Inl RuntimeError, x) else (Inr (), x))"

definition save_cpu_fallback ::
    "'r conn_env \<Rightarrow> string \<Rightarrow> 'r kv_tensor \<Rightarrow> ReqMeta \<Rightarrow> connector \<Rightarrow> unit py \<times> connector" where
  "save_cpu_fallback E key kv_layer request x =
     (case extract_kv_from_layer kv_layer (rm_slot_mapping request) of
        Inl e \<Rightarrow> (Inl e, x)
      | Inr kv_cache \<Rightarrow>
          (let (status, x) = conn_put E key (cn_save E kv_cache) x
           in if status \<noteq> 0 then (Inl RuntimeError, x) else (Inr (), x)))"

fun save_requests ::
    "'r conn_env \<Rightarrow> bool \<Rightarrow> string \<Rightarrow> 'r kv_tensor \<Rightarrow> ReqMeta list \<Rightarrow> connector \<Rightarrow> unit py \<times> connector" where
  "save_requests E mla layer_name kv_layer [] x = (Inr (), x)"
| "save_requests E mla layer_name kv_layer (request # rs) x =
     (if \<not> rm_is_store request then save_requests E mla layer_name kv_layer rs x
      else let key = object_key E x layer_name (rm_token_ids request) (rm_mm_hashes request)
      in case (if cx_gpu_direct_enabled x then save_direct E mla key kv_layer request x
               else save_cpu_fallback E key kv_layer request x) of
           (Inl e, x) \<Rightarrow> (Inl e, x)
         | (Inr u, x) \<Rightarrow>
             save_requests E mla layer_name kv_layer rs (put_marker E (rm_token_ids request) (rm_mm_hashes request) x))"

text \<open>The metadata is \<open>None\<close> when it has another class.\<close>

definition save_kv_layer ::
    "'r conn_env \<Rightarrow> bool \<Rightarrow> string \<Rightarrow> 'r kv_tensor \<Rightarrow> ReqMeta list option \<Rightarrow> connector \<Rightarrow> unit py \<times> connector" where
  "save_kv_layer E mla layer_name kv_layer metadata x =
     (case metadata of
        None \<Rightarrow> (Inl AssertionError, x)
      | Some requests \<Rightarrow> save_requests E mla layer_name kv_layer requests x)"

section \<open>Loading\<close>

definition load_direct ::
    "'r conn_env \<Rightarrow> bool \<Rightarrow> string \<Rightarrow> 'r kv_tensor \<Rightarrow> ReqMeta \<Rightarrow> connector \<Rightarrow> unit py \<times> connector" where
  "load_direct E mla key kv_layer request x =
     (let x = maybe_register_for_direct_read E kv_layer x
      in case block_buffer_vectors mla kv_layer (rm_block_ids request) of
           Inl e \<Rightarrow> (Inl e, x)
         | Inr (ptrs, sizes) \<Rightarrow>
             if ptrs = [] then (Inr (), x)
             else let results = cn_batch_get E (cx_calls x) [key] [ptrs] [sizes] False;
                      x = kcall (K_batch_get key ptrs sizes) x
             in if length results \<noteq> 1 \<or> hd results \<noteq> 0 then (Inl RuntimeError, x) else (Inr (), x))"

definition load_cpu_fallback ::
    "'r conn_env \<Rightarrow> string \<Rightarrow> 'r kv_tensor \<Rightarrow> ReqMeta \<Rightarrow> connector \<Rightarrow> 'r kv_tensor py \<times> connector" where
  "load_cpu_fallback E key kv_layer request x =
     (let payload = cn_get E (cx_calls x) key; x = kcall (K_get key) x
      in case payload of
           None \<Rightarrow> (Inl Other_error, x)
         | Some None \<Rightarrow> (Inl RuntimeError, x)
         | Some (Some bytes) \<Rightarrow>
             (case cn_load E bytes of
                None \<Rightarrow> (Inl Other_error, x)
              | Some kv_cache \<Rightarrow> (inject_kv_into_layer kv_layer kv_cache (rm_slot_mapping request), x)))"

text \<open>
  The layers of the model with the cache of the current engine, \<open>None\<close> when a layer has no cache.
  The direct path writes GPU memory through the store, not through the tensor.
\<close>

type_synonym 'r layers = "(string \<times> 'r kv_tensor option) list"

fun load_layers ::
    "'r conn_env \<Rightarrow> bool \<Rightarrow> ReqMeta \<Rightarrow> 'r layers \<Rightarrow> connector \<Rightarrow> unit py \<times> 'r layers \<times> connector" where
  "load_layers E mla request [] x = (Inr (), [], x)"
| "load_layers E mla request ((layer_name, None) # ls) x =
     (let (r, ls, x) = load_layers E mla request ls x in (r, (layer_name, None) # ls, x))"
| "load_layers E mla request ((layer_name, Some kv_layer) # ls) x =
     (let key = object_key E x layer_name (rm_token_ids request) (rm_mm_hashes request);
          (result, x) = (if cx_gpu_direct_enabled x
             then (let (r, x) = load_direct E mla key kv_layer request x
                   in (case r of Inl e \<Rightarrow> Inl e | Inr u \<Rightarrow> Inr kv_layer, x))
             else load_cpu_fallback E key kv_layer request x)
      in case result of
           Inl e \<Rightarrow> (Inl e, (layer_name, Some kv_layer) # ls, x)
         | Inr loaded \<Rightarrow>
             (let (r, ls, x) = load_layers E mla request ls x in (r, (layer_name, Some loaded) # ls, x)))"

fun load_requests ::
    "'r conn_env \<Rightarrow> bool \<Rightarrow> ReqMeta list \<Rightarrow> 'r layers \<Rightarrow> connector \<Rightarrow> unit py \<times> 'r layers \<times> connector" where
  "load_requests E mla [] ls x = (Inr (), ls, x)"
| "load_requests E mla (request # rs) ls x =
     (if rm_is_store request then load_requests E mla rs ls x
      else case load_layers E mla request ls x of
             (Inl e, ls, x) \<Rightarrow> (Inl e, ls, x)
           | (Inr u, ls, x) \<Rightarrow> load_requests E mla rs ls x)"

text \<open>The attention metadata is \<open>None\<close>, or says whether its class is \<open>MLACommonMetadata\<close>.\<close>

definition start_load_kv ::
    "'r conn_env \<Rightarrow> ReqMeta list option \<Rightarrow> bool option \<Rightarrow> 'r layers \<Rightarrow> connector \<Rightarrow> unit py \<times> 'r layers \<times> connector" where
  "start_load_kv E metadata attn_metadata ls x =
     (case metadata of
        None \<Rightarrow> (Inl AssertionError, ls, x)
      | Some requests \<Rightarrow>
          (case attn_metadata of
             None \<Rightarrow> (Inr (), ls, x)
           | Some mla \<Rightarrow> load_requests E mla requests ls x))"

end
