(* ===== verification/Vllm_Cpu_Props.thy ===== *)
theory Vllm_Cpu_Props
  imports Vllm_Props
begin

text \<open>The CPU path of the connector: a layer that was saved from some blocks is restored in others.\<close>

section \<open>Slots\<close>

definition slots_of :: "nat \<Rightarrow> nat list \<Rightarrow> nat list" where
  "slots_of bs block_ids = concat (map (\<lambda>b. map (\<lambda>off. off + b * bs) [0..<bs]) block_ids)"

lemma slots_of_length: "length (slots_of bs block_ids) = length block_ids * bs"
  by (induction block_ids) (simp_all add: slots_of_def)

lemma slot_block: "b * bs \<le> s \<Longrightarrow> s < bs + b * bs \<Longrightarrow> s div bs = (b :: nat)"
  by (rule div_nat_eqI) (auto simp: mult.commute)

lemma slots_of_mem: "s \<in> set (slots_of bs block_ids) \<Longrightarrow> s div bs \<in> set block_ids"
  by (auto simp: slots_of_def slot_block)

lemma slots_of_distinct: "distinct block_ids \<Longrightarrow> distinct (slots_of bs block_ids)"
proof (induction block_ids)
  case (Cons b bls)
  have split: "slots_of bs (b # bls) = map (\<lambda>off. off + b * bs) [0..<bs] @ slots_of bs bls"
    by (simp add: slots_of_def)
  have "set (map (\<lambda>off. off + b * bs) [0..<bs]) \<inter> set (slots_of bs bls) = {}"
  proof -
    have False if "s \<in> set (slots_of bs bls)" "b * bs \<le> s" "s < bs + b * bs" for s
      using slots_of_mem [OF that(1)] slot_block [OF that(2,3)] Cons.prems by simp
    then show ?thesis by (auto simp: add.commute)
  qed
  with Cons show ?case by (simp add: split distinct_map inj_on_def)
qed (simp add: slots_of_def)

lemma make_meta_slots:
  assumes "make_meta token_ids block_ids bs is_store mm = Inr m"
  shows "rm_slot_mapping m = take (length (rm_token_ids m)) (slots_of bs block_ids) \<and>
    rm_token_ids m = take ((length token_ids - 1) div bs * bs) token_ids \<and>
    rm_block_ids m = block_ids \<and> rm_is_store m = is_store \<and> rm_mm_hashes m = mm"
proof -
  define n where "n = (length token_ids - 1) div bs * bs"
  have n: "n \<le> length token_ids" unfolding n_def
    by (metis diff_le_self div_times_less_eq_dividend le_trans)
  have "align_to_block_size (int (length token_ids)) (int bs) = Inr (int n)" if "token_ids \<noteq> [] \<longrightarrow> bs \<noteq> 0"
    using that by (cases token_ids) (simp_all add: align_to_block_size_def n_def zdiv_int)
  moreover have "token_ids \<noteq> [] \<longrightarrow> bs \<noteq> 0"
    using assms by (cases "bs = 0") (auto simp: make_meta_def align_to_block_size_def split: if_splits)
  ultimately have "m = \<lparr>rm_token_ids = take n token_ids, rm_slot_mapping = take n (slots_of bs block_ids),
      rm_block_ids = block_ids, rm_is_store = is_store, rm_mm_hashes = mm\<rparr>"
    using assms by (simp add: make_meta_def slots_of_def)
  with n show ?thesis by (simp add: n_def)
qed

section \<open>Rows\<close>

lemma write_rows_length [simp]: "length (write_rows slots src rows) = length rows"
proof -
  have "length (fold (\<lambda>(slot, r) rows. rows[slot := r]) ps rows) = length rows" for ps
    by (induction ps arbitrary: rows) auto
  then show ?thesis by (simp add: write_rows_def)
qed

lemma write_rows_other: "s \<notin> set slots \<Longrightarrow> write_rows slots src rows ! s = rows ! s"
proof (induction slots arbitrary: src rows)
  case (Cons a slots)
  then show ?case by (cases src) (simp_all add: write_rows_def)
qed (simp add: write_rows_def)

lemma write_rows_nth:
  assumes "distinct slots" "length src = length slots" "\<And>s. s \<in> set slots \<Longrightarrow> s < length rows" "k < length slots"
  shows "write_rows slots src rows ! (slots ! k) = src ! k"
  using assms
proof (induction slots arbitrary: src rows k)
  case (Cons a slots)
  then obtain r rs where src: "src = r # rs" by (cases src) auto
  have step: "write_rows (a # slots) (r # rs) rows = write_rows slots rs (rows[a := r])"
    by (simp add: write_rows_def)
  show ?case
  proof (cases k)
    case 0
    with Cons.prems show ?thesis by (simp add: step write_rows_other src)
  next
    case (Suc j)
    with Cons.IH [of rs "rows[a := r]" j] Cons.prems show ?thesis by (simp add: step src)
  qed
qed simp

lemma inject_planes_write:
  assumes "length src = length planes" "\<And>rows. rows \<in> set src \<Longrightarrow> length rows = length slots"
  shows "inject_planes slots src planes = Some (map2 (write_rows slots) src planes)"
  using assms by (induction slots src planes rule: inject_planes.induct) (auto simp: broadcast_def)

text \<open>
  C37.  A layer that was saved on the CPU path for a prompt and is loaded for the same prompt into
  other blocks has, in every plane, the saved row of each token at the new slot of that token, and
  its other rows are unchanged.  The store returns the bytes it was given, and \<open>safetensors\<close> reads
  back what it wrote.
\<close>

theorem cpu_save_load:
  assumes save_meta: "make_meta token_ids block_ids bs True mm = Inr m"
    and load_meta: "make_meta token_ids block_ids' bs False mm = Inr m'"
    and blocks: "distinct block_ids'" "length token_ids \<le> length block_ids * bs" "length token_ids \<le> length block_ids' * bs"
    and saved: "save_cpu_fallback E key src m x = (Inr (), x1)" and put: "hd (cx_calls x1) = K_put key v"
    and stored: "cn_get E (cx_calls y) key = Some (Some v)" and codec: "\<And>kv. cn_load E (cn_save E kv) = Some kv"
    and dst: "kt_viewable dst" "length (kt_rows dst) = length (kt_rows src)"
      "\<And>rows s. rows \<in> set (kt_rows dst) \<Longrightarrow> s \<in> set (rm_slot_mapping m') \<Longrightarrow> s < length rows"
  shows "\<exists>dst'. fst (load_cpu_fallback E key dst m' y) = Inr dst' \<and>
    (\<forall>plane<length (kt_rows src).
       (\<forall>k<length (rm_token_ids m).
          kt_rows dst' ! plane ! (rm_slot_mapping m' ! k) = kt_rows src ! plane ! (rm_slot_mapping m ! k)) \<and>
       (\<forall>s. s \<notin> set (rm_slot_mapping m') \<longrightarrow> kt_rows dst' ! plane ! s = kt_rows dst ! plane ! s))"
proof -
  note meta = make_meta_slots [OF save_meta] make_meta_slots [OF load_meta]
  have len: "length (rm_token_ids m) \<le> length token_ids" "rm_token_ids m' = rm_token_ids m" using meta by auto
  with blocks meta have slots: "length (rm_slot_mapping m) = length (rm_token_ids m)"
    "length (rm_slot_mapping m') = length (rm_token_ids m)" "distinct (rm_slot_mapping m')"
    by (simp_all add: slots_of_length slots_of_distinct)
  define kv where "kv = map (\<lambda>rows. map (\<lambda>slot. rows ! slot) (rm_slot_mapping m)) (kt_rows src)"
  have "extract_kv_from_layer src (rm_slot_mapping m) = Inr kv"
    using saved by (auto simp: save_cpu_fallback_def extract_kv_from_layer_def kv_def split: if_splits)
  then have v: "v = cn_save E kv"
    using saved put by (auto simp: save_cpu_fallback_def conn_put_def kcall_def split: if_splits option.splits prod.splits)
  define rows where "rows = map2 (write_rows (rm_slot_mapping m')) kv (kt_rows dst)"
  have kv: "length kv = length (kt_rows dst)" "\<And>r. r \<in> set kv \<Longrightarrow> length r = length (rm_slot_mapping m')"
    using dst(2) slots by (auto simp: kv_def)
  have "inject_kv_into_layer dst kv (rm_slot_mapping m') = Inr (dst\<lparr>kt_rows := rows\<rparr>)"
    using inject_planes_write [OF kv] kv(1) dst(1,3)
    by (auto simp: inject_kv_into_layer_def broadcast_def rows_def list_ex_iff not_le [symmetric])
  with stored codec [of kv] v have "fst (load_cpu_fallback E key dst m' y) = Inr (dst\<lparr>kt_rows := rows\<rparr>)"
    by (simp add: load_cpu_fallback_def)
  moreover have "kt_rows (dst\<lparr>kt_rows := rows\<rparr>) ! plane = write_rows (rm_slot_mapping m') (kv ! plane) (kt_rows dst ! plane)"
    if "plane < length (kt_rows src)" for plane
    using that kv(1) dst(2) by (simp add: rows_def)
  ultimately show ?thesis
    using slots dst by (auto simp: kv_def write_rows_other write_rows_nth intro!: exI [of _ "dst\<lparr>kt_rows := rows\<rparr>"])
qed

section \<open>An example\<close>

text \<open>Rows are characters; a plane is written as its characters, each after a 1, and a final 0.\<close>

fun demo_save :: "char list list \<Rightarrow> string" where
  "demo_save [] = []"
| "demo_save ([] # ps) = CHR ''0'' # demo_save ps"
| "demo_save ((c # p) # ps) = CHR ''1'' # c # demo_save (p # ps)"

fun demo_load :: "string \<Rightarrow> char list \<Rightarrow> char list list" where
  "demo_load (CHR ''1'' # c # s) p = demo_load s (p @ [c])"
| "demo_load (_ # s) p = p # demo_load s []"
| "demo_load [] p = []"

lemma demo_load_save: "p \<noteq> [] \<longrightarrow> ps \<noteq> [] \<Longrightarrow>
    demo_load (demo_save ps) p = (case ps of [] \<Rightarrow> [] | q # qs \<Rightarrow> (p @ q) # qs)"
  by (induction ps arbitrary: p rule: demo_save.induct) (auto split: list.splits)

fun last_put :: "string \<Rightarrow> store_calls \<Rightarrow> string option" where
  "last_put k [] = None"
| "last_put k (K_put k' v # h) = (if k' = k then Some v else last_put k h)"
| "last_put k (_ # h) = last_put k h"

definition demo_conn :: "char conn_env" where
  "demo_conn = \<lparr>cn_tobytes = map (\<lambda>i. char_of (nat i)), cn_hexdigest = (\<lambda>s. s), cn_save = demo_save,
     cn_load = (\<lambda>s. Some (demo_load s [])), cn_has_register = True, cn_has_batch = True,
     cn_register = (\<lambda>h p n. 0), cn_unregister = Some (\<lambda>h p. Some 0),
     cn_is_exist = Some (\<lambda>h k. Some (if last_put k h = None then 0 else 1)), cn_get = (\<lambda>h k. Some (last_put k h)),
     cn_put_config = True, cn_put = (\<lambda>h k v c. 0), cn_batch_put = (\<lambda>h ks ps ss c. map (\<lambda>k. 0) ks),
     cn_batch_get = (\<lambda>h ks ps ss p. map sum_list ss)\<rparr>"

definition demo_connector :: connector where
  "demo_connector = \<lparr>cx_block_size = 2, cx_cache_prefix = ''p'', cx_nof_replica_num = 0, cx_spdk_gpu_dmabuf = False,
     cx_gpu_direct_enabled = False, cx_replicate_config = None, cx_requests_need_load = [],
     cx_registered_spdk_buffers = [], cx_known_gpu_storages = [], cx_calls = []\<rparr>"

definition demo_layer :: "string \<Rightarrow> string \<Rightarrow> char kv_tensor" where
  "demo_layer ks vs = \<lparr>kt_is_cuda = True, kt_storage_ptr = 1000, kt_storage_bytes = 8, kt_num_blocks = 2,
     kt_block_ptr = (\<lambda>plane b. 1000 + 4 * int plane + 2 * int b), kt_block_bytes = 2, kt_rows = [ks, vs],
     kt_viewable = True\<rparr>"

definition demo_meta :: "bool \<Rightarrow> ReqMeta" where
  "demo_meta is_store = \<lparr>rm_token_ids = [7, 8], rm_slot_mapping = (if is_store then [0, 1] else [2, 3]),
     rm_block_ids = (if is_store then [0, 1] else [1, 0]), rm_is_store = is_store, rm_mm_hashes = []\<rparr>"

lemma demo_meta_made:
  "make_meta [7, 8, 9] [0, 1] 2 True [] = Inr (demo_meta True)"
  "make_meta [7, 8, 9] [1, 0] 2 False [] = Inr (demo_meta False)"
  by (simp_all add: make_meta_def align_to_block_size_def demo_meta_def upt_rec)

lemma demo_saved:
  "save_cpu_fallback demo_conn ''k'' (demo_layer ''abcd'' ''efgh'') (demo_meta True) demo_connector =
   (Inr (), demo_connector\<lparr>cx_calls := [K_put ''k'' ''1a1b01e1f0'']\<rparr>)"
  by (simp add: save_cpu_fallback_def extract_kv_from_layer_def demo_layer_def demo_meta_def demo_connector_def
      demo_conn_def conn_put_def kcall_def)

definition demo_stored :: connector where
  "demo_stored = demo_connector\<lparr>cx_calls := [K_put ''k'' ''1a1b01e1f0'']\<rparr>"

theorem cpu_save_load_witness:
  "\<exists>dst'. fst (load_cpu_fallback demo_conn ''k'' (demo_layer ''wxyz'' ''stuv'') (demo_meta False) demo_stored) = Inr dst' \<and>
     kt_rows dst' ! 0 ! 2 = CHR ''a'' \<and> kt_rows dst' ! 1 ! 3 = CHR ''f'' \<and> kt_rows dst' ! 0 ! 0 = CHR ''w''"
proof -
  let ?src = "demo_layer ''abcd'' ''efgh''" and ?dst = "demo_layer ''wxyz'' ''stuv''"
  have codec: "cn_load demo_conn (cn_save demo_conn kv) = Some kv" for kv
    using demo_load_save [of "[]" kv] by (simp add: demo_conn_def split: list.splits)
  have stored: "hd (cx_calls demo_stored) = K_put ''k'' ''1a1b01e1f0''"
    "cn_get demo_conn (cx_calls demo_stored) ''k'' = Some (Some ''1a1b01e1f0'')"
    by (simp_all add: demo_conn_def demo_stored_def)
  have dst: "kt_viewable ?dst" "length (kt_rows ?dst) = length (kt_rows ?src)"
    "\<And>rows s. rows \<in> set (kt_rows ?dst) \<Longrightarrow> s \<in> set (rm_slot_mapping (demo_meta False)) \<Longrightarrow> s < length rows"
    by (auto simp: demo_layer_def demo_meta_def)
  have blocks: "distinct [1, 0 :: nat]" "length [7, 8, 9 :: int] \<le> length [0, 1 :: nat] * 2"
    "length [7, 8, 9 :: int] \<le> length [1, 0 :: nat] * 2"
    by simp_all
  obtain dst' where load: "fst (load_cpu_fallback demo_conn ''k'' ?dst (demo_meta False) demo_stored) = Inr dst'"
    and rows: "\<forall>plane<length (kt_rows ?src).
       (\<forall>k<length (rm_token_ids (demo_meta True)).
          kt_rows dst' ! plane ! (rm_slot_mapping (demo_meta False) ! k) = kt_rows ?src ! plane ! (rm_slot_mapping (demo_meta True) ! k)) \<and>
       (\<forall>s. s \<notin> set (rm_slot_mapping (demo_meta False)) \<longrightarrow> kt_rows dst' ! plane ! s = kt_rows ?dst ! plane ! s)"
    using cpu_save_load [OF demo_meta_made blocks demo_saved [folded demo_stored_def] stored codec dst] by blast
  from rows have "kt_rows dst' ! 0 ! 2 = CHR ''a''" "kt_rows dst' ! 1 ! 3 = CHR ''f''" "kt_rows dst' ! 0 ! 0 = CHR ''w''"
    by (simp_all add: demo_layer_def demo_meta_def numeral_2_eq_2 All_less_Suc)
  with load show ?thesis by blast
qed

end
