(* ===== verification/Vllm_State_Props.thy ===== *)
theory Vllm_State_Props
  imports Vllm_Cpu_Props
begin

text \<open>
  The state of the connector over time: which prefix of a prompt its marker stands for, and which
  GPU buffers it holds registered.
\<close>

section \<open>Markers\<close>

lemma align_nat:
  assumes "0 < bs"
  shows "align_to_block_size (int n) (int bs) = Inr (int ((n - 1) div bs * bs))"
    and "align_to_block_size (int n - 1) (int bs) = Inr (int ((n - 2) div bs * bs))"
proof -
  show eq: "align_to_block_size (int n) (int bs) = Inr (int ((n - 1) div bs * bs))" for n
    using assms by (cases n) (simp_all add: align_to_block_size_def zdiv_int)
  show "align_to_block_size (int n - 1) (int bs) = Inr (int ((n - 2) div bs * bs))"
  proof (cases n)
    case 0
    then show ?thesis by (simp add: align_to_block_size_def)
  next
    case (Suc k)
    with eq [of k] show ?thesis by (simp add: numeral_2_eq_2)
  qed
qed

lemma take_eq_take_iff: "a \<le> length xs \<Longrightarrow> b \<le> length xs \<Longrightarrow> take a xs = take b xs \<longleftrightarrow> a = b"
  by (metis length_take min.absorb2)

lemma aligned_prefixes_differ:
  assumes "0 < bs"
  shows "(n - 1) div bs * bs = (n - 2) div bs * (bs :: nat) \<longleftrightarrow> \<not> (2 \<le> n \<and> bs dvd n - 1)"
proof (cases "2 \<le> n")
  case True
  then obtain k where "n = Suc (Suc k)" by (metis add_2_eq_Suc le_Suc_ex)
  with assms show ?thesis by (simp add: div_Suc dvd_eq_mod_eq_0)
next
  case False
  then have "n - 1 = n - 2" by simp
  with False show ?thesis by simp
qed

text \<open>
  C39.  Saving a prompt of \<open>n\<close> tokens writes the marker of its first \<open>(n - 1) div bs * bs\<close> tokens,
  and looking the same prompt up asks for the marker of its first \<open>(n - 2) div bs * bs\<close> tokens.  The
  two prefixes are the same unless \<open>n - 1\<close> is a positive multiple of the block size; then the
  lookup asks for one block less than was saved.
\<close>

theorem marker_prefix:
  assumes "0 < cx_block_size x" and "make_meta ts block_ids (cx_block_size x) True mm = Inr m"
    and "cn_is_exist E = Some f"
  shows "hd (cx_calls (put_marker E (rm_token_ids m) (rm_mm_hashes m) x)) =
      K_put (marker_key E x (take ((length ts - 1) div cx_block_size x * cx_block_size x) ts) mm) ''1'' \<and>
    K_is_exist (marker_key E x (take ((length ts - 2) div cx_block_size x * cx_block_size x) ts) mm) \<in>
      set (cx_calls (snd (found_match_for_prompt E ts mm x))) \<and>
    (take ((length ts - 1) div cx_block_size x * cx_block_size x) ts =
       take ((length ts - 2) div cx_block_size x * cx_block_size x) ts \<longleftrightarrow>
     \<not> (2 \<le> length ts \<and> cx_block_size x dvd length ts - 1))"
proof -
  let ?bs = "cx_block_size x" and ?n = "length ts"
  note m = make_meta_slots [OF assms(2)]
  have put: "hd (cx_calls (put_marker E (rm_token_ids m) (rm_mm_hashes m) x)) =
      K_put (marker_key E x (take ((?n - 1) div ?bs * ?bs) ts) mm) ''1''"
    using m by (simp add: put_marker_def conn_put_def kcall_def split: option.splits)
  have ask: "K_is_exist (marker_key E x (take ((?n - 2) div ?bs * ?bs) ts) mm) \<in>
      set (cx_calls (snd (found_match_for_prompt E ts mm x)))"
    using assms(3) by (simp add: found_match_for_prompt_def align_nat(2) [OF assms(1)] kcall_def Let_def
      nat_mult_distrib split: option.splits)
  have le: "(?n - 1) div ?bs * ?bs \<le> ?n" "(?n - 2) div ?bs * ?bs \<le> ?n"
    by (metis diff_le_self div_times_less_eq_dividend le_trans)+
  have "take ((?n - 1) div ?bs * ?bs) ts = take ((?n - 2) div ?bs * ?bs) ts \<longleftrightarrow>
      (?n - 1) div ?bs * ?bs = (?n - 2) div ?bs * ?bs"
    using le by (rule take_eq_take_iff)
  with put ask aligned_prefixes_differ [OF assms(1), of ?n] show ?thesis by simp
qed

theorem marker_prefix_witness:
  "hd (cx_calls (put_marker demo_conn [7, 8] [] demo_connector)) = K_put (marker_key demo_conn demo_connector [7, 8] []) ''1'' \<and>
   K_is_exist (marker_key demo_conn demo_connector [] []) \<in>
     set (cx_calls (snd (found_match_for_prompt demo_conn [7, 8, 9] [] demo_connector)))"
  using marker_prefix [of demo_connector "[7, 8, 9]" "[0, 1]" "[]" "demo_meta True" demo_conn]
    demo_meta_made(1)
  by (simp add: demo_connector_def demo_conn_def demo_meta_def)

section \<open>Registrations\<close>

text \<open>The buffers that are registered with the store after a log of calls.\<close>

fun held :: "'r conn_env \<Rightarrow> store_calls \<Rightarrow> int set" where
  "held E [] = {}"
| "held E (K_register p n # h) = (if cn_register E h p n = 0 then insert p (held E h) else held E h)"
| "held E (K_unregister p # h) =
     (case cn_unregister E of
        Some f \<Rightarrow> if f h p = Some 0 then held E h - {p} else held E h
      | None \<Rightarrow> held E h)"
| "held E (_ # h) = held E h"

text \<open>The store has a method to unregister, and it succeeds.\<close>

definition unregisters :: "'r conn_env \<Rightarrow> bool" where
  "unregisters E = (case cn_unregister E of Some f \<Rightarrow> \<forall>h p. f h p = Some 0 | None \<Rightarrow> False)"

definition reg_frame :: "'r conn_env \<Rightarrow> connector \<Rightarrow> int set \<times> (int \<times> int) list \<times> (int \<times> int) list" where
  "reg_frame E x = (held E (cx_calls x), cx_registered_spdk_buffers x, cx_known_gpu_storages x)"

definition reg_inv :: "'r conn_env \<Rightarrow> connector \<Rightarrow> bool" where
  "reg_inv E x = (held E (cx_calls x) = fst ` set (cx_registered_spdk_buffers x) \<and>
     fst ` set (cx_known_gpu_storages x) \<subseteq> fst ` set (cx_registered_spdk_buffers x))"

lemma reg_inv_frame: "reg_frame E x' = reg_frame E x \<Longrightarrow> reg_inv E x \<Longrightarrow> reg_inv E x'"
  by (simp add: reg_frame_def reg_inv_def)

lemma dict_set_keys [simp]: "fst ` set (dict_set k v d) = insert k (fst ` set d)"
  by (induction k v d rule: dict_set.induct) auto

lemma quiet_frame [simp]:
  "reg_frame E (kcall (K_put k v) x) = reg_frame E x" "reg_frame E (kcall (K_get k) x) = reg_frame E x"
  "reg_frame E (kcall (K_is_exist k) x) = reg_frame E x" "reg_frame E (kcall (K_batch_put k ps ss) x) = reg_frame E x"
  "reg_frame E (kcall (K_batch_get k ps ss) x) = reg_frame E x"
  "reg_frame E (x\<lparr>cx_requests_need_load := rs\<rparr>) = reg_frame E x"
  by (simp_all add: reg_frame_def kcall_def)

lemma conn_put_frame [simp]: "reg_frame E (snd (conn_put E k v x)) = reg_frame E x"
  by (simp add: conn_put_def split: option.splits)

lemma conn_put_frameD: "conn_put E k v x = (r, x') \<Longrightarrow> reg_frame E x' = reg_frame E x"
  by (metis conn_put_frame snd_conv)

lemma put_marker_frame [simp]: "reg_frame E (put_marker E ts mm x) = reg_frame E x"
  by (simp add: put_marker_def)

lemma save_frame:
  "reg_frame E (snd (save_direct E mla key t r x)) = reg_frame E x"
  "reg_frame E (snd (save_cpu_fallback E key t r x)) = reg_frame E x"
  by (auto simp: save_direct_def save_cpu_fallback_def Let_def dest: conn_put_frameD split: sum.splits prod.splits)

lemma save_requests_frame: "reg_frame E (snd (save_requests E mla name t rs x)) = reg_frame E x"
proof (induction rs arbitrary: x)
  case (Cons r rs)
  let ?key = "object_key E x name (rm_token_ids r) (rm_mm_hashes r)"
  obtain res x1 where s: "(if cx_gpu_direct_enabled x then save_direct E mla ?key t r x
      else save_cpu_fallback E ?key t r x) = (res, x1)" by fastforce
  then have "reg_frame E x1 = reg_frame E x" using save_frame by (metis snd_conv)
  with s Cons show ?case by (auto simp: Let_def split: sum.splits)
qed simp

lemma found_match_frame: "reg_frame E (snd (found_match_for_prompt E ts mm x)) = reg_frame E x"
  by (auto simp: found_match_for_prompt_def Let_def split: sum.splits option.splits)

lemma add_new_reqs_frame: "reg_frame E (snd (add_new_reqs E rs acc x)) = reg_frame E x"
proof (induction E rs acc x rule: add_new_reqs.induct)
  case (2 E r rs meta n x)
  let ?ts = "case nr_prompt_token_ids r of None \<Rightarrow> [] | Some ts \<Rightarrow> ts"
  obtain found x1 where f: "found_match_for_prompt E ?ts (nr_mm_hashes r) x = (found, x1)" by fastforce
  then have "reg_frame E x1 = reg_frame E x" using found_match_frame by (metis snd_conv)
  with 2 f show ?case by (auto simp: Let_def split: sum.splits bool.splits)
qed simp

lemma build_meta_frame: "reg_frame E (snd (build_connector_meta E nrs crs x)) = reg_frame E x"
  using add_new_reqs_frame [of E nrs "([], 0)" x]
  by (auto simp: build_connector_meta_def Let_def split: sum.splits prod.splits)

lemma record_tensor_inv: "reg_inv E x \<Longrightarrow> reg_inv E (snd (record_tensor_storage E t x))"
  by (auto simp: record_tensor_storage_def reg_inv_def kcall_def Let_def)

lemma record_caches_inv: "reg_inv E x \<Longrightarrow> reg_inv E (snd (record_caches E cs x))"
proof (induction E cs x rule: record_caches.induct)
  case (3 E c cs x)
  obtain r x1 where "record_tensor_storage E c x = (r, x1)" by fastforce
  with 3 record_tensor_inv [OF 3(2), of c] show ?case by (auto split: sum.splits)
qed auto

lemma maybe_register_inv: "reg_inv E x \<Longrightarrow> reg_inv E (maybe_register_for_direct_read E t x)"
  by (auto simp: maybe_register_for_direct_read_def reg_inv_def kcall_def Let_def)

lemma load_direct_inv: "reg_inv E x \<Longrightarrow> reg_inv E (snd (load_direct E mla key t r x))"
  using maybe_register_inv [of E x t]
  by (auto simp: load_direct_def Let_def split: sum.splits intro: reg_inv_frame [rotated])

lemma load_cpu_inv: "reg_inv E x \<Longrightarrow> reg_inv E (snd (load_cpu_fallback E key t r x))"
  by (auto simp: load_cpu_fallback_def Let_def split: option.splits intro: reg_inv_frame [rotated])

lemma load_layers_inv: "reg_inv E x \<Longrightarrow> reg_inv E (snd (snd (load_layers E mla r ls x)))"
proof (induction E mla r ls x rule: load_layers.induct)
  case (3 E mla r name t ls x)
  define key where "key = object_key E x name (rm_token_ids r) (rm_mm_hashes r)"
  define res where "res = (if cx_gpu_direct_enabled x
     then (let (d, x1) = load_direct E mla key t r x in (case d of Inl e \<Rightarrow> Inl e | Inr u \<Rightarrow> Inr t, x1))
     else load_cpu_fallback E key t r x)"
  have inv: "reg_inv E (snd res)"
    using load_direct_inv [OF 3(2), of mla key t r] load_cpu_inv [OF 3(2), of key t r]
    by (auto simp: res_def split: prod.splits)
  obtain a x1 where ax: "res = (a, x1)" by fastforce
  have "reg_inv E (snd (snd (load_layers E mla r ls x1)))" if "a = Inr u" for u
    using 3(1) [OF key_def ax [unfolded res_def, symmetric] refl that] inv ax by simp
  with inv ax show ?case
    by (auto simp: Let_def simp flip: key_def res_def split: sum.splits prod.splits)
qed (auto split: prod.splits)

lemma load_requests_inv: "reg_inv E x \<Longrightarrow> reg_inv E (snd (snd (load_requests E mla rs ls x)))"
proof (induction rs arbitrary: ls x)
  case (Cons r rs)
  obtain a ls1 x1 where l: "load_layers E mla r ls x = (a, ls1, x1)" by (cases "load_layers E mla r ls x")
  with load_layers_inv [OF Cons.prems, of mla r ls] have "reg_inv E x1" by simp
  with l Cons show ?case by (auto split: sum.splits)
qed simp

lemma fold_unregister:
  "unregisters E \<Longrightarrow> held E (cx_calls (fold (\<lambda>(p, sz). kcall (K_unregister p)) bs x)) = held E (cx_calls x) - fst ` set bs"
  by (induction bs arbitrary: x) (auto simp: kcall_def unregisters_def split: option.splits)

lemma shutdown_held:
  assumes "reg_inv E x" and "unregisters E"
  shows "held E (cx_calls (shutdown E x)) = {} \<and> cx_registered_spdk_buffers (shutdown E x) = [] \<and>
    cx_known_gpu_storages (shutdown E x) = []"
  using assms fold_unregister [OF assms(2), of "cx_registered_spdk_buffers x" x]
  by (cases "cn_unregister E") (simp_all add: shutdown_def reg_inv_def unregisters_def)

text \<open>The calls that vLLM makes, in any order.\<close>

inductive conn_step :: "'r conn_env \<Rightarrow> connector \<Rightarrow> connector \<Rightarrow> bool" for E where
  step_register: "conn_step E x (snd (register_kv_caches E caches x))"
| step_matched: "conn_step E x (snd (get_num_new_matched_tokens E request computed x))"
| step_alloc: "conn_step E x (update_state_after_alloc request external x)"
| step_meta: "conn_step E x (snd (build_connector_meta E new_reqs cached_reqs x))"
| step_load: "conn_step E x (snd (snd (start_load_kv E metadata attn ls x)))"
| step_save: "conn_step E x (snd (save_kv_layer E mla name t metadata x))"
| step_shutdown: "conn_step E x (shutdown E x)"

lemma conn_step_inv:
  assumes "conn_step E x x'" and "reg_inv E x" and "unregisters E"
  shows "reg_inv E x'"
  using assms(1)
proof cases
  case step_register
  with record_caches_inv assms(2) show ?thesis by (auto simp: register_kv_caches_def)
next
  case (step_matched request computed)
  have "reg_frame E x' = reg_frame E x"
    using found_match_frame [of E _ _ x] unfolding step_matched get_num_new_matched_tokens_def found_match_for_request_def
    by (auto simp: Let_def split: prod.splits sum.splits bool.splits) (metis snd_conv)+
  with assms(2) show ?thesis by (rule reg_inv_frame [rotated])
next
  case step_alloc
  with assms(2) show ?thesis by (auto simp: update_state_after_alloc_def intro: reg_inv_frame [rotated])
next
  case step_meta
  with reg_inv_frame [OF build_meta_frame assms(2)] show ?thesis by simp
next
  case step_load
  with load_requests_inv assms(2) show ?thesis by (auto simp: start_load_kv_def split: option.splits)
next
  case step_save
  with reg_inv_frame [OF save_requests_frame assms(2)] assms(2) show ?thesis
    by (auto simp: save_kv_layer_def split: option.splits)
next
  case step_shutdown
  with shutdown_held [OF assms(2,3)] show ?thesis by (simp add: reg_inv_def)
qed

text \<open>
  C38.  Whatever vLLM calls after the construction of a connector, the buffers that the store has
  registered are exactly those the connector records, and a shutdown leaves none registered,
  provided the store has a method to unregister and that method succeeds.
\<close>

theorem registrations_tracked:
  assumes "init_connector cfg_int cfg_str getenv available rc bs = Inr x0" and "(conn_step E)\<^sup>*\<^sup>* x0 x"
    and "unregisters E"
  shows "held E (cx_calls x) = fst ` set (cx_registered_spdk_buffers x) \<and> held E (cx_calls (shutdown E x)) = {}"
proof -
  have "reg_inv E x0"
    using assms(1) by (auto simp: init_connector_def reg_inv_def Let_def split: sum.splits if_splits)
  from assms(2) this have "reg_inv E x"
    by (induction rule: rtranclp_induct) (blast intro: conn_step_inv [OF _ _ assms(3)])+
  with shutdown_held [OF this assms(3)] show ?thesis by (simp add: reg_inv_def)
qed

definition demo_direct :: connector where
  "demo_direct = demo_connector\<lparr>cx_cache_prefix := ''vllm015'', cx_gpu_direct_enabled := True, cx_replicate_config := Some (1, 0)\<rparr>"

lemma demo_direct_init:
  "init_connector (\<lambda>k d. Inr d) (\<lambda>k d. d) (\<lambda>k. if k = ''VLLM_MOONCAKE_GPU_DIRECT'' then Some ''on'' else None) True 0 2 =
   Inr demo_direct"
  by (simp add: init_connector_def demo_direct_def demo_connector_def env_int_def truthy_def py_lower_def
      make_replicate_config_def resolve_gpu_direct_def)

lemma demo_direct_registered:
  "snd (register_kv_caches demo_conn [Some (demo_layer [] [])] demo_direct) =
   demo_direct\<lparr>cx_calls := [K_register 1000 8], cx_known_gpu_storages := [(1000, 8)],
     cx_registered_spdk_buffers := [(1000, 8)]\<rparr>"
  by (simp add: register_kv_caches_def record_tensor_storage_def demo_conn_def demo_direct_def demo_connector_def
      demo_layer_def kcall_def)

theorem registrations_tracked_witness:
  "held demo_conn [K_register 1000 8] = {1000} \<and>
   held demo_conn (cx_calls (shutdown demo_conn (snd (register_kv_caches demo_conn [Some (demo_layer [] [])] demo_direct)))) = {}"
proof -
  let ?x = "snd (register_kv_caches demo_conn [Some (demo_layer [] [])] demo_direct)"
  have "conn_step demo_conn demo_direct ?x" by (rule step_register)
  then have "(conn_step demo_conn)\<^sup>*\<^sup>* demo_direct ?x" by (rule r_into_rtranclp)
  moreover have "unregisters demo_conn" by (simp add: demo_conn_def unregisters_def)
  ultimately have "held demo_conn (cx_calls ?x) = fst ` set (cx_registered_spdk_buffers ?x) \<and>
      held demo_conn (cx_calls (shutdown demo_conn ?x)) = {}"
    by (rule registrations_tracked [OF demo_direct_init])
  then show ?thesis unfolding demo_direct_registered by simp
qed

section \<open>Results of the direct path\<close>

lemma buffer_sizes_positive:
  assumes "block_buffer_vectors mla t bs = Inr (ptrs, sizes)" "0 < kt_block_bytes t" "bs \<noteq> []"
  shows "ptrs \<noteq> [] \<and> 0 < sum_list sizes"
proof -
  define gs where "gs = group_contiguous bs"
  have gs: "gs \<noteq> []" "\<And>g. g \<in> set gs \<Longrightarrow> g \<noteq> []"
    using group_contiguous_runs(1) [of bs] group_contiguous_runs(2) [of _ bs] assms(3) by (auto simp: gs_def run_from_def)
  have "0 < sum_list (map (\<lambda>g. kt_block_bytes t * int (length g)) gs)"
    using gs assms(2) by (induction gs) (auto intro!: add_pos_nonneg sum_list_nonneg)
  with assms gs(1) show ?thesis
    by (auto simp: block_buffer_vectors_def Let_def simp flip: gs_def split: if_splits)
qed

text \<open>
  C40.  The direct path takes a result other than 0 for a failure, also where the store answers a
  read with the number of bytes of the object, as \<open>batch_get_into_multi_buffers\<close> does.  So a load that read something raises an exception, and only a
  request without blocks is loaded.
\<close>

theorem direct_load_rejects_bytes:
  assumes "\<And>h ps ss. 0 < sum_list ss \<Longrightarrow> \<exists>n. 0 < n \<and> cn_batch_get E h [key] [ps] [ss] False = [n]" and "0 < kt_block_bytes t"
  shows "fst (load_direct E mla key t r x) = Inr () \<longleftrightarrow> rm_block_ids r = []"
proof (cases "block_buffer_vectors mla t (rm_block_ids r)")
  case (Inl e)
  then show ?thesis by (auto simp: load_direct_def block_buffer_vectors_def)
next
  case (Inr v)
  obtain ptrs sizes where v: "v = (ptrs, sizes)" by (cases v)
  have "0 < sum_list sizes" "ptrs \<noteq> []" if "rm_block_ids r \<noteq> []"
    using buffer_sizes_positive [OF Inr [unfolded v] assms(2) that] by auto
  with assms(1) [of sizes "cx_calls (maybe_register_for_direct_read E t x)" ptrs] Inr v show ?thesis
    by (cases "rm_block_ids r = []") (auto simp: load_direct_def block_buffer_vectors_def Let_def)
qed

theorem direct_load_rejects_bytes_witness:
  "fst (load_direct demo_conn False ''k'' (demo_layer [] []) (demo_meta False) demo_direct) \<noteq> Inr () \<and>
   fst (load_direct demo_conn False ''k'' (demo_layer [] []) ((demo_meta False)\<lparr>rm_block_ids := []\<rparr>) demo_direct) = Inr ()"
  using direct_load_rejects_bytes [where E = demo_conn and key = "''k''" and t = "demo_layer [] []" and mla = False]
  by (simp add: demo_conn_def demo_layer_def demo_meta_def)

end
