(* ===== verification/Spec2Isabelle.thy ===== *)
theory Spec2Isabelle
  imports Gpu_Dmabuf_Ctx Rdma_Submit_Props Client_Batch_Props Client_Get_Props Client_Leader_Props
    Client_Segments_Props Client_Tasks_Props Metadata_Server_Props Vllm_State_Props
begin

text \<open>
  A verification library for Mooncake with GPU-direct storage over SPDK dma-buf.

  \<^bold>\<open>The program.\<close>  A vLLM worker stores KV-cache blocks in the Mooncake store.  The connector
  (\<open>vllm-connector/mooncake_store_connector.py\<close>) calls the store client
  (\<open>mooncake-store/src/client_service.cpp\<close>), which asks a master for replicas and moves data with the
  transfer engine (\<open>mooncake-transfer-engine\<close>) over RDMA, or with SPDK to NVMe-oF targets.  For the
  latter, \<open>spdk/lib/dma/gpu_dmabuf.c\<close> gives SPDK memory keys for GPU memory.  Engines publish their
  segments in a metadata server, of which there is one in C++ and one in Python.

  \<^bold>\<open>Conventions.\<close>  Code outside the repository (drivers, verbs, master, hot cache, storage, HTTP
  library, torch) is a field of an environment record.  Calls with an effect are recorded in a log,
  newest first, and most answers may depend on it; what is open or owed is counted on the log.
  Pointers and sizes that may wrap are 64-bit words.  Errors and exceptions are values.  Locks are
  not modelled: the theorems speak about sequences of calls, and the step relations allow every
  order of them.

  \<^bold>\<open>Shared theories.\<close>  \<open>Mooncake_Prelude\<close> (words, address ranges, text), \<open>Decimal\<close> (\<open>stoi\<close>,
  \<open>stoull\<close>, \<open>to_string\<close>), \<open>Ordered_Tree\<close> (the BSD trees; the locales \<open>rb_order\<close> and
  \<open>interval_tree\<close> are interpreted on the two trees of the dma-buf domain), \<open>Verbs\<close> (environment of
  the RDMA code).

  \<^bold>\<open>SPDK GPU memory domain.\<close>  \<open>Gpu_Dmabuf\<close> models \<open>gpu_dmabuf.c\<close>: creation, registration,
  translation, invalidation and destruction.  \<open>Gpu_Dmabuf_Inv\<close>, \<open>Gpu_Dmabuf_Ops\<close> and
  \<open>Gpu_Dmabuf_Reach\<close> show that every reachable state has disjoint regions, sound keys and a balance
  of resources; \<open>Gpu_Dmabuf_Props\<close> states the behaviour of lookup, translation and error paths;
  \<open>Gpu_Dmabuf_Ctx\<close> shows that the GPU context of the thread is restored on every path.

  \<^bold>\<open>Transfer engine.\<close>  \<open>Memory_Location\<close> (\<open>memory_location.cpp\<close>: pages of a buffer are partitioned
  by location, segment names are parsed back).  \<open>Rdma_Memory\<close>, \<open>Rdma_Gid\<close> and \<open>Rdma_Context\<close>
  (\<open>rdma_context.cpp\<close>: regions and keys, GID selection, construction and teardown).  \<open>Rdma_Transport\<close>
  and \<open>Rdma_Submit\<close> (\<open>rdma_transport.cpp\<close>: registration over all devices, publication, slicing,
  submission, status).  The theories ending in \<open>_Props\<close> show that nothing leaks, that lookups
  return the key of a region that contains the address, that a refresh changes all or nothing, that
  slicing ends and posts each byte once, and that task status follows slice results.

  \<^bold>\<open>Store client.\<close>  \<open>Client_Base\<close> and \<open>Client_Types\<close> (error codes, replicas, environment,
  transfers), \<open>Client_Put\<close> and \<open>Client_Batch\<close> (\<open>Put\<close>, \<open>Upsert\<close>, \<open>BatchPut\<close>, \<open>BatchUpsert\<close>),
  \<open>Client_Get\<close> (\<open>Query\<close>, \<open>Get\<close>, \<open>BatchGet\<close>, hot cache), \<open>Client_Leader\<close> (\<open>ConnectToMaster\<close>,
  \<open>SwitchLeader\<close>, heartbeat, leader monitor), \<open>Client_Segments\<close> (mounting, graceful unmount,
  registration), \<open>Client_Tasks\<close> (\<open>Copy\<close>, \<open>Move\<close>, task execution).  Their \<open>_Props\<close> theories show
  that \<open>Put\<close> refines the abstract commit policy, that every operation of a batch is resolved
  consistently, that a read reported as good was one, that pins are returned, that views of the
  leader never go back, that mounted segments are disjoint, and that retries are bounded.

  \<^bold>\<open>Metadata servers.\<close>  \<open>Metadata_Server\<close> models both servers.  \<open>Metadata_Server_Props\<close> states
  their contract as the locale \<open>metadata_service\<close>, interprets it on each, and derives that they
  agree and that accepted values are read back.

  \<^bold>\<open>vLLM connector.\<close>  \<open>Vllm_Connector\<close> (helpers, keys, scheduler side) and \<open>Vllm_Worker\<close>
  (registration, both data paths).  \<open>Vllm_Props\<close> shows that merged buffers cover the blocks exactly,
  \<open>Vllm_Cpu_Props\<close> that the CPU path restores what it saved, \<open>Vllm_State_Props\<close> which prefix a marker
  stands for, that registrations are tracked, and how the direct path reads results.

  \<^bold>\<open>Loops.\<close>  No definition uses fuel.  Loops over data are structural; the search for a device, the
  parsing of node lists and the retries of a task are total functions with termination proofs.  The
  slice loop of \<open>Rdma_Submit\<close> may run forever when the slice size is 0, so it is a partial function,
  and \<open>submit_terminates\<close> says when it returns.  Loops of threads appear as one iteration each,
  composed by step relations.

  \<^bold>\<open>Not modelled.\<close>  The construction of the client and its calls that only forward a request to the
  master.  \<open>real_client\<close>, \<open>dummy_client\<close> and \<open>store_py.cpp\<close>: mostly shared memory, sockets, RPC and
  bindings; their pure helpers (choice of a replica, mapping of shared-memory addresses, validation
  of ranged reads) could be added and are not covered so far.  The result shaping of \<open>pyclient.h\<close>,
  the hardware probe, the build files.  Of the modelled
  files: log messages, metrics, mutexes, the calls of the endpoint store and worker pool, the
  handshake calls that only reach the metadata service, and the event loop and command line of the
  Python server.
\<close>

end
